(* ===== verification/Prelude.thy ===== *)
theory Prelude
  imports Main "HOL-Library.Char_ord" "HOL-Library.Word"
begin

section \<open>Strings, options and byte classes shared by every component\<close>

text \<open>
  Go strings are byte sequences, so they are \<open>string\<close> (a \<open>char list\<close>) here and every
  index or length counts bytes. This theory holds the functions of the packages \<open>strings\<close> and
  \<open>strconv\<close> that the program calls, with the facts the components share about them, and the
  collection \<open>str_simps\<close> of rewriting facts.

  Case mapping: \<open>to_lower\<close> and \<open>to_upper\<close> map the ASCII letters and those code points
  outside ASCII that Unicode maps \<^emph>\<open>into\<close> ASCII (U+0130 and U+212A downwards, U+0131 and U+017F
  upwards, recognised by their UTF-8 bytes). Mappings between two code points outside ASCII
  are left out: every use in the program compares the result with ASCII text.
\<close>

named_theorems str_simps

text \<open>A Go \<open>error\<close> result: \<open>None\<close> is \<open>nil\<close>. A pair \<open>(T, error)\<close> is a sum with the error left.\<close>

type_synonym 'e err = "'e option"
type_synonym ('e, 'a) res = "'e + 'a"

definition ebind :: "('e, 'a) res \<Rightarrow> ('a \<Rightarrow> ('e, 'b) res) \<Rightarrow> ('e, 'b) res" where
  "ebind r k = (case r of Inl e \<Rightarrow> Inl e | Inr x \<Rightarrow> k x)"

lemma ebind_simps [simp]: "ebind (Inl e) k = Inl e" "ebind (Inr x) k = k x"
  by (simp_all add: ebind_def)

lemma ebind_Inr_iff: "ebind r k = Inr y \<longleftrightarrow> (\<exists>x. r = Inr x \<and> k x = Inr y)"
  by (cases r) auto

definition is_ok :: "('e, 'a) res \<Rightarrow> bool" where
  "is_ok r = (case r of Inl _ \<Rightarrow> False | Inr _ \<Rightarrow> True)"

lemma is_ok_simps [simp]: "\<not> is_ok (Inl e)" "is_ok (Inr x)"
  by (simp_all add: is_ok_def)

subsection \<open>Byte classes\<close>

definition byte :: "char \<Rightarrow> nat" where
  "byte c = of_char c"

lemma char_le_byte: "c \<le> d \<longleftrightarrow> byte c \<le> byte d"
  by (simp add: byte_def less_eq_char_def)

lemma byte_inject: "byte c = byte d \<longleftrightarrow> c = d"
  by (simp add: byte_def)

lemma byte_less_256: "byte c < 256"
  by (simp add: byte_def)

definition is_lower :: "char \<Rightarrow> bool" where
  "is_lower c \<longleftrightarrow> CHR ''a'' \<le> c \<and> c \<le> CHR ''z''"

definition is_upper :: "char \<Rightarrow> bool" where
  "is_upper c \<longleftrightarrow> CHR ''A'' \<le> c \<and> c \<le> CHR ''Z''"

definition is_digit :: "char \<Rightarrow> bool" where
  "is_digit c \<longleftrightarrow> CHR ''0'' \<le> c \<and> c \<le> CHR ''9''"

definition is_ascii :: "char \<Rightarrow> bool" where
  "is_ascii c \<longleftrightarrow> c < CHR 0x80"

lemma byte_lit:
  "byte (CHR ''a'') = 97" "byte (CHR ''z'') = 122" "byte (CHR ''A'') = 65" "byte (CHR ''Z'') = 90"
  "byte (CHR ''0'') = 48" "byte (CHR ''9'') = 57" "byte (CHR ''-'') = 45" "byte (CHR ''.'') = 46"
  "byte (CHR 0x80) = 128" "byte (CHR '':'') = 58" "byte (CHR ''f'') = 102" "byte (CHR ''F'') = 70"
  by (simp_all add: byte_def)

lemma class_byte:
  "is_lower c \<longleftrightarrow> 97 \<le> byte c \<and> byte c \<le> 122"
  "is_upper c \<longleftrightarrow> 65 \<le> byte c \<and> byte c \<le> 90"
  "is_digit c \<longleftrightarrow> 48 \<le> byte c \<and> byte c \<le> 57"
  "is_ascii c \<longleftrightarrow> byte c < 128"
  by (simp_all add: is_lower_def is_upper_def is_digit_def is_ascii_def char_le_byte
      less_char_def byte_lit flip: byte_def)

definition lower_char :: "char \<Rightarrow> char" where
  "lower_char c = (if is_upper c then char_of (of_char c + (32::nat)) else c)"

definition upper_char :: "char \<Rightarrow> char" where
  "upper_char c = (if is_lower c then char_of (of_char c - (32::nat)) else c)"

lemma byte_lower_char: "byte (lower_char c) = (if is_upper c then byte c + 32 else byte c)"
  by (auto simp: lower_char_def byte_def class_byte)

lemma byte_upper_char: "byte (upper_char c) = (if is_lower c then byte c - 32 else byte c)"
  by (auto simp: upper_char_def byte_def class_byte)

lemma lower_char_not_upper [simp]: "\<not> is_upper (lower_char c)"
  by (auto simp: class_byte byte_lower_char)

lemma lower_char_id: "\<not> is_upper c \<Longrightarrow> lower_char c = c"
  by (simp add: lower_char_def)

subsection \<open>Prefixes, suffixes and searching\<close>

fun has_prefix :: "string \<Rightarrow> string \<Rightarrow> bool" where
  "has_prefix s [] = True"
| "has_prefix [] (p # ps) = False"
| "has_prefix (c # s) (p # ps) = (c = p \<and> has_prefix s ps)"

lemma has_prefix_iff: "has_prefix s p \<longleftrightarrow> (\<exists>t. s = p @ t)"
  by (induction s p rule: has_prefix.induct) auto

lemma has_prefix_append [simp]: "has_prefix (p @ t) p"
  by (auto simp: has_prefix_iff)

definition has_suffix :: "string \<Rightarrow> string \<Rightarrow> bool" where
  "has_suffix s x = has_prefix (rev s) (rev x)"

lemma has_suffix_iff: "has_suffix s x \<longleftrightarrow> (\<exists>t. s = t @ x)"
  by (simp add: has_suffix_def has_prefix_iff) (metis rev_append rev_rev_ident)

lemma has_suffix_append [simp]: "has_suffix (t @ x) x"
  by (auto simp: has_suffix_iff)

definition trim_prefix :: "string \<Rightarrow> string \<Rightarrow> string" where
  "trim_prefix s p = (if has_prefix s p then drop (length p) s else s)"

definition trim_suffix :: "string \<Rightarrow> string \<Rightarrow> string" where
  "trim_suffix s x = (if has_suffix s x then take (length s - length x) s else s)"

lemma trim_prefix_append [simp]: "trim_prefix (p @ t) p = t"
  by (simp add: trim_prefix_def)

lemma trim_suffix_append [simp]: "trim_suffix (t @ x) x = t"
  by (simp add: trim_suffix_def)

text \<open>\<open>strings.CutSuffix\<close>: the text before the suffix, and whether it was there.\<close>

definition cut_suffix :: "string \<Rightarrow> string \<Rightarrow> string \<times> bool" where
  "cut_suffix s x = (trim_suffix s x, has_suffix s x)"

fun contains_str :: "string \<Rightarrow> string \<Rightarrow> bool" where
  "contains_str [] x = (x = [])"
| "contains_str (c # s) x = (has_prefix (c # s) x \<or> contains_str s x)"

lemma contains_str_iff: "contains_str s x \<longleftrightarrow> (\<exists>a b. s = a @ x @ b)"
proof (induction s)
  case Nil
  then show ?case by auto
next
  case (Cons c s)
  have "(\<exists>a b. c # s = a @ x @ b) \<longleftrightarrow> (\<exists>b. c # s = x @ b) \<or> (\<exists>a b. s = a @ x @ b)"
    by (metis append_Cons append_Nil list.sel(3) neq_Nil_conv)
  then show ?case using Cons by (simp add: has_prefix_iff)
qed

text \<open>\<open>strings.ContainsAny\<close>: some byte of the text is one of the listed ASCII bytes.\<close>

definition contains_any :: "string \<Rightarrow> string \<Rightarrow> bool" where
  "contains_any s cs = list_ex (\<lambda>c. c \<in> set cs) s"

definition contains_char :: "string \<Rightarrow> char \<Rightarrow> bool" where
  "contains_char s c = (c \<in> set s)"

subsection \<open>Cutting, splitting and joining at a byte\<close>

text \<open>\<open>strings.Cut\<close> at one byte: the text before, the text after, and whether it was found.\<close>

fun cut :: "char \<Rightarrow> string \<Rightarrow> string \<times> string \<times> bool" where
  "cut c [] = ([], [], False)"
| "cut c (x # s) = (if x = c then ([], s, True)
     else case cut c s of (a, b, f) \<Rightarrow> (x # a, b, f))"

lemma cut_absent: "c \<notin> set s \<Longrightarrow> cut c s = (s, [], False)"
  by (induction s) auto

lemma cut_append: "c \<notin> set a \<Longrightarrow> cut c (a @ c # b) = (a, b, True)"
  by (induction a) auto

lemma cut_append_inject:
  "c \<notin> set a \<Longrightarrow> c \<notin> set a' \<Longrightarrow> a @ c # b = a' @ c # b' \<longleftrightarrow> a = a' \<and> b = b'"
proof (induction a arbitrary: a')
  case Nil
  then show ?case by (cases a') auto
next
  case (Cons x a)
  then show ?case by (cases a') auto
qed

lemma cut_found: "cut c s = (a, b, True) \<Longrightarrow> s = a @ c # b \<and> c \<notin> set a"
  by (induction s arbitrary: a) (auto split: if_splits prod.splits)

lemma cut_not_found: "cut c s = (a, b, False) \<Longrightarrow> s = a \<and> b = [] \<and> c \<notin> set s"
  by (induction s arbitrary: a) (auto split: if_splits prod.splits)

lemma cut_shorter: "cut c s = (a, b, True) \<Longrightarrow> length b < length s"
  by (auto dest: cut_found)

lemmas cut_shorter' = cut_shorter [OF sym]

text \<open>\<open>strings.Split\<close> at a one-byte separator.\<close>

fun split_on :: "char \<Rightarrow> string \<Rightarrow> string list" where
  "split_on c [] = [[]]"
| "split_on c (x # s) = (if x = c then [] # split_on c s
     else case split_on c s of [] \<Rightarrow> [[x]] | y # ys \<Rightarrow> (x # y) # ys)"

lemma split_on_nonempty [simp]: "split_on c s \<noteq> []"
  by (cases s) (auto split: list.splits)

lemma split_on_no_sep: "t \<in> set (split_on c s) \<Longrightarrow> c \<notin> set t"
proof (induction s arbitrary: t)
  case Nil
  then show ?case by simp
next
  case (Cons x s)
  show ?case
  proof (cases "x = c")
    case True
    then show ?thesis using Cons by auto
  next
    case False
    obtain y ys where y: "split_on c s = y # ys" by (metis split_on_nonempty list.exhaust)
    then show ?thesis using Cons False by auto
  qed
qed

fun join :: "string \<Rightarrow> string list \<Rightarrow> string" where
  "join sep [] = []"
| "join sep [x] = x"
| "join sep (x # y # ys) = x @ sep @ join sep (y # ys)"

lemma join_Cons: "ys \<noteq> [] \<Longrightarrow> join sep (x # ys) = x @ sep @ join sep ys"
  by (cases ys) auto

lemma join_split_on: "join [c] (split_on c s) = s"
proof (induction s)
  case Nil
  then show ?case by simp
next
  case (Cons x s)
  obtain y ys where y: "split_on c s = y # ys" by (metis split_on_nonempty list.exhaust)
  then show ?case using Cons by (cases ys) (auto simp: join_Cons)
qed

lemma split_on_absent: "c \<notin> set s \<Longrightarrow> split_on c s = [s]"
  by (induction s) auto

lemma split_on_append: "c \<notin> set a \<Longrightarrow> split_on c (a @ c # b) = a # split_on c b"
  by (induction a) auto

lemma split_on_snoc: "c \<notin> set x \<Longrightarrow> split_on c (t @ c # x) = split_on c t @ [x]"
  by (induction t) (auto simp: split_on_absent split: list.splits)

lemma split_on_join: "ls \<noteq> [] \<Longrightarrow> (\<And>l. l \<in> set ls \<Longrightarrow> c \<notin> set l) \<Longrightarrow> split_on c (join [c] ls) = ls"
  by (induction "[c]" ls rule: join.induct) (auto simp: split_on_absent split_on_append)

lemma split_on_concat: "split_on c (a @ c # b) = split_on c a @ split_on c b"
  by (induction a) (auto split: list.splits)

lemma join_append: "xs \<noteq> [] \<Longrightarrow> ys \<noteq> [] \<Longrightarrow> join sep (xs @ ys) = join sep xs @ sep @ join sep ys"
  by (induction sep xs rule: join.induct) (auto simp: join_Cons)

text \<open>Being a text or ending it after a separator is ending its list of parts.\<close>

lemma split_on_suffix:
  "h = x \<or> has_suffix h (c # x) \<longleftrightarrow> (\<exists>pre. split_on c h = pre @ split_on c x)" (is "?L \<longleftrightarrow> ?R")
proof
  assume ?L
  then show ?R by (auto simp: has_suffix_iff split_on_concat)
next
  assume ?R
  then obtain pre where pre: "split_on c h = pre @ split_on c x" by blast
  have h: "h = join [c] (pre @ split_on c x)" by (metis join_split_on pre)
  show ?L
    by (cases "pre = []") (use h in \<open>auto simp: join_append join_split_on has_suffix_iff\<close>)
qed

lemma set_split_on: "t \<in> set (split_on c s) \<Longrightarrow> set t \<subseteq> set s"
proof (induction s arbitrary: t)
  case Nil
  then show ?case by simp
next
  case (Cons x s)
  obtain y ys where y: "split_on c s = y # ys" by (metis split_on_nonempty list.exhaust)
  have y': "set y \<subseteq> set s" using Cons.IH y by simp
  have IH: "t \<in> set (split_on c s) \<Longrightarrow> set t \<subseteq> set s" by (rule Cons.IH)
  show ?case using Cons.prems IH y y' by (auto split: if_splits)
qed

lemma set_split_on_cover: "x \<in> set s \<Longrightarrow> x = c \<or> (\<exists>t \<in> set (split_on c s). x \<in> set t)"
proof (induction s)
  case Nil
  then show ?case by simp
next
  case (Cons z s)
  obtain y ys where y: "split_on c s = y # ys" by (metis split_on_nonempty list.exhaust)
  then show ?case using Cons by (auto split: if_splits)
qed

text \<open>\<open>strings.LastIndexByte\<close> as a cut: the text before and after the last occurrence.\<close>

definition cut_last :: "char \<Rightarrow> string \<Rightarrow> (string \<times> string) option" where
  "cut_last c s = (case cut c (rev s) of (b, a, f) \<Rightarrow> if f then Some (rev a, rev b) else None)"

lemma cut_last_Some: "cut_last c s = Some (a, b) \<Longrightarrow> s = a @ c # b \<and> c \<notin> set b"
  by (auto simp: cut_last_def split: prod.splits if_splits dest!: cut_found)
    (metis append.assoc append_Cons append_Nil rev.simps(2) rev_append rev_rev_ident)

lemma cut_last_append: "c \<notin> set b \<Longrightarrow> cut_last c (a @ c # b) = Some (a, b)"
  using cut_append [of c "rev b" "rev a"] by (simp add: cut_last_def)

subsection \<open>Case mapping and white space\<close>

fun to_lower :: "string \<Rightarrow> string" where
  "to_lower [] = []"
| "to_lower (c # s) =
     (if c = CHR 0xC4 \<and> has_prefix s [CHR 0xB0] then CHR ''i'' # to_lower (drop 1 s)
      else if c = CHR 0xE2 \<and> has_prefix s [CHR 0x84, CHR 0xAA] then CHR ''k'' # to_lower (drop 2 s)
      else lower_char c # to_lower s)"

fun to_upper :: "string \<Rightarrow> string" where
  "to_upper [] = []"
| "to_upper (c # s) =
     (if c = CHR 0xC4 \<and> has_prefix s [CHR 0xB1] then CHR ''I'' # to_upper (drop 1 s)
      else if c = CHR 0xC5 \<and> has_prefix s [CHR 0xBF] then CHR ''S'' # to_upper (drop 1 s)
      else upper_char c # to_upper s)"

text \<open>\<open>strings.EqualFold\<close>: simple folding also identifies U+212A with k and U+017F with s.\<close>

fun fold_case :: "string \<Rightarrow> string" where
  "fold_case [] = []"
| "fold_case (c # s) =
     (if c = CHR 0xE2 \<and> has_prefix s [CHR 0x84, CHR 0xAA] then CHR ''k'' # fold_case (drop 2 s)
      else if c = CHR 0xC5 \<and> has_prefix s [CHR 0xBF] then CHR ''s'' # fold_case (drop 1 s)
      else lower_char c # fold_case s)"

definition equal_fold :: "string \<Rightarrow> string \<Rightarrow> bool" where
  "equal_fold s t = (fold_case s = fold_case t)"

lemma not_upper_ik: "\<not> is_upper (CHR ''i'')" "\<not> is_upper (CHR ''k'')"
  by (simp_all add: is_upper_def)

lemma to_lower_not_upper: "c \<in> set (to_lower s) \<Longrightarrow> \<not> is_upper c"
  by (induction s rule: to_lower.induct) (auto split: if_splits simp: not_upper_ik)

lemma to_lower_map: "list_all is_ascii s \<Longrightarrow> to_lower s = map lower_char s"
  by (induction s) (auto simp: is_ascii_def)

lemma fold_case_map: "list_all is_ascii s \<Longrightarrow> fold_case s = map lower_char s"
  by (induction s) (auto simp: is_ascii_def)

lemma to_lower_id: "list_all (\<lambda>c. is_ascii c \<and> \<not> is_upper c) s \<Longrightarrow> to_lower s = s"
  by (induction s) (auto simp: is_ascii_def lower_char_id)

lemma to_lower_eq_ascii_imp:
  "to_lower s = s \<Longrightarrow> list_all is_ascii s \<Longrightarrow> list_all (\<lambda>c. \<not> is_upper c) s"
  by (metis Ball_set to_lower_not_upper)

lemma equal_fold_refl [simp]: "equal_fold s s"
  by (simp add: equal_fold_def)

text \<open>
  \<open>strings.TrimSpace\<close> removes the Unicode white space at both ends: the six ASCII bytes and the
  listed UTF-8 sequences.
\<close>

definition ascii_space :: "char \<Rightarrow> bool" where
  "ascii_space c \<longleftrightarrow> c \<in> {CHR 0x09, CHR 0x0A, CHR 0x0B, CHR 0x0C, CHR 0x0D, CHR 0x20}"

definition wide_spaces :: "string list" where
  "wide_spaces = [[CHR 0xC2, CHR 0x85], [CHR 0xC2, CHR 0xA0], [CHR 0xE1, CHR 0x9A, CHR 0x80]]
     @ map (\<lambda>c. [CHR 0xE2, CHR 0x80, c])
         [CHR 0x80, CHR 0x81, CHR 0x82, CHR 0x83, CHR 0x84, CHR 0x85, CHR 0x86, CHR 0x87,
          CHR 0x88, CHR 0x89, CHR 0x8A, CHR 0xA8, CHR 0xA9, CHR 0xAF]
     @ [[CHR 0xE2, CHR 0x81, CHR 0x9F], [CHR 0xE3, CHR 0x80, CHR 0x80]]"

text \<open>The number of bytes of a white-space sequence from \<open>ws\<close> at the front of the text.\<close>

definition space_len :: "string list \<Rightarrow> string \<Rightarrow> nat" where
  "space_len ws s = (case s of [] \<Rightarrow> 0 | c # _ \<Rightarrow>
     if ascii_space c then 1
     else case find (has_prefix s) ws of None \<Rightarrow> 0 | Some w \<Rightarrow> length w)"

function trim_left_by :: "string list \<Rightarrow> string \<Rightarrow> string" where
  "trim_left_by ws s = (if space_len ws s = 0 then s else trim_left_by ws (drop (space_len ws s) s))"
  by pat_completeness auto
termination
  by (relation "measure (\<lambda>(ws, s). length s)") (auto simp: space_len_def split: list.splits)

declare trim_left_by.simps [simp del]

definition trim_space :: "string \<Rightarrow> string" where
  "trim_space s = rev (trim_left_by (map rev wide_spaces) (rev (trim_left_by wide_spaces s)))"

lemma trim_left_by_Nil [simp]: "trim_left_by ws [] = []"
  by (simp add: trim_left_by.simps space_len_def)

lemma trim_left_by_idle: "space_len ws s = 0 \<Longrightarrow> trim_left_by ws s = s"
  by (simp add: trim_left_by.simps)

lemma trim_space_Nil [simp]: "trim_space [] = []"
  by (simp add: trim_space_def)

subsection \<open>Decimal numbers\<close>

definition digit_char :: "nat \<Rightarrow> char" where
  "digit_char n = char_of (48 + n)"

definition digit_val :: "char \<Rightarrow> nat" where
  "digit_val c = byte c - 48"

fun nat_text :: "nat \<Rightarrow> string" where
  "nat_text n = (if n < 10 then [digit_char n] else nat_text (n div 10) @ [digit_char (n mod 10)])"

declare nat_text.simps [simp del]

text \<open>\<open>strconv.Itoa\<close>.\<close>

definition itoa :: "int \<Rightarrow> string" where
  "itoa i = (if i < 0 then CHR ''-'' # nat_text (nat (- i)) else nat_text (nat i))"

text \<open>Digits to a number; any other byte fails.\<close>

fun digits_val :: "nat \<Rightarrow> string \<Rightarrow> nat option" where
  "digits_val acc [] = Some acc"
| "digits_val acc (c # s) = (if is_digit c then digits_val (10 * acc + digit_val c) s else None)"

definition nat_of_text :: "string \<Rightarrow> nat option" where
  "nat_of_text s = (if s = [] then None else digits_val 0 s)"

text \<open>The value of a hexadecimal digit.\<close>

definition hex_val :: "char \<Rightarrow> nat option" where
  "hex_val c = (if is_digit c then Some (byte c - 48)
     else if CHR ''a'' \<le> c \<and> c \<le> CHR ''f'' then Some (byte c - 87)
     else if CHR ''A'' \<le> c \<and> c \<le> CHR ''F'' then Some (byte c - 55) else None)"

lemma is_digit_digit_char: "n < 10 \<Longrightarrow> is_digit (digit_char n)"
  by (simp add: class_byte digit_char_def byte_def)

lemma digit_val_digit_char: "n < 10 \<Longrightarrow> digit_val (digit_char n) = n"
  by (simp add: digit_val_def digit_char_def byte_def)

lemma digits_val_append:
  "digits_val acc (s @ t) = Option.bind (digits_val acc s) (\<lambda>a. digits_val a t)"
  by (induction s arbitrary: acc) auto

lemma nat_text_digits: "list_all is_digit (nat_text n)"
  by (induction n rule: nat_text.induct) (subst nat_text.simps, auto simp: is_digit_digit_char)

lemma nat_text_nonempty [simp]: "nat_text n \<noteq> []"
  by (subst nat_text.simps) simp

lemma digits_val_nat_text: "digits_val 0 (nat_text n) = Some n"
  by (induction n rule: nat_text.induct)
    (subst nat_text.simps, auto simp: digits_val_append is_digit_digit_char digit_val_digit_char)

lemma nat_of_text_nat_text [simp]: "nat_of_text (nat_text n) = Some n"
  by (simp add: nat_of_text_def digits_val_nat_text)

lemmas [str_simps] = byte_def is_lower_def is_upper_def is_digit_def is_ascii_def lower_char_def
  upper_char_def digit_val_def nat_of_text_def has_suffix_def trim_prefix_def trim_suffix_def
  cut_suffix_def contains_any_def contains_char_def cut_last_def equal_fold_def

end
