(* ===== verification/Net_Names.thy ===== *)
theory Net_Names
  imports Prelude
begin

section \<open>Host names, IP literals and host:port pairs\<close>

text \<open>
  The name checks of \<open>internal/proxy/proxy.go\<close> (\<open>validDNSName\<close>, \<open>forbiddenTargetName\<close>,
  \<open>ValidRemoteDNSName\<close>) over the standard library's \<open>net.ParseIP\<close>, \<open>net.SplitHostPort\<close> and
  \<open>net.JoinHostPort\<close>, and the interface \<open>remote_names\<close> that the profile, metadata and kubeconfig
  components rely on when they accept a host name.
\<close>

subsection \<open>IP literals (net.ParseIP)\<close>

text \<open>An address is its sixteen bytes; an IPv4 address is the mapped one, as \<open>net.IP\<close> has it.\<close>

type_synonym ip_bytes = "8 word list"

definition octet :: "string \<Rightarrow> 8 word option" where
  "octet f = (if f = [] \<or> (hd f = CHR ''0'' \<and> length f > 1) then None
     else case digits_val 0 f of None \<Rightarrow> None
       | Some n \<Rightarrow> if n \<le> 255 then Some (of_nat n) else None)"

fun all_some :: "'a option list \<Rightarrow> 'a list option" where
  "all_some [] = Some []"
| "all_some (None # xs) = None"
| "all_some (Some x # xs) = map_option ((#) x) (all_some xs)"

definition ipv4_fields :: "string \<Rightarrow> 8 word list option" where
  "ipv4_fields s = (let fs = split_on CHR ''.'' s in
     if length fs = 4 then all_some (map octet fs) else None)"

definition v4_prefix :: ip_bytes where
  "v4_prefix = replicate 10 0 @ [255, 255]"

text \<open>The leading hexadecimal digits, at most four, with the rest of the text.\<close>

fun hex_group :: "nat \<Rightarrow> nat \<Rightarrow> string \<Rightarrow> (nat \<times> nat \<times> string) option" where
  "hex_group off acc [] = Some (off, acc, [])"
| "hex_group off acc (c # s) = (case hex_val c of None \<Rightarrow> Some (off, acc, c # s)
     | Some v \<Rightarrow> if off > 3 then None else hex_group (Suc off) (16 * acc + v) s)"

lemma hex_group_shorter:
  "hex_group off acc s = Some (off', acc', s') \<Longrightarrow> length s' + off' = length s + off"
  by (induction off acc s rule: hex_group.induct) (auto split: option.splits if_splits)

text \<open>
  The loop of \<open>netip.parseIPv6\<close>: \<open>done\<close> holds the bytes read, \<open>ell\<close> the place of the ellipsis. The
  result is the bytes, the ellipsis and the text that is left.
\<close>

function ipv6_groups ::
  "8 word list \<Rightarrow> nat option \<Rightarrow> string \<Rightarrow> (8 word list \<times> nat option \<times> string) option" where
  "ipv6_groups done ell s =
     (if length done \<ge> 16 then Some (done, ell, s) else
      case hex_group 0 0 s of None \<Rightarrow> None
      | Some (off, acc, s') \<Rightarrow>
        if off = 0 then None
        else if s' \<noteq> [] \<and> hd s' = CHR ''.'' then
          (if ell = None \<and> length done \<noteq> 12 \<or> length done + 4 > 16 then None
           else case ipv4_fields s of None \<Rightarrow> None | Some v4 \<Rightarrow> Some (done @ v4, ell, []))
        else
          let done' = done @ [of_nat (acc div 256), of_nat (acc mod 256)] in
          if s' = [] then Some (done', ell, [])
          else if hd s' \<noteq> CHR '':'' \<or> length s' = 1 then None
          else if hd (tl s') = CHR '':'' then
            (if ell \<noteq> None then None
             else if tl (tl s') = [] then Some (done', Some (length done'), [])
             else ipv6_groups done' (Some (length done')) (tl (tl s')))
          else ipv6_groups done' ell (tl s'))"
  by pat_completeness auto
termination
proof (relation "measure (\<lambda>(d, e, s). length s)", goal_cases)
  case 1
  show ?case by simp
next
  case (2 d e s p off q acc s' d')
  then show ?case using hex_group_shorter [of 0 0 s off acc s'] by simp
next
  case (3 d e s p off q acc s' d')
  then show ?case using hex_group_shorter [of 0 0 s off acc s'] by simp
qed

declare ipv6_groups.simps [simp del]

definition parse_ipv6 :: "string \<Rightarrow> ip_bytes option" where
  "parse_ipv6 s =
     (let lead = has_prefix s [CHR '':'', CHR '':'']; s' = (if lead then drop 2 s else s) in
      if lead \<and> s' = [] then Some (replicate 16 0)
      else case ipv6_groups [] (if lead then Some 0 else None) s' of None \<Rightarrow> None
        | Some (bs, ell, rest) \<Rightarrow>
          if rest \<noteq> [] then None
          else case ell of
            None \<Rightarrow> if length bs < 16 then None else Some bs
          | Some e \<Rightarrow> if length bs < 16 then Some (take e bs @ replicate (16 - length bs) 0 @ drop e bs)
                      else None)"

text \<open>The first of the bytes \<open>.\<close>, \<open>:\<close> and \<open>%\<close> decides; an address with a zone is refused.\<close>

definition parse_ip :: "string \<Rightarrow> ip_bytes option" where
  "parse_ip s = (case dropWhile (\<lambda>c. c \<notin> {CHR ''.'', CHR '':'', CHR 0x25}) s of
     [] \<Rightarrow> None
   | c # _ \<Rightarrow> if c = CHR ''.'' then map_option ((@) v4_prefix) (ipv4_fields s)
       else if c = CHR 0x25 \<or> CHR 0x25 \<in> set s then None
       else parse_ipv6 s)"

definition ip_to4 :: "ip_bytes \<Rightarrow> ip_bytes option" where
  "ip_to4 ip = (if length ip = 16 \<and> take 12 ip = v4_prefix then Some (drop 12 ip) else None)"

definition ip_is_loopback :: "ip_bytes \<Rightarrow> bool" where
  "ip_is_loopback ip = (case ip_to4 ip of Some v4 \<Rightarrow> hd v4 = 127
     | None \<Rightarrow> ip = replicate 15 0 @ [1])"

subsection \<open>net.SplitHostPort and net.JoinHostPort\<close>

datatype addr_error = MissingPort | TooManyColons | MissingBracket | UnexpectedBracket

definition split_host_port :: "string \<Rightarrow> (addr_error, string \<times> string) res" where
  "split_host_port hp = (case cut_last CHR '':'' hp of None \<Rightarrow> Inl MissingPort
     | Some (pre, port) \<Rightarrow>
       if has_prefix hp [CHR 0x5B] then
         (case cut CHR 0x5D hp of (front, after, found) \<Rightarrow>
            if \<not> found then Inl MissingBracket
            else if after = [] then Inl MissingPort
            else if length front + 1 \<noteq> length pre then
              (if hd after = CHR '':'' then Inl TooManyColons else Inl MissingPort)
            else if CHR 0x5B \<in> set (tl hp) \<or> CHR 0x5D \<in> set after then Inl UnexpectedBracket
            else Inr (tl front, port))
       else if CHR '':'' \<in> set pre then Inl TooManyColons
       else if CHR 0x5B \<in> set hp \<or> CHR 0x5D \<in> set hp then Inl UnexpectedBracket
       else Inr (pre, port))"

definition join_host_port :: "string \<Rightarrow> string \<Rightarrow> string" where
  "join_host_port host port = (if CHR '':'' \<in> set host
     then [CHR 0x5B] @ host @ [CHR 0x5D, CHR '':''] @ port else host @ [CHR '':''] @ port)"

subsection \<open>The checks of the proxy\<close>

definition ascii_alpha_numeric :: "char \<Rightarrow> bool" where
  "ascii_alpha_numeric c \<longleftrightarrow> (c \<ge> CHR ''a'' \<and> c \<le> CHR ''z'')
     \<or> (c \<ge> CHR ''A'' \<and> c \<le> CHR ''Z'') \<or> (c \<ge> CHR ''0'' \<and> c \<le> CHR ''9'')"

definition valid_label :: "string \<Rightarrow> bool" where
  "valid_label label \<longleftrightarrow>
     \<not> (label = [] \<or> length label > 63 \<or> \<not> ascii_alpha_numeric (hd label) \<or> \<not> ascii_alpha_numeric (last label))
     \<and> list_all (\<lambda>i. ascii_alpha_numeric (label ! i) \<or> label ! i = CHR ''-'') [1..<length label - 1]"

definition valid_dns_name :: "string \<Rightarrow> bool" where
  "valid_dns_name host \<longleftrightarrow> \<not> (host = [] \<or> length host > 253)
     \<and> list_all valid_label (split_on CHR ''.'' host)"

definition forbidden_target_name :: "string \<Rightarrow> bool" where
  "forbidden_target_name host \<longleftrightarrow> parse_ip host \<noteq> None
     \<or> host = ''localhost'' \<or> has_suffix host ''.localhost''"

definition valid_remote_dns_name :: "string \<Rightarrow> bool" where
  "valid_remote_dns_name host \<longleftrightarrow> host = to_lower host \<and> contains_char host CHR ''.''
     \<and> \<not> has_suffix host ''.'' \<and> valid_dns_name host \<and> \<not> forbidden_target_name host"

subsection \<open>What the checks accept\<close>

definition ldh :: "char \<Rightarrow> bool" where
  "ldh c \<longleftrightarrow> is_lower c \<or> is_upper c \<or> is_digit c \<or> c = CHR ''-''"

lemma alpha_numeric_class: "ascii_alpha_numeric c \<longleftrightarrow> is_lower c \<or> is_upper c \<or> is_digit c"
  by (auto simp: ascii_alpha_numeric_def is_lower_def is_upper_def is_digit_def)

lemma ldh_ascii: "ldh c \<Longrightarrow> is_ascii c"
  by (auto simp: ldh_def class_byte byte_lit)

lemma ldh_not_special: "ldh c \<Longrightarrow> c \<notin> {CHR ''.'', CHR '':'', CHR '','', CHR ''/'', CHR ''@'', CHR ''?'', CHR ''#'', CHR 0x25, CHR 0x20, CHR 0x0A, CHR 0x0D}"
  by (auto simp: ldh_def is_lower_def is_upper_def is_digit_def)

lemma valid_label_iff:
  "valid_label l \<longleftrightarrow> l \<noteq> [] \<and> length l \<le> 63 \<and> ascii_alpha_numeric (hd l)
     \<and> ascii_alpha_numeric (last l) \<and> list_all ldh l" (is "_ \<longleftrightarrow> ?r")
proof
  assume v: "valid_label l"
  then have ends: "l \<noteq> []" "length l \<le> 63" "ascii_alpha_numeric (hd l)" "ascii_alpha_numeric (last l)"
    by (auto simp: valid_label_def)
  have "ldh (l ! i)" if "i < length l" for i
  proof -
    have "i = 0 \<or> i = length l - 1 \<or> (0 < i \<and> i < length l - 1)" using that by arith
    then consider "i = 0" | "i = length l - 1" | "0 < i" "i < length l - 1" by blast
    then show ?thesis
    proof cases
      case 3
      then have "i \<in> set [1..<length l - 1]" by simp
      then show ?thesis using v by (auto simp: valid_label_def list_all_iff alpha_numeric_class ldh_def)
    qed (use ends in \<open>auto simp: hd_conv_nth last_conv_nth alpha_numeric_class ldh_def\<close>)
  qed
  then show ?r using ends by (simp add: list_all_length)
next
  assume r: ?r
  then show "valid_label l"
    by (auto simp: valid_label_def list_all_length list_all_iff alpha_numeric_class ldh_def)
qed

lemma valid_dns_name_ldh: "valid_dns_name h \<Longrightarrow> c \<in> set h \<Longrightarrow> ldh c \<or> c = CHR ''.''"
  using set_split_on_cover [of c h "CHR ''.''"]
  by (auto simp: valid_dns_name_def list_all_iff valid_label_iff)

lemma valid_dns_name_ascii: "valid_dns_name h \<Longrightarrow> list_all is_ascii h"
  by (auto simp: list_all_iff is_ascii_def dest!: valid_dns_name_ldh ldh_ascii)

lemma last_split_on_suffix:
  "has_suffix h (c # x) \<longleftrightarrow> c \<in> set h \<and> last (split_on c h) = x" if "c \<notin> set x"
proof
  assume "has_suffix h (c # x)"
  then obtain t where h: "h = t @ c # x" by (auto simp: has_suffix_iff)
  show "c \<in> set h \<and> last (split_on c h) = x" using that by (simp add: h split_on_snoc)
next
  assume "c \<in> set h \<and> last (split_on c h) = x"
  then show "has_suffix h (c # x)"
  proof (induction h)
    case Nil
    then show ?case by simp
  next
    case (Cons y h)
    show ?case
    proof (cases "c \<in> set h")
      case True
      obtain z zs where z: "split_on c h = z # zs" by (metis split_on_nonempty list.exhaust)
      have "zs \<noteq> []" using z True join_split_on [of c h] split_on_no_sep [of z c h] by (cases zs) auto
      then have "last (split_on c h) = x" using Cons.prems z by (auto split: if_splits)
      then obtain t where "h = t @ c # x" using Cons.IH True by (auto simp: has_suffix_iff)
      then show ?thesis by (auto simp: has_suffix_iff intro: exI [of _ "y # t"])
    next
      case False
      then have "y = c" "split_on c h = [h]" using Cons.prems split_on_absent by auto
      then show ?thesis using Cons.prems False by (auto simp: has_suffix_iff)
    qed
  qed
qed

text \<open>The dotted-quad form of an IPv4 literal, as the checks refuse it.\<close>

definition dotted_quad :: "string list \<Rightarrow> bool" where
  "dotted_quad ls \<longleftrightarrow> length ls = 4 \<and> list_all (\<lambda>l. octet l \<noteq> None) ls"

lemma all_some_ok: "all_some xs \<noteq> None \<longleftrightarrow> (\<forall>x \<in> set xs. x \<noteq> None)"
  by (induction xs rule: all_some.induct) auto

lemma ipv4_fields_iff: "ipv4_fields s \<noteq> None \<longleftrightarrow> dotted_quad (split_on CHR ''.'' s)"
  by (simp add: ipv4_fields_def dotted_quad_def Let_def all_some_ok list_all_iff del: not_None_eq)

lemma parse_ip_plain:
  assumes "CHR '':'' \<notin> set s" and "CHR 0x25 \<notin> set s"
  shows "parse_ip s \<noteq> None \<longleftrightarrow> CHR ''.'' \<in> set s \<and> ipv4_fields s \<noteq> None"
proof (cases "CHR ''.'' \<in> set s")
  case True
  then have "\<exists>r. dropWhile (\<lambda>c. c \<notin> {CHR ''.'', CHR '':'', CHR 0x25}) s = CHR ''.'' # r"
    using assms by (induction s) auto
  then obtain r where "dropWhile (\<lambda>c. c \<notin> {CHR ''.'', CHR '':'', CHR 0x25}) s = CHR ''.'' # r" ..
  then show ?thesis using True by (simp add: parse_ip_def)
next
  case False
  then have d: "dropWhile (\<lambda>c. c \<notin> {CHR ''.'', CHR '':'', CHR 0x25}) s = []"
    using assms by (induction s) auto
  have "parse_ip s = None" unfolding parse_ip_def by (simp only: d list.case)
  then show ?thesis using False by simp
qed

lemma ipv4_fields_no_dot: "CHR ''.'' \<notin> set s \<Longrightarrow> ipv4_fields s = None"
  by (simp add: ipv4_fields_def split_on_absent)

definition remote_label :: "string \<Rightarrow> bool" where
  "remote_label l \<longleftrightarrow> l \<noteq> [] \<and> length l \<le> 63 \<and> hd l \<noteq> CHR ''-'' \<and> last l \<noteq> CHR ''-''
     \<and> list_all (\<lambda>c. is_lower c \<or> is_digit c \<or> c = CHR ''-'') l"

lemma ldh_lower: "is_lower c \<or> is_digit c \<or> c = CHR ''-'' \<longleftrightarrow> ldh c \<and> \<not> is_upper c"
  by (auto simp: ldh_def class_byte byte_lit)

lemma ldh_alnum: "ascii_alpha_numeric c \<longleftrightarrow> ldh c \<and> c \<noteq> CHR ''-''"
  by (auto simp: ldh_def alpha_numeric_class class_byte byte_lit)

lemma remote_label_iff: "remote_label l \<longleftrightarrow> valid_label l \<and> list_all (\<lambda>c. \<not> is_upper c) l"
proof (cases "l = []")
  case False
  then have "hd l \<in> set l" "last l \<in> set l" by simp_all
  then show ?thesis
    unfolding remote_label_def valid_label_iff ldh_lower ldh_alnum list_all_iff by blast
qed (simp add: remote_label_def valid_label_iff)

lemma remote_label_no_dot: "remote_label l \<Longrightarrow> CHR ''.'' \<notin> set l"
  by (auto simp: remote_label_def list_all_iff is_lower_def is_digit_def)

lemma remote_labels_split:
  assumes "list_all remote_label (split_on CHR ''.'' h)"
  shows "to_lower h = h" and "CHR '':'' \<notin> set h" and "CHR 0x25 \<notin> set h" and "\<not> has_suffix h ''.''"
proof -
  have c: "is_lower c \<or> is_digit c \<or> c = CHR ''-'' \<or> c = CHR ''.''" if "c \<in> set h" for c
    using assms set_split_on_cover [OF that, of "CHR ''.''"] by (auto simp: list_all_iff remote_label_def)
  have "is_ascii c \<and> \<not> is_upper c" if "c \<in> set h" for c
    using c [OF that] by (auto simp: class_byte byte_lit)
  then show "to_lower h = h" by (intro to_lower_id) (simp add: list_all_iff)
  show "CHR '':'' \<notin> set h" using c [of "CHR '':''"] by (auto simp: is_lower_def is_digit_def)
  show "CHR 0x25 \<notin> set h" using c [of "CHR 0x25"] by (auto simp: is_lower_def is_digit_def)
  show "\<not> has_suffix h ''.''"
  proof
    assume "has_suffix h ''.''"
    then have "last (split_on CHR ''.'' h) = []" by (simp add: last_split_on_suffix)
    then have "[] \<in> set (split_on CHR ''.'' h)" by (metis last_in_set split_on_nonempty)
    then show False using assms by (auto simp: list_all_iff remote_label_def)
  qed
qed

lemma upper_free: "to_lower h = h \<Longrightarrow> valid_dns_name h \<Longrightarrow> list_all (\<lambda>c. \<not> is_upper c) h"
  by (rule to_lower_eq_ascii_imp) (simp_all add: valid_dns_name_ascii)

lemma remote_labels_iff:
  "to_lower h = h \<and> list_all valid_label (split_on CHR ''.'' h) \<and> h \<noteq> [] \<and> length h \<le> 253
   \<longleftrightarrow> list_all remote_label (split_on CHR ''.'' h) \<and> length h \<le> 253" (is "?l \<longleftrightarrow> ?r")
proof
  assume l: ?l
  then have "list_all (\<lambda>c. \<not> is_upper c) h" by (intro upper_free) (auto simp: valid_dns_name_def)
  then show ?r using l set_split_on by (fastforce simp: list_all_iff remote_label_iff)
next
  assume r: ?r
  then have "h \<noteq> []" by (auto simp: remote_label_def)
  then show ?l using r remote_labels_split(1) by (auto simp: list_all_iff remote_label_iff)
qed

lemma split_on_length_dot: "2 \<le> length (split_on c h) \<longleftrightarrow> c \<in> set h"
proof
  assume "2 \<le> length (split_on c h)"
  then show "c \<in> set h" using split_on_absent [of c h] by fastforce
next
  assume "c \<in> set h"
  then obtain a b where "h = a @ c # b" "c \<notin> set a" by (metis split_list_first)
  then show "2 \<le> length (split_on c h)"
    by (simp add: split_on_append) (metis length_greater_0_conv split_on_nonempty Suc_leI)
qed

text \<open>
  The exact language of private-host names: at least two lower-case LDH labels, at most 253 bytes,
  not a dotted-quad address and not below \<open>localhost\<close>.
\<close>

definition remote_name_spec :: "string list \<Rightarrow> bool" where
  "remote_name_spec ls \<longleftrightarrow> 2 \<le> length ls \<and> list_all remote_label ls
     \<and> length (join ''.'' ls) \<le> 253 \<and> last ls \<noteq> ''localhost'' \<and> \<not> dotted_quad ls"

lemma valid_remote_dns_name_split:
  "valid_remote_dns_name h \<longleftrightarrow> remote_name_spec (split_on CHR ''.'' h)"
proof -
  let ?ls = "split_on CHR ''.'' h"
  have v: "valid_remote_dns_name h \<longleftrightarrow> (to_lower h = h \<and> list_all valid_label ?ls \<and> h \<noteq> [] \<and> length h \<le> 253)
      \<and> CHR ''.'' \<in> set h \<and> \<not> has_suffix h ''.'' \<and> \<not> forbidden_target_name h"
    by (auto simp: valid_remote_dns_name_def valid_dns_name_def contains_char_def)
  have f: "forbidden_target_name h \<longleftrightarrow> dotted_quad ?ls \<or> last ?ls = ''localhost''"
    if "list_all remote_label ?ls" "CHR ''.'' \<in> set h"
  proof -
    have "h \<noteq> ''localhost''" using that(2) by auto
    moreover have "parse_ip h \<noteq> None \<longleftrightarrow> dotted_quad ?ls"
      using parse_ip_plain [OF remote_labels_split(2,3) [OF that(1)]] that(2) ipv4_fields_iff by simp
    ultimately show ?thesis
      using that(2) by (simp add: forbidden_target_name_def last_split_on_suffix del: not_None_eq)
  qed
  show ?thesis
    unfolding v remote_labels_iff remote_name_spec_def
    using f remote_labels_split(4) by (auto simp: split_on_length_dot join_split_on)
qed

text \<open>
  C29. The private-host check of the proxy accepts exactly the texts that are the dotted form of
  such a label list; nothing with an upper-case letter, a port, a scheme, a wildcard, an IP
  literal or a single label passes.
\<close>

theorem valid_remote_dns_name_exact:
  "valid_remote_dns_name h \<longleftrightarrow> (\<exists>ls. h = join ''.'' ls \<and> remote_name_spec ls)"
proof
  assume "valid_remote_dns_name h"
  then show "\<exists>ls. h = join ''.'' ls \<and> remote_name_spec ls"
    by (intro exI [of _ "split_on CHR ''.'' h"]) (simp add: valid_remote_dns_name_split join_split_on)
next
  assume "\<exists>ls. h = join ''.'' ls \<and> remote_name_spec ls"
  then obtain ls where ls: "h = join ''.'' ls" "remote_name_spec ls" by blast
  then have "split_on CHR ''.'' h = ls"
    by (auto simp: remote_name_spec_def list_all_iff remote_label_no_dot intro!: split_on_join)
  then show "valid_remote_dns_name h" using ls by (simp add: valid_remote_dns_name_split)
qed

subsection \<open>The interface the other components use\<close>

text \<open>
  A validator of remote names: what it accepts is dotted, made of lower-case letters, digits,
  hyphens and dots, not an IP literal and not a loopback name.
\<close>

locale remote_names =
  fixes valid :: "string \<Rightarrow> bool"
  assumes valid_bytes: "valid h \<Longrightarrow> c \<in> set h \<Longrightarrow> is_lower c \<or> is_digit c \<or> c = CHR ''-'' \<or> c = CHR ''.''"
    and valid_dotted: "valid h \<Longrightarrow> CHR ''.'' \<in> set h"
    and valid_not_ip: "valid h \<Longrightarrow> parse_ip h = None"
    and valid_not_localhost: "valid h \<Longrightarrow> h \<noteq> ''localhost'' \<and> \<not> has_suffix h ''.localhost''"
begin

lemma valid_nonempty: "valid h \<Longrightarrow> h \<noteq> []"
  by (auto dest: valid_dotted)

lemma valid_lower: "valid h \<Longrightarrow> to_lower h = h"
  by (rule to_lower_id) (auto simp: list_all_iff class_byte byte_lit dest: valid_bytes)

lemma valid_clean:
  "valid h \<Longrightarrow> c \<in> set h \<Longrightarrow> c \<notin> {CHR '':'', CHR '','', CHR ''/'', CHR ''@'', CHR ''?'', CHR ''#'', CHR 0x20, CHR 0x0A, CHR 0x0D}"
  using valid_bytes [of h c] by (auto simp: is_lower_def is_digit_def)

lemma valid_not_forbidden: "valid h \<Longrightarrow> \<not> forbidden_target_name h"
  by (auto simp: forbidden_target_name_def valid_not_ip dest: valid_not_localhost)

end

interpretation remote: remote_names valid_remote_dns_name
proof
  fix h c
  assume v: "valid_remote_dns_name h"
  then have ls: "list_all remote_label (split_on CHR ''.'' h)"
    by (simp add: valid_remote_dns_name_split remote_name_spec_def)
  show "is_lower c \<or> is_digit c \<or> c = CHR ''-'' \<or> c = CHR ''.''" if "c \<in> set h"
    using ls set_split_on_cover [OF that, of "CHR ''.''"] by (auto simp: list_all_iff remote_label_def)
  show "CHR ''.'' \<in> set h" using v by (simp add: valid_remote_dns_name_def contains_char_def)
  show "parse_ip h = None" and "h \<noteq> ''localhost'' \<and> \<not> has_suffix h ''.localhost''"
    using v by (auto simp: valid_remote_dns_name_def forbidden_target_name_def)
qed

lemmas [str_simps] = octet_def ipv4_fields_def parse_ip_def split_host_port_def join_host_port_def

end
