(* ===== verification/Urls.thy ===== *)
theory Urls
  imports Net_Names
begin

section \<open>URLs and Base64 as the program uses them\<close>

text \<open>
  The fields of \<open>net/url.URL\<close> the program reads, the methods \<open>Hostname\<close> and \<open>Port\<close>, and
  \<open>encoding/base64.StdEncoding\<close>. Parsing a URL text is done where a component needs it.
\<close>

record url =
  u_scheme :: string
  u_opaque :: string
  u_user :: "(string \<times> string option) option"
  u_host :: string
  u_path :: string
  u_force_query :: bool
  u_raw_query :: string
  u_fragment :: string

definition valid_optional_port :: "string \<Rightarrow> bool" where
  "valid_optional_port p \<longleftrightarrow> p = [] \<or> (hd p = CHR '':'' \<and> list_all is_digit (tl p))"

text \<open>\<open>net/url.splitHostPort\<close>: the port is only cut off when it is made of digits.\<close>

definition url_split_host_port :: "string \<Rightarrow> string \<times> string" where
  "url_split_host_port hp =
     (let (h, p) = (case cut_last CHR '':'' hp of None \<Rightarrow> (hp, [])
        | Some (a, b) \<Rightarrow> if valid_optional_port (CHR '':'' # b) then (a, b) else (hp, []))
      in (if has_prefix h [CHR 0x5B] \<and> has_suffix h [CHR 0x5D] then butlast (tl h) else h, p))"

definition hostname :: "url \<Rightarrow> string" where
  "hostname u = fst (url_split_host_port (u_host u))"

definition url_port :: "url \<Rightarrow> string" where
  "url_port u = snd (url_split_host_port (u_host u))"

lemma url_port_digits: "list_all is_digit (url_port u)"
  by (auto simp: url_port_def url_split_host_port_def valid_optional_port_def Let_def
      split: option.splits prod.splits if_splits)

lemma url_split_plain:
  assumes "CHR '':'' \<notin> set h" and "CHR 0x5B \<notin> set h"
  shows "url_split_host_port h = (h, [])"
    and "list_all is_digit p \<Longrightarrow> url_split_host_port (h @ CHR '':'' # p) = (h, p)"
proof -
  have n: "cut_last CHR '':'' h = None" using assms(1) by (simp add: cut_last_def cut_absent)
  have b: "\<not> has_prefix h [CHR 0x5B]" using assms(2) by (cases h) auto
  show "url_split_host_port h = (h, [])" by (simp add: url_split_host_port_def n b)
  assume p: "list_all is_digit p"
  then have "CHR '':'' \<notin> set p" by (auto simp: list_all_iff is_digit_def)
  then show "url_split_host_port (h @ CHR '':'' # p) = (h, p)"
    using p b by (simp add: url_split_host_port_def cut_last_append valid_optional_port_def)
qed

subsection \<open>Base64\<close>

definition b64_alphabet :: string where
  "b64_alphabet = ''ABCDEFGHIJKLMNOPQRSTUVWXYZabcdefghijklmnopqrstuvwxyz0123456789+/''"

definition b64_char :: "nat \<Rightarrow> char" where
  "b64_char n = b64_alphabet ! (n mod 64)"

fun base64_nats :: "nat list \<Rightarrow> string" where
  "base64_nats [] = []"
| "base64_nats [a] = [b64_char (a div 4), b64_char (a * 16), CHR ''='', CHR ''='']"
| "base64_nats [a, b] =
     [b64_char (a div 4), b64_char (a * 16 + b div 16), b64_char (b * 4), CHR ''='']"
| "base64_nats (a # b # c # r) =
     [b64_char (a div 4), b64_char (a * 16 + b div 16), b64_char (b * 4 + c div 64), b64_char c]
     @ base64_nats r"

definition base64 :: "string \<Rightarrow> string" where
  "base64 s = base64_nats (map byte s)"

lemma length_b64_alphabet: "length b64_alphabet = 64"
  by (simp add: b64_alphabet_def)

lemma b64_char_plain: "b64_char n \<noteq> CHR 0x0D \<and> b64_char n \<noteq> CHR 0x0A"
proof -
  have "b64_char n \<in> set b64_alphabet" by (simp add: b64_char_def length_b64_alphabet)
  then show ?thesis by (auto simp: b64_alphabet_def)
qed

lemma base64_no_line_break: "c \<in> set (base64 s) \<Longrightarrow> c \<noteq> CHR 0x0D \<and> c \<noteq> CHR 0x0A"
proof -
  have "c \<in> set (base64_nats xs) \<Longrightarrow> c \<noteq> CHR 0x0D \<and> c \<noteq> CHR 0x0A" for xs
    by (induction xs rule: base64_nats.induct) (use b64_char_plain in auto)
  then show "c \<in> set (base64 s) \<Longrightarrow> c \<noteq> CHR 0x0D \<and> c \<noteq> CHR 0x0A" by (simp add: base64_def)
qed

end
