(* ===== verification/Socks.thy ===== *)
theory Socks
  imports Urls
begin

section \<open>The upstream transports of the proxy\<close>

text \<open>
  The three ways \<open>internal/proxy/proxy.go\<close> reaches an upstream: the SOCKS5 handshake with the SSH
  tunnel (\<open>dialSOCKS\<close>, \<open>validateLocalSOCKSAddress\<close>, \<open>discardSOCKSAddress\<close>), direct sockets to
  public addresses (\<open>dialDirect\<close>, \<open>publicAddresses\<close>) and a corporate HTTP proxy
  (\<open>dialHTTPProxy\<close>). A network peer is a record of what it does: whether each socket call
  succeeds and the bytes it sends.
\<close>

type_synonym bytes = "8 word list"

datatype dial_error =
    InvalidSocksAddress | SocksNotLocal | DialFailed | DeadlineFailed | WriteFailed | ReadFailed
  | SocksMethodRejected | SocksNameTooLong | SocksBadPort | SocksRejected | SocksBadAddressType
  | LookupFailed | NoPublicAddress | InvalidProxyConfiguration | InvalidProxyCredentials
  | ProxyStatus nat

definition to_bytes :: "string \<Rightarrow> bytes" where
  "to_bytes s = map (\<lambda>c. of_nat (byte c)) s"

definition of_bytes :: "bytes \<Rightarrow> string" where
  "of_bytes bs = map (\<lambda>b. char_of (unat b)) bs"

lemma byte_word: "char_of (unat (of_nat (byte c) :: 8 word)) = c"
  by (simp add: unat_of_nat byte_def)

lemma of_bytes_to_bytes [simp]: "of_bytes (to_bytes s) = s"
  by (simp add: of_bytes_def to_bytes_def comp_def byte_word)

lemma length_to_bytes [simp]: "length (to_bytes s) = length s"
  by (simp add: to_bytes_def)

subsection \<open>The SOCKS endpoint is local\<close>

definition validate_local_socks_address :: "string \<Rightarrow> dial_error err" where
  "validate_local_socks_address address = (case split_host_port address of
     Inl _ \<Rightarrow> Some InvalidSocksAddress
   | Inr (host, port) \<Rightarrow>
       if port = [] then Some InvalidSocksAddress
       else if equal_fold host ''localhost'' then None
       else case parse_ip host of None \<Rightarrow> Some SocksNotLocal
         | Some ip \<Rightarrow> if ip_is_loopback ip then None else Some SocksNotLocal)"

text \<open>The address that is dialled: the name \<open>localhost\<close> is never left to a resolver.\<close>

definition socks_dial_address :: "string \<Rightarrow> string" where
  "socks_dial_address address = (case split_host_port address of
     Inl _ \<Rightarrow> address
   | Inr (host, port) \<Rightarrow> if equal_fold host ''localhost'' then join_host_port ''127.0.0.1'' port else address)"

lemma split_host_port_plain:
  assumes "CHR '':'' \<notin> set h" and "CHR '':'' \<notin> set p" and "CHR 0x5B \<notin> set h" "CHR 0x5D \<notin> set h"
    and "CHR 0x5B \<notin> set p" "CHR 0x5D \<notin> set p"
  shows "split_host_port (h @ CHR '':'' # p) = Inr (h, p)"
proof -
  have "\<not> has_prefix (h @ CHR '':'' # p) [CHR 0x5B]" using assms by (cases h) auto
  then show ?thesis using assms by (simp add: split_host_port_def cut_last_append)
qed

subsection \<open>The SOCKS5 handshake\<close>

text \<open>\<open>peer_reply\<close> is every byte the peer sends before it closes.\<close>

record socks_peer =
  dial_ok :: bool
  set_deadline_ok :: bool
  write_greeting_ok :: bool
  write_request_ok :: bool
  clear_deadline_ok :: bool
  peer_reply :: bytes

text \<open>\<open>io.ReadFull\<close>: all \<open>n\<close> bytes or an error.\<close>

definition read_full :: "nat \<Rightarrow> bytes \<Rightarrow> (dial_error, bytes \<times> bytes) res" where
  "read_full n bs = (if length bs < n then Inl ReadFailed else Inr (take n bs, drop n bs))"

definition discard_socks_address :: "bytes \<Rightarrow> 8 word \<Rightarrow> (dial_error, bytes) res" where
  "discard_socks_address reader address_type =
     (let discard = (\<lambda>n bs. ebind (read_full (n + 2) bs) (\<lambda>(_, rest). Inr rest)) in
      if address_type = 0x01 then discard 4 reader
      else if address_type = 0x04 then discard 16 reader
      else if address_type = 0x03 then
        ebind (read_full 1 reader) (\<lambda>(n, rest). discard (unat (hd n)) rest)
      else Inl SocksBadAddressType)"

definition socks_greeting :: bytes where
  "socks_greeting = [0x05, 0x01, 0x00]"

text \<open>\<open>strconv.ParseUint(port, 10, 16)\<close>.\<close>

definition parse_port16 :: "string \<Rightarrow> nat option" where
  "parse_port16 port = (case nat_of_text port of None \<Rightarrow> None
     | Some n \<Rightarrow> if n < 65536 then Some n else None)"

definition socks_request :: "string \<Rightarrow> nat \<Rightarrow> bytes" where
  "socks_request host port = [0x05, 0x01, 0x00, 0x03, of_nat (length host)] @ to_bytes host
     @ [of_nat (port div 256), of_nat (port mod 256)]"

text \<open>
  \<open>dialSOCKS\<close>: the bytes written so far, and the error or the bytes the peer has sent that are still
  unread. The connection is closed in every error case.
\<close>

definition dial_socks ::
  "string \<Rightarrow> socks_peer \<Rightarrow> string \<Rightarrow> string \<Rightarrow> bytes \<times> (dial_error, bytes) res" where
  "dial_socks socks_address peer host port =
     (case validate_local_socks_address socks_address of Some e \<Rightarrow> ([], Inl e) | None \<Rightarrow>
      if \<not> dial_ok peer then ([], Inl DialFailed)
      else if \<not> set_deadline_ok peer then ([], Inl DeadlineFailed)
      else if \<not> write_greeting_ok peer then ([], Inl WriteFailed)
      else case read_full 2 (peer_reply peer) of Inl e \<Rightarrow> (socks_greeting, Inl e)
        | Inr (response, rest) \<Rightarrow>
      if response ! 0 \<noteq> 0x05 \<or> response ! 1 \<noteq> 0x00 then (socks_greeting, Inl SocksMethodRejected)
      else if length host > 255 then (socks_greeting, Inl SocksNameTooLong)
      else case parse_port16 port of None \<Rightarrow> (socks_greeting, Inl SocksBadPort)
        | Some n \<Rightarrow>
      if \<not> write_request_ok peer then (socks_greeting, Inl WriteFailed)
      else let sent = socks_greeting @ socks_request host n in
      case read_full 4 rest of Inl e \<Rightarrow> (sent, Inl e)
        | Inr (header, rest) \<Rightarrow>
      if header ! 0 \<noteq> 0x05 \<or> header ! 1 \<noteq> 0x00 \<or> header ! 2 \<noteq> 0x00 then (sent, Inl SocksRejected)
      else case discard_socks_address rest (header ! 3) of Inl e \<Rightarrow> (sent, Inl e)
        | Inr rest \<Rightarrow>
      if \<not> clear_deadline_ok peer then (sent, Inl DeadlineFailed) else (sent, Inr rest))"

subsection \<open>The handshake seen from the SOCKS server\<close>

text \<open>
  RFC 1928 as the server reads it: the greeting offering only the method without authentication,
  then a CONNECT request with a domain name. Used to state what \<open>dial_socks\<close> sends.
\<close>

definition server_reads :: "bytes \<Rightarrow> (string \<times> nat) option" where
  "server_reads bs = (case bs of
     v # n # m # v' # cmd # rsv # atyp # len # rest \<Rightarrow>
       if [v, n, m, v', cmd, rsv, atyp] = [5, 1, 0, 5, 1, 0, 3] \<and> length rest = unat len + 2
       then Some (of_bytes (take (unat len) rest),
                  unat (rest ! unat len) * 256 + unat (rest ! Suc (unat len)))
       else None
   | _ \<Rightarrow> None)"

text \<open>A server reply that grants the connection: method 0, then a success header and a bound address.\<close>

definition granted_reply :: "bytes \<Rightarrow> bool" where
  "granted_reply r \<longleftrightarrow> (\<exists>atyp addr. r = [5, 0, 5, 0, 0, atyp] @ addr
     \<and> (atyp = 1 \<and> length addr = 6 \<or> atyp = 4 \<and> length addr = 18
        \<or> atyp = 3 \<and> addr \<noteq> [] \<and> length addr = unat (hd addr) + 3))"

lemma read_full_Inr: "read_full n bs = Inr (a, b) \<longleftrightarrow> length a = n \<and> bs = a @ b"
  by (auto simp: read_full_def)

lemma unat_port_bytes: "n < 65536 \<Longrightarrow>
  unat (of_nat (n div 256) :: 8 word) * 256 + unat (of_nat (n mod 256) :: 8 word) = n"
  by (simp add: unat_of_nat)

lemma server_reads_request:
  "length host \<le> 255 \<Longrightarrow> n < 65536 \<Longrightarrow>
   server_reads (socks_greeting @ socks_request host n) = Some (host, n)"
  by (simp add: server_reads_def socks_greeting_def socks_request_def unat_of_nat nth_append
      unat_port_bytes [unfolded unat_of_nat])

lemma discard_socks_address_Inr:
  "discard_socks_address r t = Inr rest \<longleftrightarrow>
    (\<exists>addr. r = addr @ rest \<and> (t = 1 \<and> length addr = 6 \<or> t = 4 \<and> length addr = 18
        \<or> t = 3 \<and> addr \<noteq> [] \<and> length addr = unat (hd addr) + 3))"
proof -
  have three: "ebind (read_full 1 r) (\<lambda>(n, rest). ebind (read_full (unat (hd n) + 2) rest) (\<lambda>(_, rest). Inr rest)) = Inr rest
    \<longleftrightarrow> (\<exists>addr. r = addr @ rest \<and> addr \<noteq> [] \<and> length addr = unat (hd addr) + 3)"
  proof
    assume "ebind (read_full 1 r) (\<lambda>(n, rest). ebind (read_full (unat (hd n) + 2) rest) (\<lambda>(_, rest). Inr rest)) = Inr rest"
    then obtain n a where na: "length n = 1" "r = n @ a @ rest" "length a = unat (hd n) + 2"
      by (auto simp: ebind_Inr_iff read_full_Inr)
    then have "r = (n @ a) @ rest \<and> n @ a \<noteq> [] \<and> length (n @ a) = unat (hd (n @ a)) + 3"
      by (cases n) auto
    then show "\<exists>addr. r = addr @ rest \<and> addr \<noteq> [] \<and> length addr = unat (hd addr) + 3" by blast
  next
    assume "\<exists>addr. r = addr @ rest \<and> addr \<noteq> [] \<and> length addr = unat (hd addr) + 3"
    then obtain addr where addr: "r = addr @ rest" "addr \<noteq> []" "length addr = unat (hd addr) + 3" by blast
    then obtain b a where "addr = b # a" by (cases addr) auto
    with addr have "r = b # a @ rest" "length a = unat b + 2" by simp_all
    then show "ebind (read_full 1 r) (\<lambda>(n, rest). ebind (read_full (unat (hd n) + 2) rest) (\<lambda>(_, rest). Inr rest)) = Inr rest"
      by (simp add: read_full_def)
  qed
  show ?thesis
    unfolding discard_socks_address_def Let_def
    using three by (auto simp: ebind_Inr_iff read_full_Inr)
qed

lemma dial_socks_Inr:
  "dial_socks address peer host port = (sent, Inr rest) \<longleftrightarrow>
    validate_local_socks_address address = None \<and> dial_ok peer \<and> set_deadline_ok peer
    \<and> write_greeting_ok peer \<and> write_request_ok peer \<and> clear_deadline_ok peer \<and> length host \<le> 255
    \<and> (\<exists>n g. parse_port16 port = Some n \<and> sent = socks_greeting @ socks_request host n
        \<and> granted_reply g \<and> peer_reply peer = g @ rest)" (is "?l = ?r")
proof
  assume l: ?l
  then obtain resp r1 n hdr r2 where c: "validate_local_socks_address address = None" "dial_ok peer"
      "set_deadline_ok peer" "write_greeting_ok peer" "write_request_ok peer" "clear_deadline_ok peer"
      "length host \<le> 255" "parse_port16 port = Some n" "sent = socks_greeting @ socks_request host n"
      "read_full 2 (peer_reply peer) = Inr (resp, r1)" "resp ! 0 = 5" "resp ! 1 = 0"
      "read_full 4 r1 = Inr (hdr, r2)" "hdr ! 0 = 5" "hdr ! 1 = 0" "hdr ! 2 = 0"
      "discard_socks_address r2 (hdr ! 3) = Inr rest"
    unfolding dial_socks_def
    by (auto simp: Let_def split: option.splits if_splits sum.splits prod.splits)
  from c(10,11,12) have a: "peer_reply peer = [5, 0] @ r1"
    by (auto simp: read_full_Inr length_Suc_conv numeral_2_eq_2)
  from c(13-16) have b: "r1 = [5, 0, 0, hdr ! 3] @ r2"
    by (auto simp: read_full_Inr length_Suc_conv numeral_eq_Suc)
  from c(17) obtain addr where "r2 = addr @ rest" "granted_reply ([5, 0, 5, 0, 0, hdr ! 3] @ addr)"
    by (auto simp: discard_socks_address_Inr granted_reply_def)
  with a b c show ?r by (intro conjI exI [of _ n] exI [of _ "[5, 0, 5, 0, 0, hdr ! 3] @ addr"]) auto
next
  assume ?r
  then obtain n atyp addr where c: "validate_local_socks_address address = None" "dial_ok peer"
      "set_deadline_ok peer" "write_greeting_ok peer" "write_request_ok peer" "clear_deadline_ok peer"
      "length host \<le> 255" "parse_port16 port = Some n" "sent = socks_greeting @ socks_request host n"
      "peer_reply peer = [5, 0, 5, 0, 0, atyp] @ addr @ rest"
      "atyp = 1 \<and> length addr = 6 \<or> atyp = 4 \<and> length addr = 18
        \<or> atyp = 3 \<and> addr \<noteq> [] \<and> length addr = unat (hd addr) + 3"
    by (auto simp: granted_reply_def)
  then have "discard_socks_address (addr @ rest) atyp = Inr rest" by (auto simp: discard_socks_address_Inr)
  with c show ?l by (simp add: dial_socks_def read_full_def Let_def)
qed

subsection \<open>Direct sockets to public addresses\<close>

text \<open>\<open>netip.Addr\<close> with the predicates \<open>publicAddresses\<close> uses; zones are not represented.\<close>

datatype ip_addr = V4 "32 word" | V6 "128 word"

fun unmap :: "ip_addr \<Rightarrow> ip_addr" where
  "unmap (V4 w) = V4 w"
| "unmap (V6 w) = (if drop_bit 32 w = 0xFFFF then V4 (ucast w) else V6 w)"

fun is_loopback :: "ip_addr \<Rightarrow> bool" where
  "is_loopback (V4 w) = (drop_bit 24 w = 127)"
| "is_loopback (V6 w) = (w = 1)"

fun is_multicast :: "ip_addr \<Rightarrow> bool" where
  "is_multicast (V4 w) = (drop_bit 28 w = 0xE)"
| "is_multicast (V6 w) = (drop_bit 120 w = 0xFF)"

fun is_link_local_unicast :: "ip_addr \<Rightarrow> bool" where
  "is_link_local_unicast (V4 w) = (drop_bit 16 w = 0xA9FE)"
| "is_link_local_unicast (V6 w) = (drop_bit 118 w = 0x3FA)"

fun is_private :: "ip_addr \<Rightarrow> bool" where
  "is_private (V4 w) = (drop_bit 24 w = 10 \<or> drop_bit 20 w = 0xAC1 \<or> drop_bit 16 w = 0xC0A8)"
| "is_private (V6 w) = (drop_bit 121 w = 0x7E)"

definition is_global_unicast :: "ip_addr \<Rightarrow> bool" where
  "is_global_unicast a \<longleftrightarrow> a \<noteq> V4 0 \<and> a \<noteq> V4 0xFFFFFFFF \<and> a \<noteq> V6 0
     \<and> \<not> is_loopback a \<and> \<not> is_multicast a \<and> \<not> is_link_local_unicast a"

text \<open>\<open>lookup\<close> is the resolver and \<open>dial_addr\<close> says which sockets connect.\<close>

record direct_env =
  lookup :: "string \<Rightarrow> ip_addr list option"
  dial_addr :: "ip_addr \<Rightarrow> string \<Rightarrow> bool"

definition public_addresses :: "direct_env \<Rightarrow> string \<Rightarrow> (dial_error, ip_addr list) res" where
  "public_addresses env h = (case lookup env h of None \<Rightarrow> Inl LookupFailed
     | Some addresses \<Rightarrow>
       let public = filter (\<lambda>a. is_global_unicast a \<and> \<not> is_private a \<and> \<not> is_loopback a
                             \<and> \<not> is_link_local_unicast a) (map unmap addresses)
       in if public = [] then Inl NoPublicAddress else Inr public)"

text \<open>The addresses dialled, in order, and the one that answered.\<close>

fun dial_first :: "direct_env \<Rightarrow> string \<Rightarrow> ip_addr list \<Rightarrow> ip_addr list \<times> (dial_error, ip_addr) res" where
  "dial_first env port [] = ([], Inl DialFailed)"
| "dial_first env port (a # as) = (if dial_addr env a port then ([a], Inr a)
     else case dial_first env port as of (tried, r) \<Rightarrow> (a # tried, r))"

subsection \<open>A configured HTTP proxy\<close>

record http_peer =
  hp_dial_ok :: bool
  hp_set_deadline_ok :: bool
  hp_write_ok :: bool
  hp_status :: "nat option"
  hp_clear_deadline_ok :: bool

record connect_request =
  cr_address :: string
  cr_target :: string
  cr_authorization :: "string option"

definition dial_http_proxy ::
  "url option \<Rightarrow> http_peer \<Rightarrow> string \<Rightarrow> (dial_error, connect_request) res" where
  "dial_http_proxy proxy_url peer target = (case proxy_url of None \<Rightarrow> Inl InvalidProxyConfiguration
     | Some u \<Rightarrow>
       if \<not> equal_fold (u_scheme u) ''http'' \<or> u_host u = [] \<or> u_fragment u \<noteq> [] \<or> u_raw_query u \<noteq> []
          \<or> (u_path u \<noteq> [] \<and> u_path u \<noteq> ''/'') then Inl InvalidProxyConfiguration
       else if hostname u = [] then Inl InvalidProxyConfiguration
       else let proxy_port = (if url_port u = [] then ''80'' else url_port u);
                address = join_host_port (hostname u) proxy_port in
       if \<not> hp_dial_ok peer then Inl DialFailed
       else if \<not> hp_set_deadline_ok peer then Inl DeadlineFailed
       else ebind (case u_user u of None \<Rightarrow> Inr None
           | Some (username, password) \<Rightarrow>
             if contains_char username CHR '':'' then Inl InvalidProxyCredentials
             else Inr (Some (''Basic '' @ base64 (username @ '':'' @
                    (case password of None \<Rightarrow> [] | Some p \<Rightarrow> p)))))
         (\<lambda>authorization.
           if \<not> hp_write_ok peer then Inl WriteFailed
           else case hp_status peer of None \<Rightarrow> Inl ReadFailed
             | Some status \<Rightarrow> if status \<noteq> 200 then Inl (ProxyStatus status)
               else if \<not> hp_clear_deadline_ok peer then Inl DeadlineFailed
               else Inr \<lparr>cr_address = address, cr_target = target, cr_authorization = authorization\<rparr>))"

datatype direct_conn = Socket ip_addr | ViaProxy connect_request

definition dial_direct ::
  "url option \<Rightarrow> direct_env \<Rightarrow> http_peer \<Rightarrow> string \<Rightarrow> string \<Rightarrow> ip_addr list \<times> (dial_error, direct_conn) res" where
  "dial_direct direct_proxy env peer h port =
     (if direct_proxy \<noteq> None then
        ([], ebind (dial_http_proxy direct_proxy peer (join_host_port h port)) (\<lambda>c. Inr (ViaProxy c)))
      else case public_addresses env h of Inl e \<Rightarrow> ([], Inl e)
        | Inr addresses \<Rightarrow> (case dial_first env port addresses of
            (tried, r) \<Rightarrow> (tried, ebind r (\<lambda>a. Inr (Socket a)))))"

subsection \<open>Only public addresses are dialled\<close>

definition v4_in :: "ip_addr \<Rightarrow> nat \<Rightarrow> nat \<Rightarrow> bool" where
  "v4_in a lo hi \<longleftrightarrow> (\<exists>w. a = V4 w \<and> lo \<le> unat w \<and> unat w \<le> hi)"

definition v6_in :: "ip_addr \<Rightarrow> nat \<Rightarrow> nat \<Rightarrow> bool" where
  "v6_in a lo hi \<longleftrightarrow> (\<exists>w. a = V6 w \<and> lo \<le> unat w \<and> unat w \<le> hi)"

text \<open>
  The ranges no direct socket may reach, as intervals of address values: unspecified, 10/8, 127/8,
  169.254/16, 172.16/12, 192.168/16, 224/4 and the broadcast address; ::, ::1, fc00::/7,
  fe80::/10 and ff00::/8; and IPv6 addresses that map an IPv4 one.
\<close>

definition reserved_address :: "ip_addr \<Rightarrow> bool" where
  "reserved_address a \<longleftrightarrow>
     v4_in a 0 0 \<or> v4_in a 0x0A000000 0x0AFFFFFF \<or> v4_in a 0x7F000000 0x7FFFFFFF
     \<or> v4_in a 0xA9FE0000 0xA9FEFFFF \<or> v4_in a 0xAC100000 0xAC1FFFFF \<or> v4_in a 0xC0A80000 0xC0A8FFFF
     \<or> v4_in a 0xE0000000 0xEFFFFFFF \<or> v4_in a 0xFFFFFFFF 0xFFFFFFFF
     \<or> v6_in a 0 1 \<or> v6_in a (0xFFFF * 2^32) (0x10000 * 2^32 - 1)
     \<or> v6_in a (0xFC * 2^120) (0xFE * 2^120 - 1) \<or> v6_in a (0xFE80 * 2^112) (0xFEC0 * 2^112 - 1)
     \<or> v6_in a (0xFF * 2^120) (2^128 - 1)"

lemma drop_bit_interval:
  fixes w :: "'a::len word"
  assumes "m < 2 ^ LENGTH('a)"
  shows "drop_bit k w = of_nat m \<longleftrightarrow> m * 2^k \<le> unat w \<and> unat w < (m + 1) * 2^k"
proof -
  have d: "unat (drop_bit k w) = unat w div 2^k"
    by (subst unat_drop_bit_eq) (simp add: drop_bit_eq_div)
  have "drop_bit k w = of_nat m \<longleftrightarrow> unat (drop_bit k w) = unat (of_nat m :: 'a word)"
    by (rule word_unat_eq_iff)
  also have "\<dots> \<longleftrightarrow> unat w div 2^k = m"
    using assms by (simp only: d) (simp add: unat_of_nat)
  also have "\<dots> \<longleftrightarrow> m * 2^k \<le> unat w \<and> unat w < (m + 1) * 2^k"
    by (metis add.commute div_nat_eqI dividend_less_times_div mult.commute mult_Suc_right
        Suc_eq_plus1 div_times_less_eq_dividend zero_less_numeral zero_less_power)
  finally show ?thesis .
qed

lemma drop_bit_range:
  fixes w :: "'a::len word"
  assumes "m < 2 ^ LENGTH('a)" and "lo = m * 2 ^ k" and "Suc hi = (m + 1) * 2 ^ k"
  shows "drop_bit k w = of_nat m \<longleftrightarrow> lo \<le> unat w \<and> unat w \<le> hi"
  using drop_bit_interval [OF assms(1), of k w] assms(2,3) by (metis less_Suc_eq_le)

lemma v4_ranges:
  fixes w :: "32 word"
  shows "drop_bit 24 w = 127 \<longleftrightarrow> 0x7F000000 \<le> unat w \<and> unat w \<le> 0x7FFFFFFF"
    and "drop_bit 24 w = 10 \<longleftrightarrow> 0x0A000000 \<le> unat w \<and> unat w \<le> 0x0AFFFFFF"
    and "drop_bit 20 w = 0xAC1 \<longleftrightarrow> 0xAC100000 \<le> unat w \<and> unat w \<le> 0xAC1FFFFF"
    and "drop_bit 16 w = 0xC0A8 \<longleftrightarrow> 0xC0A80000 \<le> unat w \<and> unat w \<le> 0xC0A8FFFF"
    and "drop_bit 16 w = 0xA9FE \<longleftrightarrow> 0xA9FE0000 \<le> unat w \<and> unat w \<le> 0xA9FEFFFF"
    and "drop_bit 28 w = 0xE \<longleftrightarrow> 0xE0000000 \<le> unat w \<and> unat w \<le> 0xEFFFFFFF"
  using drop_bit_range [of 127 "0x7F000000" 24 "0x7FFFFFFF" w] apply simp
  using drop_bit_range [of 10 "0x0A000000" 24 "0x0AFFFFFF" w] apply simp
  using drop_bit_range [of "0xAC1" "0xAC100000" 20 "0xAC1FFFFF" w] apply simp
  using drop_bit_range [of "0xC0A8" "0xC0A80000" 16 "0xC0A8FFFF" w] apply simp
  using drop_bit_range [of "0xA9FE" "0xA9FE0000" 16 "0xA9FEFFFF" w] apply simp
  using drop_bit_range [of "0xE" "0xE0000000" 28 "0xEFFFFFFF" w] apply simp
  done

lemma v6_ranges:
  fixes w :: "128 word"
  shows "drop_bit 120 w = 0xFF \<longleftrightarrow> 0xFF * 2^120 \<le> unat w \<and> unat w \<le> 2^128 - 1"
    and "drop_bit 118 w = 0x3FA \<longleftrightarrow> 0xFE80 * 2^112 \<le> unat w \<and> unat w \<le> 0xFEC0 * 2^112 - 1"
    and "drop_bit 121 w = 0x7E \<longleftrightarrow> 0xFC * 2^120 \<le> unat w \<and> unat w \<le> 0xFE * 2^120 - 1"
    and "drop_bit 32 w = 0xFFFF \<longleftrightarrow> 0xFFFF * 2^32 \<le> unat w \<and> unat w \<le> 0x10000 * 2^32 - 1"
  using drop_bit_range [of "0xFF" "0xFF * 2^120" 120 "2^128 - 1" w] apply simp
  using drop_bit_range [of "0x3FA" "0xFE80 * 2^112" 118 "0xFEC0 * 2^112 - 1" w] apply simp
  using drop_bit_range [of "0x7E" "0xFC * 2^120" 121 "0xFE * 2^120 - 1" w] apply simp
  using drop_bit_range [of "0xFFFF" "0xFFFF * 2^32" 32 "0x10000 * 2^32 - 1" w] apply simp
  done

lemma word_point:
  fixes w :: "'a::len word"
  shows "w = 0 \<longleftrightarrow> unat w = 0" and "w = 1 \<longleftrightarrow> unat w = 1"
  by (rule unat_eq_0 [symmetric]) (metis unat_1 word_unat_eq_iff)

lemma v4_broadcast: "(w :: 32 word) = 0xFFFFFFFF \<longleftrightarrow> unat w = 0xFFFFFFFF"
  using word_unat_eq_iff [of w "0xFFFFFFFF"] by simp

lemma unmap_not_mapped: "\<not> v6_in (unmap a) (0xFFFF * 2^32) (0x10000 * 2^32 - 1)"
proof (cases a)
  case (V6 w)
  then show ?thesis using v6_ranges(4) [of w] by (auto simp: v6_in_def split: if_splits)
qed (simp add: v6_in_def)

definition dialable :: "ip_addr \<Rightarrow> bool" where
  "dialable a \<longleftrightarrow> is_global_unicast a \<and> \<not> is_private a \<and> \<not> is_loopback a \<and> \<not> is_link_local_unicast a"

lemma dialable_iff: "dialable (unmap a) \<longleftrightarrow> \<not> reserved_address (unmap a)"
proof (cases "unmap a")
  case (V4 w)
  then show ?thesis
    unfolding dialable_def is_global_unicast_def reserved_address_def v4_in_def v6_in_def
    using word_point(1) [of w] v4_broadcast [of w]
    by (simp add: v4_ranges) linarith
next
  case (V6 w)
  have n: "\<not> v6_in (V6 w) (0xFFFF * 2^32) (0x10000 * 2^32 - 1)" using unmap_not_mapped [of a] V6 by simp
  have p: "unat w \<le> 1 \<longleftrightarrow> w = 0 \<or> w = 1" using word_point [of w] by auto
  show ?thesis
    unfolding V6 dialable_def is_global_unicast_def reserved_address_def
    using n p by (simp add: v6_ranges v4_in_def v6_in_def) blast
qed

lemma dial_first_tried: "set (fst (dial_first env port as)) \<subseteq> set as"
  by (induction as) (auto split: prod.splits)

lemma dial_first_find:
  "snd (dial_first env port as) = (case find (\<lambda>a. dial_addr env a port) as of None \<Rightarrow> Inl DialFailed | Some a \<Rightarrow> Inr a)"
  by (induction as) (auto split: prod.splits)

lemma public_addresses_filter:
  "public_addresses env h = Inr as \<Longrightarrow> \<exists>found. lookup env h = Some found \<and> as = filter dialable (map unmap found) \<and> as \<noteq> []"
  unfolding public_addresses_def dialable_def [abs_def] Let_def by (auto split: option.splits if_splits)

text \<open>
  C2. A direct socket is only ever opened to an address outside the reserved ranges, whatever the
  resolver answers, and the dialling takes the resolver's first public address that answers.
\<close>

theorem dial_direct_public_only:
  assumes "dial_direct None env peer h port = (tried, r)"
  shows "(\<forall>a \<in> set tried. \<not> reserved_address a)
    \<and> (\<forall>c. r = Inr c \<longrightarrow> (\<exists>found a. c = Socket a \<and> lookup env h = Some found
        \<and> find (\<lambda>a. dial_addr env a port) (filter (\<lambda>a. \<not> reserved_address a) (map unmap found)) = Some a))"
proof (cases "public_addresses env h")
  case (Inl e)
  then show ?thesis using assms by (auto simp: dial_direct_def)
next
  case (Inr as)
  then obtain found where f: "lookup env h = Some found" "as = filter dialable (map unmap found)"
    by (blast dest: public_addresses_filter)
  have as: "as = filter (\<lambda>a. \<not> reserved_address a) (map unmap found)"
    unfolding f(2) filter_map by (simp add: dialable_iff comp_def cong: filter_cong)
  have r: "tried = fst (dial_first env port as)"
      "r = ebind (snd (dial_first env port as)) (\<lambda>a. Inr (Socket a))"
    using assms Inr by (auto simp: dial_direct_def split: prod.splits)
  have "set tried \<subseteq> set as" unfolding r(1) by (rule dial_first_tried)
  then have "\<forall>a \<in> set tried. \<not> reserved_address a" using as by auto
  moreover have "\<exists>found a. c = Socket a \<and> lookup env h = Some found
        \<and> find (\<lambda>a. dial_addr env a port) (filter (\<lambda>a. \<not> reserved_address a) (map unmap found)) = Some a" if "r = Inr c" for c
    using that f(1) unfolding r(2) as dial_first_find
    by (auto simp: ebind_Inr_iff split: option.splits)
  ultimately show ?thesis by blast
qed

theorem dial_direct_public_only_witness:
  "\<exists>tried r. dial_direct None \<lparr>lookup = (\<lambda>_. Some [V4 0x0A000001, V4 0x08080808]), dial_addr = (\<lambda>_ _. True)\<rparr>
      \<lparr>hp_dial_ok = True, hp_set_deadline_ok = True, hp_write_ok = True, hp_status = None, hp_clear_deadline_ok = True\<rparr>
      ''example.com'' ''443'' = (tried, r) \<and> tried = [V4 0x08080808] \<and> (\<forall>a \<in> set tried. \<not> reserved_address a)"
proof -
  let ?env = "\<lparr>lookup = (\<lambda>_. Some [V4 0x0A000001, V4 0x08080808]), dial_addr = (\<lambda>_ _. True)\<rparr>"
  let ?peer = "\<lparr>hp_dial_ok = True, hp_set_deadline_ok = True, hp_write_ok = True, hp_status = None, hp_clear_deadline_ok = True\<rparr>"
  have d: "dial_direct None ?env ?peer ''example.com'' ''443'' = ([V4 0x08080808], Inr (Socket (V4 0x08080808)))"
    by (simp add: dial_direct_def public_addresses_def is_global_unicast_def)
  show ?thesis using dial_direct_public_only [OF d] d by blast
qed

text \<open>
  C6. A successful handshake has told the SSH server exactly the requested host, as a name and so
  without a local lookup, and the requested port; and every byte the peer sent after its granting
  reply is still there for the tunnel.
\<close>

theorem dial_socks_connects:
  assumes "dial_socks address peer h port = (sent, Inr rest)"
  shows "(\<exists>n. parse_port16 port = Some n \<and> server_reads sent = Some (h, n))
    \<and> (\<exists>g. granted_reply g \<and> peer_reply peer = g @ rest)
    \<and> validate_local_socks_address address = None"
proof -
  obtain n g where "parse_port16 port = Some n" "sent = socks_greeting @ socks_request h n"
      "granted_reply g" "peer_reply peer = g @ rest" "validate_local_socks_address address = None" "length h \<le> 255"
    using assms unfolding dial_socks_Inr by blast
  moreover from this have "n < 65536" by (auto simp: parse_port16_def split: option.splits if_splits)
  ultimately show ?thesis using server_reads_request [of h n] by blast
qed

theorem dial_socks_connects_witness:
  "server_reads (fst (dial_socks ''127.0.0.1:1080''
      \<lparr>dial_ok = True, set_deadline_ok = True, write_greeting_ok = True, write_request_ok = True,
       clear_deadline_ok = True, peer_reply = [5, 0, 5, 0, 0, 1, 0, 0, 0, 0, 0, 0, 72, 73]\<rparr> ''a.b'' ''443''))
    = Some (''a.b'', 443)"
proof -
  let ?peer = "\<lparr>dial_ok = True, set_deadline_ok = True, write_greeting_ok = True, write_request_ok = True,
       clear_deadline_ok = True, peer_reply = [5, 0, 5, 0, 0, 1, 0, 0, 0, 0, 0, 0, 72, 73 :: 8 word]\<rparr>"
  have p: "parse_port16 ''443'' = Some 443" by (simp add: parse_port16_def str_simps)
  have v: "validate_local_socks_address ''127.0.0.1:1080'' = None"
    by (simp add: validate_local_socks_address_def str_simps ip_is_loopback_def ip_to4_def v4_prefix_def)
  have d: "dial_socks ''127.0.0.1:1080'' ?peer ''a.b'' ''443''
      = (socks_greeting @ socks_request ''a.b'' 443, Inr [72, 73])"
    unfolding dial_socks_Inr using p v
    by (auto simp: granted_reply_def intro!: exI [of _ "443"] exI [of _ "[5, 0, 5, 0, 0, 1, 0, 0, 0, 0, 0, 0]"])
  obtain n where n: "parse_port16 ''443'' = Some n"
      "server_reads (socks_greeting @ socks_request ''a.b'' 443) = Some (''a.b'', n)"
    using dial_socks_connects [OF d] by blast
  have "n = 443" using n(1) p by simp
  then show ?thesis using n(2) by (simp only: d fst_conv)
qed

end
