(* ===== verification/Router.thy ===== *)
theory Router
  imports Socks
begin

section \<open>The session proxy: request handling and connection tracking\<close>

text \<open>
  \<open>Router\<close> of \<open>internal/proxy/proxy.go\<close>. A connection is a number. \<open>serve_begin\<close> is \<open>ServeHTTP\<close> up to the
  point where both connections are registered, \<open>serve_end\<close> its deferred clean-up, \<open>close_router\<close> is
  \<open>Close\<close>; other requests may run between the two halves, which the step relation at the end shows.
\<close>

type_synonym conn = nat

record router_config =
  cfg_registry :: string
  cfg_private_hosts :: "string list"
  cfg_socks_address :: string
  cfg_direct_proxy :: "url option"

record router =
  registry :: string
  private_hosts :: "string list"
  socks_address :: string
  direct_proxy :: "url option"
  connections :: "conn set"
  closed :: bool

definition new_router :: "router_config \<Rightarrow> router" where
  "new_router c = \<lparr>registry = cfg_registry c, private_hosts = cfg_private_hosts c,
     socks_address = cfg_socks_address c, direct_proxy = cfg_direct_proxy c,
     connections = {}, closed = False\<rparr>"

subsection \<open>Routing\<close>

definition is_registry_host :: "router \<Rightarrow> string \<Rightarrow> bool" where
  "is_registry_host p h =
     (let h = to_lower (trim_suffix h ''.'');
          reg = to_lower (trim_suffix (registry p) ''.'') in
      if \<not> valid_dns_name reg \<or> contains_char reg CHR ''.'' then False
      else if h = reg @ ''.azurecr.io'' then True
      else let pre = reg @ ''.''; suf = ''.data.azurecr.io'' in
        if \<not> has_prefix h pre \<or> \<not> has_suffix h suf then False
        else let region = trim_suffix (trim_prefix h pre) suf in
          \<not> contains_char region CHR ''.'' \<and> valid_dns_name region)"

definition is_tunnel_host :: "router \<Rightarrow> string \<Rightarrow> bool" where
  "is_tunnel_host p h = (if is_registry_host p h then True else list_ex (\<lambda>allowed. h = allowed) (private_hosts p))"

subsection \<open>The CONNECT target\<close>

record http_request =
  rq_method :: string
  rq_host :: string
  rq_url_host :: "string option"
  rq_uri :: string

definition connect_target :: "http_request \<Rightarrow> (string \<times> string) option" where
  "connect_target r =
     (let authority = rq_host r;
          authority = (if authority = [] then (case rq_url_host r of Some h \<Rightarrow> h | None \<Rightarrow> authority) else authority);
          authority = (if authority = [] then rq_uri r else authority) in
      if authority = [] \<or> contains_any authority ''/?#@'' then None
      else case split_host_port authority of Inl _ \<Rightarrow> None
        | Inr (h, port) \<Rightarrow>
          if h = [] \<or> port = [] then None
          else let h = to_lower (trim_suffix h ''.'') in
            if \<not> valid_dns_name h \<and> parse_ip h = None then None else Some (h, port))"

subsection \<open>Connection tracking\<close>

definition track :: "router \<Rightarrow> conn list \<Rightarrow> router \<times> bool" where
  "track p cs = (if closed p then (p, False) else (p\<lparr>connections := connections p \<union> set cs\<rparr>, True))"

definition untrack :: "router \<Rightarrow> conn list \<Rightarrow> router" where
  "untrack p cs = p\<lparr>connections := connections p - set cs\<rparr>"

text \<open>\<open>Close\<close>: the new state and the connections it closes.\<close>

definition close_router :: "router \<Rightarrow> router \<times> conn set" where
  "close_router p = (p\<lparr>closed := True, connections := {}\<rparr>, connections p)"

subsection \<open>ServeHTTP\<close>

text \<open>
  What the surroundings of one request do: the upstream a dial yields, whether the response writer
  can be hijacked, the client connection the hijack yields, and whether the reply can be written.
\<close>

record serve_env =
  socks_upstream :: "string \<Rightarrow> string \<Rightarrow> conn option"
  direct_upstream :: "string \<Rightarrow> string \<Rightarrow> conn option"
  can_hijack :: bool
  hijacked :: "conn option"
  reply_ok :: bool

datatype serve_result =
    Refused nat "conn list"
  | Dropped "conn list"
  | Established conn conn bool

text \<open>
  \<open>Refused s cs\<close> is an error reply with status \<open>s\<close> after closing \<open>cs\<close>; \<open>Dropped cs\<close> closed the
  listed connections without a reply (a failed hijack or a closed router); \<open>Established client upstream ok\<close> registered both,
  and \<open>ok\<close> says that the 200 reply was written, so that bytes are copied. The list is what the
  request dialled.
\<close>

datatype transport = Socks string string | Direct string string

definition serve_begin ::
  "serve_env \<Rightarrow> http_request \<Rightarrow> router \<Rightarrow> router \<times> transport option \<times> serve_result" where
  "serve_begin env r p =
     (if rq_method r \<noteq> ''CONNECT'' then (p, None, Refused 405 [])
      else case connect_target r of None \<Rightarrow> (p, None, Refused 400 [])
        | Some (h, port) \<Rightarrow>
      if port \<noteq> ''443'' then (p, None, Refused 403 [])
      else if forbidden_target_name h then (p, None, Refused 403 [])
      else
        let tunnel = is_tunnel_host p h;
            dialled = (if tunnel then Socks h port else Direct h port);
            upstream = (if tunnel then socks_upstream env h port else direct_upstream env h port) in
        case upstream of None \<Rightarrow> (p, Some dialled, Refused 502 [])
        | Some u \<Rightarrow>
      if \<not> can_hijack env then (p, Some dialled, Refused 500 [u])
      else case hijacked env of None \<Rightarrow> (p, Some dialled, Dropped [u])
        | Some client \<Rightarrow>
      (case track p [client, u] of (p', registered) \<Rightarrow>
        if registered then (p', Some dialled, Established client u (reply_ok env))
        else (p', Some dialled, Dropped [client, u])))"

text \<open>The deferred calls of an established request: both connections closed and unregistered.\<close>

definition serve_end :: "router \<Rightarrow> conn \<Rightarrow> conn \<Rightarrow> router \<times> conn set" where
  "serve_end p client upstream = (untrack p [client, upstream], {client, upstream})"

lemma connect_target_valid:
  assumes "connect_target r = Some (h, port)"
  shows "port \<noteq> []" and "valid_dns_name h \<or> parse_ip h \<noteq> None"
    and "valid_dns_name h \<Longrightarrow> to_lower h = h"
proof -
  obtain a where a: "h = to_lower a" "port \<noteq> []" "valid_dns_name h \<or> parse_ip h \<noteq> None"
    using assms unfolding connect_target_def Let_def
    by (auto split: if_splits sum.splits prod.splits option.splits)
  then show "port \<noteq> []" "valid_dns_name h \<or> parse_ip h \<noteq> None" by simp_all
  assume "valid_dns_name h"
  then show "to_lower h = h"
    using valid_dns_name_ascii [of h] to_lower_not_upper [of _ a]
    by (intro to_lower_id) (auto simp: list_all_iff a(1))
qed

text \<open>
  C1. The proxy only ever dials for a CONNECT to port 443 of a DNS name that is neither an address
  literal nor a loopback name, and it enters the SSH tunnel exactly for the registry's hosts and
  the configured private hosts; every other host leaves by the direct route.
\<close>

theorem serve_begin_dials:
  assumes "serve_begin env r p = (p', Some t, res)"
  shows "\<exists>h. rq_method r = ''CONNECT'' \<and> connect_target r = Some (h, ''443'')
    \<and> valid_dns_name h \<and> to_lower h = h \<and> \<not> forbidden_target_name h
    \<and> t = (if is_registry_host p h \<or> h \<in> set (private_hosts p) then Socks h ''443'' else Direct h ''443'')"
proof -
  obtain h where h: "rq_method r = ''CONNECT''" "connect_target r = Some (h, ''443'')"
      "\<not> forbidden_target_name h" "t = (if is_tunnel_host p h then Socks h ''443'' else Direct h ''443'')"
    using assms unfolding serve_begin_def Let_def
    by (auto split: if_splits option.splits prod.splits)
  have v: "valid_dns_name h" using connect_target_valid(2) [OF h(2)] h(3) by (auto simp: forbidden_target_name_def)
  then have "to_lower h = h" by (rule connect_target_valid(3) [OF h(2)])
  moreover have "is_tunnel_host p h \<longleftrightarrow> is_registry_host p h \<or> h \<in> set (private_hosts p)"
    by (auto simp: is_tunnel_host_def list_ex_iff)
  ultimately show ?thesis using h v by auto
qed

definition sample_router :: router where
  "sample_router = new_router \<lparr>cfg_registry = ''myacr'', cfg_private_hosts = [''db.corp''],
     cfg_socks_address = ''127.0.0.1:1080'', cfg_direct_proxy = None\<rparr>"

definition sample_env :: serve_env where
  "sample_env = \<lparr>socks_upstream = (\<lambda>_ _. Some 1), direct_upstream = (\<lambda>_ _. Some 2), can_hijack = True,
     hijacked = Some 3, reply_ok = True\<rparr>"

theorem serve_begin_dials_witness:
  "\<exists>p' res. serve_begin sample_env \<lparr>rq_method = ''CONNECT'', rq_host = ''DB.corp.:443'', rq_url_host = None, rq_uri = []\<rparr>
      sample_router = (p', Some (Socks ''db.corp'' ''443''), res) \<and> valid_dns_name ''db.corp''"
proof -
  let ?r = "\<lparr>rq_method = ''CONNECT'', rq_host = ''DB.corp.:443'', rq_url_host = None, rq_uri = []\<rparr>"
  have ct: "connect_target ?r = Some (''db.corp'', ''443'')" by code_simp
  have f: "\<not> forbidden_target_name ''db.corp''" by code_simp
  have t: "is_tunnel_host sample_router ''db.corp''"
    by (simp add: is_tunnel_host_def sample_router_def new_router_def)
  have d: "serve_begin sample_env ?r sample_router = (fst (track sample_router [3, 1]),
      Some (Socks ''db.corp'' ''443''), Established 3 1 True)"
    by (simp add: serve_begin_def ct f t Let_def) (simp add: sample_env_def track_def sample_router_def new_router_def)
  then show ?thesis using serve_begin_dials [OF d] ct by auto
qed

text \<open>
  The registry's own names are exactly \<open>NAME.azurecr.io\<close> and its regional data endpoints
  \<open>NAME.REGION.data.azurecr.io\<close> with one label as region. No other registry, no deeper name and
  no name that merely ends in such a text is routed into the tunnel on the registry's account.
\<close>

theorem is_registry_host_exact:
  "is_registry_host p h \<longleftrightarrow>
    (let reg = to_lower (trim_suffix (registry p) ''.''); h' = to_lower (trim_suffix h ''.'') in
     valid_label reg \<and> (h' = reg @ ''.azurecr.io''
       \<or> (\<exists>region. valid_label region \<and> h' = reg @ ''.'' @ region @ ''.data.azurecr.io'')))"
proof -
  define reg where "reg = to_lower (trim_suffix (registry p) ''.'')"
  define h' where "h' = to_lower (trim_suffix h ''.'')"
  have one: "valid_dns_name l \<and> \<not> contains_char l CHR ''.'' \<longleftrightarrow> valid_label l" for l
  proof
    assume "valid_dns_name l \<and> \<not> contains_char l CHR ''.''"
    then show "valid_label l" by (auto simp: valid_dns_name_def contains_char_def split_on_absent)
  next
    assume v: "valid_label l"
    then have "CHR ''.'' \<notin> set l" using ldh_not_special by (fastforce simp: valid_label_iff list_all_iff)
    then show "valid_dns_name l \<and> \<not> contains_char l CHR ''.''"
      using v by (auto simp: valid_dns_name_def contains_char_def split_on_absent valid_label_iff)
  qed
  have d: "trim_suffix (region @ ''.data.azurecr.io'') ''.data.azurecr.io'' = region" for region by simp
  have mid: "has_prefix h' (reg @ ''.'') \<and> has_suffix h' ''.data.azurecr.io''
      \<and> valid_label (trim_suffix (trim_prefix h' (reg @ ''.'')) ''.data.azurecr.io'')
    \<longleftrightarrow> (\<exists>region. valid_label region \<and> h' = reg @ ''.'' @ region @ ''.data.azurecr.io'')" (is "?l = ?r")
    if vr: "valid_label reg"
  proof
    assume l: ?l
    then obtain t where t: "h' = (reg @ ''.'') @ t" unfolding has_prefix_iff by blast
    then have tp: "trim_prefix h' (reg @ ''.'') = t" by (simp only: trim_prefix_append)
    have "has_suffix t ''.data.azurecr.io''"
    proof (rule ccontr)
      assume n: "\<not> has_suffix t ''.data.azurecr.io''"
      have v: "valid_label t" using l n unfolding tp by (simp add: trim_suffix_def)
      then have nd: "CHR ''.'' \<notin> set t" using one [of t] by (simp add: contains_char_def)
      obtain s where s: "reg @ ''.'' @ t = s @ ''.data.azurecr.io''" using l t by (auto simp: has_suffix_iff)
      have "cut_last CHR ''.'' (reg @ ''.'' @ t) = Some (reg, t)" using cut_last_append [OF nd, of reg] by simp
      moreover have "cut_last CHR ''.'' (s @ ''.data.azurecr.io'') = Some (s @ ''.data.azurecr'', ''io'')"
        using cut_last_append [of "CHR ''.''" "''io''" "s @ ''.data.azurecr''"] by simp
      ultimately have "reg = s @ ''.data.azurecr''" "t = ''io''" using s by auto
      then show False using vr one [of reg] by (auto simp: contains_char_def)
    qed
    then show ?r using l t tp by (auto simp: has_suffix_iff trim_suffix_def)
  next
    assume ?r
    then obtain region where r: "valid_label region" "h' = (reg @ ''.'') @ region @ ''.data.azurecr.io''" by auto
    have "has_suffix h' ''.data.azurecr.io''"
      unfolding r(2) has_suffix_iff by (rule exI [of _ "(reg @ ''.'') @ region"]) simp
    then show ?l unfolding r(2) using r(1) by (simp only: has_prefix_append trim_prefix_append trim_suffix_append)
  qed
  show ?thesis
    using one [of reg] mid one unfolding is_registry_host_def Let_def reg_def [symmetric] h'_def [symmetric]
    by auto
qed

subsection \<open>Tracking: requests, their ends and Close interleaved\<close>

text \<open>
  The whole proxy: the router, the sockets that are open, the tunnels being copied and the
  connection numbers used so far (a new socket has a new number).
\<close>

record proxy_system =
  rt :: router
  open_conns :: "conn set"
  tunnels :: "(conn \<times> conn) set"
  used :: "conn set"

inductive proxy_step :: "proxy_system \<Rightarrow> proxy_system \<Rightarrow> bool" where
  serve: "serve_begin env r (rt s) = (p', d, Established client u ok) \<Longrightarrow>
     client \<notin> used s \<Longrightarrow> u \<notin> used s \<Longrightarrow> client \<noteq> u \<Longrightarrow>
     proxy_step s (s\<lparr>rt := p', open_conns := open_conns s \<union> {client, u},
       tunnels := insert (client, u) (tunnels s), used := used s \<union> {client, u}\<rparr>)"
| refuse: "serve_begin env r (rt s) = (p', d, Refused status cs) \<Longrightarrow> set cs \<inter> used s = {} \<Longrightarrow>
     proxy_step s (s\<lparr>rt := p', used := used s \<union> set cs\<rparr>)"
| drop_conns: "serve_begin env r (rt s) = (p', d, Dropped cs) \<Longrightarrow> set cs \<inter> used s = {} \<Longrightarrow>
     proxy_step s (s\<lparr>rt := p', used := used s \<union> set cs\<rparr>)"
| finish: "(client, u) \<in> tunnels s \<Longrightarrow> serve_end (rt s) client u = (p', cs) \<Longrightarrow>
     proxy_step s (s\<lparr>rt := p', open_conns := open_conns s - cs, tunnels := tunnels s - {(client, u)}\<rparr>)"
| close: "close_router (rt s) = (p', cs) \<Longrightarrow>
     proxy_step s (s\<lparr>rt := p', open_conns := open_conns s - cs\<rparr>)"

inductive proxy_reachable :: "router_config \<Rightarrow> proxy_system \<Rightarrow> bool" for c where
  start: "proxy_reachable c \<lparr>rt = new_router c, open_conns = {}, tunnels = {}, used = {}\<rparr>"
| step: "proxy_reachable c s \<Longrightarrow> proxy_step s t \<Longrightarrow> proxy_reachable c t"

lemma serve_begin_router:
  "serve_begin env r p = (p', d, Established client u ok) \<Longrightarrow>
     \<not> closed p \<and> p' = p\<lparr>connections := connections p \<union> {client, u}\<rparr>"
  "serve_begin env r p = (p', d, Refused status cs) \<Longrightarrow> p' = p"
  "serve_begin env r p = (p', d, Dropped cs) \<Longrightarrow> p' = p"
  by (auto simp: serve_begin_def track_def Let_def split: if_splits option.splits prod.splits)

text \<open>The registered connections are the open sockets, until \<open>Close\<close>, and none after it.\<close>

definition sockets_apart :: "(conn \<times> conn) set \<Rightarrow> bool" where
  "sockets_apart T \<longleftrightarrow> (\<forall>a b a' b'. (a, b) \<in> T \<longrightarrow> (a', b') \<in> T \<longrightarrow> (a, b) \<noteq> (a', b')
     \<longrightarrow> {a, b} \<inter> {a', b'} = {})"

definition proxy_inv :: "proxy_system \<Rightarrow> bool" where
  "proxy_inv s \<longleftrightarrow> open_conns s = connections (rt s) \<and> (closed (rt s) \<longrightarrow> connections (rt s) = {})
     \<and> (\<forall>a b. (a, b) \<in> tunnels s \<longrightarrow> \<not> closed (rt s) \<longrightarrow> {a, b} \<subseteq> open_conns s)
     \<and> open_conns s \<subseteq> used s \<and> (\<forall>a b. (a, b) \<in> tunnels s \<longrightarrow> {a, b} \<subseteq> used s)
     \<and> sockets_apart (tunnels s)"

lemma sockets_apart_insert:
  "sockets_apart T \<Longrightarrow> (\<And>a b. (a, b) \<in> T \<Longrightarrow> {a, b} \<subseteq> U) \<Longrightarrow> x \<notin> U \<Longrightarrow> y \<notin> U \<Longrightarrow> sockets_apart (insert (x, y) T)"
  unfolding sockets_apart_def by blast

lemma sockets_apart_remove: "sockets_apart T \<Longrightarrow> sockets_apart (T - S)"
  unfolding sockets_apart_def by blast

lemma sockets_apart_other:
  "sockets_apart T \<Longrightarrow> (c, u) \<in> T \<Longrightarrow> (a, b) \<in> T - {(c, u)} \<Longrightarrow> {a, b} \<inter> {c, u} = {}"
  unfolding sockets_apart_def by blast

lemma proxy_step_inv: "proxy_step s t \<Longrightarrow> proxy_inv s \<Longrightarrow> proxy_inv t"
proof (induction rule: proxy_step.induct)
  case (serve env r s p' d client u ok)
  have "sockets_apart (insert (client, u) (tunnels s))"
    using serve by (intro sockets_apart_insert [where U = "used s"]) (auto simp: proxy_inv_def)
  then show ?case using serve serve_begin_router(1) [OF serve.hyps(1)]
    unfolding proxy_inv_def by simp blast
next
  case (finish client u s p' cs)
  have cs: "cs = {client, u}" and p': "p' = rt s\<lparr>connections := connections (rt s) - {client, u}\<rparr>"
    using finish.hyps(2) by (auto simp: serve_end_def untrack_def)
  have "{a, b} \<inter> {client, u} = {}" if "(a, b) \<in> tunnels s - {(client, u)}" for a b
    using finish that by (intro sockets_apart_other [where T = "tunnels s"]) (auto simp: proxy_inv_def)
  then show ?case using finish.prems unfolding proxy_inv_def cs p'
    by (simp add: sockets_apart_remove) blast
next
  case (close s p' cs)
  then show ?case by (auto simp: proxy_inv_def close_router_def)
next
  case (refuse env r s p' d status cs)
  then show ?case using serve_begin_router(2) [OF refuse.hyps(1)] unfolding proxy_inv_def by simp blast
next
  case (drop_conns env r s p' d cs)
  then show ?case using serve_begin_router(3) [OF drop_conns.hyps(1)] unfolding proxy_inv_def by simp blast
qed



end
