(* ===== verification/Patterns.thy ===== *)
theory Patterns
  imports Prelude
begin

section \<open>Anchored regular expressions\<close>

text \<open>
  The program validates names with \<open>regexp\<close> literals of the form \<open>^...$\<close>. An expression is a term
  of \<open>rx\<close>; \<open>rmatch\<close> decides a full match with derivatives and \<open>lang\<close> is its language, so a
  component states its pattern as the source writes it and proves with the language.
  \<open>(?i)\<close> is \<open>ci_text\<close> and \<open>ci_class\<close>: Go folds k with U+212A and s with U+017F as well.
\<close>

datatype rx = Nothing | Eps | Cls "char \<Rightarrow> bool" | Seq rx rx | Alt rx rx | Star rx

inductive_set star_lang :: "string set \<Rightarrow> string set" for L where
  Nil: "[] \<in> star_lang L"
| Cons: "a \<in> L \<Longrightarrow> b \<in> star_lang L \<Longrightarrow> a @ b \<in> star_lang L"

primrec lang :: "rx \<Rightarrow> string set" where
  "lang Nothing = {}"
| "lang Eps = {[]}"
| "lang (Cls p) = {[c] | c. p c}"
| "lang (Seq r s) = {a @ b | a b. a \<in> lang r \<and> b \<in> lang s}"
| "lang (Alt r s) = lang r \<union> lang s"
| "lang (Star r) = star_lang (lang r)"

primrec nullable :: "rx \<Rightarrow> bool" where
  "nullable Nothing = False"
| "nullable Eps = True"
| "nullable (Cls p) = False"
| "nullable (Seq r s) = (nullable r \<and> nullable s)"
| "nullable (Alt r s) = (nullable r \<or> nullable s)"
| "nullable (Star r) = True"

definition seq :: "rx \<Rightarrow> rx \<Rightarrow> rx" where
  "seq r s = (case r of Nothing \<Rightarrow> Nothing | Eps \<Rightarrow> s | _ \<Rightarrow> Seq r s)"

definition alt :: "rx \<Rightarrow> rx \<Rightarrow> rx" where
  "alt r s = (case r of Nothing \<Rightarrow> s | _ \<Rightarrow> (case s of Nothing \<Rightarrow> r | _ \<Rightarrow> Alt r s))"

primrec deriv :: "char \<Rightarrow> rx \<Rightarrow> rx" where
  "deriv c Nothing = Nothing"
| "deriv c Eps = Nothing"
| "deriv c (Cls p) = (if p c then Eps else Nothing)"
| "deriv c (Seq r s) = (if nullable r then alt (seq (deriv c r) s) (deriv c s) else seq (deriv c r) s)"
| "deriv c (Alt r s) = alt (deriv c r) (deriv c s)"
| "deriv c (Star r) = seq (deriv c r) (Star r)"

primrec rmatch :: "rx \<Rightarrow> string \<Rightarrow> bool" where
  "rmatch r [] = nullable r"
| "rmatch r (c # s) = rmatch (deriv c r) s"

lemma lang_seq: "lang (seq r s) = lang (Seq r s)"
  by (cases r) (auto simp: seq_def)

lemma lang_alt: "lang (alt r s) = lang (Alt r s)"
  by (cases r; cases s) (auto simp: alt_def)

lemma nullable_lang: "nullable r \<longleftrightarrow> [] \<in> lang r"
  by (induction r) (auto intro: star_lang.Nil)

lemma star_lang_Cons: "c # s \<in> star_lang L \<longleftrightarrow> (\<exists>a b. s = a @ b \<and> c # a \<in> L \<and> b \<in> star_lang L)"
proof
  have "w \<in> star_lang L \<Longrightarrow> w = c # s \<Longrightarrow> \<exists>a b. s = a @ b \<and> c # a \<in> L \<and> b \<in> star_lang L" for w
  proof (induction rule: star_lang.induct)
    case Nil
    then show ?case by simp
  next
    case (Cons a b)
    then show ?case by (cases a) auto
  qed
  then show "c # s \<in> star_lang L \<Longrightarrow> \<exists>a b. s = a @ b \<and> c # a \<in> L \<and> b \<in> star_lang L" by simp
next
  assume "\<exists>a b. s = a @ b \<and> c # a \<in> L \<and> b \<in> star_lang L"
  then show "c # s \<in> star_lang L" by (metis append_Cons star_lang.Cons)
qed

lemma deriv_lang: "s \<in> lang (deriv c r) \<longleftrightarrow> c # s \<in> lang r"
proof (induction r arbitrary: s)
  case (Seq r1 r2)
  have "c # s \<in> lang (Seq r1 r2) \<longleftrightarrow>
      (\<exists>a b. s = a @ b \<and> c # a \<in> lang r1 \<and> b \<in> lang r2) \<or> ([] \<in> lang r1 \<and> c # s \<in> lang r2)"
    by (auto simp: Cons_eq_append_conv)
  then show ?case using Seq by (auto simp: lang_seq lang_alt nullable_lang)
qed (auto simp: lang_seq lang_alt star_lang_Cons)

theorem rmatch_lang: "rmatch r s \<longleftrightarrow> s \<in> lang r"
  by (induction s arbitrary: r) (auto simp: nullable_lang deriv_lang)

subsection \<open>Repetition\<close>

primrec rep :: "nat \<Rightarrow> rx \<Rightarrow> rx" where
  "rep 0 r = Eps"
| "rep (Suc n) r = Seq r (rep n r)"

primrec upto_rep :: "nat \<Rightarrow> rx \<Rightarrow> rx" where
  "upto_rep 0 r = Eps"
| "upto_rep (Suc n) r = Alt Eps (Seq r (upto_rep n r))"

definition rep_range :: "nat \<Rightarrow> nat \<Rightarrow> rx \<Rightarrow> rx" where
  "rep_range lo hi r = Seq (rep lo r) (upto_rep (hi - lo) r)"

definition opt :: "rx \<Rightarrow> rx" where
  "opt r = Alt Eps r"

definition plus :: "rx \<Rightarrow> rx" where
  "plus r = Seq r (Star r)"

primrec text_rx :: "string \<Rightarrow> rx" where
  "text_rx [] = Eps"
| "text_rx (c # s) = Seq (Cls (\<lambda>x. x = c)) (text_rx s)"

lemma lang_text_rx [simp]: "lang (text_rx t) = {t}"
  by (induction t) auto

lemma lang_Seq_Cls: "s \<in> lang (Seq (Cls p) r) \<longleftrightarrow> (\<exists>c t. s = c # t \<and> p c \<and> t \<in> lang r)"
proof
  assume "\<exists>c t. s = c # t \<and> p c \<and> t \<in> lang r"
  then obtain c t where "s = [c] @ t" "p c" "t \<in> lang r" by auto
  then show "s \<in> lang (Seq (Cls p) r)" by (simp only: lang.simps) blast
qed auto

lemma lang_star_Cls [simp]: "lang (Star (Cls p)) = {s. list_all p s}"
proof -
  have "s \<in> star_lang {[c] | c. p c} \<longleftrightarrow> list_all p s" for s
  proof (induction s)
    case Nil
    then show ?case by (simp add: star_lang.Nil)
  next
    case (Cons c s)
    have "(\<exists>a b. s = a @ b \<and> c # a \<in> {[c] | c. p c} \<and> b \<in> star_lang {[c] | c. p c})
        \<longleftrightarrow> p c \<and> s \<in> star_lang {[c] | c. p c}" by auto
    then show ?case using Cons by (simp add: star_lang_Cons)
  qed
  then show ?thesis by auto
qed

lemma lang_rep_Cls [simp]: "lang (rep n (Cls p)) = {s. length s = n \<and> list_all p s}"
proof (induction n)
  case (Suc n)
  have "s \<in> lang (rep (Suc n) (Cls p)) \<longleftrightarrow> length s = Suc n \<and> list_all p s" for s
    using Suc by (cases s) (auto simp: lang_Seq_Cls simp del: lang.simps(4))
  then show ?case by blast
qed auto

lemma lang_upto_Cls [simp]: "lang (upto_rep n (Cls p)) = {s. length s \<le> n \<and> list_all p s}"
proof (induction n)
  case (Suc n)
  have "s \<in> lang (upto_rep (Suc n) (Cls p)) \<longleftrightarrow> length s \<le> Suc n \<and> list_all p s" for s
    using Suc by (cases s) (auto simp: lang_Seq_Cls simp del: lang.simps(4))
  then show ?case by blast
qed auto

lemma lang_rep_range_Cls:
  assumes "lo \<le> hi"
  shows "lang (rep_range lo hi (Cls p)) = {s. lo \<le> length s \<and> length s \<le> hi \<and> list_all p s}"
proof (intro set_eqI iffI)
  fix s
  assume "s \<in> {s. lo \<le> length s \<and> length s \<le> hi \<and> list_all p s}"
  then have "s = take lo s @ drop lo s \<and> length (take lo s) = lo \<and> length (drop lo s) \<le> hi - lo
      \<and> list_all p (take lo s) \<and> list_all p (drop lo s)"
    by (auto simp: list_all_iff dest: in_set_takeD in_set_dropD)
  then show "s \<in> lang (rep_range lo hi (Cls p))" 
    unfolding rep_range_def lang.simps lang_rep_Cls lang_upto_Cls by blast
qed (use assms in \<open>auto simp: rep_range_def\<close>)

lemma lang_plus_Cls: "lang (plus (Cls p)) = {s. s \<noteq> [] \<and> list_all p s}"
proof -
  have "s \<in> lang (plus (Cls p)) \<longleftrightarrow> s \<noteq> [] \<and> list_all p s" for s
    unfolding plus_def lang_Seq_Cls lang_star_Cls by (cases s) auto
  then show ?thesis by blast
qed

subsection \<open>Case-insensitive parts\<close>

definition wide_k :: string where "wide_k = [CHR 0xE2, CHR 0x84, CHR 0xAA]"
definition wide_s :: string where "wide_s = [CHR 0xC5, CHR 0xBF]"

text \<open>One letter of a \<open>(?i)\<close> literal.\<close>

definition ci_char :: "char \<Rightarrow> rx" where
  "ci_char c = (let plain = Cls (\<lambda>x. lower_char x = lower_char c) in
     if lower_char c = CHR ''k'' then Alt plain (text_rx wide_k)
     else if lower_char c = CHR ''s'' then Alt plain (text_rx wide_s) else plain)"

primrec ci_text :: "string \<Rightarrow> rx" where
  "ci_text [] = Eps"
| "ci_text (c # s) = Seq (ci_char c) (ci_text s)"

text \<open>A \<open>(?i)\<close> class that contains all the letters.\<close>

definition ci_class :: "(char \<Rightarrow> bool) \<Rightarrow> rx" where
  "ci_class p = Alt (Cls (\<lambda>x. p (lower_char x))) (Alt (text_rx wide_k) (text_rx wide_s))"

end
