(* ===== verification/Paths.thy ===== *)
theory Paths
  imports Prelude
begin

section \<open>File paths\<close>

text \<open>
  The functions of \<open>path/filepath\<close> on Unix paths that the program uses: \<open>Clean\<close>, \<open>Join\<close>, \<open>Base\<close>
  and \<open>IsAbs\<close>, as functions on the list of path elements.
\<close>

text \<open>One element onto the elements so far (in reverse): parents cancel, also at the root.\<close>

definition push_element :: "bool \<Rightarrow> string list \<Rightarrow> string \<Rightarrow> string list" where
  "push_element rooted stack e =
     (if e = [] \<or> e = ''.'' then stack
      else if e = ''..'' then
        (case stack of [] \<Rightarrow> if rooted then [] else [''..'']
         | latest # rest \<Rightarrow> if latest = ''..'' then ''..'' # stack else rest)
      else e # stack)"

definition clean_path :: "string \<Rightarrow> string" where
  "clean_path p =
     (let rooted = has_prefix p ''/'';
        body = join ''/'' (rev (foldl (push_element rooted) [] (split_on CHR ''/'' p)))
      in if rooted then CHR ''/'' # body else if body = [] then ''.'' else body)"

definition path_join :: "string list \<Rightarrow> string" where
  "path_join es = (let rest = dropWhile (\<lambda>e. e = []) es in if rest = [] then [] else clean_path (join ''/'' rest))"

text \<open>\<open>filepath.Base\<close>: the last element, ignoring slashes at the end.\<close>

definition path_base :: "string \<Rightarrow> string" where
  "path_base p =
     (if p = [] then ''.''
      else let stripped = rev (dropWhile (\<lambda>c. c = CHR ''/'') (rev p)) in
        if stripped = [] then ''/''
        else case cut_last CHR ''/'' stripped of Some (_, e) \<Rightarrow> e | None \<Rightarrow> stripped)"

definition is_abs :: "string \<Rightarrow> bool" where
  "is_abs p = has_prefix p ''/''"

end
