(* ===== verification/Profile.thy ===== *)
theory Profile
  imports Net_Names Patterns Sha256 Paths "HOL-Library.List_Lexorder" "HOL-Library.Multiset"
begin

section \<open>Connection profiles\<close>

text \<open>
  \<open>internal/config/profile.go\<close>, \<open>heimdal.go\<close> and the name check of \<open>paths.go\<close>: the profile record,
  its patterns and its validation, which every command runs before a session opens anything.
  A Go slice whose \<open>nil\<close> the code tells apart from an empty one is a \<open>list option\<close>; integers are
  \<open>int\<close>, since ports and limits are bounded by the checks and no arithmetic is done on them.
\<close>

record aks =
  aks_name :: string
  aks_resource_group :: string
  aks_subscription :: string

record heimdal_source =
  hs_subscription :: string
  hs_account :: string
  hs_container :: string
  hs_environment :: string
  hs_prefix :: string
  hs_allow_local_fallback :: bool
  hs_allowed_route_suffixes :: "string list option"

record prompt_settings =
  ps_enabled :: bool
  ps_label :: string
  ps_colour :: string
  ps_placement :: string

record profile =
  pf_acr_probe_image :: string
  pf_skip_pull_probe :: bool
  pf_acr_session :: bool
  pf_skip_registry_login :: bool
  pf_requires_pim :: bool
  pf_prompt :: "prompt_settings option"
  pf_environment :: string
  pf_aks :: "aks option"
  pf_private_hosts :: "string list"
  pf_heimdal :: "heimdal_source option"
  pf_registry :: string
  pf_registry_subscription :: string
  pf_subscription :: string
  pf_bastion_name :: string
  pf_bastion_resource_group :: string
  pf_vm_resource_id :: string
  pf_proxy_port :: int
  pf_socks_port :: int
  pf_max_sessions :: int
  pf_ssh_user :: string
  pf_identity_file :: string

text \<open>The zero value of the Go struct.\<close>

definition empty_profile :: profile where
  "empty_profile = \<lparr>pf_acr_probe_image = [], pf_skip_pull_probe = False, pf_acr_session = False,
     pf_skip_registry_login = False, pf_requires_pim = False, pf_prompt = None, pf_environment = [],
     pf_aks = None, pf_private_hosts = [], pf_heimdal = None, pf_registry = [],
     pf_registry_subscription = [], pf_subscription = [], pf_bastion_name = [],
     pf_bastion_resource_group = [], pf_vm_resource_id = [], pf_proxy_port = 0, pf_socks_port = 0,
     pf_max_sessions = 0, pf_ssh_user = [], pf_identity_file = []\<rparr>"

definition standalone_proxy_port :: int where "standalone_proxy_port = 18080"
definition standalone_socks_port :: int where "standalone_socks_port = 18081"
definition max_sessions_limit :: int where "max_sessions_limit = 64"
definition max_allowed_route_suffixes :: nat where "max_allowed_route_suffixes = 64"

datatype profile_error =
    RegistryUnset | RegistryName | ProbeImage | Ports | MaxSessions | AksFields
  | PrivateHostName | ControlPlaneHost | ConnectionFields | SshPair | SshUserName | IdentityPath
  | HeimdalIdentity | HeimdalContainer | HeimdalPrefixLong | HeimdalPrefix
  | HeimdalSuffixCount | HeimdalSuffixName

subsection \<open>Patterns\<close>

definition lower_or_digit :: "char \<Rightarrow> bool" where
  "lower_or_digit c \<longleftrightarrow> is_lower c \<or> is_digit c"

definition registry_pattern :: rx where
  "registry_pattern = rep_range 5 50 (Cls lower_or_digit)"

text \<open>\<open>(?i)^/subscriptions/[a-z0-9-]+/resourceGroups/.../virtualMachines/[a-z0-9_.-]+$\<close>\<close>

definition resource_pattern :: rx where
  "resource_pattern =
     Seq (ci_text ''/subscriptions/'')
    (Seq (plus (ci_class (\<lambda>c. lower_or_digit c \<or> c = CHR ''-'')))
    (Seq (ci_text ''/resourceGroups/'')
    (Seq (plus (ci_class (\<lambda>c. lower_or_digit c \<or> c \<in> set ''_.()-'')))
    (Seq (ci_text ''/providers/Microsoft.Compute/virtualMachines/'')
         (plus (ci_class (\<lambda>c. lower_or_digit c \<or> c \<in> set ''_.-'')))))))"

definition name_byte :: "char \<Rightarrow> bool" where
  "name_byte c \<longleftrightarrow> is_lower c \<or> is_upper c \<or> is_digit c \<or> c \<in> set ''_.()''"

definition name_pattern :: rx where
  "name_pattern = Seq (Cls name_byte) (Star (Cls (\<lambda>c. name_byte c \<or> c = CHR ''-'')))"

text \<open>\<open>[a-z0-9]+(?:[._-][a-z0-9]+)*\<close>, one path component of an image name.\<close>

definition repository_component :: rx where
  "repository_component = Seq (plus (Cls lower_or_digit))
     (Star (Seq (Cls (\<lambda>c. c \<in> set ''._-'')) (plus (Cls lower_or_digit))))"

definition probe_repository_pattern :: rx where
  "probe_repository_pattern = Seq repository_component
    (Seq (Star (Seq (text_rx ''/'') repository_component))
    (Seq (text_rx ''@sha256:'') (rep 64 (Cls is_hex))))"

definition environment_pattern :: rx where
  "environment_pattern = Seq (Cls is_lower) (rep_range 0 62 (Cls (\<lambda>c. lower_or_digit c \<or> c = CHR ''-'')))"

definition metadata_account_pattern :: rx where
  "metadata_account_pattern = rep_range 3 24 (Cls lower_or_digit)"

definition metadata_container_pattern :: rx where
  "metadata_container_pattern = Seq (Cls lower_or_digit)
    (Seq (rep_range 1 61 (Cls (\<lambda>c. lower_or_digit c \<or> c = CHR ''-''))) (Cls lower_or_digit))"

definition metadata_prefix_segment_pattern :: rx where
  "metadata_prefix_segment_pattern = Seq (Cls lower_or_digit)
     (rep_range 0 62 (Cls (\<lambda>c. lower_or_digit c \<or> c \<in> set ''._-'')))"

definition valid_environment_name :: "string \<Rightarrow> bool" where
  "valid_environment_name name = rmatch environment_pattern name"

definition valid_resource_name :: "string \<Rightarrow> bool" where
  "valid_resource_name name = rmatch name_pattern name"

subsection \<open>Routes\<close>

definition public_control_plane_hosts :: "string list" where
  "public_control_plane_hosts = [
     ''login.microsoftonline.com'', ''login.microsoft.com'', ''login.windows.net'',
     ''login.microsoftonline.us'', ''login.chinacloudapi.cn'', ''login.partner.microsoftonline.cn'',
     ''management.azure.com'', ''management.core.windows.net'', ''management.usgovcloudapi.net'',
     ''management.core.usgovcloudapi.net'', ''management.chinacloudapi.cn'',
     ''management.core.chinacloudapi.cn'', ''graph.microsoft.com'', ''graph.microsoft.us'',
     ''dod-graph.microsoft.us'', ''microsoftgraph.chinacloudapi.cn'', ''graph.chinacloudapi.cn'',
     ''graph.windows.net'', ''graph.microsoftazure.us'']"

function public_control_plane_host :: "string \<Rightarrow> bool" where
  "public_control_plane_host name =
     (if name \<in> set public_control_plane_hosts then True
      else case cut CHR ''.'' name of (_, parent, found) \<Rightarrow>
        if \<not> found then False else public_control_plane_host parent)"
  by pat_completeness auto
termination
  by (relation "measure length") (auto dest: cut_shorter')

declare public_control_plane_host.simps [simp del]

fun check_private_hosts :: "string list \<Rightarrow> profile_error err" where
  "check_private_hosts [] = None"
| "check_private_hosts (h # hs) =
     (if \<not> valid_remote_dns_name h then Some PrivateHostName
      else if public_control_plane_host h then Some ControlPlaneHost
      else check_private_hosts hs)"

definition validate_private_hosts :: "profile \<Rightarrow> profile_error err" where
  "validate_private_hosts c = check_private_hosts (pf_private_hosts c)"

subsection \<open>The metadata source\<close>

definition container_name :: "heimdal_source \<Rightarrow> string" where
  "container_name s = (if hs_container s = [] then ''heimdal'' else hs_container s)"

definition blob_prefix :: "heimdal_source \<Rightarrow> string" where
  "blob_prefix s = (if hs_prefix s = [] then ''environments/'' @ hs_environment s else hs_prefix s)"

definition validate_heimdal :: "heimdal_source \<Rightarrow> profile_error err" where
  "validate_heimdal s =
     (if \<not> valid_resource_name (hs_subscription s) \<or> \<not> rmatch metadata_account_pattern (hs_account s)
         \<or> \<not> valid_environment_name (hs_environment s) then Some HeimdalIdentity
      else let container = container_name s in
      if \<not> rmatch metadata_container_pattern container \<or> contains_str container ''--'' then Some HeimdalContainer
      else let prefix = blob_prefix s in
      if length prefix > 256 then Some HeimdalPrefixLong
      else if \<not> list_all (rmatch metadata_prefix_segment_pattern) (split_on CHR ''/'' prefix) then Some HeimdalPrefix
      else case hs_allowed_route_suffixes s of None \<Rightarrow> None
        | Some suffixes \<Rightarrow>
          if suffixes = [] \<or> length suffixes > max_allowed_route_suffixes then Some HeimdalSuffixCount
          else if \<not> list_all valid_remote_dns_name suffixes then Some HeimdalSuffixName else None)"

definition allows_route :: "heimdal_source \<Rightarrow> string \<Rightarrow> bool" where
  "allows_route s h = (case hs_allowed_route_suffixes s of None \<Rightarrow> True
     | Some suffixes \<Rightarrow> list_ex (\<lambda>suffix. h = suffix \<or> has_suffix h (''.'' @ suffix)) suffixes)"

subsection \<open>Validation of a profile\<close>

definition valid_port :: "int \<Rightarrow> bool" where
  "valid_port port \<longleftrightarrow> port = 0 \<or> (port \<ge> 1024 \<and> port \<le> 65535)"

definition validate_proxy :: "profile \<Rightarrow> profile_error err" where
  "validate_proxy c =
     (let prefix = pf_registry c @ ''.azurecr.io/'' in
      if pf_registry c \<noteq> [] \<and> \<not> rmatch registry_pattern (pf_registry c) then Some RegistryName
      else if pf_acr_probe_image c \<noteq> []
        \<and> (pf_registry c = [] \<or> \<not> has_prefix (pf_acr_probe_image c) prefix
           \<or> \<not> rmatch probe_repository_pattern (trim_prefix (pf_acr_probe_image c) prefix)) then Some ProbeImage
      else if \<not> valid_port (pf_proxy_port c) \<or> \<not> valid_port (pf_socks_port c)
        \<or> (pf_proxy_port c \<noteq> 0 \<and> pf_proxy_port c = pf_socks_port c) then Some Ports
      else None)"

definition validate_acr :: "profile \<Rightarrow> profile_error err" where
  "validate_acr c = (if pf_registry c = [] then Some RegistryUnset else validate_proxy c)"

definition validate_connection :: "profile \<Rightarrow> profile_error err" where
  "validate_connection c =
     (if \<not> rmatch name_pattern (pf_subscription c) \<or> \<not> rmatch name_pattern (pf_bastion_name c)
         \<or> \<not> rmatch name_pattern (pf_bastion_resource_group c) \<or> \<not> rmatch resource_pattern (pf_vm_resource_id c)
      then Some ConnectionFields
      else if (pf_ssh_user c = []) \<noteq> (pf_identity_file c = []) then Some SshPair
      else if contains_any (pf_ssh_user c) [CHR 0x0D, CHR 0x0A, CHR 0x09, CHR 0x20] \<or> has_prefix (pf_ssh_user c) ''-''
      then Some SshUserName
      else if pf_identity_file c \<noteq> [] \<and> \<not> is_abs (pf_identity_file c) then Some IdentityPath
      else None)"

definition validate_platform :: "profile \<Rightarrow> profile_error err" where
  "validate_platform c =
     (case (case pf_heimdal c of None \<Rightarrow> None | Some h \<Rightarrow> validate_heimdal h) of Some e \<Rightarrow> Some e | None \<Rightarrow>
      case validate_connection c of Some e \<Rightarrow> Some e | None \<Rightarrow>
      case validate_proxy c of Some e \<Rightarrow> Some e | None \<Rightarrow>
      if pf_max_sessions c < 0 \<or> pf_max_sessions c > max_sessions_limit then Some MaxSessions
      else if (case pf_aks c of None \<Rightarrow> False | Some a \<Rightarrow> \<not> rmatch name_pattern (aks_name a)
          \<or> \<not> rmatch name_pattern (aks_resource_group a) \<or> \<not> rmatch name_pattern (aks_subscription a))
      then Some AksFields
      else validate_private_hosts c)"

definition with_standalone_ports :: "profile \<Rightarrow> profile" where
  "with_standalone_ports c =
     (let c = (if pf_proxy_port c = 0 then c\<lparr>pf_proxy_port := standalone_proxy_port\<rparr> else c) in
      if pf_socks_port c = 0 then c\<lparr>pf_socks_port := standalone_socks_port\<rparr> else c)"

definition loopback :: "int \<Rightarrow> string" where
  "loopback port = join_host_port ''127.0.0.1'' (itoa port)"

definition proxy_url :: "profile \<Rightarrow> string" where
  "proxy_url c = ''http://'' @ loopback (pf_proxy_port c)"

definition proxy_id_input :: "profile \<Rightarrow> string" where
  "proxy_id_input c = pf_registry c @ '':'' @ itoa (pf_socks_port c) @ '':'' @ join '','' (sort (pf_private_hosts c))"

definition proxy_id :: "profile \<Rightarrow> string" where
  "proxy_id c = sha256_hex (proxy_id_input c)"

subsection \<open>The languages of the patterns\<close>

lemma lower_or_digit_iff: "lower_or_digit c \<longleftrightarrow> is_lower c \<or> is_digit c"
  by (simp add: lower_or_digit_def)

lemma registry_pattern_iff:
  "rmatch registry_pattern s \<longleftrightarrow> 5 \<le> length s \<and> length s \<le> 50 \<and> list_all lower_or_digit s"
  by (simp add: registry_pattern_def rmatch_lang lang_rep_range_Cls)

lemma name_pattern_iff:
  "rmatch name_pattern s \<longleftrightarrow>
     (\<exists>c t. s = c # t \<and> name_byte c \<and> list_all (\<lambda>c. name_byte c \<or> c = CHR ''-'') t)"
  unfolding rmatch_lang name_pattern_def lang_Seq_Cls lang_star_Cls by simp

lemma valid_environment_name_iff:
  "valid_environment_name s \<longleftrightarrow>
     (\<exists>c t. s = c # t \<and> is_lower c \<and> length t \<le> 62 \<and> list_all (\<lambda>c. lower_or_digit c \<or> c = CHR ''-'') t)"
  unfolding valid_environment_name_def rmatch_lang environment_pattern_def lang_Seq_Cls
  by (simp add: lang_rep_range_Cls)

lemma metadata_account_iff:
  "rmatch metadata_account_pattern s \<longleftrightarrow> 3 \<le> length s \<and> length s \<le> 24 \<and> list_all lower_or_digit s"
  by (simp add: metadata_account_pattern_def rmatch_lang lang_rep_range_Cls)

lemma ci_text_first: "s \<in> lang (Seq (ci_text (c # cs)) r) \<Longrightarrow> \<exists>a b. s = a @ b \<and> a \<in> lang (ci_char c)"
  by clarsimp blast

lemma lang_ci_char_slash: "a \<in> lang (ci_char CHR ''/'') \<Longrightarrow> a = ''/''"
proof -
  have "lower_char d = CHR ''/'' \<Longrightarrow> d = CHR ''/''" for d
    using byte_lower_char [of d] by (cases "is_upper d") (auto simp: class_byte lower_char_id byte_def)
  moreover have "lower_char CHR ''/'' = CHR ''/''" by (simp add: lower_char_def is_upper_def)
  ultimately show "a \<in> lang (ci_char CHR ''/'') \<Longrightarrow> a = ''/''" by (auto simp: ci_char_def Let_def)
qed

lemma resource_pattern_slash: "rmatch resource_pattern s \<Longrightarrow> has_prefix s ''/''"
  unfolding rmatch_lang resource_pattern_def
  by (drule ci_text_first) (auto dest: lang_ci_char_slash)

text \<open>
  Names that reach the Azure CLI and ssh as arguments: not empty, no leading hyphen, and none of
  the bytes that separate or continue a command line.
\<close>

definition plain_argument :: "string \<Rightarrow> bool" where
  "plain_argument s \<longleftrightarrow> s \<noteq> [] \<and> \<not> has_prefix s ''-'' \<and>
     list_all (\<lambda>c. c \<notin> {CHR 0x00, CHR 0x09, CHR 0x0A, CHR 0x0D, CHR '' '', CHR ''/'', CHR '';'', CHR ''='', CHR ''$''}) s"

lemma name_byte_plain:
  "name_byte c \<Longrightarrow> c \<notin> {CHR 0x00, CHR 0x09, CHR 0x0A, CHR 0x0D, CHR '' '', CHR ''/'', CHR '';'', CHR ''='', CHR ''$'', CHR ''-''}"
  by (auto simp: name_byte_def is_lower_def is_upper_def is_digit_def)

lemma resource_name_plain: "rmatch name_pattern s \<Longrightarrow> plain_argument s"
  unfolding name_pattern_iff plain_argument_def list_all_iff
  using name_byte_plain by (fastforce simp: list_all_iff)

subsection \<open>Public control plane hosts\<close>

lemma public_control_plane_host_suffix:
  "public_control_plane_host name \<longleftrightarrow>
     (\<exists>h \<in> set public_control_plane_hosts. name = h \<or> has_suffix name (CHR ''.'' # h))"
proof (induction name rule: public_control_plane_host.induct)
  case (1 name)
  obtain a b f where cut: "cut CHR ''.'' name = (a, b, f)" by (cases "cut CHR ''.'' name") auto
  show ?case
  proof (cases "name \<in> set public_control_plane_hosts")
    case True
    then show ?thesis by (subst public_control_plane_host.simps) auto
  next
    case False
    note step = public_control_plane_host.simps [of name]
    show ?thesis
    proof (cases f)
      case True
      then have n: "name = a @ CHR ''.'' # b" and a: "CHR ''.'' \<notin> set a"
        using cut_found [of "CHR ''.''" name a b] cut by simp_all
      have suf: "has_suffix name (CHR ''.'' # h) \<longleftrightarrow> b = h \<or> has_suffix b (CHR ''.'' # h)" for h
        using a unfolding n has_suffix_iff
        by (auto simp: append_eq_append_conv2 append_eq_Cons_conv Cons_eq_append_conv)
      have IH: "public_control_plane_host b \<longleftrightarrow>
          (\<exists>h \<in> set public_control_plane_hosts. b = h \<or> has_suffix b (CHR ''.'' # h))"
        using "1.IH" [OF False cut [symmetric]] True by simp
      show ?thesis using step False True cut IH suf by auto
    next
      case nf: False
      then have "CHR ''.'' \<notin> set name" using cut cut_not_found [of "CHR ''.''" name a b] by metis
      then have "\<not> has_suffix name (CHR ''.'' # h)" for h by (auto simp: has_suffix_iff)
      then show ?thesis using step False nf cut by auto
    qed
  qed
qed

lemmas public_control_plane_host_labels = public_control_plane_host_suffix [unfolded split_on_suffix]

text \<open>
  A host is refused as a public control plane host exactly when its list of labels ends with the
  labels of a listed host, so a parent of a listed host, or a name that merely ends with the same
  bytes, is not refused.
\<close>

theorem public_control_plane_host_exact:
  "public_control_plane_host name \<longleftrightarrow>
     (\<exists>h \<in> set public_control_plane_hosts. \<exists>pre. split_on CHR ''.'' name = pre @ split_on CHR ''.'' h)"
  unfolding public_control_plane_host_suffix split_on_suffix ..

lemma check_private_hosts_iff:
  "check_private_hosts hs = None \<longleftrightarrow>
     (\<forall>h \<in> set hs. valid_remote_dns_name h \<and> \<not> public_control_plane_host h)"
  by (induction hs) auto

text \<open>
  A route suffix list of the metadata source allows a host exactly when the host's labels end
  with the labels of a suffix: the match never falls inside a label.
\<close>

theorem allows_route_label_boundary:
  "allows_route s h \<longleftrightarrow> (case hs_allowed_route_suffixes s of None \<Rightarrow> True
     | Some xs \<Rightarrow> \<exists>x \<in> set xs. \<exists>pre. split_on CHR ''.'' h = pre @ split_on CHR ''.'' x)"
  using split_on_suffix [of h _ "CHR ''.''"]
  by (auto simp: allows_route_def list_ex_iff split: option.splits)

subsection \<open>What a validated profile promises\<close>

lemma validate_connection_iff:
  "validate_connection c = None \<longleftrightarrow>
     rmatch name_pattern (pf_subscription c) \<and> rmatch name_pattern (pf_bastion_name c)
     \<and> rmatch name_pattern (pf_bastion_resource_group c) \<and> rmatch resource_pattern (pf_vm_resource_id c)
     \<and> (pf_ssh_user c = [] \<longleftrightarrow> pf_identity_file c = [])
     \<and> \<not> contains_any (pf_ssh_user c) [CHR 0x0D, CHR 0x0A, CHR 0x09, CHR 0x20]
     \<and> \<not> has_prefix (pf_ssh_user c) ''-''
     \<and> (pf_identity_file c \<noteq> [] \<longrightarrow> is_abs (pf_identity_file c))"
  by (auto simp: validate_connection_def)

lemma validate_proxy_iff:
  "validate_proxy c = None \<longleftrightarrow>
     (pf_registry c \<noteq> [] \<longrightarrow> rmatch registry_pattern (pf_registry c))
     \<and> (pf_acr_probe_image c \<noteq> [] \<longrightarrow> pf_registry c \<noteq> []
         \<and> has_prefix (pf_acr_probe_image c) (pf_registry c @ ''.azurecr.io/'')
         \<and> rmatch probe_repository_pattern
             (trim_prefix (pf_acr_probe_image c) (pf_registry c @ ''.azurecr.io/'')))
     \<and> valid_port (pf_proxy_port c) \<and> valid_port (pf_socks_port c)
     \<and> (pf_proxy_port c = 0 \<or> pf_proxy_port c \<noteq> pf_socks_port c)"
  by (auto simp: validate_proxy_def Let_def)

lemma validate_platform_iff:
  "validate_platform c = None \<longleftrightarrow>
     (\<forall>h. pf_heimdal c = Some h \<longrightarrow> validate_heimdal h = None)
     \<and> validate_connection c = None \<and> validate_proxy c = None
     \<and> 0 \<le> pf_max_sessions c \<and> pf_max_sessions c \<le> max_sessions_limit
     \<and> (\<forall>a. pf_aks c = Some a \<longrightarrow> rmatch name_pattern (aks_name a)
         \<and> rmatch name_pattern (aks_resource_group a) \<and> rmatch name_pattern (aks_subscription a))
     \<and> validate_private_hosts c = None"
  by (auto simp: validate_platform_def split: option.splits)

lemma validate_platform_hosts:
  assumes "validate_platform c = None" "mset (pf_private_hosts c) = mset hs"
  shows "validate_platform (c\<lparr>pf_private_hosts := hs\<rparr>) = None"
proof -
  have "validate_connection (c\<lparr>pf_private_hosts := hs\<rparr>) = validate_connection c"
    "validate_proxy (c\<lparr>pf_private_hosts := hs\<rparr>) = validate_proxy c"
    by (simp_all add: validate_connection_def validate_proxy_def Let_def)
  then show ?thesis using assms mset_eq_setD [OF assms(2)]
    by (simp add: validate_platform_iff validate_private_hosts_def check_private_hosts_iff)
qed


definition sample_profile :: profile where
  "sample_profile = empty_profile\<lparr>pf_registry := ''demoreg'', pf_subscription := ''sub-1'',
     pf_bastion_name := ''bastion'', pf_bastion_resource_group := ''rg'',
     pf_vm_resource_id := ''/subscriptions/a-1/resourceGroups/rg/providers/Microsoft.Compute/virtualMachines/vm'',
     pf_aks := Some \<lparr>aks_name = ''aks'', aks_resource_group = ''rg'', aks_subscription = ''sub-1''\<rparr>,
     pf_private_hosts := [''api.demo.internal'', ''db.demo.internal'']\<rparr>"

lemma sample_profile_valid: "validate_platform sample_profile = None"
  by code_simp


text \<open>
  C30. Filling in the standalone ports keeps a profile's ports valid exactly when a configured port is
  not the standalone port of the other side; the excluded case is reachable, because a lone
  \<open>socks_port\<close> of 18080 passes the validation.
\<close>

theorem with_standalone_ports_valid:
  assumes "validate_proxy c = None"
  shows "validate_proxy (with_standalone_ports c) = None \<longleftrightarrow>
     \<not> (pf_proxy_port c = 0 \<and> pf_socks_port c = standalone_proxy_port)
     \<and> \<not> (pf_socks_port c = 0 \<and> pf_proxy_port c = standalone_socks_port)"
  using assms
  by (auto simp: validate_proxy_iff with_standalone_ports_def valid_port_def Let_def
      standalone_proxy_port_def standalone_socks_port_def)

theorem with_standalone_ports_valid_witness:
  "validate_proxy (with_standalone_ports (empty_profile\<lparr>pf_socks_port := 18080\<rparr>)) \<noteq> None"
proof -
  have "validate_proxy (empty_profile\<lparr>pf_socks_port := 18080\<rparr>) = None"
    by (simp add: validate_proxy_iff valid_port_def empty_profile_def)
  from with_standalone_ports_valid [OF this] show ?thesis
    by (simp add: empty_profile_def standalone_proxy_port_def)
qed

subsection \<open>The identity of a proxy\<close>

lemma itoa_no_sep: "0 \<le> i \<Longrightarrow> \<not> is_digit c \<Longrightarrow> c \<notin> set (itoa i)"
  using nat_text_digits [of "nat i"] by (auto simp: itoa_def list_all_iff)

lemma itoa_inject: "0 \<le> i \<Longrightarrow> 0 \<le> j \<Longrightarrow> itoa i = itoa j \<Longrightarrow> i = j"
proof -
  assume "0 \<le> i" "0 \<le> j" "itoa i = itoa j"
  then have "nat_of_text (nat_text (nat i)) = nat_of_text (nat_text (nat j))" and pos: "0 \<le> i" "0 \<le> j"
    by (simp_all add: itoa_def)
  then have "nat i = nat j" by simp
  then show "i = j" using pos by simp
qed

lemma not_digit_colon: "\<not> is_digit CHR '':''"
  by (simp add: is_digit_def)

lemma registry_no_colon: "rmatch registry_pattern s \<Longrightarrow> CHR '':'' \<notin> set s"
  by (auto simp: registry_pattern_iff list_all_iff lower_or_digit_def is_lower_def is_digit_def)

lemma join_inject:
  assumes "join [c] xs = join [c] ys" "\<And>x. x \<in> set xs \<union> set ys \<Longrightarrow> x \<noteq> [] \<and> c \<notin> set x"
  shows "xs = ys"
proof -
  have empty: "join [c] zs \<noteq> []" if "x \<in> set zs" "x \<noteq> []" for x zs
    using that by (cases "([c], zs)" rule: join.cases) auto
  show ?thesis
  proof (cases "xs = [] \<or> ys = []")
    case True
    then show ?thesis
    proof
      assume "xs = []"
      then show ?thesis using empty [of "hd ys" ys] assms(1) assms(2) [of "hd ys"] by (cases ys) auto
    next
      assume "ys = []"
      then show ?thesis using empty [of "hd xs" xs] assms(1) assms(2) [of "hd xs"] by (cases xs) auto
    qed
  next
    case False
    then have ne: "xs \<noteq> []" "ys \<noteq> []" by simp_all
    have "split_on c (join [c] xs) = xs" by (rule split_on_join [OF ne(1)]) (use assms(2) in blast)
    moreover have "split_on c (join [c] ys) = ys" by (rule split_on_join [OF ne(2)]) (use assms(2) in blast)
    ultimately show ?thesis using assms(1) by metis
  qed
qed

text \<open>
  The text that a proxy's identity is the digest of determines what the proxy serves: two
  validated profiles have the same text exactly when registry, SOCKS port and private hosts (with
  their multiplicities, in any order) agree. The digest itself is compared by \<open>requireProxy\<close>.
\<close>

theorem proxy_id_input_exact:
  assumes "validate_platform c = None" "validate_platform d = None"
  shows "proxy_id_input c = proxy_id_input d \<longleftrightarrow>
     pf_registry c = pf_registry d \<and> pf_socks_port c = pf_socks_port d
     \<and> mset (pf_private_hosts c) = mset (pf_private_hosts d)"
proof
  assume eq: "proxy_id_input c = proxy_id_input d"
  have reg: "CHR '':'' \<notin> set (pf_registry x)" and port: "0 \<le> pf_socks_port x"
    if "validate_platform x = None" for x
    using that registry_no_colon by (cases "pf_registry x = []";
        auto simp: validate_platform_iff validate_proxy_iff valid_port_def)+
  have hosts: "h \<noteq> [] \<and> CHR '','' \<notin> set h" if "validate_platform x = None" "h \<in> set (pf_private_hosts x)" for x h
    using that remote.valid_nonempty [of h] remote.valid_clean [of h "CHR '',''"]
    by (auto simp: validate_platform_iff validate_private_hosts_def check_private_hosts_iff)
  let ?rest = "\<lambda>x. itoa (pf_socks_port x) @ CHR '':'' # join '','' (sort (pf_private_hosts x))"
  have shape: "proxy_id_input x = pf_registry x @ CHR '':'' # ?rest x" for x
    by (simp add: proxy_id_input_def)
  have colon: "CHR '':'' \<notin> set (itoa (pf_socks_port x))" if "validate_platform x = None" for x
    by (rule itoa_no_sep [OF port [OF that] not_digit_colon])
  from eq have "pf_registry c @ CHR '':'' # ?rest c = pf_registry d @ CHR '':'' # ?rest d"
    unfolding shape .
  then have r: "pf_registry c = pf_registry d" and rest: "?rest c = ?rest d"
    using cut_append_inject [OF reg [OF assms(1)] reg [OF assms(2)]] by blast+
  have p: "itoa (pf_socks_port c) = itoa (pf_socks_port d)"
    and j: "join '','' (sort (pf_private_hosts c)) = join '','' (sort (pf_private_hosts d))"
    using rest cut_append_inject [OF colon [OF assms(1)] colon [OF assms(2)]] by blast+
  have "sort (pf_private_hosts c) = sort (pf_private_hosts d)"
    using j hosts assms by (intro join_inject [of "CHR '',''"]) auto
  then have "mset (sort (pf_private_hosts c)) = mset (sort (pf_private_hosts d))" by (rule arg_cong)
  then show "pf_registry c = pf_registry d \<and> pf_socks_port c = pf_socks_port d
     \<and> mset (pf_private_hosts c) = mset (pf_private_hosts d)"
    using r itoa_inject [OF port [OF assms(1)] port [OF assms(2)] p] by simp
next
  assume "pf_registry c = pf_registry d \<and> pf_socks_port c = pf_socks_port d
     \<and> mset (pf_private_hosts c) = mset (pf_private_hosts d)"
  moreover from this have "sort (pf_private_hosts c) = sort (pf_private_hosts d)"
    by (intro properties_for_sort) simp_all
  ultimately show "proxy_id_input c = proxy_id_input d" by (simp add: proxy_id_input_def)
qed

theorem proxy_id_input_exact_witness:
  "proxy_id_input sample_profile =
   proxy_id_input (sample_profile\<lparr>pf_private_hosts := [''db.demo.internal'', ''api.demo.internal'']\<rparr>)"
proof -
  let ?d = "sample_profile\<lparr>pf_private_hosts := [''db.demo.internal'', ''api.demo.internal'']\<rparr>"
  have hosts: "mset (pf_private_hosts sample_profile) = mset [''db.demo.internal'', ''api.demo.internal'']"
    by (simp add: sample_profile_def)
  then have "validate_platform ?d = None"
    using validate_platform_hosts sample_profile_valid by metis
  from proxy_id_input_exact [OF sample_profile_valid this] show ?thesis using hosts by simp
qed

end
