(* ===== verification/Session_Registry.thy ===== *)
theory Session_Registry
  imports Profile
begin

section \<open>The registry of active sessions\<close>

text \<open>
  \<open>internal/session/active_sessions.go\<close>. The registry is a directory with one record file per
  session. Its state is the list of its files in the order \<open>os.ReadDir\<close> lists them (by name), each
  with its kind, whether a live process holds its lock, and what \<open>json.Unmarshal\<close> yields on its bytes
  (\<open>None\<close> for bytes that do not decode or are longer than \<open>maxSessionRecordSize\<close>). A scan, and every
  operation that starts with one, runs under \<open>registry.lock\<close> and so is one step of the system. The
  answers of the file system are a record of outcomes (\<open>fs\<close>), so every failing call is a branch.
\<close>

record session_record =
  sr_id :: string
  sr_environment :: string
  sr_command :: string
  sr_pid :: int
  sr_started :: int
  sr_max_sessions :: int
  sr_proxy_port :: int
  sr_socks_port :: int
  sr_acr :: bool

definition blank_record :: "string \<Rightarrow> session_record" where
  "blank_record i = \<lparr>sr_id = i, sr_environment = [], sr_command = [], sr_pid = 0, sr_started = 0,
     sr_max_sessions = 0, sr_proxy_port = 0, sr_socks_port = 0, sr_acr = False\<rparr>"

record record_file =
  rf_name :: string
  rf_regular :: bool
  rf_locked :: bool
  rf_data :: "session_record option"

type_synonym registry = "record_file list"

record active_session =
  as_name :: string
  as_open :: bool
  as_record :: session_record

datatype registry_error =
    RegistryOpen | RegistryLock | RegistryTimeout | RegistryCancelled | RegistryInspect
  | StaleRecord | SessionLimit nat int | SessionId | RecordCreate | RecordLock | RecordWrite
  | SessionEnded | AcrClaimed string

text \<open>The outcomes of the system calls one operation makes.\<close>

datatype open_result = Opened | NotExist | OpenFailed
datatype remove_result = Removed | RemoveNotExist | RemoveFailed

record fs =
  fs_readdir :: bool
  fs_open :: "string \<Rightarrow> open_result"
  fs_lock_err :: "string \<Rightarrow> bool"
  fs_remove :: "string \<Rightarrow> remove_result"
  fs_read :: "string \<Rightarrow> bool"
  fs_truncate :: bool
  fs_write :: bool

definition session_record_prefix :: string where "session_record_prefix = ''session-''"
definition session_record_suffix :: string where "session_record_suffix = ''.json''"

definition record_name :: "string \<Rightarrow> string" where
  "record_name i = session_record_prefix @ i @ session_record_suffix"

definition record_id :: "string \<Rightarrow> string" where
  "record_id name = trim_suffix (trim_prefix name session_record_prefix) session_record_suffix"

subsection \<open>Taking the registry lock\<close>

datatype lock_try = LockErr | Locked | Busy

text \<open>
  \<open>lockSessionRegistry\<close>: attempt \<open>k\<close> sees the lock's answer, the milliseconds since the first
  attempt and whether the context is done; an attempt that finds the lock busy waits 50 ms. The fuel
  bounds the attempts; \<open>None\<close> is a loop that has not ended.
\<close>

definition session_registry_wait :: nat where "session_registry_wait = 10000"
definition session_registry_retries :: nat where "session_registry_retries = 50"

fun lock_session_registry ::
  "nat \<Rightarrow> (nat \<Rightarrow> lock_try) \<Rightarrow> (nat \<Rightarrow> nat) \<Rightarrow> (nat \<Rightarrow> bool) \<Rightarrow> nat \<Rightarrow> registry_error err option" where
  "lock_session_registry 0 try elapsed cancelled k = None"
| "lock_session_registry (Suc fuel) try elapsed cancelled k =
     (case try k of LockErr \<Rightarrow> Some (Some RegistryLock)
      | Locked \<Rightarrow> Some None
      | Busy \<Rightarrow> if elapsed k > session_registry_wait then Some (Some RegistryTimeout)
          else if cancelled k then Some (Some RegistryCancelled)
          else lock_session_registry fuel try elapsed cancelled (Suc k))"

subsection \<open>Scanning\<close>

definition is_record_file :: "record_file \<Rightarrow> bool" where
  "is_record_file f \<longleftrightarrow> has_prefix (rf_name f) session_record_prefix
     \<and> has_suffix (rf_name f) session_record_suffix \<and> rf_regular f"

text \<open>What one entry does: it stays out of the result, is dropped as stale, or counts as live.\<close>

datatype scanned = Skipped | Stale | Failed | Live session_record

definition scan_entry :: "fs \<Rightarrow> record_file \<Rightarrow> scanned" where
  "scan_entry e f = (let name = rf_name f; i = record_id name in
     if \<not> is_record_file f then Skipped
     else case fs_open e name of
       NotExist \<Rightarrow> Skipped
     | OpenFailed \<Rightarrow> Live (blank_record i)
     | Opened \<Rightarrow>
         if \<not> fs_lock_err e name \<and> \<not> rf_locked f then
           (if fs_remove e name = RemoveFailed then Failed else Stale)
         else if fs_lock_err e name \<or> \<not> fs_read e name then Live (blank_record i)
         else case rf_data f of None \<Rightarrow> Live (blank_record i)
           | Some r \<Rightarrow> if sr_id r \<noteq> i then Live (blank_record i) else Live r)"

fun scan_sessions :: "fs \<Rightarrow> registry \<Rightarrow> registry \<times> (registry_error, session_record list) res" where
  "scan_sessions e [] = ([], Inr [])"
| "scan_sessions e (f # fs) =
     (case scan_entry e f of
        Failed \<Rightarrow> (f # fs, Inl StaleRecord)
      | Skipped \<Rightarrow> (case scan_sessions e fs of (d, r) \<Rightarrow> (f # d, r))
      | Stale \<Rightarrow> scan_sessions e fs
      | Live r \<Rightarrow> (case scan_sessions e fs of
            (d, Inl err) \<Rightarrow> (f # d, Inl err)
          | (d, Inr rs) \<Rightarrow> (f # d, Inr (r # rs))))"

definition scan_registry :: "fs \<Rightarrow> registry \<Rightarrow> registry \<times> (registry_error, session_record list) res" where
  "scan_registry e d = (if \<not> fs_readdir e then (d, Inl RegistryInspect) else scan_sessions e d)"

text \<open>The lowest limit among active sessions, or 0.\<close>

definition session_limit_of :: "session_record list \<Rightarrow> int" where
  "session_limit_of active = foldl (\<lambda>limit r.
     if sr_max_sessions r > 0 \<and> (limit = 0 \<or> sr_max_sessions r < limit) then sr_max_sessions r else limit) 0 active"

text \<open>\<open>sessionLimit\<close>, with the outcome of \<open>CountEnvironments\<close>.\<close>

definition session_limit :: "profile \<Rightarrow> int option \<Rightarrow> int" where
  "session_limit c environments = (if pf_max_sessions c > 0 then pf_max_sessions c
     else case environments of None \<Rightarrow> 1 | Some n \<Rightarrow> if n < 1 then 1 else n)"

subsection \<open>Record files\<close>

definition set_file :: "string \<Rightarrow> (record_file \<Rightarrow> record_file) \<Rightarrow> registry \<Rightarrow> registry" where
  "set_file name g d = map (\<lambda>f. if rf_name f = name then g f else f) d"

definition drop_file :: "string \<Rightarrow> registry \<Rightarrow> registry" where
  "drop_file name d = filter (\<lambda>f. rf_name f \<noteq> name) d"

definition has_file :: "string \<Rightarrow> registry \<Rightarrow> bool" where
  "has_file name d = list_ex (\<lambda>f. rf_name f = name) d"

definition new_file :: "string \<Rightarrow> registry \<Rightarrow> registry" where
  "new_file name d = insort_key rf_name \<lparr>rf_name = name, rf_regular = True, rf_locked = False, rf_data = None\<rparr> d"

text \<open>A failed truncation leaves the bytes; a failed write after it leaves none that decode.\<close>

definition write_locked :: "fs \<Rightarrow> active_session \<Rightarrow> registry \<Rightarrow> registry \<times> registry_error err" where
  "write_locked e s d =
     (if \<not> fs_truncate e then (d, Some RecordWrite)
      else if \<not> fs_write e then (set_file (as_name s) (\<lambda>f. f\<lparr>rf_data := None\<rparr>) d, Some RecordWrite)
      else (set_file (as_name s) (\<lambda>f. f\<lparr>rf_data := Some (as_record s)\<rparr>) d, None))"

definition remove_locked :: "fs \<Rightarrow> active_session \<Rightarrow> registry \<Rightarrow> active_session \<times> registry" where
  "remove_locked e s d =
     (let d = set_file (as_name s) (\<lambda>f. f\<lparr>rf_locked := False\<rparr>) d in
      (s\<lparr>as_open := False\<rparr>, if fs_remove e (as_name s) = Removed then drop_file (as_name s) d else d))"

subsection \<open>Operations of a session\<close>

record registration =
  rg_environment :: string
  rg_command :: string
  rg_pid :: int
  rg_now :: int
  rg_limit :: int
  rg_lock :: "registry_error err"
  rg_id :: "string option"
  rg_create :: bool
  rg_record_lock :: bool

definition effective_limit :: "int \<Rightarrow> session_record list \<Rightarrow> int" where
  "effective_limit limit active =
     (let lowest = session_limit_of active in if lowest > 0 \<and> lowest < limit then lowest else limit)"

definition new_session :: "registration \<Rightarrow> string \<Rightarrow> active_session" where
  "new_session q i = \<lparr>as_name = record_name i, as_open = True,
     as_record = (blank_record i)\<lparr>sr_environment := rg_environment q, sr_command := rg_command q,
       sr_pid := rg_pid q, sr_started := rg_now q, sr_max_sessions := rg_limit q\<rparr>\<rparr>"

definition register_session ::
  "fs \<Rightarrow> registration \<Rightarrow> registry \<Rightarrow> registry \<times> (registry_error, active_session) res" where
  "register_session e q d = (case rg_lock q of Some err \<Rightarrow> (d, Inl err) | None \<Rightarrow>
     case scan_registry e d of (d, Inl err) \<Rightarrow> (d, Inl err) | (d, Inr active) \<Rightarrow>
     let effective = effective_limit (rg_limit q) active in
     if int (length active) \<ge> effective then (d, Inl (SessionLimit (length active) effective))
     else case rg_id q of None \<Rightarrow> (d, Inl SessionId) | Some i \<Rightarrow>
     let name = record_name i in
     if \<not> rg_create q \<or> has_file name d then (d, Inl RecordCreate)
     else let d = new_file name d in
     if \<not> rg_record_lock q then
       (if fs_remove e name = Removed then drop_file name d else d, Inl RecordLock)
     else let d = set_file name (\<lambda>f. f\<lparr>rf_locked := True\<rparr>) d; s = new_session q i in
     case write_locked e s d of
       (d, Some err) \<Rightarrow> (snd (remove_locked e s d), Inl err)
     | (d, None) \<Rightarrow> (d, Inr s))"

text \<open>
  \<open>update\<close>: the change runs on a copy of the record, under the registry lock; the session keeps the
  changed record even when writing it fails.
\<close>

definition update_session ::
  "fs \<Rightarrow> registry_error err \<Rightarrow> (session_record \<Rightarrow> session_record list \<Rightarrow> (registry_error, session_record) res)
    \<Rightarrow> active_session \<Rightarrow> registry \<Rightarrow> active_session \<times> registry \<times> registry_error err" where
  "update_session e lock change s d =
     (if \<not> as_open s then (s, d, Some SessionEnded)
      else case lock of Some err \<Rightarrow> (s, d, Some err) | None \<Rightarrow>
      case scan_registry e d of (d, Inl err) \<Rightarrow> (s, d, Some err) | (d, Inr active) \<Rightarrow>
      case change (as_record s) active of Inl err \<Rightarrow> (s, d, Some err) | Inr r \<Rightarrow>
      let s = s\<lparr>as_record := r\<rparr> in
      case write_locked e s d of (d, err) \<Rightarrow> (s, d, err))"

definition change_ports :: "int \<Rightarrow> int \<Rightarrow> session_record \<Rightarrow> session_record list \<Rightarrow> (registry_error, session_record) res" where
  "change_ports p q r active = Inr (r\<lparr>sr_proxy_port := p, sr_socks_port := q\<rparr>)"

fun change_claim :: "session_record \<Rightarrow> session_record list \<Rightarrow> (registry_error, session_record) res" where
  "change_claim r [] = Inr (r\<lparr>sr_acr := True\<rparr>)"
| "change_claim r (other # active) =
     (if sr_id other \<noteq> sr_id r \<and> sr_acr other
      then Inl (AcrClaimed (if sr_environment other = [] then ''unknown'' else sr_environment other))
      else change_claim r active)"

definition change_release :: "session_record \<Rightarrow> session_record list \<Rightarrow> (registry_error, session_record) res" where
  "change_release r active = Inr (r\<lparr>sr_acr := False\<rparr>)"

definition set_ports :: "fs \<Rightarrow> registry_error err \<Rightarrow> int \<Rightarrow> int \<Rightarrow> active_session \<Rightarrow> registry
    \<Rightarrow> active_session \<times> registry \<times> registry_error err" where
  "set_ports e lock p q = update_session e lock (change_ports p q)"

definition claim_acr :: "fs \<Rightarrow> registry_error err \<Rightarrow> active_session \<Rightarrow> registry
    \<Rightarrow> active_session \<times> registry \<times> registry_error err" where
  "claim_acr e lock = update_session e lock change_claim"

definition release_acr :: "fs \<Rightarrow> registry_error err \<Rightarrow> active_session \<Rightarrow> registry \<Rightarrow> active_session \<times> registry" where
  "release_acr e lock s d = (case update_session e lock change_release s d of (s, d, _) \<Rightarrow> (s, d))"

text \<open>\<open>close\<close> removes the record whether or not the registry lock could be taken.\<close>

definition close_session :: "fs \<Rightarrow> active_session \<Rightarrow> registry \<Rightarrow> active_session \<times> registry" where
  "close_session e s d = (if \<not> as_open s then (s, d) else remove_locked e s d)"

subsection \<open>Listing\<close>

definition list_row :: "(int \<Rightarrow> string) \<Rightarrow> session_record \<Rightarrow> string list" where
  "list_row local_time r = [
     if sr_environment r \<noteq> [] then sr_environment r else ''unknown'',
     if sr_command r \<noteq> [] then sr_command r else ''-'',
     if sr_started r \<noteq> 0 then local_time (sr_started r) else ''-'',
     if sr_pid r > 0 then itoa (sr_pid r) else ''-'',
     if sr_proxy_port r > 0 then loopback (sr_proxy_port r) else ''-'',
     if sr_socks_port r > 0 then loopback (sr_socks_port r) else ''-'',
     if sr_acr r then ''enabled'' else ''-'']"

definition write_session_list :: "(int \<Rightarrow> string) \<Rightarrow> session_record list \<Rightarrow> string list list" where
  "write_session_list local_time active =
     (if active = [] then [[''No active Bivrost sessions.'']]
      else [''ENVIRONMENT'', ''COMMAND'', ''STARTED'', ''PID'', ''PROXY'', ''SOCKS'', ''ACR'']
        # map (list_row local_time) (sort_key sr_started active)
        @ (if session_limit_of active > 0 then [[''Session limit: '' @ itoa (session_limit_of active)]] else []))"

subsection \<open>Waiting for the lock ends\<close>

lemma lock_session_registry_progress:
  assumes "\<And>k. elapsed k + session_registry_retries \<le> elapsed (Suc k)"
    and "elapsed k + n * session_registry_retries > session_registry_wait"
  shows "lock_session_registry (Suc n) try elapsed cancelled k \<noteq> None"
  using assms(2)
proof (induction n arbitrary: k)
  case 0
  then show ?case by (simp split: lock_try.splits)
next
  case (Suc n)
  have "session_registry_wait < elapsed (Suc k) + n * session_registry_retries"
    using Suc.prems assms(1) [of k] by simp
  then have "lock_session_registry (Suc n) try elapsed cancelled (Suc k) \<noteq> None" by (rule Suc.IH)
  then show ?case by (subst lock_session_registry.simps) (simp split: lock_try.splits)
qed

text \<open>
  C5. Waiting for the registry lock always ends: with a clock that advances at least the retry interval
  per attempt, the loop returns within 202 attempts, whatever the lock answers.
\<close>

theorem lock_session_registry_returns:
  assumes "\<forall>k. elapsed k + session_registry_retries \<le> elapsed (Suc k)"
  shows "\<exists>r. lock_session_registry 202 try elapsed cancelled 0 = Some r"
proof -
  have "elapsed 0 + 201 * session_registry_retries > session_registry_wait"
    by (simp add: session_registry_wait_def session_registry_retries_def)
  from lock_session_registry_progress [OF assms [rule_format] this]
  have "lock_session_registry (Suc 201) try elapsed cancelled 0 \<noteq> None" .
  moreover have "Suc 201 = 202" by simp
  ultimately show ?thesis by (metis not_None_eq)
qed

theorem lock_session_registry_returns_witness:
  "\<exists>r. lock_session_registry 202 (\<lambda>_. Busy) (\<lambda>k. 50 * k) (\<lambda>_. False) 0 = Some r"
  by (rule lock_session_registry_returns) (simp add: session_registry_retries_def)

subsection \<open>What a scan keeps and returns\<close>

lemma record_id_name [simp]: "record_id (record_name i) = i"
  by (simp add: record_id_def record_name_def)

lemma record_name_inject: "record_name i = record_name j \<longleftrightarrow> i = j"
  by (simp add: record_name_def)

lemma is_record_file_name: "rf_name f = record_name i \<Longrightarrow> rf_regular f \<Longrightarrow> is_record_file f"
  unfolding is_record_file_def record_name_def by (metis append.assoc has_prefix_append has_suffix_append)

text \<open>A file that counts for a scan whose calls all work: a record that a live process has locked.\<close>

definition live_file :: "record_file \<Rightarrow> bool" where
  "live_file f \<longleftrightarrow> is_record_file f \<and> rf_locked f"

definition fs_reliable :: "fs \<Rightarrow> bool" where
  "fs_reliable e \<longleftrightarrow> fs_readdir e \<and> fs_truncate e \<and> fs_write e
     \<and> fs_open e = (\<lambda>_. Opened) \<and> fs_lock_err e = (\<lambda>_. False) \<and> fs_read e = (\<lambda>_. True)"

definition decodes :: "record_file \<Rightarrow> bool" where
  "decodes f \<longleftrightarrow> (\<exists>r. rf_data f = Some r \<and> rf_name f = record_name (sr_id r))"

lemma scan_entry_reliable:
  "fs_reliable e \<Longrightarrow> live_file f \<Longrightarrow> decodes f \<Longrightarrow> scan_entry e f = Live (the (rf_data f))"
  by (auto simp: scan_entry_def fs_reliable_def live_file_def decodes_def Let_def)

lemma scan_entry_not_live: "fs_reliable e \<Longrightarrow> \<not> live_file f \<Longrightarrow> scan_entry e f \<in> {Skipped, Stale, Failed}"
  by (auto simp: scan_entry_def fs_reliable_def live_file_def Let_def)

lemma scan_sessions_files:
  assumes "fs_reliable e" "\<forall>f \<in> set d. live_file f \<longrightarrow> decodes f" "scan_sessions e d = (d', r)"
  shows "set d' \<subseteq> set d \<and> filter live_file d' = filter live_file d
     \<and> (distinct (map rf_name d) \<longrightarrow> distinct (map rf_name d'))
     \<and> (\<forall>rs. r = Inr rs \<longrightarrow> rs = map (the \<circ> rf_data) (filter live_file d))"
  using assms(2,3)
proof (induction d arbitrary: d' r)
  case Nil
  then show ?case by auto
next
  case (Cons f d)
  obtain d1 r1 where rest: "scan_sessions e d = (d1, r1)" by (cases "scan_sessions e d")
  have IH: "set d1 \<subseteq> set d" "filter live_file d1 = filter live_file d"
    "distinct (map rf_name d) \<longrightarrow> distinct (map rf_name d1)"
    "\<forall>rs. r1 = Inr rs \<longrightarrow> rs = map (the \<circ> rf_data) (filter live_file d)"
    using Cons.IH [OF _ rest] Cons.prems(1) by auto
  have names: "distinct (map rf_name (f # d)) \<Longrightarrow> distinct (map rf_name (f # d1))"
    using IH(1,3) by (simp add: subset_iff image_iff)
  show ?case
  proof (cases "live_file f")
    case True
    then have "scan_entry e f = Live (the (rf_data f))"
      using assms(1) Cons.prems(1) by (simp add: scan_entry_reliable)
    then obtain "d' = f # d1" and "\<forall>rs. r = Inr rs \<longrightarrow> (\<exists>rs'. r1 = Inr rs' \<and> rs = the (rf_data f) # rs')"
      using Cons.prems(2) rest by (auto split: sum.splits)
    then show ?thesis using IH names True by auto
  next
    case False
    then have "scan_entry e f \<in> {Skipped, Stale, Failed}" using assms(1) by (rule scan_entry_not_live [rotated])
    then consider "d' = f # d1" "r = r1" | "d' = d1" "r = r1" | "d' = f # d" "r = Inl StaleRecord"
      using Cons.prems(2) rest by auto
    then show ?thesis
    proof cases
      case 1
      then show ?thesis using IH names False by auto
    next
      case 2
      then show ?thesis using IH(2-4) subset_trans [OF IH(1) set_subset_Cons] False by auto
    next
      case 3
      then show ?thesis by simp
    qed
  qed
qed

lemma scan_registry_files:
  assumes "fs_reliable e" "\<forall>f \<in> set d. live_file f \<longrightarrow> decodes f" "scan_registry e d = (d', r)"
  shows "set d' \<subseteq> set d" "filter live_file d' = filter live_file d"
    "distinct (map rf_name d) \<Longrightarrow> distinct (map rf_name d')"
    "r = Inr rs \<Longrightarrow> rs = map (the \<circ> rf_data) (filter live_file d)"
  using scan_sessions_files [OF assms(1,2), of d' r] assms(1,3)
  by (auto simp: scan_registry_def fs_reliable_def)

subsection \<open>The system of sessions\<close>

text \<open>
  All processes of a user at once: the registry with the sessions that are running. A session can
  also crash, which only drops its lock; every other step runs the operations above with file
  system calls that work (removals may still fail), in any order and with any answers of the lock.
\<close>

inductive session_step :: "registry \<times> active_session list \<Rightarrow> registry \<times> active_session list \<Rightarrow> bool" where
  Register: "fs_reliable e \<Longrightarrow> register_session e q d = (d', r) \<Longrightarrow>
     session_step (d, ss) (d', (case r of Inl _ \<Rightarrow> ss | Inr s \<Rightarrow> s # ss))"
| Ports: "fs_reliable e \<Longrightarrow> set_ports e lock p q s d = (s', d', err) \<Longrightarrow>
     session_step (d, us @ s # vs) (d', us @ s' # vs)"
| Claim: "fs_reliable e \<Longrightarrow> claim_acr e lock s d = (s', d', err) \<Longrightarrow>
     session_step (d, us @ s # vs) (d', us @ s' # vs)"
| Release: "fs_reliable e \<Longrightarrow> release_acr e lock s d = (s', d') \<Longrightarrow>
     session_step (d, us @ s # vs) (d', us @ s' # vs)"
| Close: "close_session e s d = (s', d') \<Longrightarrow> session_step (d, us @ s # vs) (d', us @ vs)"
| Crash: "session_step (d, us @ s # vs) (set_file (as_name s) (\<lambda>f. f\<lparr>rf_locked := False\<rparr>) d, us @ vs)"
| Scan: "fs_reliable e \<Longrightarrow> scan_registry e d = (d', r) \<Longrightarrow> session_step (d, ss) (d', ss)"

inductive session_reachable :: "registry \<times> active_session list \<Rightarrow> bool" where
  Start: "distinct (map rf_name d) \<Longrightarrow> \<forall>f \<in> set d. \<not> rf_locked f \<Longrightarrow> session_reachable (d, [])"
| Step: "session_reachable x \<Longrightarrow> session_step x y \<Longrightarrow> session_reachable y"

definition recorded :: "registry \<Rightarrow> active_session \<Rightarrow> bool" where
  "recorded d s \<longleftrightarrow> as_open s \<and> as_name s = record_name (sr_id (as_record s))
     \<and> (\<exists>f \<in> set d. rf_name f = as_name s \<and> live_file f \<and> rf_data f = Some (as_record s))"

text \<open>The files and the running sessions correspond.\<close>

definition registry_inv :: "registry \<Rightarrow> active_session list \<Rightarrow> bool" where
  "registry_inv d ss \<longleftrightarrow> distinct (map rf_name d) \<and> distinct (map as_name ss)
     \<and> (\<forall>s \<in> set ss. recorded d s) \<and> (\<forall>f \<in> set d. live_file f \<longrightarrow> (\<exists>s \<in> set ss. rf_name f = as_name s))"

lemma same_name: "distinct (map rf_name d) \<Longrightarrow> f \<in> set d \<Longrightarrow> g \<in> set d \<Longrightarrow> rf_name f = rf_name g \<Longrightarrow> f = g"
  by (meson distinct_map inj_onD)

lemma registry_inv_live:
  assumes "registry_inv d ss" "f \<in> set d" "live_file f"
  obtains s where "s \<in> set ss" "rf_name f = as_name s" "rf_data f = Some (as_record s)"
    "as_name s = record_name (sr_id (as_record s))"
proof -
  obtain s where s: "s \<in> set ss" "rf_name f = as_name s" using assms by (auto simp: registry_inv_def)
  then obtain g where "g \<in> set d" "rf_name g = as_name s" "rf_data g = Some (as_record s)"
    "as_name s = record_name (sr_id (as_record s))" using assms(1) by (auto simp: registry_inv_def recorded_def)
  moreover from this have "f = g" using assms s by (auto simp: registry_inv_def intro: same_name)
  ultimately show ?thesis using that s by blast
qed

lemma registry_inv_decodes: "registry_inv d ss \<Longrightarrow> \<forall>f \<in> set d. live_file f \<longrightarrow> decodes f"
  by (metis registry_inv_live decodes_def)

lemma registry_inv_active:
  assumes "registry_inv d ss" "rs = map (the \<circ> rf_data) (filter live_file d)"
  shows "set rs = as_record ` set ss" "length rs = length ss"
proof -
  have names: "rf_name ` {f \<in> set d. live_file f} = as_name ` set ss"
    using assms(1) by (fastforce simp: registry_inv_def recorded_def image_iff)
  have "distinct (map rf_name (filter live_file d))"
    using assms(1) by (simp add: registry_inv_def distinct_map_filter)
  from distinct_card [OF this] have "length rs = card (rf_name ` {f \<in> set d. live_file f})"
    using assms(2) by simp
  also have "\<dots> = length ss" 
    unfolding names using assms(1) distinct_card [of "map as_name ss"] by (simp add: registry_inv_def)
  finally show "length rs = length ss" .
  show "set rs = as_record ` set ss"
  proof (intro set_eqI iffI)
    fix r assume "r \<in> set rs"
    then obtain f where "f \<in> set d" "live_file f" "r = the (rf_data f)" using assms(2) by auto
    then show "r \<in> as_record ` set ss" using assms(1) by (auto elim: registry_inv_live)
  next
    fix r assume "r \<in> as_record ` set ss"
    then obtain s where "s \<in> set ss" "r = as_record s" by auto
    then obtain f where "f \<in> set d" "live_file f" "rf_data f = Some r"
      using assms(1) by (auto simp: registry_inv_def recorded_def)
    then show "r \<in> set rs" unfolding assms(2) by (auto intro!: rev_image_eqI [of f])
  qed
qed

lemma registry_inv_scan:
  assumes "registry_inv d ss" "fs_reliable e" "scan_registry e d = (d', r)"
  shows "registry_inv d' ss" "r = Inr rs \<Longrightarrow> set rs = as_record ` set ss"
    "r = Inr rs \<Longrightarrow> length rs = length ss"
proof -
  note files = scan_registry_files [OF assms(2) registry_inv_decodes [OF assms(1)] assms(3)]
  have live: "f \<in> set d' \<and> live_file f \<longleftrightarrow> f \<in> set d \<and> live_file f" for f
    using arg_cong [OF files(2), of set] by (auto simp: set_eq_iff)
  show "registry_inv d' ss"
    using assms(1) files(3) live unfolding registry_inv_def recorded_def by meson
  show "r = Inr rs \<Longrightarrow> set rs = as_record ` set ss" "r = Inr rs \<Longrightarrow> length rs = length ss"
    using registry_inv_active [OF assms(1)] files(4) by blast+
qed

subsection \<open>Every operation keeps the correspondence\<close>

lemma set_file_names [simp]: "(\<And>f. rf_name (g f) = rf_name f) \<Longrightarrow> map rf_name (set_file n g d) = map rf_name d"
  by (induction d) (auto simp: set_file_def)

lemma in_set_file:
  "f \<in> set (set_file n g d) \<longleftrightarrow> (\<exists>h \<in> set d. f = (if rf_name h = n then g h else h))"
  unfolding set_file_def set_map image_iff ..

lemma in_set_file_other: "f \<in> set d \<Longrightarrow> rf_name f \<noteq> n \<Longrightarrow> f \<in> set (set_file n g d)"
  unfolding in_set_file by (rule bexI [of _ f]) simp_all

lemma recorded_set_file: "as_name t \<noteq> n \<and> recorded d t \<Longrightarrow> recorded (set_file n g d) t"
  unfolding recorded_def using in_set_file_other by metis

lemma registry_inv_other:
  "registry_inv d (us @ s # vs) \<Longrightarrow> t \<in> set us \<union> set vs \<Longrightarrow> as_name t \<noteq> as_name s \<and> recorded d t"
proof -
  assume inv: "registry_inv d (us @ s # vs)" and t: "t \<in> set us \<union> set vs"
  have "as_name s \<notin> as_name ` (set us \<union> set vs)" using inv by (simp add: registry_inv_def image_Un)
  moreover have "recorded d t" using inv t by (auto simp: registry_inv_def)
  ultimately show ?thesis using t by (metis imageI)
qed

lemma live_file_simps [simp]:
  "live_file (f\<lparr>rf_data := x\<rparr>) = live_file f" "\<not> live_file (f\<lparr>rf_locked := False\<rparr>)"
  by (simp_all add: live_file_def is_record_file_def)

lemma registry_inv_write:
  assumes inv: "registry_inv d (us @ s # vs)" and i: "sr_id r = sr_id (as_record s)"
  shows "registry_inv (set_file (as_name s) (\<lambda>f. f\<lparr>rf_data := Some r\<rparr>) d) (us @ s\<lparr>as_record := r\<rparr> # vs)"
    (is "registry_inv ?d ?ss")
proof -
  have others: "recorded ?d t" if "t \<in> set us \<union> set vs" for t
    by (rule recorded_set_file [OF registry_inv_other [OF inv that]])
  have "recorded d s" using inv by (simp add: registry_inv_def)
  then obtain f where f: "f \<in> set d" "rf_name f = as_name s" "live_file f" "as_open s"
    "as_name s = record_name (sr_id (as_record s))" by (auto simp: recorded_def)
  then have "f\<lparr>rf_data := Some r\<rparr> \<in> set ?d" unfolding in_set_file by (intro bexI [of _ f]) simp_all
  then have "recorded ?d (s\<lparr>as_record := r\<rparr>)"
    unfolding recorded_def using f i by (intro conjI bexI [of _ "f\<lparr>rf_data := Some r\<rparr>"]) simp_all
  then have "\<forall>t \<in> set ?ss. recorded ?d t" using others by auto
  moreover have "\<forall>f \<in> set ?d. live_file f \<longrightarrow> (\<exists>t \<in> set ?ss. rf_name f = as_name t)"
    using inv by (fastforce simp: registry_inv_def in_set_file)
  ultimately show ?thesis using inv by (simp add: registry_inv_def)
qed

lemma registry_inv_unlock:
  assumes inv: "registry_inv d (us @ s # vs)"
  shows "registry_inv (set_file (as_name s) (\<lambda>f. f\<lparr>rf_locked := False\<rparr>) d) (us @ vs)"
    (is "registry_inv ?d _")
proof -
  have "recorded ?d t" if "t \<in> set us \<union> set vs" for t
    by (rule recorded_set_file [OF registry_inv_other [OF inv that]])
  then have "\<forall>t \<in> set (us @ vs). recorded ?d t" by auto
  moreover have "\<exists>t \<in> set (us @ vs). rf_name f = as_name t" if f: "f \<in> set ?d" "live_file f" for f
  proof -
    obtain h where h: "h \<in> set d" "f = (if rf_name h = as_name s then h\<lparr>rf_locked := False\<rparr> else h)"
      using f(1) unfolding in_set_file by blast
    then have "f = h" "rf_name h \<noteq> as_name s" using f(2) by (auto split: if_splits)
    then show ?thesis using inv f(2) h(1) by (auto simp: registry_inv_def)
  qed
  ultimately show ?thesis using inv by (simp add: registry_inv_def)
qed

lemma registry_inv_drop:
  assumes "registry_inv d ss" "\<And>s. s \<in> set ss \<Longrightarrow> as_name s \<noteq> n"
  shows "registry_inv (drop_file n d) ss"
  using assms unfolding registry_inv_def recorded_def drop_file_def
  by (simp add: distinct_map_filter) metis

lemma registry_inv_remove:
  assumes "registry_inv d (us @ s # vs)" "remove_locked e s d = (s', d')"
  shows "registry_inv d' (us @ vs)"
proof -
  note unlocked = registry_inv_unlock [OF assms(1)]
  have "as_name t \<noteq> as_name s" if "t \<in> set (us @ vs)" for t
    using registry_inv_other [OF assms(1)] that by auto
  then show ?thesis using assms(2) unlocked registry_inv_drop [OF unlocked]
    by (auto simp: remove_locked_def Let_def split: if_splits)
qed

lemma write_locked_reliable:
  "fs_reliable e \<Longrightarrow> write_locked e s d = (set_file (as_name s) (\<lambda>f. f\<lparr>rf_data := Some (as_record s)\<rparr>) d, None)"
  by (simp add: write_locked_def fs_reliable_def)

text \<open>What an update by a running session does when its calls work.\<close>

lemma update_session_cases:
  assumes inv: "registry_inv d (us @ s # vs)" and e: "fs_reliable e"
    and keeps: "\<forall>r active r'. change r active = Inr r' \<longrightarrow> sr_id r' = sr_id r"
    and upd: "update_session e lock change s d = (s', d', err)"
  shows "registry_inv d' (us @ s' # vs)"
    "s' = s \<and> err \<noteq> None \<or> (\<exists>active r. err = None \<and> s' = s\<lparr>as_record := r\<rparr> \<and> change (as_record s) active = Inr r
      \<and> set active = as_record ` set (us @ s # vs))"
proof -
  have "as_open s" using inv by (simp add: registry_inv_def recorded_def)
  obtain d1 r1 where scan: "scan_registry e d = (d1, r1)" by (cases "scan_registry e d")
  note after = registry_inv_scan [OF inv e scan]
  have "registry_inv d' (us @ s' # vs) \<and> (s' = s \<and> err \<noteq> None \<or> (\<exists>active r. err = None \<and> s' = s\<lparr>as_record := r\<rparr>
      \<and> change (as_record s) active = Inr r \<and> set active = as_record ` set (us @ s # vs)))"
  proof (cases lock)
    case (Some x)
    then show ?thesis using upd inv \<open>as_open s\<close> by (auto simp: update_session_def)
  next
    case None
    show ?thesis
    proof (cases r1)
      case (Inl x)
      then show ?thesis using upd None scan after(1) \<open>as_open s\<close> by (auto simp: update_session_def)
    next
      case (Inr active)
      note act = after(2) [OF Inr]
      show ?thesis
      proof (cases "change (as_record s) active")
        case (Inl x)
        then show ?thesis using upd None scan Inr after(1) \<open>as_open s\<close> by (auto simp: update_session_def)
      next
        case changed: (Inr r)
        then have "s' = s\<lparr>as_record := r\<rparr>" "err = None"
          "d' = set_file (as_name s) (\<lambda>f. f\<lparr>rf_data := Some r\<rparr>) d1"
          using upd None scan Inr \<open>as_open s\<close> e
          by (auto simp: update_session_def write_locked_reliable Let_def)
        then show ?thesis using registry_inv_write [OF after(1)] keeps changed act by blast
      qed
    qed
  qed
  then show "registry_inv d' (us @ s' # vs)"
    "s' = s \<and> err \<noteq> None \<or> (\<exists>active r. err = None \<and> s' = s\<lparr>as_record := r\<rparr> \<and> change (as_record s) active = Inr r
      \<and> set active = as_record ` set (us @ s # vs))" by blast+
qed

lemma session_limit_fold:
  assumes "0 \<le> (l::int)"
  shows "let m = foldl (\<lambda>limit r. if sr_max_sessions r > 0 \<and> (limit = 0 \<or> sr_max_sessions r < limit)
      then sr_max_sessions r else limit) l rs in
    0 \<le> m \<and> (0 < l \<longrightarrow> 0 < m \<and> m \<le> l)
    \<and> (\<forall>r \<in> set rs. 0 < sr_max_sessions r \<longrightarrow> 0 < m \<and> m \<le> sr_max_sessions r)"
  using assms
proof (induction rs arbitrary: l)
  case Nil
  then show ?case by (simp add: Let_def)
next
  case (Cons r rs)
  let ?l = "if sr_max_sessions r > 0 \<and> (l = 0 \<or> sr_max_sessions r < l) then sr_max_sessions r else l"
  have "0 \<le> ?l" using Cons.prems by simp
  from Cons.IH [OF this] show ?case using Cons.prems by (auto simp: Let_def split: if_splits)
qed

lemma effective_limit_lower:
  assumes "n < effective_limit l active"
  shows "n < l" "r \<in> set active \<Longrightarrow> 0 < sr_max_sessions r \<Longrightarrow> n < sr_max_sessions r"
  using session_limit_fold [of 0 active] assms
  by (fastforce simp: effective_limit_def session_limit_of_def Let_def split: if_splits)+

lemma distinct_map_insort:
  "distinct (map f (insort_key f x xs)) \<longleftrightarrow> f x \<notin> f ` set xs \<and> distinct (map f xs)"
  by (induction xs) (auto simp: set_insort_key)

lemma registry_inv_name_free:
  assumes "registry_inv d ss" "\<not> has_file n d" "t \<in> set ss"
  shows "as_name t \<noteq> n"
proof -
  obtain f where "f \<in> set d" "rf_name f = as_name t"
    using assms(1,3) unfolding registry_inv_def recorded_def by blast
  then show ?thesis using assms(2) by (auto simp: has_file_def list_ex_iff)
qed

lemma registry_inv_new:
  assumes inv: "registry_inv d ss" and n: "\<not> has_file n d"
  shows "registry_inv (new_file n d) ss"
proof -
  let ?f = "\<lparr>rf_name = n, rf_regular = True, rf_locked = False, rf_data = None\<rparr>"
  have files: "set (new_file n d) = insert ?f (set d)" by (simp add: new_file_def set_insort_key)
  have "n \<notin> rf_name ` set d" using n by (auto simp: has_file_def list_ex_iff)
  then have "distinct (map rf_name (new_file n d))"
    using inv by (simp add: new_file_def distinct_map_insort registry_inv_def)
  moreover have "\<not> live_file ?f" by (simp add: live_file_def)
  ultimately show ?thesis using inv unfolding registry_inv_def recorded_def files by blast
qed

lemma registry_inv_add:
  assumes inv: "registry_inv d ss" and n: "\<not> has_file n d" and s: "as_name s = n" "as_open s"
    "n = record_name (sr_id (as_record s))"
  shows "registry_inv (set_file n (\<lambda>f. f\<lparr>rf_data := Some (as_record s)\<rparr>)
     (set_file n (\<lambda>f. f\<lparr>rf_locked := True\<rparr>) (new_file n d))) (s # ss)" (is "registry_inv ?d _")
proof -
  let ?f = "\<lparr>rf_name = n, rf_regular = True, rf_locked = True, rf_data = Some (as_record s)\<rparr>"
  have other: "as_name t \<noteq> n \<and> recorded d t" if "t \<in> set ss" for t
    using registry_inv_name_free [OF inv n that] inv that by (simp add: registry_inv_def)
  have names: "map rf_name ?d = map rf_name (new_file n d)" by simp
  have files: "set ?d = insert ?f (set d)"
  proof -
    have "f \<in> set d \<Longrightarrow> rf_name f \<noteq> n" for f using n by (auto simp: has_file_def list_ex_iff)
    then show ?thesis by (auto simp: set_file_def new_file_def set_insort_key image_iff)
  qed
  have live: "live_file ?f" using s(3) by (simp add: live_file_def is_record_file_name)
  have "recorded ?d s" unfolding recorded_def files using s live by simp
  moreover have "recorded ?d t" if "t \<in> set ss" for t
    using other [OF that] unfolding recorded_def files by blast
  moreover have "distinct (map rf_name ?d)"
    unfolding names using registry_inv_new [OF inv n] by (simp add: registry_inv_def)
  moreover have "n \<notin> as_name ` set ss" using other by auto
  ultimately show ?thesis using inv s unfolding registry_inv_def files by auto
qed

lemma register_session_cases:
  assumes inv: "registry_inv d ss" and e: "fs_reliable e" and reg: "register_session e q d = (d', r)"
  shows "registry_inv d' (case r of Inl _ \<Rightarrow> ss | Inr s \<Rightarrow> s # ss)"
    "r = Inr s \<Longrightarrow> \<not> sr_acr (as_record s) \<and> sr_max_sessions (as_record s) = rg_limit q
       \<and> (\<exists>active. set active = as_record ` set ss \<and> int (length ss) < effective_limit (rg_limit q) active)"
proof -
  obtain d1 r1 where scan: "scan_registry e d = (d1, r1)" by (cases "scan_registry e d")
  note after = registry_inv_scan [OF inv e scan]
  have "registry_inv d' (case r of Inl _ \<Rightarrow> ss | Inr s \<Rightarrow> s # ss) \<and>
    (\<forall>s. r = Inr s \<longrightarrow> \<not> sr_acr (as_record s) \<and> sr_max_sessions (as_record s) = rg_limit q
       \<and> (\<exists>active. set active = as_record ` set ss \<and> int (length ss) < effective_limit (rg_limit q) active))"
  proof (cases "rg_lock q = None \<and> (\<exists>active i. r1 = Inr active \<and> rg_id q = Some i
      \<and> int (length active) < effective_limit (rg_limit q) active \<and> rg_create q \<and> \<not> has_file (record_name i) d1)")
    case False
    then have "(d' = d \<or> d' = d1) \<and> (\<exists>x. r = Inl x)"
      using reg scan by (auto simp: register_session_def Let_def split: option.splits sum.splits if_splits)
    then show ?thesis using inv after(1) by auto
  next
    case True
    then obtain active i where a: "rg_lock q = None" "r1 = Inr active" "rg_id q = Some i"
      "int (length active) < effective_limit (rg_limit q) active" "rg_create q" "\<not> has_file (record_name i) d1"
      by blast
    let ?n = "record_name i" and ?s = "new_session q i"
    show ?thesis
    proof (cases "rg_record_lock q")
      case False
      then have "d' = new_file ?n d1 \<or> d' = drop_file ?n (new_file ?n d1)" "r = Inl RecordLock"
        using reg scan a by (auto simp: register_session_def Let_def split: if_splits)
      moreover have "as_name t \<noteq> ?n" if "t \<in> set ss" for t
        by (rule registry_inv_name_free [OF after(1) a(6) that])
      ultimately show ?thesis
        using registry_inv_new [OF after(1) a(6)] registry_inv_drop by auto
    next
      case True
      have s: "as_name ?s = ?n" "as_open ?s" "?n = record_name (sr_id (as_record ?s))"
        by (simp_all add: new_session_def blank_record_def)
      have "r = Inr ?s" "d' = set_file ?n (\<lambda>f. f\<lparr>rf_data := Some (as_record ?s)\<rparr>)
          (set_file ?n (\<lambda>f. f\<lparr>rf_locked := True\<rparr>) (new_file ?n d1))"
        using reg scan a True e s(1)
        by (auto simp: register_session_def Let_def write_locked_reliable)
      moreover have "\<not> sr_acr (as_record ?s)" "sr_max_sessions (as_record ?s) = rg_limit q"
        by (simp_all add: new_session_def blank_record_def)
      moreover have "set active = as_record ` set ss" "length active = length ss"
        using after(2,3) a(2) by blast+
      ultimately show ?thesis
        using registry_inv_add [OF after(1) a(6) s] a(4) by auto
    qed
  qed
  then show "registry_inv d' (case r of Inl _ \<Rightarrow> ss | Inr s \<Rightarrow> s # ss)"
    "r = Inr s \<Longrightarrow> \<not> sr_acr (as_record s) \<and> sr_max_sessions (as_record s) = rg_limit q
       \<and> (\<exists>active. set active = as_record ` set ss \<and> int (length ss) < effective_limit (rg_limit q) active)"
    by blast+
qed

subsection \<open>One registry session, and no more sessions than any limit allows\<close>

definition acr_holders :: "active_session list \<Rightarrow> active_session list" where
  "acr_holders ss = filter (\<lambda>s. sr_acr (as_record s)) ss"

definition within_limits :: "active_session list \<Rightarrow> bool" where
  "within_limits ss \<longleftrightarrow> (\<forall>s \<in> set ss. int (length ss) \<le> sr_max_sessions (as_record s))"

definition session_inv :: "registry \<Rightarrow> active_session list \<Rightarrow> bool" where
  "session_inv d ss \<longleftrightarrow> registry_inv d ss \<and> length (acr_holders ss) \<le> 1 \<and> within_limits ss"

lemma change_claim_Inr:
  "change_claim r active = Inr r' \<longleftrightarrow>
     r' = r\<lparr>sr_acr := True\<rparr> \<and> (\<forall>other \<in> set active. sr_id other \<noteq> sr_id r \<longrightarrow> \<not> sr_acr other)"
  by (induction r active rule: change_claim.induct) auto

lemma within_limits_fewer: "within_limits (us @ s # vs) \<Longrightarrow> within_limits (us @ vs)"
  unfolding within_limits_def
proof
  fix t
  assume *: "\<forall>t \<in> set (us @ s # vs). int (length (us @ s # vs)) \<le> sr_max_sessions (as_record t)"
    and "t \<in> set (us @ vs)"
  then have "int (length (us @ s # vs)) \<le> sr_max_sessions (as_record t)" by auto
  then show "int (length (us @ vs)) \<le> sr_max_sessions (as_record t)" by simp
qed

lemma session_inv_fewer:
  "registry_inv d (us @ vs) \<Longrightarrow> session_inv d0 (us @ s # vs) \<Longrightarrow> session_inv d (us @ vs)"
  using within_limits_fewer [of us s vs] by (auto simp: session_inv_def acr_holders_def split: if_splits)

lemma session_inv_same_flags:
  assumes "registry_inv d (us @ s' # vs)" "session_inv d0 (us @ s # vs)"
    "sr_max_sessions (as_record s') = sr_max_sessions (as_record s)"
    "sr_acr (as_record s') \<longrightarrow> sr_acr (as_record s)"
  shows "session_inv d (us @ s' # vs)"
  using assms by (auto simp: session_inv_def acr_holders_def within_limits_def split: if_splits)

lemma session_inv_claim:
  assumes inv: "session_inv d (us @ s # vs)" and reg: "registry_inv d' (us @ s\<lparr>as_record := r\<rparr> # vs)"
    and r: "change_claim (as_record s) active = Inr r" "set active = as_record ` set (us @ s # vs)"
  shows "session_inv d' (us @ s\<lparr>as_record := r\<rparr> # vs)"
proof -
  have "\<not> sr_acr (as_record t)" if t: "t \<in> set us \<union> set vs" for t
  proof -
    have "as_name t \<noteq> as_name s" "recorded d t" "recorded d s"
      using registry_inv_other [OF _ t] inv by (auto simp: session_inv_def registry_inv_def)
    then have "sr_id (as_record t) \<noteq> sr_id (as_record s)" by (auto simp: recorded_def)
    moreover have "as_record t \<in> set active" using t r(2) by auto
    ultimately show ?thesis using r(1) by (simp add: change_claim_Inr)
  qed
  then have "acr_holders us = []" "acr_holders vs = []" by (auto simp: acr_holders_def filter_empty_conv)
  moreover have "sr_max_sessions r = sr_max_sessions (as_record s)" using r(1) by (simp add: change_claim_Inr)
  ultimately show ?thesis using inv reg
    by (auto simp: session_inv_def acr_holders_def within_limits_def)
qed

lemma session_inv_update:
  assumes inv: "session_inv d (us @ s # vs)" and e: "fs_reliable e"
    and upd: "update_session e lock change s d = (s', d', err)"
    and change: "change = change_claim \<or> (\<forall>r active r'. change r active = Inr r' \<longrightarrow>
        sr_id r' = sr_id r \<and> sr_max_sessions r' = sr_max_sessions r \<and> (sr_acr r' \<longrightarrow> sr_acr r))"
  shows "session_inv d' (us @ s' # vs)"
proof -
  have keeps: "\<forall>r active r'. change r active = Inr r' \<longrightarrow> sr_id r' = sr_id r"
    using change by (auto simp: change_claim_Inr)
  have reg: "registry_inv d (us @ s # vs)" using inv by (simp add: session_inv_def)
  note result = update_session_cases [OF reg e keeps upd]
  have after: "registry_inv d' (us @ s' # vs)" and
    cases: "s' = s \<or> (\<exists>active r. s' = s\<lparr>as_record := r\<rparr> \<and> change (as_record s) active = Inr r
      \<and> set active = as_record ` set (us @ s # vs))" using result by blast+
  from cases show ?thesis
  proof
    assume "s' = s"
    then show ?thesis using session_inv_same_flags [OF after inv] by simp
  next
    assume "\<exists>active r. s' = s\<lparr>as_record := r\<rparr> \<and> change (as_record s) active = Inr r
      \<and> set active = as_record ` set (us @ s # vs)"
    then obtain active r where r: "s' = s\<lparr>as_record := r\<rparr>" "change (as_record s) active = Inr r"
      "set active = as_record ` set (us @ s # vs)" by blast
    show ?thesis
    proof (cases "change = change_claim")
      case True
      then show ?thesis using session_inv_claim [OF inv] after r by metis
    next
      case False
      then show ?thesis using session_inv_same_flags [OF after inv] change r by auto
    qed
  qed
qed

lemma session_inv_step:
  assumes "session_step x y" "session_inv (fst x) (snd x)"
  shows "session_inv (fst y) (snd y)"
  using assms
proof (induction rule: session_step.induct)
  case (Register e q d d' r ss)
  then have reg: "registry_inv d ss" by (simp add: session_inv_def)
  note cases = register_session_cases [OF reg Register.hyps]
  show ?case
  proof (cases r)
    case (Inl x)
    then show ?thesis using cases(1) Register.prems by (simp add: session_inv_def)
  next
    case (Inr s)
    obtain active where a: "set active = as_record ` set ss" "int (length ss) < effective_limit (rg_limit q) active"
      and s: "\<not> sr_acr (as_record s)" "sr_max_sessions (as_record s) = rg_limit q" using cases(2) [OF Inr] by blast
    have "int (length ss) < sr_max_sessions (as_record t)" if "t \<in> set ss" for t
    proof (rule effective_limit_lower(2) [OF a(2)])
      have "int (length ss) \<le> sr_max_sessions (as_record t)" and "0 < length ss"
        using Register.prems that by (auto simp: session_inv_def within_limits_def)
      then show "0 < sr_max_sessions (as_record t)" by linarith
    qed (use a that in auto)
    then have "\<forall>t \<in> set ss. 1 + int (length ss) \<le> sr_max_sessions (as_record t)" by force
    then have "within_limits (s # ss)" using effective_limit_lower(1) [OF a(2)] s(2)
      by (auto simp: within_limits_def)
    then show ?thesis using cases(1) Inr Register.prems s(1) by (simp add: session_inv_def acr_holders_def)
  qed
next
  case (Ports e lock p q s d s' d' err us vs)
  then have "update_session e lock (change_ports p q) s d = (s', d', err)" by (simp add: set_ports_def)
  then show ?case using session_inv_update [OF _ Ports.hyps(1) _ disjI2] Ports.prems
    by (simp add: change_ports_def)
next
  case (Claim e lock s d s' d' err us vs)
  then have "update_session e lock change_claim s d = (s', d', err)" by (simp add: claim_acr_def)
  then show ?case using session_inv_update [OF _ Claim.hyps(1) _ disjI1] Claim.prems by simp
next
  case (Release e lock s d s' d' us vs)
  then obtain err where "update_session e lock change_release s d = (s', d', err)"
    by (auto simp: release_acr_def split: prod.splits)
  then show ?case using session_inv_update [OF _ Release.hyps(1) _ disjI2] Release.prems
    by (simp add: change_release_def)
next
  case (Close e s d s' d' us vs)
  then have reg: "registry_inv d (us @ s # vs)" by (simp add: session_inv_def)
  then have "as_open s" by (simp add: registry_inv_def recorded_def)
  then have "registry_inv d' (us @ vs)"
    using registry_inv_remove [OF reg] Close.hyps by (simp add: close_session_def)
  then show ?case using Close.prems session_inv_fewer by auto
next
  case (Crash d us s vs)
  then have "registry_inv d (us @ s # vs)" by (simp add: session_inv_def)
  then show ?case using Crash session_inv_fewer [OF registry_inv_unlock] by auto
next
  case (Scan e d d' r ss)
  then show ?case using registry_inv_scan(1) by (auto simp: session_inv_def)
qed

lemma session_reachable_inv: "session_reachable x \<Longrightarrow> session_inv (fst x) (snd x)"
proof (induction rule: session_reachable.induct)
  case (Start d)
  then show ?case
    by (auto simp: session_inv_def registry_inv_def live_file_def acr_holders_def within_limits_def)
qed (rule session_inv_step)



subsection \<open>A sample run\<close>

definition good_fs :: fs where
  "good_fs = \<lparr>fs_readdir = True, fs_open = (\<lambda>_. Opened), fs_lock_err = (\<lambda>_. False),
     fs_remove = (\<lambda>_. Removed), fs_read = (\<lambda>_. True), fs_truncate = True, fs_write = True\<rparr>"

lemma good_fs_reliable: "fs_reliable good_fs"
  by (simp add: fs_reliable_def good_fs_def)

definition sample_registration :: registration where
  "sample_registration = \<lparr>rg_environment = ''dev'', rg_command = ''connect'', rg_pid = 7, rg_now = 5,
     rg_limit = 2, rg_lock = None, rg_id = Some ''0a'', rg_create = True, rg_record_lock = True\<rparr>"

definition sample_state :: "registry \<times> active_session list" where
  "sample_state = (case register_session good_fs sample_registration [] of (d, r) \<Rightarrow>
     case r of Inl _ \<Rightarrow> (d, []) | Inr s \<Rightarrow> (case claim_acr good_fs None s d of (s', d', _) \<Rightarrow> (d', [s'])))"

lemma sample_registered: "\<exists>s d. register_session good_fs sample_registration [] = (d, Inr s)"
  by (simp add: register_session_def sample_registration_def scan_registry_def good_fs_def
      effective_limit_def session_limit_of_def has_file_def write_locked_def Let_def)

lemma sample_state_reachable: "session_reachable sample_state"
proof -
  obtain s d where reg: "register_session good_fs sample_registration [] = (d, Inr s)"
    using sample_registered by blast
  obtain s' d' err where claim: "claim_acr good_fs None s d = (s', d', err)" by (metis prod_cases3)
  have "session_reachable (([], []) :: registry \<times> active_session list)" by (rule session_reachable.Start) simp_all
  moreover have "session_step ([], []) (d, [s])"
    using session_step.Register [OF good_fs_reliable reg] by simp
  moreover have "session_step (d, [] @ s # []) (d', [] @ s' # [])"
    by (rule session_step.Claim [OF good_fs_reliable claim])
  ultimately have "session_reachable (d', [s'])" by (auto intro: session_reachable.Step)
  then show ?thesis by (simp add: sample_state_def reg claim)
qed

lemma sample_reachable_pair: "session_reachable (fst sample_state, snd sample_state)"
  using sample_state_reachable by simp

lemma sample_state_holder: "map (sr_acr \<circ> as_record) (snd sample_state) = [True]"
  by code_simp



end
