(* ===== verification/Runes.thy ===== *)
theory Runes
  imports Prelude
begin

section \<open>UTF-8 text and the code points the program refuses to print or pass on\<close>

text \<open>
  What ranging over a Go string yields (\<open>runes\<close>: an invalid byte is U+FFFD), the encoding of a code
  point, the classes Cc and Cf of \<open>unicode\<close>, and the two checks built on them:
  \<open>sanitizeTerminalText\<close> of \<open>internal/cli/subscriptions.go\<close> and \<open>validAzureArgument\<close> of
  \<open>internal/azure/terraform_backend.go\<close>.
\<close>

definition is_cont :: "nat \<Rightarrow> nat \<Rightarrow> char \<Rightarrow> bool" where
  "is_cont lo hi c \<longleftrightarrow> lo \<le> byte c \<and> byte c \<le> hi"

definition rune_error :: nat where "rune_error = 0xFFFD"

text \<open>The code point of a sequence of lead and continuation bytes, when it is a valid one.\<close>

definition rune2 :: "char \<Rightarrow> char \<Rightarrow> nat option" where
  "rune2 a b = (if 0xC2 \<le> byte a \<and> byte a \<le> 0xDF \<and> is_cont 0x80 0xBF b
     then Some ((byte a - 0xC0) * 64 + (byte b - 0x80)) else None)"

definition rune3 :: "char \<Rightarrow> char \<Rightarrow> char \<Rightarrow> nat option" where
  "rune3 a b c = (if 0xE0 \<le> byte a \<and> byte a \<le> 0xEF
     \<and> is_cont (if byte a = 0xE0 then 0xA0 else 0x80) (if byte a = 0xED then 0x9F else 0xBF) b
     \<and> is_cont 0x80 0xBF c
     then Some ((byte a - 0xE0) * 4096 + (byte b - 0x80) * 64 + (byte c - 0x80)) else None)"

definition rune4 :: "char \<Rightarrow> char \<Rightarrow> char \<Rightarrow> char \<Rightarrow> nat option" where
  "rune4 a b c d = (if 0xF0 \<le> byte a \<and> byte a \<le> 0xF4
     \<and> is_cont (if byte a = 0xF0 then 0x90 else 0x80) (if byte a = 0xF4 then 0x8F else 0xBF) b
     \<and> is_cont 0x80 0xBF c \<and> is_cont 0x80 0xBF d
     then Some ((byte a - 0xF0) * 262144 + (byte b - 0x80) * 4096 + (byte c - 0x80) * 64 + (byte d - 0x80))
     else None)"

text \<open>The first code point of a text and its width.\<close>

definition decode_rune :: "string \<Rightarrow> nat \<times> nat" where
  "decode_rune s = (case s of [] \<Rightarrow> (rune_error, 0)
     | a # s1 \<Rightarrow> if byte a < 0x80 then (byte a, 1)
       else case s1 of [] \<Rightarrow> (rune_error, 1)
     | b # s2 \<Rightarrow> (case rune2 a b of Some r \<Rightarrow> (r, 2) | None \<Rightarrow>
         case s2 of [] \<Rightarrow> (rune_error, 1)
     | c # s3 \<Rightarrow> (case rune3 a b c of Some r \<Rightarrow> (r, 3) | None \<Rightarrow>
         case s3 of [] \<Rightarrow> (rune_error, 1)
     | d # s4 \<Rightarrow> (case rune4 a b c d of Some r \<Rightarrow> (r, 4) | None \<Rightarrow> (rune_error, 1)))))"

lemma decode_rune_width: "s \<noteq> [] \<Longrightarrow> 0 < snd (decode_rune s)"
  by (auto simp: decode_rune_def split: list.splits option.splits)

lemma decode_rune_width': "(r, w) = decode_rune s \<Longrightarrow> s \<noteq> [] \<Longrightarrow> 0 < w"
  using decode_rune_width [of s] by (metis snd_conv)

function runes :: "string \<Rightarrow> nat list" where
  "runes s = (if s = [] then [] else
     case decode_rune s of (r, w) \<Rightarrow> r # runes (drop w s))"
  by pat_completeness auto
termination
  by (relation "measure length") (auto dest: decode_rune_width')

declare runes.simps [simp del]

definition valid_rune :: "nat \<Rightarrow> bool" where
  "valid_rune r \<longleftrightarrow> r < 0xD800 \<or> (0xE000 \<le> r \<and> r < 0x110000)"

definition encode_rune :: "nat \<Rightarrow> string" where
  "encode_rune r =
     (if r < 0x80 then [char_of r]
      else if r < 0x800 then [char_of (0xC0 + r div 64), char_of (0x80 + r mod 64)]
      else if \<not> valid_rune r then [CHR 0xEF, CHR 0xBF, CHR 0xBD]
      else if r < 0x10000 then
        [char_of (0xE0 + r div 4096), char_of (0x80 + r div 64 mod 64), char_of (0x80 + r mod 64)]
      else [char_of (0xF0 + r div 262144), char_of (0x80 + r div 4096 mod 64),
        char_of (0x80 + r div 64 mod 64), char_of (0x80 + r mod 64)])"

lemma byte_char_of: "n < 256 \<Longrightarrow> byte (char_of n) = n"
  by (simp add: byte_def)

subsection \<open>Decoding what was encoded\<close>

lemma decode_ascii: "byte a < 0x80 \<Longrightarrow> decode_rune (a # s) = (byte a, 1)"
  by (simp add: decode_rune_def)

lemma decode_2: "rune2 a b = Some r \<Longrightarrow> decode_rune (a # b # s) = (r, 2)"
  by (auto simp: decode_rune_def rune2_def split: if_splits)

lemma decode_3: "rune3 a b c = Some r \<Longrightarrow> decode_rune (a # b # c # s) = (r, 3)"
  by (auto simp: decode_rune_def rune2_def rune3_def split: if_splits)

lemma decode_4: "rune4 a b c d = Some r \<Longrightarrow> decode_rune (a # b # c # d # s) = (r, 4)"
  by (auto simp: decode_rune_def rune2_def rune3_def rune4_def split: if_splits)

text \<open>A code point from its six-bit digits.\<close>

lemma rune2_digits:
  assumes "2 \<le> q" "q < 32" "m < (64::nat)"
  shows "rune2 (char_of (0xC0 + q)) (char_of (0x80 + m)) = Some (q * 64 + m)"
  using assms by (simp add: rune2_def is_cont_def byte_char_of)

lemma rune3_digits:
  assumes "p < 16" "q < 64" "m < (64::nat)" "p = 0 \<Longrightarrow> 32 \<le> q" "p = 13 \<Longrightarrow> q < 32"
  shows "rune3 (char_of (0xE0 + p)) (char_of (0x80 + q)) (char_of (0x80 + m)) = Some (p * 4096 + q * 64 + m)"
  using assms by (auto simp: rune3_def is_cont_def byte_char_of)

lemma rune4_digits:
  assumes "n < 5" "p < 64" "q < 64" "m < (64::nat)" "n = 0 \<Longrightarrow> 16 \<le> p" "n = 4 \<Longrightarrow> p < 16"
  shows "rune4 (char_of (0xF0 + n)) (char_of (0x80 + p)) (char_of (0x80 + q)) (char_of (0x80 + m))
    = Some (n * 262144 + p * 4096 + q * 64 + m)"
  using assms by (auto simp: rune4_def is_cont_def byte_char_of)

lemma digits_2: "(r div 64) * 64 + r mod 64 = (r::nat)"
  by (rule div_mult_mod_eq)

lemma digits_3: "(r div 4096) * 4096 + (r div 64 mod 64) * 64 + r mod 64 = (r::nat)"
proof -
  define q where "q = r div 64"
  have "r div 4096 = q div 64" by (simp add: q_def flip: div_mult2_eq)
  moreover have "q div 64 * 64 + q mod 64 = q" "q * 64 + r mod 64 = r"
    using digits_2 [of q] digits_2 [of r] by (simp_all add: q_def)
  ultimately show ?thesis unfolding q_def [symmetric] by linarith
qed

lemma digits_4: "(r div 262144) * 262144 + (r div 4096 mod 64) * 4096 + (r div 64 mod 64) * 64 + r mod 64 = (r::nat)"
proof -
  define q where "q = r div 4096"
  have "r div 262144 = q div 64" by (simp add: q_def flip: div_mult2_eq)
  moreover have "q div 64 * 64 + q mod 64 = q" "q * 4096 + r div 64 mod 64 * 64 + r mod 64 = r"
    using digits_2 [of q] digits_3 [of r] by (simp_all add: q_def)
  ultimately show ?thesis unfolding q_def [symmetric] by linarith
qed

lemma decode_encode_rune:
  assumes "valid_rune r"
  shows "decode_rune (encode_rune r @ s) = (r, length (encode_rune r)) \<and> encode_rune r \<noteq> []"
proof -
  consider "r < 0x80" | "0x80 \<le> r" "r < 0x800" | "0x800 \<le> r" "r < 0x10000" | "0x10000 \<le> r" by linarith
  then show ?thesis
  proof cases
    case 1
    then show ?thesis by (simp add: encode_rune_def decode_ascii byte_char_of)
  next
    case 2
    then have "2 \<le> r div 64" "r div 64 < 32" by (simp_all add: less_eq_div_iff_mult_less_eq div_less_iff_less_mult)
    then have "rune2 (char_of (0xC0 + r div 64)) (char_of (0x80 + r mod 64)) = Some r"
      using rune2_digits [of "r div 64" "r mod 64"] digits_2 [of r] by simp
    then show ?thesis using 2 by (simp add: encode_rune_def decode_2)
  next
    case 3
    have "r div 4096 < 16" using 3 by (simp add: div_less_iff_less_mult)
    moreover have "32 \<le> r div 64 mod 64" if "r div 4096 = 0"
    proof -
      have "r < 4096" using that by (simp add: div_eq_0_iff)
      then have "r div 64 < 64" by (simp add: div_less_iff_less_mult)
      moreover have "32 \<le> r div 64" using 3 by (simp add: less_eq_div_iff_mult_less_eq)
      ultimately show ?thesis by simp
    qed
    moreover have "r div 64 mod 64 < 32" if "r div 4096 = 13"
    proof -
      have "13 * 4096 \<le> r \<and> r < 14 * 4096" using that div_mult_mod_eq [of r 4096] mod_less_divisor [of 4096 r] by linarith
      then have "r < 0xD800" using assms by (auto simp: valid_rune_def)
      then show ?thesis using that digits_3 [of r] by simp
    qed
    ultimately have "rune3 (char_of (0xE0 + r div 4096)) (char_of (0x80 + r div 64 mod 64)) (char_of (0x80 + r mod 64)) = Some r"
      using rune3_digits [of "r div 4096" "r div 64 mod 64" "r mod 64"] digits_3 [of r] by simp
    then show ?thesis using 3 assms by (simp add: encode_rune_def decode_3)
  next
    case 4
    have r: "r < 0x110000" using 4 assms by (auto simp: valid_rune_def)
    then have "r div 262144 < 5" by (simp add: div_less_iff_less_mult)
    moreover have "16 \<le> r div 4096 mod 64" if "r div 262144 = 0"
      using 4 that digits_4 [of r] mod_less_divisor [of 64 r] mod_less_divisor [of 64 "r div 64"] by simp
    moreover have "r div 4096 mod 64 < 16" if "r div 262144 = 4"
      using r that digits_4 [of r] by simp
    ultimately have "rune4 (char_of (0xF0 + r div 262144)) (char_of (0x80 + r div 4096 mod 64))
        (char_of (0x80 + r div 64 mod 64)) (char_of (0x80 + r mod 64)) = Some r"
      using rune4_digits [of "r div 262144" "r div 4096 mod 64" "r div 64 mod 64" "r mod 64"] digits_4 [of r] by simp
    then show ?thesis using 4 assms by (simp add: encode_rune_def decode_4)
  qed
qed

lemma runes_encode: "list_all valid_rune rs \<Longrightarrow> runes (concat (map encode_rune rs)) = rs"
proof (induction rs)
  case Nil
  then show ?case by (simp add: runes.simps)
next
  case (Cons r rs)
  let ?t = "concat (map encode_rune rs)"
  have "decode_rune (encode_rune r @ ?t) = (r, length (encode_rune r))" "encode_rune r \<noteq> []"
    using decode_encode_rune [of r ?t] Cons.prems by simp_all
  then have "runes (encode_rune r @ ?t) = r # runes ?t" by (subst runes.simps) simp
  then show ?case using Cons by simp
qed

lemma decode_rune_valid: "valid_rune (fst (decode_rune s))"
  by (auto simp: decode_rune_def rune2_def rune3_def rune4_def is_cont_def valid_rune_def rune_error_def
      split: list.splits option.splits if_splits)

lemma runes_valid: "list_all valid_rune (runes s)"
proof (induction s rule: runes.induct)
  case (1 s)
  then show ?case using decode_rune_valid [of s]
    by (subst runes.simps) (auto split: prod.splits)
qed

text \<open>Text whose code points are all ASCII is its code points.\<close>

lemma decode_rune_ascii: "fst (decode_rune (a # s)) < 0x80 \<Longrightarrow> byte a < 0x80"
  by (auto simp: decode_rune_def rune2_def rune3_def rune4_def is_cont_def rune_error_def
      split: list.splits option.splits if_splits)

lemma runes_ascii: "list_all (\<lambda>r. r < 0x80) (runes s) \<Longrightarrow> runes s = map byte s"
proof (induction s rule: runes.induct)
  case (1 s)
  show ?case
  proof (cases s)
    case Nil
    then show ?thesis by (simp add: runes.simps)
  next
    case (Cons a t)
    obtain r w where rw: "decode_rune s = (r, w)" by (cases "decode_rune s")
    then have rs: "runes s = r # runes (drop w s)" using Cons by (subst runes.simps) simp
    then have "byte a < 0x80" using 1(2) rw Cons decode_rune_ascii [of a t] by simp
    then have "r = byte a" "w = 1" using Cons rw by (simp_all add: decode_ascii)
    moreover have "runes t = map byte t" using 1 rs rw Cons calculation by simp
    ultimately show ?thesis using rs Cons by simp
  qed
qed

lemma runes_of_ascii: "list_all is_ascii s \<Longrightarrow> runes s = map byte s"
proof (induction s)
  case Nil
  then show ?case by (simp add: runes.simps)
next
  case (Cons a s)
  then show ?case by (subst runes.simps) (simp add: decode_ascii class_byte)
qed

subsection \<open>Control and format characters\<close>

definition is_control :: "nat \<Rightarrow> bool" where
  "is_control r \<longleftrightarrow> r < 0x20 \<or> (0x7F \<le> r \<and> r < 0xA0)"

definition format_ranges :: "(nat \<times> nat) list" where
  "format_ranges = [(0xAD, 0xAD), (0x600, 0x605), (0x61C, 0x61C), (0x6DD, 0x6DD), (0x70F, 0x70F),
     (0x890, 0x891), (0x8E2, 0x8E2), (0x180E, 0x180E), (0x200B, 0x200F), (0x202A, 0x202E),
     (0x2060, 0x2064), (0x2066, 0x206F), (0xFEFF, 0xFEFF), (0xFFF9, 0xFFFB), (0x110BD, 0x110BD),
     (0x110CD, 0x110CD), (0x13430, 0x1343F), (0x1BCA0, 0x1BCA3), (0x1D173, 0x1D17A),
     (0xE0001, 0xE0001), (0xE0020, 0xE007F)]"

definition is_format :: "nat \<Rightarrow> bool" where
  "is_format r \<longleftrightarrow> list_ex (\<lambda>(lo, hi). lo \<le> r \<and> r \<le> hi) format_ranges"

definition sanitize_terminal_text :: "string \<Rightarrow> string" where
  "sanitize_terminal_text value =
     concat (map (\<lambda>r. encode_rune (if is_control r \<or> is_format r then 0x3F else r)) (runes value))"

definition valid_azure_argument :: "string \<Rightarrow> bool" where
  "valid_azure_argument value \<longleftrightarrow>
     \<not> (value = [] \<or> length value > 256 \<or> has_prefix value ''-'' \<or> trim_space value \<noteq> value)
     \<and> list_all (\<lambda>r. \<not> (is_control r \<or> is_format r)) (runes value)"

text \<open>
  What the subscription table prints never contains a control or format character, whatever bytes
  the Azure CLI returned, and text without such characters is kept rune for rune.
\<close>

theorem sanitize_terminal_text_clean:
  "runes (sanitize_terminal_text value) =
     map (\<lambda>r. if is_control r \<or> is_format r then 63 else r) (runes value)
   \<and> list_all (\<lambda>r. \<not> is_control r \<and> \<not> is_format r) (runes (sanitize_terminal_text value))"
proof -
  let ?f = "\<lambda>r. if is_control r \<or> is_format r then 63 else r"
  have mark: "\<not> is_control 63" "\<not> is_format 63" by (simp_all add: is_control_def is_format_def format_ranges_def)
  have s: "sanitize_terminal_text value = concat (map encode_rune (map ?f (runes value)))"
    by (simp add: sanitize_terminal_text_def o_def)
  have "list_all valid_rune (map ?f (runes value))"
    using runes_valid [of "value"] by (auto simp: list_all_iff valid_rune_def)
  then have "runes (sanitize_terminal_text value) = map ?f (runes value)" unfolding s by (rule runes_encode)
  then show ?thesis using mark by (auto simp: list_all_iff)
qed

end
