(* ===== verification/Json.thy ===== *)
theory Json
  imports Runes Patterns
begin

section \<open>JSON text and values\<close>

text \<open>
  What the program uses of \<open>encoding/json\<close>: a parser for JSON text with Go's string decoding
  (escapes, surrogate pairs, replacement of invalid UTF-8), the text of \<open>json.Marshal\<close>, and the
  decoding of objects into structs. An object keeps its members in order with duplicates, as the
  token stream has them; numbers keep their literal. Go's limit on nesting (10000) is left out:
  every text the program decodes is bounded and far below it.
\<close>

datatype json = JNull | JBool bool | JNum string | JStr string | JArr "json list" | JObj "(string \<times> json) list"

definition json_space :: "char \<Rightarrow> bool" where
  "json_space c \<longleftrightarrow> c \<in> {CHR 0x20, CHR 0x09, CHR 0x0D, CHR 0x0A}"

definition skip_ws :: "string \<Rightarrow> string" where
  "skip_ws s = dropWhile json_space s"

text \<open>The text after white space and one expected byte.\<close>

definition expect :: "char \<Rightarrow> string \<Rightarrow> string option" where
  "expect c s = (case skip_ws s of [] \<Rightarrow> None | d # r \<Rightarrow> if d = c then Some r else None)"

subsection \<open>Strings\<close>

text \<open>\<open>getu4\<close>: the code unit of a \<open>u\<close> escape, four hexadecimal digits after a backslash and u.\<close>

definition getu4 :: "string \<Rightarrow> nat option" where
  "getu4 s = (case s of
     b # u # h1 # h2 # h3 # h4 # _ \<Rightarrow>
       if b = CHR 0x5C \<and> u = CHR ''u'' then
         (case (hex_val h1, hex_val h2, hex_val h3, hex_val h4) of
            (Some v1, Some v2, Some v3, Some v4) \<Rightarrow> Some (v1 * 4096 + v2 * 256 + v3 * 16 + v4)
          | _ \<Rightarrow> None)
       else None
   | _ \<Rightarrow> None)"

definition is_surrogate :: "nat \<Rightarrow> bool" where
  "is_surrogate r \<longleftrightarrow> 0xD800 \<le> r \<and> r < 0xE000"

definition utf16_pair :: "nat \<Rightarrow> nat \<Rightarrow> nat option" where
  "utf16_pair a b = (if 0xD800 \<le> a \<and> a < 0xDC00 \<and> 0xDC00 \<le> b \<and> b < 0xE000
     then Some ((a - 0xD800) * 1024 + (b - 0xDC00) + 0x10000) else None)"

definition escape_char :: "char \<Rightarrow> char option" where
  "escape_char c = map_of [(CHR 0x22, CHR 0x22), (CHR 0x5C, CHR 0x5C), (CHR ''/'', CHR ''/''),
     (CHR ''b'', CHR 0x08), (CHR ''f'', CHR 0x0C), (CHR ''n'', CHR 0x0A), (CHR ''r'', CHR 0x0D),
     (CHR ''t'', CHR 0x09)] c"

text \<open>One step through a string literal: its end, or some bytes and the text after them.\<close>

datatype string_step = StrEnd string | StrEmit string string | StrBad

definition string_step :: "string \<Rightarrow> string_step" where
  "string_step s = (case s of [] \<Rightarrow> StrBad | c # r \<Rightarrow>
     if c = CHR 0x22 then StrEnd r
     else if c = CHR 0x5C then
       (case r of [] \<Rightarrow> StrBad | e # r' \<Rightarrow>
          if e = CHR ''u'' then
            (case getu4 s of None \<Rightarrow> StrBad | Some u \<Rightarrow>
               if is_surrogate u then
                 (case getu4 (drop 6 s) of None \<Rightarrow> StrEmit (encode_rune rune_error) (drop 6 s)
                  | Some v \<Rightarrow> (case utf16_pair u v of None \<Rightarrow> StrEmit (encode_rune rune_error) (drop 6 s)
                      | Some p \<Rightarrow> StrEmit (encode_rune p) (drop 12 s)))
               else StrEmit (encode_rune u) (drop 6 s))
          else case escape_char e of None \<Rightarrow> StrBad | Some x \<Rightarrow> StrEmit [x] r')
     else if c < CHR 0x20 then StrBad
     else if is_ascii c then StrEmit [c] r
     else case decode_rune s of (rn, w) \<Rightarrow> StrEmit (encode_rune rn) (drop w s))"

lemma string_step_End_shorter: "string_step s = StrEnd r \<Longrightarrow> length r < length s"
  by (auto simp: string_step_def split: list.splits if_splits option.splits prod.splits)

lemma string_step_Emit_shorter: "string_step s = StrEmit t r \<Longrightarrow> length r < length s"
  using decode_rune_width [of s]
  by (auto simp: string_step_def split: list.splits if_splits option.splits prod.splits)

function parse_string :: "string \<Rightarrow> (string \<times> string) option" where
  "parse_string s = (case string_step s of
     StrEnd r \<Rightarrow> Some ([], r)
   | StrEmit t r \<Rightarrow> (case parse_string r of None \<Rightarrow> None | Some (u, r') \<Rightarrow> Some (t @ u, r'))
   | StrBad \<Rightarrow> None)"
  by pat_completeness auto
termination
  by (relation "measure length") (auto dest: string_step_Emit_shorter)

declare parse_string.simps [simp del]

lemma parse_string_shorter: "parse_string s = Some (t, r) \<Longrightarrow> length r < length s"
proof (induction s arbitrary: t r rule: parse_string.induct)
  case (1 s)
  show ?case
  proof (cases "string_step s")
    case (StrEnd x)
    then show ?thesis using 1(2) string_step_End_shorter [OF StrEnd] by (subst (asm) parse_string.simps) simp
  next
    case (StrEmit a b)
    then obtain u where "parse_string b = Some (u, r)"
      using 1(2) by (subst (asm) parse_string.simps) (auto split: option.splits)
    from 1(1) [OF StrEmit this] string_step_Emit_shorter [OF StrEmit] show ?thesis by simp
  next
    case StrBad
    then show ?thesis using 1(2) by (subst (asm) parse_string.simps) simp
  qed
qed

subsection \<open>Numbers\<close>

definition number_byte :: "char \<Rightarrow> bool" where
  "number_byte c \<longleftrightarrow> is_digit c \<or> c \<in> set ''+-.eE''"

definition number_pattern :: rx where
  "number_pattern =
     Seq (opt (text_rx ''-''))
    (Seq (Alt (text_rx ''0'') (Seq (Cls (\<lambda>c. CHR ''1'' \<le> c \<and> c \<le> CHR ''9'')) (Star (Cls is_digit))))
    (Seq (opt (Seq (text_rx ''.'') (plus (Cls is_digit))))
         (opt (Seq (Cls (\<lambda>c. c = CHR ''e'' \<or> c = CHR ''E''))
           (Seq (opt (Cls (\<lambda>c. c = CHR ''+'' \<or> c = CHR ''-''))) (plus (Cls is_digit)))))))"

definition parse_number :: "string \<Rightarrow> (json \<times> string) option" where
  "parse_number s = (let t = takeWhile number_byte s in
     if t \<noteq> [] \<and> rmatch number_pattern t then Some (JNum t, dropWhile number_byte s) else None)"

subsection \<open>Values\<close>

text \<open>The fuel bounds the depth and the number of elements; \<open>parse_fuel_enough\<close> shows it never matters.\<close>

fun parse_value :: "nat \<Rightarrow> string \<Rightarrow> (json \<times> string) option"
  and parse_elements :: "nat \<Rightarrow> string \<Rightarrow> (json list \<times> string) option"
  and parse_members :: "nat \<Rightarrow> string \<Rightarrow> ((string \<times> json) list \<times> string) option" where
  "parse_value 0 s = None"
| "parse_value (Suc n) s = (case skip_ws s of [] \<Rightarrow> None | c # r \<Rightarrow>
     if c = CHR 0x22 then (case parse_string r of None \<Rightarrow> None | Some (t, r) \<Rightarrow> Some (JStr t, r))
     else if c = CHR ''['' then
       (case expect (CHR '']'') r of Some r \<Rightarrow> Some (JArr [], r)
        | None \<Rightarrow> (case parse_elements n r of None \<Rightarrow> None | Some (vs, r) \<Rightarrow> Some (JArr vs, r)))
     else if c = CHR 0x7B then
       (case expect (CHR 0x7D) r of Some r \<Rightarrow> Some (JObj [], r)
        | None \<Rightarrow> (case parse_members n r of None \<Rightarrow> None | Some (ms, r) \<Rightarrow> Some (JObj ms, r)))
     else if has_prefix (c # r) ''true'' then Some (JBool True, drop 3 r)
     else if has_prefix (c # r) ''false'' then Some (JBool False, drop 4 r)
     else if has_prefix (c # r) ''null'' then Some (JNull, drop 3 r)
     else parse_number (c # r))"
| "parse_elements 0 s = None"
| "parse_elements (Suc n) s = (case parse_value n s of None \<Rightarrow> None | Some (v, r) \<Rightarrow>
     (case expect (CHR '','') r of
        Some r \<Rightarrow> (case parse_elements n r of None \<Rightarrow> None | Some (vs, r) \<Rightarrow> Some (v # vs, r))
      | None \<Rightarrow> (case expect (CHR '']'') r of None \<Rightarrow> None | Some r \<Rightarrow> Some ([v], r))))"
| "parse_members 0 s = None"
| "parse_members (Suc n) s = (case expect (CHR 0x22) s of None \<Rightarrow> None | Some r \<Rightarrow>
     (case parse_string r of None \<Rightarrow> None | Some (k, r) \<Rightarrow>
     (case expect (CHR '':'') r of None \<Rightarrow> None | Some r \<Rightarrow>
     (case parse_value n r of None \<Rightarrow> None | Some (v, r) \<Rightarrow>
     (case expect (CHR '','') r of
        Some r \<Rightarrow> (case parse_members n r of None \<Rightarrow> None | Some (ms, r) \<Rightarrow> Some ((k, v) # ms, r))
      | None \<Rightarrow> (case expect (CHR 0x7D) r of None \<Rightarrow> None | Some r \<Rightarrow> Some ([(k, v)], r)))))))"

text \<open>The next value of a text, and a text that is one value.\<close>

definition decode_next :: "string \<Rightarrow> (json \<times> string) option" where
  "decode_next s = parse_value (2 * length s + 1) s"

definition parse_json :: "string \<Rightarrow> json option" where
  "parse_json s = (case decode_next s of None \<Rightarrow> None
     | Some (v, r) \<Rightarrow> if skip_ws r = [] then Some v else None)"

subsection \<open>Text\<close>

definition hex_digit :: "nat \<Rightarrow> char" where
  "hex_digit n = (if n < 10 then char_of (48 + n) else char_of (87 + n))"

definition u_escape :: "nat \<Rightarrow> string" where
  "u_escape n = [CHR 0x5C, CHR ''u'', hex_digit (n div 4096 mod 16), hex_digit (n div 256 mod 16),
     hex_digit (n div 16 mod 16), hex_digit (n mod 16)]"

definition short_escapes :: "(nat \<times> char) list" where
  "short_escapes = [(0x22, CHR 0x22), (0x5C, CHR 0x5C), (0x08, CHR ''b''), (0x0C, CHR ''f''),
     (0x0A, CHR ''n''), (0x0D, CHR ''r''), (0x09, CHR ''t'')]"

definition rune_text :: "nat \<Rightarrow> string" where
  "rune_text r = (case map_of short_escapes r of Some c \<Rightarrow> [CHR 0x5C, c]
     | None \<Rightarrow> if r < 0x20 \<or> r \<in> {0x3C, 0x3E, 0x26, 0x2028, 0x2029} then u_escape r else encode_rune r)"

definition string_text :: "string \<Rightarrow> string" where
  "string_text s = [CHR 0x22] @ concat (map rune_text (runes s)) @ [CHR 0x22]"

fun json_text :: "json \<Rightarrow> string" where
  "json_text JNull = ''null''"
| "json_text (JBool b) = (if b then ''true'' else ''false'')"
| "json_text (JNum t) = t"
| "json_text (JStr s) = string_text s"
| "json_text (JArr vs) = ''['' @ join '','' (map json_text vs) @ '']''"
| "json_text (JObj ms) = [CHR 0x7B] @ join '','' (map (\<lambda>(k, v). string_text k @ '':'' @ json_text v) ms) @ [CHR 0x7D]"

subsection \<open>Parsing ends, and the fuel does not matter\<close>

lemma skip_ws_length: "length (skip_ws s) \<le> length s"
  by (simp add: skip_ws_def length_dropWhile_le)

lemma skip_ws_Cons: "skip_ws s = c # r \<Longrightarrow> length r < length s"
  using skip_ws_length [of s] by simp

lemma expect_shorter: "expect c s = Some r \<Longrightarrow> length r < length s"
  by (auto simp: expect_def dest: skip_ws_Cons split: list.splits if_splits)

lemma parse_number_shorter: "parse_number s = Some (v, r) \<Longrightarrow> length r < length s"
  by (cases s) (auto simp: parse_number_def Let_def length_dropWhile_le less_Suc_eq_le split: if_splits)

lemma parse_shorter:
  "parse_value n s = Some (v, r) \<Longrightarrow> length r < length s"
  "parse_elements n s = Some (vs, r) \<Longrightarrow> length r < length s"
  "parse_members n s = Some (ms, r) \<Longrightarrow> length r < length s"
proof (induction n s and n s and n s arbitrary: v r and vs r and ms r
    rule: parse_value_parse_elements_parse_members.induct)
  case (2 n s)
  then obtain c t where c: "skip_ws s = c # t" by (auto split: list.splits)
  show ?case
    using 2 c skip_ws_Cons [OF c]
    by (fastforce split: if_splits option.splits prod.splits
        dest: parse_string_shorter expect_shorter parse_number_shorter)
next
  case (4 n s)
  then show ?case
    by (fastforce split: option.splits prod.splits dest: expect_shorter)
next
  case (6 n s)
  then show ?case
    by (fastforce split: option.splits prod.splits dest: expect_shorter parse_string_shorter)
qed simp_all

lemma parse_fuel:
  "(2 * length s < n \<longrightarrow> 2 * length s < m \<longrightarrow> parse_value n s = parse_value m s)
   \<and> (2 * length s + 1 < n \<longrightarrow> 2 * length s + 1 < m \<longrightarrow> parse_elements n s = parse_elements m s)
   \<and> (2 * length s + 1 < n \<longrightarrow> 2 * length s + 1 < m \<longrightarrow> parse_members n s = parse_members m s)"
proof (induction n arbitrary: s m)
  case 0
  then show ?case by simp
next
  case (Suc n)
  have IH: "2 * length s < n \<Longrightarrow> 2 * length s < m \<Longrightarrow> parse_value n s = parse_value m s"
    "2 * length s + 1 < n \<Longrightarrow> 2 * length s + 1 < m \<Longrightarrow> parse_elements n s = parse_elements m s"
    "2 * length s + 1 < n \<Longrightarrow> 2 * length s + 1 < m \<Longrightarrow> parse_members n s = parse_members m s" for s m
    using Suc.IH [of s m] by blast+
  show ?case
  proof (cases m)
    case 0
    then show ?thesis by simp
  next
    case m: (Suc k)
    have "parse_value (Suc n) s = parse_value (Suc k) s" if "2 * length s < Suc n" "2 * length s < Suc k"
    proof (cases "skip_ws s")
      case Nil
      then show ?thesis by simp
    next
      case (Cons c r)
      have "length r < length s" by (rule skip_ws_Cons [OF Cons])
      then have "parse_elements n r = parse_elements k r" "parse_members n r = parse_members k r"
        using that by (auto intro!: IH)
      then show ?thesis using Cons by (auto split: option.splits)
    qed
    moreover have "parse_elements (Suc n) s = parse_elements (Suc k) s"
      if "2 * length s + 1 < Suc n" "2 * length s + 1 < Suc k"
    proof -
      have v: "parse_value n s = parse_value k s" using that by (intro IH) auto
      have "parse_elements n r' = parse_elements k r'" if "parse_value k s = Some (v, r)" "expect c r = Some r'" for v r c r'
      proof -
        have "length r' < length s" using parse_shorter(1) [OF that(1)] expect_shorter [OF that(2)] by simp
        then show ?thesis using \<open>2 * length s + 1 < Suc n\<close> \<open>2 * length s + 1 < Suc k\<close> by (intro IH) auto
      qed
      then show ?thesis using v by (auto split: option.splits)
    qed
    moreover have "parse_members (Suc n) s = parse_members (Suc k) s"
      if "2 * length s + 1 < Suc n" "2 * length s + 1 < Suc k"
    proof -
      have v: "parse_value n r = parse_value k r" if "length r < length s" for r
        using that \<open>2 * length s + 1 < Suc n\<close> \<open>2 * length s + 1 < Suc k\<close> by (intro IH) auto
      have ms: "parse_members n r = parse_members k r" if "length r < length s" for r
        using that \<open>2 * length s + 1 < Suc n\<close> \<open>2 * length s + 1 < Suc k\<close> by (intro IH) auto
      show ?thesis
      proof (cases "expect (CHR 0x22) s")
        case e1: (Some r1)
        show ?thesis
        proof (cases "parse_string r1")
          case e2: (Some kr)
          obtain key r2 where kr: "kr = (key, r2)" by (cases kr)
          show ?thesis
          proof (cases "expect (CHR '':'') r2")
            case e3: (Some r3)
            have l3: "length r3 < length s"
              using expect_shorter [OF e1] parse_string_shorter e2 kr expect_shorter [OF e3] by fastforce
            show ?thesis
            proof (cases "parse_value k r3")
              case e4: (Some vr)
              obtain v r4 where vr: "vr = (v, r4)" by (cases vr)
              have l4: "length r4 < length s" using parse_shorter(1) e4 vr l3 by fastforce
              have "parse_members n r5 = parse_members k r5" if "expect c r4 = Some r5" for c r5
                using ms [of r5] expect_shorter [OF that] l4 by simp
              then show ?thesis using e1 e2 kr e3 e4 vr \<open>length r3 < length s\<close> v [OF l3]
                by (auto split: option.splits)
            qed (use e1 e2 kr e3 v [OF l3] in simp)
          qed (use e1 e2 kr in simp)
        qed (use e1 in simp)
      qed simp
    qed
    ultimately show ?thesis unfolding m by blast
  qed
qed

lemma parse_value_fuel: "2 * length s < n \<Longrightarrow> parse_value n s = decode_next s"
  unfolding decode_next_def using parse_fuel [of s n "2 * length s + 1"] by simp

declare parse_value.simps [simp del]

subsection \<open>Parsing what was printed\<close>

definition decode_elements :: "string \<Rightarrow> (json list \<times> string) option" where
  "decode_elements s = parse_elements (2 * length s + 2) s"

definition decode_members :: "string \<Rightarrow> ((string \<times> json) list \<times> string) option" where
  "decode_members s = parse_members (2 * length s + 2) s"

lemma parse_elements_fuel: "2 * length s + 1 < n \<Longrightarrow> parse_elements n s = decode_elements s"
  unfolding decode_elements_def using parse_fuel [of s n "2 * length s + 2"] by simp

lemma parse_members_fuel: "2 * length s + 1 < n \<Longrightarrow> parse_members n s = decode_members s"
  unfolding decode_members_def using parse_fuel [of s n "2 * length s + 2"] by simp

lemma decode_next_array:
  "decode_next (CHR ''['' # s) = (case expect (CHR '']'') s of Some r \<Rightarrow> Some (JArr [], r)
     | None \<Rightarrow> (case decode_elements s of None \<Rightarrow> None | Some (vs, r) \<Rightarrow> Some (JArr vs, r)))"
  using parse_elements_fuel [of s "2 + 2 * length s"]
  by (simp add: decode_next_def parse_value.simps skip_ws_def json_space_def cong: option.case_cong)

lemma decode_next_object:
  "decode_next (CHR 0x7B # s) = (case expect (CHR 0x7D) s of Some r \<Rightarrow> Some (JObj [], r)
     | None \<Rightarrow> (case decode_members s of None \<Rightarrow> None | Some (ms, r) \<Rightarrow> Some (JObj ms, r)))"
  using parse_members_fuel [of s "2 + 2 * length s"]
  by (simp add: decode_next_def parse_value.simps skip_ws_def json_space_def cong: option.case_cong)

lemma decode_next_string:
  "decode_next (CHR 0x22 # s) = (case parse_string s of None \<Rightarrow> None | Some (t, r) \<Rightarrow> Some (JStr t, r))"
  by (simp add: decode_next_def parse_value.simps skip_ws_def json_space_def)

lemma decode_elements_last:
  assumes "decode_next s = Some (v, r)" "expect (CHR '']'') r = Some r'" "expect (CHR '','') r = None"
  shows "decode_elements s = Some ([v], r')"
  using assms by (simp add: decode_elements_def parse_value_fuel)

lemma decode_elements_more:
  assumes "decode_next s = Some (v, r)" "expect (CHR '','') r = Some r'" "decode_elements r' = Some (vs, r'')"
  shows "decode_elements s = Some (v # vs, r'')"
proof -
  have "parse_value (2 * length s + 1) s = Some (v, r)" using assms(1) by (simp add: parse_value_fuel)
  then have "length r' < length s" using parse_shorter(1) expect_shorter [OF assms(2)] by fastforce
  then have "parse_elements (2 * length s + 1) r' = Some (vs, r'')"
    using parse_elements_fuel [of r' "2 * length s + 1"] assms(3) by simp
  then show ?thesis using assms by (simp add: decode_elements_def parse_value_fuel)
qed

lemma decode_members_step:
  assumes "s = CHR 0x22 # t" "parse_string t = Some (k, CHR '':'' # u)" "decode_next u = Some (v, r)"
  shows "decode_members s = (case expect (CHR '','') r of
      Some r \<Rightarrow> (case decode_members r of None \<Rightarrow> None | Some (ms, r) \<Rightarrow> Some ((k, v) # ms, r))
    | None \<Rightarrow> (case expect (CHR 0x7D) r of None \<Rightarrow> None | Some r \<Rightarrow> Some ([(k, v)], r)))"
proof -
  have u: "length u < length s" using parse_string_shorter [OF assms(2)] assms(1) by simp
  then have v: "parse_value (2 * length s + 1) u = Some (v, r)" using assms(3) by (simp add: parse_value_fuel)
  have ms: "parse_members (2 * length s + 1) r' = decode_members r'" if "expect (CHR '','') r = Some r'" for r'
    using parse_shorter(1) [OF v] u expect_shorter [OF that] by (intro parse_members_fuel) simp
  have "expect (CHR 0x22) s = Some t" "expect (CHR '':'') (CHR '':'' # u) = Some u"
    unfolding assms(1) by (simp_all add: expect_def skip_ws_def json_space_def)
  then show ?thesis using assms(2) v ms by (simp add: decode_members_def split: option.splits)
qed

text \<open>Texts that are UTF-8, and values whose strings are and whose numbers are number literals.\<close>

definition utf8 :: "string \<Rightarrow> bool" where
  "utf8 s \<longleftrightarrow> concat (map encode_rune (runes s)) = s"

fun wf_json :: "json \<Rightarrow> bool" where
  "wf_json (JNum t) = (rmatch number_pattern t \<and> t \<noteq> [] \<and> list_all number_byte t)"
| "wf_json (JStr s) = utf8 s"
| "wf_json (JArr vs) = list_all wf_json vs"
| "wf_json (JObj ms) = list_all (\<lambda>(k, v). utf8 k \<and> wf_json v) ms"
| "wf_json _ = True"

lemma hex_val_digit: "n < 16 \<Longrightarrow> hex_val (hex_digit n) = Some n"
  by (auto simp: hex_val_def hex_digit_def class_byte char_le_byte byte_char_of byte_lit)

lemma hex_digits: "(r::nat) < 65536 \<Longrightarrow>
    r div 4096 mod 16 * 4096 + r div 256 mod 16 * 256 + r div 16 mod 16 * 16 + r mod 16 = r"
proof -
  assume r: "r < 65536"
  define q where "q = r div 16"
  define p where "p = q div 16"
  have "r div 256 = p" "r div 4096 = p div 16" by (simp_all add: p_def q_def flip: div_mult2_eq)
  moreover have "p div 16 < 16" using r by (simp add: p_def q_def div_less_iff_less_mult flip: div_mult2_eq)
  moreover have "q * 16 + r mod 16 = r" "p * 16 + q mod 16 = q" "p div 16 * 16 + p mod 16 = p"
    unfolding p_def q_def by (rule div_mult_mod_eq)+
  ultimately show ?thesis unfolding q_def [symmetric] by (simp only: mod_less)
qed

lemma getu4_u_escape: "r < 65536 \<Longrightarrow> getu4 (u_escape r @ t) = Some r"
  using hex_digits [of r] by (simp add: getu4_def u_escape_def hex_val_digit)

lemma string_step_u: "r < 65536 \<Longrightarrow> \<not> is_surrogate r \<Longrightarrow> string_step (u_escape r @ t) = StrEmit (encode_rune r) t"
  using getu4_u_escape [of r t] by (simp add: string_step_def u_escape_def)

lemma encode_rune_ascii: "r < 0x80 \<Longrightarrow> encode_rune r = [char_of r]"
  by (simp add: encode_rune_def)

lemma encode_rune_head: "0x80 \<le> r \<Longrightarrow> valid_rune r \<Longrightarrow> \<exists>c s. encode_rune r = c # s \<and> 0xC0 \<le> byte c"
  by (auto simp: encode_rune_def valid_rune_def byte_char_of div_less_iff_less_mult)

lemma byte_quote: "byte (CHR 0x22) = 0x22" "byte (CHR 0x5C) = 0x5C"
  by (simp_all add: byte_def)

lemma char_of_eq: "byte c = n \<Longrightarrow> c = char_of n"
  by (auto simp: byte_def)

lemma string_step_plain:
  assumes "valid_rune r" "0x20 \<le> r" "r \<noteq> 0x22" "r \<noteq> 0x5C"
  shows "string_step (encode_rune r @ t) = StrEmit (encode_rune r) t"
proof (cases "r < 0x80")
  case True
  then have c: "byte (char_of r) = r" by (simp add: byte_char_of)
  have "(char_of r :: char) \<noteq> CHR 0x22" "(char_of r :: char) \<noteq> CHR 0x5C"
    using assms c byte_quote by metis+
  moreover have "\<not> char_of r < CHR 0x20" "is_ascii (char_of r)"
    using assms True c by (simp_all add: class_byte char_le_byte byte_def not_less less_eq_char_def)
  ultimately show ?thesis using True by (simp add: encode_rune_ascii string_step_def)
next
  case False
  then have "0x80 \<le> r" by simp
  from encode_rune_head [OF this assms(1)] obtain c s where c: "encode_rune r = c # s" "0xC0 \<le> byte c" by blast
  have "c \<noteq> CHR 0x22" "c \<noteq> CHR 0x5C" "\<not> c < CHR 0x20" "\<not> is_ascii c"
    using c(2) by (auto simp: class_byte char_le_byte byte_def not_less less_eq_char_def)
  moreover have "decode_rune (c # s @ t) = (r, length (c # s))"
    using decode_encode_rune [OF assms(1), of t] c(1) by simp
  ultimately show ?thesis using c(1) by (simp add: string_step_def)
qed

lemma string_step_short:
  assumes "map_of short_escapes r = Some c"
  shows "string_step ([CHR 0x5C, c] @ t) = StrEmit (encode_rune r) t"
proof -
  have "(r, c) \<in> set short_escapes" using assms by (rule map_of_SomeD)
  then consider "r = 0x22 \<and> c = CHR 0x22" | "r = 0x5C \<and> c = CHR 0x5C" | "r = 0x08 \<and> c = CHR ''b''"
    | "r = 0x0C \<and> c = CHR ''f''" | "r = 0x0A \<and> c = CHR ''n''" | "r = 0x0D \<and> c = CHR ''r''" | "r = 0x09 \<and> c = CHR ''t''"
    by (auto simp: short_escapes_def)
  then show ?thesis
    by cases (auto simp: string_step_def escape_char_def encode_rune_def byte_def intro!: char_of_eq)
qed

lemma string_step_rune: "valid_rune r \<Longrightarrow> string_step (rune_text r @ t) = StrEmit (encode_rune r) t"
proof (cases "map_of short_escapes r")
  case (Some c)
  then show ?thesis using string_step_short [OF Some] by (simp add: rune_text_def)
next
  case None
  assume v: "valid_rune r"
  have ne: "r \<noteq> 0x22" "r \<noteq> 0x5C" using None by (auto simp: short_escapes_def)
  show ?thesis
  proof (cases "r < 0x20 \<or> r \<in> {0x3C, 0x3E, 0x26, 0x2028, 0x2029}")
    case True
    then have "r < 65536" "\<not> is_surrogate r" by (auto simp: is_surrogate_def)
    then show ?thesis using None True string_step_u by (simp add: rune_text_def)
  next
    case False
    then show ?thesis using None string_step_plain [OF v _ ne] by (simp add: rune_text_def)
  qed
qed

lemma parse_string_runes:
  "list_all valid_rune rs \<Longrightarrow>
   parse_string (concat (map rune_text rs) @ CHR 0x22 # t) = Some (concat (map encode_rune rs), t)"
proof (induction rs)
  case Nil
  then show ?case by (subst parse_string.simps) (simp add: string_step_def)
next
  case (Cons r rs)
  then show ?case by (subst parse_string.simps) (simp add: string_step_rune)
qed

lemma parse_string_text: "utf8 s \<Longrightarrow> \<exists>u. string_text s @ t = CHR 0x22 # u \<and> parse_string u = Some (s, t)"
  using parse_string_runes [OF runes_valid, of s t] by (simp add: string_text_def utf8_def)

text \<open>What may follow a value so that it is read as printed.\<close>

definition ends_value :: "string \<Rightarrow> bool" where
  "ends_value t \<longleftrightarrow> (case t of [] \<Rightarrow> True | c # _ \<Rightarrow> \<not> number_byte c)"

lemma takeWhile_number:
  "list_all number_byte n \<Longrightarrow> ends_value t \<Longrightarrow> takeWhile number_byte (n @ t) = n \<and> dropWhile number_byte (n @ t) = t"
  by (cases t) (auto simp: ends_value_def list_all_iff)

lemma number_byte_cases:
  assumes "number_byte c"
  shows "\<not> json_space c" "c \<notin> {CHR 0x22, CHR ''['', CHR 0x7B, CHR ''t'', CHR ''f'', CHR ''n'', CHR '']''}"
  using assms by (auto simp: number_byte_def json_space_def is_digit_def)

lemma decode_next_number:
  assumes "wf_json (JNum n)" "ends_value t"
  shows "decode_next (n @ t) = Some (JNum n, t)"
proof -
  obtain c m where n: "n = c # m" "number_byte c" using assms(1) by (cases n) auto
  note c = number_byte_cases [OF n(2)]
  have "skip_ws (n @ t) = c # m @ t" using c(1) n(1) by (simp add: skip_ws_def)
  moreover have "parse_number (c # m @ t) = Some (JNum n, t)"
    using assms takeWhile_number [of n t] n by (simp add: parse_number_def)
  ultimately show ?thesis using c(2) by (simp add: decode_next_def parse_value.simps)
qed

lemma ends_value_sep [simp]: "ends_value (CHR '','' # t)" "ends_value (CHR '']'' # t)" "ends_value (CHR 0x7D # t)"
  by (simp_all add: ends_value_def number_byte_def is_digit_def)

lemma json_text_head: "wf_json v \<Longrightarrow> \<exists>c t. json_text v = c # t \<and> \<not> json_space c \<and> c \<noteq> CHR '']''"
proof (cases v)
  case (JNum n)
  assume "wf_json v"
  then obtain c m where "n = c # m" "number_byte c" using JNum by (cases n) auto
  then show ?thesis using JNum number_byte_cases [of c] by simp
qed (auto simp: json_space_def string_text_def)

lemma expect_sep:
  "expect (CHR '','') (CHR '','' # t) = Some t" "expect (CHR '','') (CHR '']'' # t) = None"
  "expect (CHR '']'') (CHR '']'' # t) = Some t" "expect (CHR '','') (CHR 0x7D # t) = None"
  "expect (CHR 0x7D) (CHR 0x7D # t) = Some t" "expect (CHR 0x7D) (CHR 0x22 # t) = None"
  "expect (CHR 0x22) (CHR 0x22 # t) = Some t"
  by (simp_all add: expect_def skip_ws_def json_space_def)

lemma decode_elements_text:
  assumes "\<And>v t. v \<in> set vs \<Longrightarrow> ends_value t \<Longrightarrow> decode_next (json_text v @ t) = Some (v, t)" "vs \<noteq> []"
  shows "decode_elements (join '','' (map json_text vs) @ CHR '']'' # t) = Some (vs, t)"
  using assms
proof (induction vs)
  case Nil
  then show ?case by simp
next
  case (Cons v vs)
  have v: "ends_value t \<Longrightarrow> decode_next (json_text v @ t) = Some (v, t)" for t using Cons.prems(1) by simp
  show ?case
  proof (cases "vs = []")
    case True
    then show ?thesis using decode_elements_last [OF v expect_sep(3) expect_sep(2)] by simp
  next
    case False
    have "decode_elements (join '','' (map json_text vs) @ CHR '']'' # t) = Some (vs, t)"
      using Cons False by (intro Cons.IH) auto
    from decode_elements_more [OF v expect_sep(1) this] False show ?thesis
      by (simp add: join_Cons)
  qed
qed

lemma decode_members_text:
  assumes "\<And>k v t. (k, v) \<in> set ms \<Longrightarrow> ends_value t \<Longrightarrow> utf8 k \<and> decode_next (json_text v @ t) = Some (v, t)" "ms \<noteq> []"
  shows "decode_members (join '','' (map (\<lambda>(k, v). string_text k @ '':'' @ json_text v) ms) @ CHR 0x7D # t) = Some (ms, t)"
  using assms
proof (induction ms)
  case Nil
  then show ?case by simp
next
  case (Cons m ms)
  obtain k v where m: "m = (k, v)" by (cases m)
  have v: "decode_next (json_text v @ t) = Some (v, t)" if "ends_value t" for t using Cons.prems(1) [of k v t] that m by simp
  have k: "utf8 k" using Cons.prems(1) [of k v "[CHR 0x7D]"] m by simp
  show ?case
  proof (cases "ms = []")
    case True
    obtain u where "string_text k @ '':'' @ json_text v @ CHR 0x7D # t = CHR 0x22 # u"
      "parse_string u = Some (k, CHR '':'' # json_text v @ CHR 0x7D # t)"
      using parse_string_text [OF k, of "'':'' @ json_text v @ CHR 0x7D # t"] by auto
    from decode_members_step [OF this v] True m show ?thesis by (simp add: expect_sep)
  next
    case False
    let ?r = "join '','' (map (\<lambda>(k, v). string_text k @ '':'' @ json_text v) ms) @ CHR 0x7D # t"
    obtain u where "string_text k @ '':'' @ json_text v @ CHR '','' # ?r = CHR 0x22 # u"
      "parse_string u = Some (k, CHR '':'' # json_text v @ CHR '','' # ?r)"
      using parse_string_text [OF k, of "'':'' @ json_text v @ CHR '','' # ?r"] by auto
    note step = decode_members_step [OF this v]
    have "decode_members ?r = Some (ms, t)" using Cons False by (intro Cons.IH) auto
    then show ?thesis using step False m by (simp add: expect_sep join_Cons)
  qed
qed

lemma decode_next_text: "wf_json v \<Longrightarrow> ends_value t \<Longrightarrow> decode_next (json_text v @ t) = Some (v, t)"
proof (induction v arbitrary: t)
  case JNull
  then show ?case by (simp add: decode_next_def parse_value.simps skip_ws_def json_space_def)
next
  case (JBool b)
  then show ?case by (simp add: decode_next_def parse_value.simps skip_ws_def json_space_def)
next
  case (JNum n)
  then show ?case using decode_next_number [of n t] by simp
next
  case (JStr s)
  then show ?case using parse_string_text [of s t] by (auto simp: decode_next_string)
next
  case (JArr vs)
  show ?case
  proof (cases "vs = []")
    case True
    then show ?thesis by (simp add: decode_next_array expect_sep)
  next
    case False
    then obtain v vs' where vs: "vs = v # vs'" by (cases vs) auto
    then obtain c u where "json_text v = c # u" "\<not> json_space c" "c \<noteq> CHR '']''"
      using json_text_head [of v] JArr.prems by auto
    then have "expect (CHR '']'') (join '','' (map json_text vs) @ CHR '']'' # t) = None"
      unfolding vs by (cases vs') (simp_all add: expect_def skip_ws_def)
    moreover have "decode_elements (join '','' (map json_text vs) @ CHR '']'' # t) = Some (vs, t)"
      using JArr False by (intro decode_elements_text) (auto simp: list_all_iff)
    ultimately show ?thesis by (simp add: decode_next_array)
  qed
next
  case (JObj ms)
  show ?case
  proof (cases "ms = []")
    case True
    then show ?thesis by (simp add: decode_next_object expect_sep)
  next
    case False
    let ?body = "join '','' (map (\<lambda>(k, v). string_text k @ '':'' @ json_text v) ms) @ CHR 0x7D # t"
    obtain k v ms' where ms: "ms = (k, v) # ms'" using False by (cases ms) auto
    have "expect (CHR 0x7D) ?body = None"
      unfolding ms by (cases ms') (simp_all add: string_text_def expect_sep)
    moreover have "decode_members ?body = Some (ms, t)"
      using JObj False by (intro decode_members_text) (fastforce simp: list_all_iff)+
    ultimately show ?thesis by (simp add: decode_next_object)
  qed
qed

theorem parse_json_text: "wf_json v \<Longrightarrow> parse_json (json_text v) = Some v"
  using decode_next_text [of v "[]"] by (simp add: parse_json_def ends_value_def skip_ws_def)

subsection \<open>ASCII strings\<close>

lemma encode_ascii: "list_all is_ascii s \<Longrightarrow> concat (map encode_rune (map byte s)) = s"
  by (induction s) (simp_all add: encode_rune_def class_byte char_of_eq [of _ "byte _", OF refl, symmetric])

lemma utf8_ascii: "list_all is_ascii s \<Longrightarrow> utf8 s"
  using encode_ascii [of s] by (simp add: utf8_def runes_of_ascii)

lemma rune_text_length: "length (rune_text r) \<le> 6"
  by (auto simp: rune_text_def u_escape_def encode_rune_def split: option.splits)

lemma string_text_ascii_length: "list_all is_ascii s \<Longrightarrow> length (string_text s) \<le> 6 * length s + 2"
proof -
  assume s: "list_all is_ascii s"
  have "length (concat (map rune_text (map byte s))) \<le> 6 * length s"
  proof (induction s)
    case Nil
    then show ?case by simp
  next
    case (Cons c s)
    then show ?case using rune_text_length [of "byte c"] by simp
  qed
  then show ?thesis using s by (simp add: string_text_def runes_of_ascii)
qed

end
