(* ===== verification/Json_Struct.thy ===== *)
theory Json_Struct
  imports Json
begin

section \<open>Decoding JSON objects into records\<close>

text \<open>
  \<open>json.Decoder.Decode\<close> and \<open>json.Unmarshal\<close> into Go structs, as the program uses them: a table of
  fields with the update each makes, exact field names before names that differ in case only, later
  members overriding earlier ones, and \<open>null\<close> leaving a field alone. The first error of a decoding
  that goes wrong is its result. Limited reads and the files of a directory complete the picture of
  how a configuration file becomes a record.
\<close>

datatype decode_error = Malformed | UnknownField string | FieldType string

type_synonym 'r field = "string \<times> ('r \<Rightarrow> json \<Rightarrow> (decode_error, 'r) res)"

definition find_field :: "'r field list \<Rightarrow> string \<Rightarrow> ('r \<Rightarrow> json \<Rightarrow> (decode_error, 'r) res) option" where
  "find_field fs k = (case map_of fs k of Some f \<Rightarrow> Some f
     | None \<Rightarrow> map_option snd (find (\<lambda>(n, _). equal_fold n k) fs))"

fun decode_fields :: "bool \<Rightarrow> 'r field list \<Rightarrow> 'r \<Rightarrow> (string \<times> json) list \<Rightarrow> (decode_error, 'r) res" where
  "decode_fields strict fs r [] = Inr r"
| "decode_fields strict fs r ((k, v) # ms) =
     (case find_field fs k of
        None \<Rightarrow> if strict then Inl (UnknownField k) else decode_fields strict fs r ms
      | Some f \<Rightarrow> ebind (f r v) (\<lambda>r. decode_fields strict fs r ms))"

definition decode_struct :: "bool \<Rightarrow> 'r field list \<Rightarrow> 'r \<Rightarrow> json \<Rightarrow> (decode_error, 'r) res" where
  "decode_struct strict fs r v = (case v of JObj ms \<Rightarrow> decode_fields strict fs r ms
     | JNull \<Rightarrow> Inr r | _ \<Rightarrow> Inl (FieldType []))"

text \<open>Fields of the types the program decodes; each takes the record update it makes.\<close>

definition str_field :: "string \<Rightarrow> (string \<Rightarrow> 'r \<Rightarrow> 'r) \<Rightarrow> 'r field" where
  "str_field name upd = (name, \<lambda>r v. case v of JStr s \<Rightarrow> Inr (upd s r) | JNull \<Rightarrow> Inr r | _ \<Rightarrow> Inl (FieldType name))"

definition bool_field :: "string \<Rightarrow> (bool \<Rightarrow> 'r \<Rightarrow> 'r) \<Rightarrow> 'r field" where
  "bool_field name upd = (name, \<lambda>r v. case v of JBool b \<Rightarrow> Inr (upd b r) | JNull \<Rightarrow> Inr r | _ \<Rightarrow> Inl (FieldType name))"

text \<open>\<open>strconv.ParseInt\<close> on a number literal, for a 64-bit \<open>int\<close>.\<close>

definition int_literal :: "string \<Rightarrow> int option" where
  "int_literal t = (case nat_of_text (trim_prefix t ''-'') of None \<Rightarrow> None
     | Some n \<Rightarrow> let i = (if has_prefix t ''-'' then - int n else int n) in
         if - (2 ^ 63) \<le> i \<and> i < 2 ^ 63 then Some i else None)"

definition int_field :: "string \<Rightarrow> (int \<Rightarrow> 'r \<Rightarrow> 'r) \<Rightarrow> 'r field" where
  "int_field name upd = (name, \<lambda>r v. case v of JNull \<Rightarrow> Inr r
     | JNum t \<Rightarrow> (case int_literal t of None \<Rightarrow> Inl (FieldType name) | Some i \<Rightarrow> Inr (upd i r))
     | _ \<Rightarrow> Inl (FieldType name))"

fun str_items :: "json list \<Rightarrow> string list option" where
  "str_items [] = Some []"
| "str_items (JStr s # vs) = map_option ((#) s) (str_items vs)"
| "str_items (JNull # vs) = map_option ((#) []) (str_items vs)"
| "str_items (_ # vs) = None"

text \<open>A slice of strings: \<open>null\<close> makes it nil, and a null element is the empty string.\<close>

definition strs_field :: "string \<Rightarrow> (string list option \<Rightarrow> 'r \<Rightarrow> 'r) \<Rightarrow> 'r field" where
  "strs_field name upd = (name, \<lambda>r v. case v of JNull \<Rightarrow> Inr (upd None r)
     | JArr vs \<Rightarrow> (case str_items vs of None \<Rightarrow> Inl (FieldType name) | Some ss \<Rightarrow> Inr (upd (Some ss) r))
     | _ \<Rightarrow> Inl (FieldType name))"

text \<open>A pointer to a struct: \<open>null\<close> makes it nil; an object updates what it points to, or a zero value.\<close>

definition ptr_field :: "string \<Rightarrow> bool \<Rightarrow> 'a field list \<Rightarrow> 'a \<Rightarrow> ('r \<Rightarrow> 'a option) \<Rightarrow> ('a option \<Rightarrow> 'r \<Rightarrow> 'r) \<Rightarrow> 'r field" where
  "ptr_field name strict fs zero get upd = (name, \<lambda>r v. case v of JNull \<Rightarrow> Inr (upd None r)
     | JObj ms \<Rightarrow> ebind (decode_fields strict fs (case get r of None \<Rightarrow> zero | Some a \<Rightarrow> a) ms) (\<lambda>a. Inr (upd (Some a) r))
     | _ \<Rightarrow> Inl (FieldType name))"

text \<open>A \<open>json.RawMessage\<close> keeps the value, also \<open>null\<close>.\<close>

definition raw_field :: "string \<Rightarrow> (json \<Rightarrow> 'r \<Rightarrow> 'r) \<Rightarrow> 'r field" where
  "raw_field name upd = (name, \<lambda>r v. Inr (upd v r))"

text \<open>One value and then the end of the text; the error tells which of the two failed.\<close>

datatype ('e, 'a) single = NoValue 'e | Trailing | Single 'a

definition decode_single :: "string \<Rightarrow> (json \<Rightarrow> (decode_error, 'a) res) \<Rightarrow> (decode_error, 'a) single" where
  "decode_single data f = (case decode_next data of None \<Rightarrow> NoValue Malformed
     | Some (v, rest) \<Rightarrow> (case f v of Inl e \<Rightarrow> NoValue e
         | Inr a \<Rightarrow> if skip_ws rest = [] then Single a else Trailing))"

subsection \<open>Files\<close>

datatype file_read = Absent | OpenError | ReadError | Contents string

text \<open>\<open>io.ReadAll(io.LimitReader(f, limit + 1))\<close> followed by the length check.\<close>

datatype limited = TooLong | Within string

definition read_limited :: "nat \<Rightarrow> string \<Rightarrow> limited" where
  "read_limited limit contents =
     (let data = take (limit + 1) contents in if length data > limit then TooLong else Within data)"

lemma read_limited_cases:
  "read_limited limit contents = (if length contents > limit then TooLong else Within contents)"
  by (simp add: read_limited_def Let_def min_def)

text \<open>\<open>json.MarshalIndent\<close> with no prefix and two spaces.\<close>

definition indent_line :: "nat \<Rightarrow> string" where
  "indent_line d = CHR 0x0A # replicate (2 * d) (CHR 0x20)"

fun json_indent :: "nat \<Rightarrow> json \<Rightarrow> string" where
  "json_indent d (JObj ms) = (if ms = [] then [CHR 0x7B, CHR 0x7D]
     else [CHR 0x7B] @ join '','' (map (\<lambda>(k, v). indent_line (Suc d) @ string_text k @ '': '' @ json_indent (Suc d) v) ms)
       @ indent_line d @ [CHR 0x7D])"
| "json_indent d (JArr vs) = (if vs = [] then ''[]''
     else ''['' @ join '','' (map (\<lambda>v. indent_line (Suc d) @ json_indent (Suc d) v) vs) @ indent_line d @ '']'')"
| "json_indent d v = json_text v"

end
