(* ===== verification/Settings.thy ===== *)
theory Settings
  imports Json_Struct Profile
begin

section \<open>User settings and authentication browsers\<close>

text \<open>
  \<open>internal/config/settings.go\<close> and \<open>authentication_browsers.go\<close>: the settings file with its prompt
  and browser preferences, and the per-organisation browser rules. Files and directories are given by
  what reading them yields; a directory lists its entries in name order, as \<open>os.ReadDir\<close> does.
\<close>

definition max_settings_bytes :: nat where "max_settings_bytes = 64 * 1024"

datatype settings_error =
    SettingsPath | SettingsOpen | SettingsRead | SettingsTooLong | SettingsObject
  | ContainerEngine | SettingsInvalid | SettingsTrailing
  | PromptColour | PromptPlacement | PromptLabelEmpty | PromptLabelBytes | PromptLabelBraces
  | BrowserExecutableEmpty | BrowserExecutable | BrowserBatchFile | BrowserArgumentCount
  | BrowserArgument | BrowserPlaceholder | BrowserPlaceholderTwice
  | RulesRead | RuleFileName | RuleFile string rule_error | RuleDefaults
and rule_error = RuleNotRegular | RuleReadError | RuleTooLong | RuleInvalid | RuleTrailing
  | RuleEmpty | RuleCount | RuleTenant | RuleDomain | RuleDefaultTenant | RuleBrowser settings_error

subsection \<open>Prompt settings\<close>

definition default_prompt_settings :: prompt_settings where
  "default_prompt_settings = \<lparr>ps_enabled = True, ps_label = ''[Bivrost: '' @ [CHR 0x7B] @ ''environment'' @ [CHR 0x7D]
     @ '' / '' @ [CHR 0x7B] @ ''cluster'' @ [CHR 0x7D] @ '']'', ps_colour = ''cyan'', ps_placement = ''suffix''\<rparr>"

definition environment_mark :: string where
  "environment_mark = [CHR 0x7B] @ ''environment'' @ [CHR 0x7D]"

definition cluster_mark :: string where
  "cluster_mark = [CHR 0x7B] @ ''cluster'' @ [CHR 0x7D]"

text \<open>\<open>strings.NewReplacer\<close> with texts of which none is a prefix of another: left to right, no rescanning.\<close>

function replace_marks :: "(string \<times> string) list \<Rightarrow> string \<Rightarrow> string" where
  "replace_marks reps s = (case s of [] \<Rightarrow> [] | c # t \<Rightarrow>
     (case find (\<lambda>(old, _). old \<noteq> [] \<and> has_prefix s old) reps of
        Some (old, new) \<Rightarrow> new @ replace_marks reps (drop (length old) s)
      | None \<Rightarrow> c # replace_marks reps t))"
  by pat_completeness auto
termination
  by (relation "measure (length \<circ> snd)") (auto simp: find_Some_iff)

declare replace_marks.simps [simp del]

definition label_byte :: "nat \<Rightarrow> bool" where
  "label_byte r \<longleftrightarrow> \<not> (r < 32 \<or> r > 126 \<or> r \<in> {0x24, 0x60, 0x5C, 0x25, 0x21})"

definition validate_prompt_settings :: "prompt_settings \<Rightarrow> settings_error err" where
  "validate_prompt_settings p =
     (if ps_colour p \<notin> {''cyan'', ''yellow'', ''red'', ''green'', ''none''} then Some PromptColour
      else if ps_placement p \<notin> {''suffix'', ''prefix''} then Some PromptPlacement
      else if trim_space (ps_label p) = [] then Some PromptLabelEmpty
      else if \<not> list_all label_byte (runes (ps_label p)) then Some PromptLabelBytes
      else if contains_any (replace_marks [(environment_mark, []), (cluster_mark, [])] (ps_label p)) [CHR 0x7B, CHR 0x7D]
      then Some PromptLabelBraces else None)"

subsection \<open>Browsers\<close>

record authentication_browser =
  ab_executable :: string
  ab_arguments :: "string list"

definition authentication_url_placeholder :: string where
  "authentication_url_placeholder = [CHR 0x7B] @ ''url'' @ [CHR 0x7D]"

definition browser_command :: "authentication_browser \<Rightarrow> string \<Rightarrow> string \<times> string list" where
  "browser_command b address =
     (let args = map (\<lambda>a. if a = authentication_url_placeholder then address else a) (ab_arguments b);
        placed = list_ex (\<lambda>a. a = authentication_url_placeholder) (ab_arguments b)
      in (ab_executable b, if placed then args else args @ [address]))"

definition plain_setting :: "string \<Rightarrow> nat \<Rightarrow> bool" where
  "plain_setting v limit \<longleftrightarrow> length v \<le> limit \<and> list_all (\<lambda>r. \<not> (r < 32 \<or> r = 127)) (runes v)"

text \<open>\<open>filepath.Ext\<close>: the text from the last dot of the last path element.\<close>

definition path_ext :: "string \<Rightarrow> string" where
  "path_ext path = (let element = (case cut_last CHR ''/'' path of Some (_, e) \<Rightarrow> e | None \<Rightarrow> path) in
     case cut_last CHR ''.'' element of Some (_, e) \<Rightarrow> CHR ''.'' # e | None \<Rightarrow> [])"

fun check_browser_arguments :: "string list \<Rightarrow> nat \<Rightarrow> settings_error err" where
  "check_browser_arguments [] placeholders = (if placeholders > 1 then Some BrowserPlaceholderTwice else None)"
| "check_browser_arguments (a # args) placeholders =
     (if \<not> plain_setting a 1024 then Some BrowserArgument
      else if a = authentication_url_placeholder then check_browser_arguments args (placeholders + 1)
      else if contains_str a authentication_url_placeholder then Some BrowserPlaceholder
      else check_browser_arguments args placeholders)"

definition validate_authentication_browser :: "authentication_browser \<Rightarrow> settings_error err" where
  "validate_authentication_browser b =
     (if trim_space (ab_executable b) = [] then Some BrowserExecutableEmpty
      else if \<not> plain_setting (ab_executable b) 4096 then Some BrowserExecutable
      else if to_lower (path_ext (ab_executable b)) \<in> {''.bat'', ''.cmd''} then Some BrowserBatchFile
      else if length (ab_arguments b) > 32 then Some BrowserArgumentCount
      else check_browser_arguments (ab_arguments b) 0)"

subsection \<open>The settings file\<close>

record user_settings =
  us_prompt :: prompt_settings
  us_browser :: "authentication_browser option"
  us_interactive_connect :: bool

definition default_user_settings :: user_settings where
  "default_user_settings = \<lparr>us_prompt = default_prompt_settings, us_browser = None, us_interactive_connect = True\<rparr>"

definition prompt_fields :: "prompt_settings field list" where
  "prompt_fields = [bool_field ''enabled'' (\<lambda>x. ps_enabled_update (\<lambda>_. x)),
     str_field ''label'' (\<lambda>x. ps_label_update (\<lambda>_. x)),
     str_field ''colour'' (\<lambda>x. ps_colour_update (\<lambda>_. x)),
     str_field ''placement'' (\<lambda>x. ps_placement_update (\<lambda>_. x))]"

definition list_of :: "'a list option \<Rightarrow> 'a list" where
  "list_of xs = (case xs of None \<Rightarrow> [] | Some xs \<Rightarrow> xs)"

definition browser_fields :: "authentication_browser field list" where
  "browser_fields = [str_field ''executable'' (\<lambda>x. ab_executable_update (\<lambda>_. x)),
     strs_field ''arguments'' (\<lambda>x. ab_arguments_update (\<lambda>_. list_of x))]"

definition empty_browser :: authentication_browser where
  "empty_browser = \<lparr>ab_executable = [], ab_arguments = []\<rparr>"

record raw_settings =
  rs_prompt :: "json option"
  rs_browser :: "json option"
  rs_interactive :: "bool option"

definition settings_fields :: "raw_settings field list" where
  "settings_fields = [raw_field ''prompt'' (\<lambda>x. rs_prompt_update (\<lambda>_. Some x)),
     raw_field ''authentication_browser'' (\<lambda>x. rs_browser_update (\<lambda>_. Some x)),
     (''interactive_connect'', \<lambda>r v. case v of JBool b \<Rightarrow> Inr (r\<lparr>rs_interactive := Some b\<rparr>)
        | JNull \<Rightarrow> Inr (r\<lparr>rs_interactive := None\<rparr>) | _ \<Rightarrow> Inl (FieldType ''interactive_connect''))]"

definition settings_decode_error :: "decode_error \<Rightarrow> settings_error" where
  "settings_decode_error e = (if e = UnknownField ''container_engine'' then ContainerEngine else SettingsInvalid)"

text \<open>\<open>decodeSettingsObject\<close> on the text of a file, and on a value inside it, which ends where it ends.\<close>

definition decode_settings_object :: "'r field list \<Rightarrow> 'r \<Rightarrow> string \<Rightarrow> (settings_error, 'r) res" where
  "decode_settings_object fs r data =
     (let data = trim_space data in
      if \<not> has_prefix data [CHR 0x7B] then Inl SettingsObject
      else case decode_single data (decode_struct True fs r) of
        NoValue e \<Rightarrow> Inl (settings_decode_error e) | Trailing \<Rightarrow> Inl SettingsTrailing | Single r \<Rightarrow> Inr r)"

definition decode_settings_value :: "'r field list \<Rightarrow> 'r \<Rightarrow> json \<Rightarrow> (settings_error, 'r) res" where
  "decode_settings_value fs r v = (case v of
     JObj ms \<Rightarrow> (case decode_fields True fs r ms of Inl e \<Rightarrow> Inl (settings_decode_error e) | Inr r \<Rightarrow> Inr r)
   | _ \<Rightarrow> Inl SettingsObject)"

definition settings_prompt :: "raw_settings \<Rightarrow> (settings_error, prompt_settings) res" where
  "settings_prompt raw = ebind (case rs_prompt raw of None \<Rightarrow> Inr default_prompt_settings
       | Some v \<Rightarrow> decode_settings_value prompt_fields default_prompt_settings v)
     (\<lambda>p. case validate_prompt_settings p of Some e \<Rightarrow> Inl e | None \<Rightarrow> Inr p)"

definition settings_browser :: "raw_settings \<Rightarrow> (settings_error, authentication_browser option) res" where
  "settings_browser raw = (case rs_browser raw of None \<Rightarrow> Inr None
     | Some v \<Rightarrow> ebind (decode_settings_value browser_fields empty_browser v)
         (\<lambda>b. case validate_authentication_browser b of Some e \<Rightarrow> Inl e | None \<Rightarrow> Inr (Some b)))"

text \<open>
  \<open>LoadUserSettings\<close>; with an error the caller gets the defaults too, which \<open>settings_or_default\<close> adds.
\<close>

definition load_user_settings :: "file_read option \<Rightarrow> (settings_error, user_settings) res" where
  "load_user_settings file = (case file of None \<Rightarrow> Inl SettingsPath
     | Some Absent \<Rightarrow> Inr default_user_settings
     | Some OpenError \<Rightarrow> Inl SettingsOpen
     | Some ReadError \<Rightarrow> Inl SettingsRead
     | Some (Contents c) \<Rightarrow> (case read_limited max_settings_bytes c of TooLong \<Rightarrow> Inl SettingsTooLong
       | Within data \<Rightarrow>
         ebind (decode_settings_object settings_fields \<lparr>rs_prompt = None, rs_browser = None, rs_interactive = None\<rparr> data)
         (\<lambda>raw. ebind (settings_prompt raw) (\<lambda>p. ebind (settings_browser raw) (\<lambda>b.
           Inr \<lparr>us_prompt = p, us_browser = b,
             us_interactive_connect = (case rs_interactive raw of None \<Rightarrow> True | Some i \<Rightarrow> i)\<rparr>)))))"

definition settings_or_default :: "(settings_error, user_settings) res \<Rightarrow> user_settings" where
  "settings_or_default r = (case r of Inl _ \<Rightarrow> default_user_settings | Inr s \<Rightarrow> s)"

definition settings_text :: string where
  "settings_text = json_indent 0 (JObj [(''prompt'', JObj [
     (''enabled'', JBool (ps_enabled default_prompt_settings)), (''label'', JStr (ps_label default_prompt_settings)),
     (''colour'', JStr (ps_colour default_prompt_settings)), (''placement'', JStr (ps_placement default_prompt_settings))])])
     @ [CHR 0x0A]"

text \<open>\<open>InitSettings\<close>: the file after it, and whether it succeeded. It never touches an existing file.\<close>

datatype init_fault = InitOk | MkdirFails | CreateFails | WriteFails

definition init_settings :: "init_fault \<Rightarrow> file_read \<Rightarrow> file_read \<times> bool" where
  "init_settings fault file = (case fault of
     MkdirFails \<Rightarrow> (file, False)
   | CreateFails \<Rightarrow> (file, False)
   | WriteFails \<Rightarrow> (file, False)
   | InitOk \<Rightarrow> if file \<noteq> Absent then (file, False) else (Contents settings_text, True))"

subsection \<open>Browser rules\<close>

record browser_rule =
  br_name :: string
  br_tenants :: "string list"
  br_account_domains :: "string list"
  br_login_default :: bool
  br_browser :: authentication_browser

definition rule_name_pattern :: rx where
  "rule_name_pattern = Seq (Cls lower_or_digit) (rep_range 0 62 (Cls (\<lambda>c. lower_or_digit c \<or> c \<in> set ''._-'')))"

definition lower_hex :: rx where "lower_hex = Cls is_hex"

definition tenant_id_pattern :: rx where
  "tenant_id_pattern = Seq (rep 8 lower_hex) (Seq (text_rx ''-'') (Seq (rep 4 lower_hex) (Seq (text_rx ''-'')
     (Seq (rep 4 lower_hex) (Seq (text_rx ''-'') (Seq (rep 4 lower_hex) (Seq (text_rx ''-'') (rep 12 lower_hex))))))))"

definition domain_label :: rx where
  "domain_label = Seq (Cls lower_or_digit)
     (opt (Seq (rep_range 0 61 (Cls (\<lambda>c. lower_or_digit c \<or> c = CHR ''-''))) (Cls lower_or_digit)))"

definition domain_pattern :: rx where
  "domain_pattern = Seq domain_label (plus (Seq (text_rx ''.'') domain_label))"

definition rule_fields :: "browser_rule field list" where
  "rule_fields = [strs_field ''tenants'' (\<lambda>x. br_tenants_update (\<lambda>_. list_of x)),
     strs_field ''account_domains'' (\<lambda>x. br_account_domains_update (\<lambda>_. list_of x)),
     bool_field ''login_default'' (\<lambda>x. br_login_default_update (\<lambda>_. x)),
     str_field ''executable'' (\<lambda>x. br_browser_update (ab_executable_update (\<lambda>_. x))),
     strs_field ''arguments'' (\<lambda>x. br_browser_update (ab_arguments_update (\<lambda>_. list_of x)))]"

definition empty_rule :: browser_rule where
  "empty_rule = \<lparr>br_name = [], br_tenants = [], br_account_domains = [], br_login_default = False, br_browser = empty_browser\<rparr>"

definition validate_browser_rule :: "browser_rule \<Rightarrow> rule_error err" where
  "validate_browser_rule rule =
     (if br_tenants rule = [] \<and> br_account_domains rule = [] then Some RuleEmpty
      else if length (br_tenants rule) > 32 \<or> length (br_account_domains rule) > 32 then Some RuleCount
      else if \<not> list_all (\<lambda>t. rmatch tenant_id_pattern (to_lower t)) (br_tenants rule) then Some RuleTenant
      else if \<not> list_all (\<lambda>d. rmatch domain_pattern (to_lower d)) (br_account_domains rule) then Some RuleDomain
      else if br_login_default rule \<and> length (br_tenants rule) \<noteq> 1 then Some RuleDefaultTenant
      else map_option RuleBrowser (validate_authentication_browser (br_browser rule)))"

text \<open>A directory entry: its name and what its file is (\<open>None\<close> when not a regular file).\<close>

type_synonym dir_entry = "string \<times> file_read option"

definition load_browser_rule :: "file_read option \<Rightarrow> (rule_error, browser_rule) res" where
  "load_browser_rule file = (case file of
     Some (Contents c) \<Rightarrow> (case read_limited max_settings_bytes c of TooLong \<Rightarrow> Inl RuleTooLong
       | Within data \<Rightarrow> (case decode_single data (decode_struct True rule_fields empty_rule) of
           NoValue _ \<Rightarrow> Inl RuleInvalid | Trailing \<Rightarrow> Inl RuleTrailing
         | Single rule \<Rightarrow> (case validate_browser_rule rule of Some e \<Rightarrow> Inl e | None \<Rightarrow> Inr rule)))
   | Some ReadError \<Rightarrow> Inl RuleReadError
   | _ \<Rightarrow> Inl RuleNotRegular)"

fun load_rule_entries :: "dir_entry list \<Rightarrow> (settings_error, browser_rule list) res" where
  "load_rule_entries [] = Inr []"
| "load_rule_entries ((name, file) # entries) =
     (case cut_suffix name ''.json'' of (stem, ok) \<Rightarrow>
      if \<not> ok \<or> has_prefix stem ''.'' then load_rule_entries entries
      else if \<not> rmatch rule_name_pattern stem then Inl RuleFileName
      else case load_browser_rule file of Inl e \<Rightarrow> Inl (RuleFile stem e)
        | Inr rule \<Rightarrow> ebind (load_rule_entries entries) (\<lambda>rules. Inr (rule\<lparr>br_name := stem\<rparr> # rules)))"

text \<open>The directory: \<open>Inl True\<close> when it does not exist, \<open>Inl False\<close> when it cannot be read.\<close>

definition load_browser_rules :: "bool + dir_entry list \<Rightarrow> (settings_error, browser_rule list) res" where
  "load_browser_rules dir = (case dir of Inl missing \<Rightarrow> if missing then Inr [] else Inl RulesRead
     | Inr entries \<Rightarrow> ebind (load_rule_entries entries)
         (\<lambda>rules. if length (filter br_login_default rules) > 1 then Inl RuleDefaults else Inr rules))"

definition default_login_tenant :: "browser_rule list \<Rightarrow> string \<times> string" where
  "default_login_tenant rules = (case find br_login_default rules of
     Some r \<Rightarrow> (br_tenants r ! 0, br_name r)
   | None \<Rightarrow> (case rules of [r] \<Rightarrow> (case br_tenants r of [t] \<Rightarrow> (t, br_name r) | _ \<Rightarrow> ([], []))
       | _ \<Rightarrow> ([], [])))"

definition matches_fold :: "string list \<Rightarrow> string \<Rightarrow> bool" where
  "matches_fold vals want \<longleftrightarrow> want \<noteq> [] \<and> list_ex (\<lambda>v. equal_fold v want) vals"

text \<open>\<open>SelectAuthenticationBrowser\<close> over loaded rules and the browser of the settings.\<close>

definition select_authentication_browser ::
  "browser_rule list \<Rightarrow> (settings_error, authentication_browser option) res \<Rightarrow> string \<Rightarrow> string
    \<Rightarrow> (settings_error, authentication_browser option) res" where
  "select_authentication_browser rules fallback tenant account_domain =
     (case find (\<lambda>r. matches_fold (br_tenants r) tenant) rules of Some r \<Rightarrow> Inr (Some (br_browser r))
      | None \<Rightarrow> (case find (\<lambda>r. matches_fold (br_account_domains r) account_domain) rules of
          Some r \<Rightarrow> Inr (Some (br_browser r)) | None \<Rightarrow> fallback))"

definition has_authentication_browsers ::
  "(settings_error, browser_rule list) res \<Rightarrow> (settings_error, user_settings) res \<Rightarrow> (settings_error, bool) res" where
  "has_authentication_browsers rules settings = ebind rules (\<lambda>rs.
     ebind settings (\<lambda>s. Inr (rs \<noteq> [] \<or> us_browser s \<noteq> None)))"

subsection \<open>What loaded settings promise\<close>

text \<open>Bytes a prompt label may have: printable ASCII that no shell expands inside the prompt.\<close>

definition prompt_safe :: "char \<Rightarrow> bool" where
  "prompt_safe c \<longleftrightarrow> 32 \<le> byte c \<and> byte c \<le> 126 \<and> c \<notin> {CHR ''$'', CHR 0x60, CHR 0x5C, CHR 0x25, CHR ''!''}"

lemma label_byte_safe: "label_byte (byte c) \<Longrightarrow> prompt_safe c"
  by (auto simp: label_byte_def prompt_safe_def byte_def)

lemma label_bytes_safe:
  assumes "list_all label_byte (runes s)"
  shows "list_all prompt_safe s"
proof -
  have "list_all (\<lambda>r. r < 0x80) (runes s)" using assms by (rule list.pred_mono_strong) (simp add: label_byte_def)
  then have "runes s = map byte s" by (rule runes_ascii)
  then have "list_all label_byte (map byte s)" using assms by (rule subst)
  then show ?thesis unfolding list.pred_map comp_def by (rule list.pred_mono_strong) (rule label_byte_safe)
qed

definition valid_user_settings :: "user_settings \<Rightarrow> bool" where
  "valid_user_settings s \<longleftrightarrow> list_all prompt_safe (ps_label (us_prompt s)) \<and> trim_space (ps_label (us_prompt s)) \<noteq> []
     \<and> ps_colour (us_prompt s) \<in> {''cyan'', ''yellow'', ''red'', ''green'', ''none''}
     \<and> ps_placement (us_prompt s) \<in> {''suffix'', ''prefix''}
     \<and> (\<forall>b. us_browser s = Some b \<longrightarrow> validate_authentication_browser b = None)"

lemma validate_prompt_settings_ok:
  "validate_prompt_settings p = None \<longleftrightarrow> ps_colour p \<in> {''cyan'', ''yellow'', ''red'', ''green'', ''none''}
     \<and> ps_placement p \<in> {''suffix'', ''prefix''} \<and> trim_space (ps_label p) \<noteq> []
     \<and> list_all label_byte (runes (ps_label p))
     \<and> \<not> contains_any (replace_marks [(environment_mark, []), (cluster_mark, [])] (ps_label p)) [CHR 0x7B, CHR 0x7D]"
  unfolding validate_prompt_settings_def by simp

lemma default_label_ascii: "list_all is_ascii (ps_label default_prompt_settings)"
  by (simp add: default_prompt_settings_def str_simps)

lemma default_label_marks:
  "replace_marks [(environment_mark, []), (cluster_mark, [])] (ps_label default_prompt_settings) = ''[Bivrost:  / ]''"
  by code_simp

lemma default_label_text: "trim_space (ps_label default_prompt_settings) = ps_label default_prompt_settings"
  by code_simp

lemma default_prompt_valid: "validate_prompt_settings default_prompt_settings = None"
proof -
  have "list_all label_byte (runes (ps_label default_prompt_settings))"
    by (simp add: runes_of_ascii [OF default_label_ascii]) (simp add: default_prompt_settings_def label_byte_def byte_def)
  then show ?thesis
    unfolding validate_prompt_settings_ok default_label_marks default_label_text
    by (simp add: default_prompt_settings_def contains_any_def)
qed

lemma valid_default_settings: "valid_user_settings default_user_settings"
  using default_prompt_valid label_bytes_safe
  by (simp add: valid_user_settings_def default_user_settings_def validate_prompt_settings_ok)

lemma settings_prompt_ok: "settings_prompt raw = Inr p \<Longrightarrow> validate_prompt_settings p = None"
  by (auto simp: settings_prompt_def ebind_Inr_iff split: option.splits)

lemma settings_browser_ok: "settings_browser raw = Inr (Some b) \<Longrightarrow> validate_authentication_browser b = None"
  by (auto simp: settings_browser_def ebind_Inr_iff split: option.splits)

text \<open>
  Whatever the settings file holds, the settings in force are valid: the prompt label is printable
  ASCII without shell-active bytes, and a configured browser passed its checks. A file that does not
  decode or validate leaves the defaults in force.
\<close>

theorem loaded_settings_valid: "valid_user_settings (settings_or_default (load_user_settings file))"
proof (cases "load_user_settings file")
  case (Inl e)
  then show ?thesis by (simp add: settings_or_default_def valid_default_settings)
next
  case (Inr s)
  have "s = default_user_settings \<or> (\<exists>raw. settings_prompt raw = Inr (us_prompt s) \<and> settings_browser raw = Inr (us_browser s))"
    using Inr by (auto simp: load_user_settings_def ebind_Inr_iff split: option.splits file_read.splits limited.splits)
  then show ?thesis using valid_default_settings
    by (auto simp: Inr settings_or_default_def valid_user_settings_def validate_prompt_settings_ok
        dest!: settings_prompt_ok settings_browser_ok intro: label_bytes_safe)
qed

lemma check_browser_arguments_count:
  "check_browser_arguments args n = None \<Longrightarrow> n + count_list args authentication_url_placeholder \<le> 1"
  by (induction args n rule: check_browser_arguments.induct) (auto split: if_splits)

lemma count_le_1_split:
  assumes "count_list xs x \<le> 1" "x \<in> set xs"
  shows "\<exists>pre post. xs = pre @ x # post \<and> x \<notin> set pre \<and> x \<notin> set post"
proof -
  obtain pre post where split: "xs = pre @ x # post" "x \<notin> set pre" using split_list_first [OF assms(2)] by blast
  then have "count_list post x = 0" using assms(1) by (simp add: count_list_append)
  then show ?thesis using split by (auto simp: count_list_0_iff)
qed

text \<open>
  A validated browser is started with its configured arguments and the sign-in address once: in the
  place of the placeholder argument, or as the last argument. No other argument changes, so an
  address is never interpreted as part of another argument.
\<close>

theorem browser_command_address_once:
  assumes "validate_authentication_browser b = None"
  shows "\<exists>pre post. snd (browser_command b address) = pre @ [address] @ post
     \<and> authentication_url_placeholder \<notin> set pre \<union> set post
     \<and> (ab_arguments b = pre @ [authentication_url_placeholder] @ post \<or> ab_arguments b = pre \<and> post = [])"
proof (cases "authentication_url_placeholder \<in> set (ab_arguments b)")
  case True
  have "check_browser_arguments (ab_arguments b) 0 = None"
    using assms by (simp add: validate_authentication_browser_def split: if_splits)
  from check_browser_arguments_count [OF this] True obtain pre post where
    split: "ab_arguments b = pre @ authentication_url_placeholder # post"
      "authentication_url_placeholder \<notin> set pre" "authentication_url_placeholder \<notin> set post"
    using count_le_1_split by fastforce
  then have "map (\<lambda>a. if a = authentication_url_placeholder then address else a) pre = pre"
    "map (\<lambda>a. if a = authentication_url_placeholder then address else a) post = post"
    by (auto intro!: map_idI)
  then have "snd (browser_command b address) = pre @ [address] @ post"
    using split by (simp add: browser_command_def)
  then show ?thesis using split by auto
next
  case False
  then have "map (\<lambda>a. if a = authentication_url_placeholder then address else a) (ab_arguments b) = ab_arguments b"
    by (auto intro!: map_idI)
  then have "snd (browser_command b address) = ab_arguments b @ [address] @ []"
    using False by (auto simp: browser_command_def list_ex_iff)
  then show ?thesis using False by (intro exI [of _ "ab_arguments b"] exI [of _ "[]"]) simp
qed

definition sample_browser :: authentication_browser where
  "sample_browser = \<lparr>ab_executable = ''/usr/bin/firefox'', ab_arguments = [''-P'', ''work'', authentication_url_placeholder]\<rparr>"

theorem browser_command_address_once_witness:
  "\<exists>pre post. snd (browser_command sample_browser ''https://login'') = pre @ [''https://login''] @ post"
proof -
  have "validate_authentication_browser sample_browser = None" by code_simp
  from browser_command_address_once [OF this] show ?thesis by blast
qed

text \<open>
  A tenant match in any rule beats an account-domain match in any rule, the first rule in name
  order wins among those that match, and only when no rule matches do the settings decide.
\<close>

theorem select_authentication_browser_precedence:
  "select_authentication_browser rules fallback tenant account_domain =
     (if \<exists>r \<in> set rules. matches_fold (br_tenants r) tenant
      then Inr (Some (br_browser (hd (filter (\<lambda>r. matches_fold (br_tenants r) tenant) rules))))
      else if \<exists>r \<in> set rules. matches_fold (br_account_domains r) account_domain
      then Inr (Some (br_browser (hd (filter (\<lambda>r. matches_fold (br_account_domains r) account_domain) rules))))
      else fallback)"
proof -
  have find: "find P xs = (if \<exists>x \<in> set xs. P x then Some (hd (filter P xs)) else None)" for P :: "browser_rule \<Rightarrow> bool" and xs
    by (induction xs) auto
  show ?thesis by (simp add: select_authentication_browser_def find)
qed

end
