(* ===== verification/Catalogue.thy ===== *)
theory Catalogue
  imports Settings
begin

section \<open>Profile files and the environment catalogue\<close>

text \<open>
  \<open>internal/config/catalogue.go\<close>, \<open>paths.go\<close> and \<open>Load\<close> of \<open>profile.go\<close>: how a profile comes from a
  file named on the command line, from a local file of the environment's name, or from the shared
  catalogue. The file system is a record of what the calls on paths yield. A catalogue is a Go
  map, whose iteration order is not defined: the model checks the members in file order, which only
  decides which of several errors is reported.
\<close>

datatype lstat = Missing | Uninspectable | Present

record config_files =
  cf_xdg_config_home :: string
  cf_user_config_dir :: "string option"
  cf_catalogue_var :: string
  cf_read :: "string \<Rightarrow> file_read"
  cf_lstat :: "string \<Rightarrow> lstat"
  cf_dir :: "string \<Rightarrow> bool + string list"

datatype config_error =
    RootRelative | RootUnknown | Exclusive | EnvironmentName
  | LoadOpen | LoadInvalid | LoadTrailing
  | CatalogueInspect | CatalogueOpen | CatalogueRead | CatalogueTooLong | CatalogueObject | CatalogueTrailing
  | CatalogueName string | CatalogueDecode string | CatalogueProfile string profile_error
  | LocalInspect | UnknownEnvironment string | LocalDirectory

subsection \<open>Paths\<close>

definition user_root :: "config_files \<Rightarrow> (config_error, string) res" where
  "user_root fs = (if cf_xdg_config_home fs \<noteq> [] then
       (if \<not> is_abs (cf_xdg_config_home fs) then Inl RootRelative else Inr (cf_xdg_config_home fs))
     else case cf_user_config_dir fs of None \<Rightarrow> Inl RootUnknown | Some root \<Rightarrow> Inr root)"

definition environment_path :: "string \<Rightarrow> string \<Rightarrow> string" where
  "environment_path root environment = path_join [root, ''bivrost'', ''environments'', environment @ ''.json'']"

definition resolve_path :: "config_files \<Rightarrow> string \<Rightarrow> string \<Rightarrow> (config_error, string) res" where
  "resolve_path fs environment explicit_path =
     (if environment \<noteq> [] \<and> explicit_path \<noteq> [] then Inl Exclusive
      else if explicit_path \<noteq> [] then Inr explicit_path
      else if \<not> valid_environment_name environment then Inl EnvironmentName
      else ebind (user_root fs) (\<lambda>root. Inr (environment_path root environment)))"

subsection \<open>Decoding profiles\<close>

definition aks_fields :: "aks field list" where
  "aks_fields = [str_field ''name'' (\<lambda>x. aks_name_update (\<lambda>_. x)),
     str_field ''resource_group'' (\<lambda>x. aks_resource_group_update (\<lambda>_. x)),
     str_field ''subscription'' (\<lambda>x. aks_subscription_update (\<lambda>_. x))]"

definition heimdal_fields :: "heimdal_source field list" where
  "heimdal_fields = [str_field ''subscription'' (\<lambda>x. hs_subscription_update (\<lambda>_. x)),
     str_field ''account'' (\<lambda>x. hs_account_update (\<lambda>_. x)),
     str_field ''container'' (\<lambda>x. hs_container_update (\<lambda>_. x)),
     str_field ''environment'' (\<lambda>x. hs_environment_update (\<lambda>_. x)),
     str_field ''prefix'' (\<lambda>x. hs_prefix_update (\<lambda>_. x)),
     bool_field ''allow_local_fallback'' (\<lambda>x. hs_allow_local_fallback_update (\<lambda>_. x)),
     strs_field ''allowed_route_suffixes'' (\<lambda>x. hs_allowed_route_suffixes_update (\<lambda>_. x))]"

definition empty_heimdal :: heimdal_source where
  "empty_heimdal = \<lparr>hs_subscription = [], hs_account = [], hs_container = [], hs_environment = [], hs_prefix = [],
     hs_allow_local_fallback = False, hs_allowed_route_suffixes = None\<rparr>"

definition profile_fields :: "profile field list" where
  "profile_fields = [str_field ''acr_probe_image'' (\<lambda>x. pf_acr_probe_image_update (\<lambda>_. x)),
     bool_field ''requires_pim'' (\<lambda>x. pf_requires_pim_update (\<lambda>_. x)),
     ptr_field ''aks'' True aks_fields \<lparr>aks_name = [], aks_resource_group = [], aks_subscription = []\<rparr>
       pf_aks (\<lambda>x. pf_aks_update (\<lambda>_. x)),
     strs_field ''private_hosts'' (\<lambda>x. pf_private_hosts_update (\<lambda>_. list_of x)),
     ptr_field ''heimdal'' True heimdal_fields empty_heimdal pf_heimdal (\<lambda>x. pf_heimdal_update (\<lambda>_. x)),
     str_field ''registry'' (\<lambda>x. pf_registry_update (\<lambda>_. x)),
     str_field ''registry_subscription'' (\<lambda>x. pf_registry_subscription_update (\<lambda>_. x)),
     str_field ''subscription'' (\<lambda>x. pf_subscription_update (\<lambda>_. x)),
     str_field ''bastion_name'' (\<lambda>x. pf_bastion_name_update (\<lambda>_. x)),
     str_field ''bastion_resource_group'' (\<lambda>x. pf_bastion_resource_group_update (\<lambda>_. x)),
     str_field ''vm_resource_id'' (\<lambda>x. pf_vm_resource_id_update (\<lambda>_. x)),
     int_field ''proxy_port'' (\<lambda>x. pf_proxy_port_update (\<lambda>_. x)),
     int_field ''socks_port'' (\<lambda>x. pf_socks_port_update (\<lambda>_. x)),
     int_field ''max_sessions'' (\<lambda>x. pf_max_sessions_update (\<lambda>_. x)),
     str_field ''ssh_user'' (\<lambda>x. pf_ssh_user_update (\<lambda>_. x)),
     str_field ''identity_file'' (\<lambda>x. pf_identity_file_update (\<lambda>_. x))]"

text \<open>\<open>Load\<close>: at most 64 KiB are read, and what follows them is not looked at.\<close>

definition load_profile :: "file_read \<Rightarrow> (config_error, profile) res" where
  "load_profile file = (case file of
     Contents c \<Rightarrow> (case decode_single (take (64 * 1024) c) (decode_struct True profile_fields empty_profile) of
         NoValue _ \<Rightarrow> Inl LoadInvalid | Trailing \<Rightarrow> Inl LoadTrailing | Single p \<Rightarrow> Inr p)
   | ReadError \<Rightarrow> Inl LoadInvalid
   | _ \<Rightarrow> Inl LoadOpen)"

subsection \<open>The catalogue\<close>

definition max_catalogue_bytes :: nat where "max_catalogue_bytes = 1024 * 1024"

text \<open>The members of an object as a map: the last value of each name, once.\<close>

fun last_members :: "(string \<times> json) list \<Rightarrow> (string \<times> json) list" where
  "last_members [] = []"
| "last_members ((k, v) # ms) = (if k \<in> fst ` set ms then last_members ms else (k, v) # last_members ms)"

definition catalogue_profile :: "string \<Rightarrow> json \<Rightarrow> (config_error, profile) res" where
  "catalogue_profile name raw =
     (if \<not> valid_environment_name name then Inl (CatalogueName name)
      else case decode_struct True profile_fields empty_profile raw of Inl _ \<Rightarrow> Inl (CatalogueDecode name)
      | Inr c \<Rightarrow> (case validate_platform c of Some e \<Rightarrow> Inl (CatalogueProfile name e) | None \<Rightarrow> Inr c))"

fun catalogue_profiles :: "(string \<times> json) list \<Rightarrow> (config_error, (string \<times> profile) list) res" where
  "catalogue_profiles [] = Inr []"
| "catalogue_profiles ((name, raw) # ms) =
     ebind (catalogue_profile name raw) (\<lambda>c. ebind (catalogue_profiles ms) (\<lambda>cs. Inr ((name, c) # cs)))"

definition decode_catalogue :: "string \<Rightarrow> (config_error, (string \<times> profile) list) res" where
  "decode_catalogue data = (case decode_single data
        (\<lambda>v. case v of JObj ms \<Rightarrow> Inr (Some ms) | JNull \<Rightarrow> Inr None | _ \<Rightarrow> Inl (FieldType [])) of
     NoValue _ \<Rightarrow> Inl CatalogueObject
   | Trailing \<Rightarrow> Inl CatalogueTrailing
   | Single None \<Rightarrow> Inl CatalogueObject
   | Single (Some ms) \<Rightarrow> catalogue_profiles (last_members ms))"

definition read_catalogue :: "file_read \<Rightarrow> (config_error, (string \<times> profile) list) res" where
  "read_catalogue file = (case file of
     Contents c \<Rightarrow> (case read_limited max_catalogue_bytes c of TooLong \<Rightarrow> Inl CatalogueTooLong
       | Within data \<Rightarrow> decode_catalogue data)
   | ReadError \<Rightarrow> Inl CatalogueRead
   | _ \<Rightarrow> Inl CatalogueOpen)"

definition load_catalogue :: "config_files \<Rightarrow> (config_error, (string \<times> profile) list) res" where
  "load_catalogue fs =
     (if cf_catalogue_var fs \<noteq> [] then read_catalogue (cf_read fs (cf_catalogue_var fs))
      else ebind (user_root fs) (\<lambda>root.
        let path = path_join [root, ''bivrost'', ''catalogue.json''] in
        case cf_lstat fs path of Missing \<Rightarrow> Inr [] | Uninspectable \<Rightarrow> Inl CatalogueInspect
        | Present \<Rightarrow> read_catalogue (cf_read fs path)))"

definition load_environment :: "config_files \<Rightarrow> string \<Rightarrow> string \<Rightarrow> (config_error, profile) res" where
  "load_environment fs name explicit_path = ebind (resolve_path fs name explicit_path) (\<lambda>path.
     if explicit_path \<noteq> [] then load_profile (cf_read fs path)
     else case cf_lstat fs path of
       Present \<Rightarrow> ebind (load_profile (cf_read fs path)) (\<lambda>c. Inr (c\<lparr>pf_environment := name\<rparr>))
     | Uninspectable \<Rightarrow> Inl LocalInspect
     | Missing \<Rightarrow> ebind (load_catalogue fs) (\<lambda>cat. case map_of cat name of
           None \<Rightarrow> Inl (UnknownEnvironment name) | Some c \<Rightarrow> Inr (c\<lparr>pf_environment := name\<rparr>)))"

subsection \<open>Listing\<close>

definition local_environment_names :: "config_files \<Rightarrow> (config_error, string list) res" where
  "local_environment_names fs = ebind (user_root fs) (\<lambda>root.
     case cf_dir fs (path_join [root, ''bivrost'', ''environments'']) of
       Inl missing \<Rightarrow> if missing then Inr [] else Inl LocalDirectory
     | Inr entries \<Rightarrow> Inr (filter valid_environment_name
         (map (\<lambda>f. trim_suffix f ''.json'') (filter (\<lambda>f. path_ext f = ''.json'') entries))))"

definition environment_sources :: "config_files \<Rightarrow> (config_error, (string \<times> profile) list \<times> string list) res" where
  "environment_sources fs = ebind (load_catalogue fs) (\<lambda>cat.
     ebind (local_environment_names fs) (\<lambda>names. Inr (cat, names)))"

definition count_environments :: "config_files \<Rightarrow> (config_error, int) res" where
  "count_environments fs = ebind (environment_sources fs) (\<lambda>(cat, names).
     Inr (int (length (remdups (map fst cat @ names)))))"

definition environment_row :: "string \<Rightarrow> string \<Rightarrow> profile \<Rightarrow> string list" where
  "environment_row name source c = [name, source, if pf_aks c \<noteq> None then ''configured'' else ''-'',
     if pf_registry c \<noteq> [] then ''configured'' else ''-'',
     if pf_requires_pim c then ''required'' else ''not required'']"

fun list_rows :: "config_files \<Rightarrow> (string \<times> profile) list \<Rightarrow> string list \<Rightarrow> string list
    \<Rightarrow> (config_error, string list list) res" where
  "list_rows fs cat names [] = Inr []"
| "list_rows fs cat names (name # ordered) =
     ebind (if name \<in> set names then
         ebind (resolve_path fs name []) (\<lambda>path. ebind (load_profile (cf_read fs path)) (\<lambda>c.
           Inr (environment_row name (if name \<in> fst ` set cat then ''local override'' else ''local'') c)))
       else Inr (environment_row name ''catalogue'' (case map_of cat name of Some c \<Rightarrow> c | None \<Rightarrow> empty_profile)))
     (\<lambda>row. ebind (list_rows fs cat names ordered) (\<lambda>rows. Inr (row # rows)))"

definition list_environments :: "config_files \<Rightarrow> (config_error, string list list) res" where
  "list_environments fs = ebind (environment_sources fs) (\<lambda>(cat, names).
     list_rows fs cat names (sort (remdups (map fst cat @ names))))"

subsection \<open>What a configuration file can and cannot do\<close>

lemma find_field_in: "find_field fs k = Some f \<Longrightarrow> \<exists>n. (n, f) \<in> set fs"
proof (cases "map_of fs k")
  case (Some g)
  assume "find_field fs k = Some f"
  then show ?thesis using Some map_of_SomeD [OF Some] by (auto simp: find_field_def)
next
  case None
  assume "find_field fs k = Some f"
  then obtain n where "find (\<lambda>(n, _). equal_fold n k) fs = Some (n, f)" using None by (auto simp: find_field_def)
  then have "(n, f) \<in> set fs" by (auto simp: find_Some_iff) (metis nth_mem)
  then show ?thesis by blast
qed

text \<open>A part of the record that no field of the table touches is kept.\<close>

definition keeps :: "('r \<Rightarrow> 'b) \<Rightarrow> 'r field list \<Rightarrow> bool" where
  "keeps g fs \<longleftrightarrow> (\<forall>(n, f) \<in> set fs. \<forall>r v r'. f r v = Inr r' \<longrightarrow> g r' = g r)"

lemma decode_fields_keeps:
  assumes "keeps g fs"
  shows "decode_fields strict fs r ms = Inr r' \<Longrightarrow> g r' = g r"
proof (induction ms arbitrary: r)
  case Nil
  then show ?case by simp
next
  case (Cons m ms)
  obtain k v where m: "m = (k, v)" by (cases m)
  show ?case
  proof (cases "find_field fs k")
    case None
    then show ?thesis using Cons m by (auto split: if_splits)
  next
    case (Some f)
    then obtain r1 where r1: "f r v = Inr r1" "decode_fields strict fs r1 ms = Inr r'"
      using Cons.prems m by (auto simp: ebind_Inr_iff)
    then have "g r1 = g r" using assms find_field_in [OF Some] unfolding keeps_def by blast
    then show ?thesis using Cons.IH [OF r1(2)] by simp
  qed
qed

lemma decode_struct_keeps: "keeps g fs \<Longrightarrow> decode_struct strict fs r v = Inr r' \<Longrightarrow> g r' = g r"
  by (auto simp: decode_struct_def dest: decode_fields_keeps split: json.splits)

lemma keeps_Nil [simp]: "keeps g []"
  by (simp add: keeps_def)

lemma keeps_Cons [simp]: "keeps g (f # fs) \<longleftrightarrow> keeps g [f] \<and> keeps g fs"
  by (auto simp: keeps_def)

lemma keeps_str: "(\<And>x r. g (upd x r) = g r) \<Longrightarrow> keeps g [str_field n upd]"
  by (auto simp: keeps_def str_field_def split: json.splits)

lemma keeps_bool: "(\<And>x r. g (upd x r) = g r) \<Longrightarrow> keeps g [bool_field n upd]"
  by (auto simp: keeps_def bool_field_def split: json.splits)

lemma keeps_int: "(\<And>x r. g (upd x r) = g r) \<Longrightarrow> keeps g [int_field n upd]"
  by (auto simp: keeps_def int_field_def split: json.splits option.splits)

lemma keeps_strs: "(\<And>x r. g (upd x r) = g r) \<Longrightarrow> keeps g [strs_field n upd]"
  by (auto simp: keeps_def strs_field_def split: json.splits option.splits)

lemma keeps_ptr: "(\<And>x r. g (upd x r) = g r) \<Longrightarrow> keeps g [ptr_field n b fs z get upd]"
  by (auto simp: keeps_def ptr_field_def ebind_Inr_iff split: json.splits option.splits)

definition session_only :: "profile \<Rightarrow> bool \<times> bool \<times> bool \<times> prompt_settings option" where
  "session_only c = (pf_skip_pull_probe c, pf_acr_session c, pf_skip_registry_login c, pf_prompt c)"

lemma profile_fields_keep: "keeps (\<lambda>c. (session_only c, pf_environment c)) profile_fields"
  unfolding profile_fields_def
  by (simp add: keeps_str keeps_bool keeps_int keeps_strs keeps_ptr session_only_def del: keeps_Cons
      flip: keeps_Cons add: keeps_Cons [of _ _ "_ # _"])

lemma decoded_profile_fields:
  "decode_struct True profile_fields empty_profile v = Inr c \<Longrightarrow>
   session_only c = (False, False, False, None) \<and> pf_environment c = []"
  using decode_struct_keeps [OF profile_fields_keep, of True empty_profile v c]
  by (simp add: session_only_def empty_profile_def)

lemma decode_single_Single: "decode_single data f = Single a \<Longrightarrow> \<exists>v. f v = Inr a"
  by (auto simp: decode_single_def split: option.splits sum.splits if_splits)

lemma load_profile_fields:
  "load_profile file = Inr c \<Longrightarrow> session_only c = (False, False, False, None) \<and> pf_environment c = []"
  by (auto simp: load_profile_def split: file_read.splits single.splits
      dest!: decode_single_Single decoded_profile_fields)

lemma catalogue_profiles_valid:
  "catalogue_profiles ms = Inr cs \<Longrightarrow> (n, c) \<in> set cs \<Longrightarrow> valid_environment_name n \<and> validate_platform c = None
     \<and> session_only c = (False, False, False, None)"
proof (induction ms arbitrary: cs)
  case Nil
  then show ?case by simp
next
  case (Cons m ms)
  obtain k v where "m = (k, v)" by (cases m)
  then obtain c' cs' where c': "catalogue_profile k v = Inr c'" "catalogue_profiles ms = Inr cs'" "cs = (k, c') # cs'"
    using Cons.prems(1) by (auto simp: ebind_Inr_iff)
  then have "valid_environment_name k \<and> validate_platform c' = None \<and> session_only c' = (False, False, False, None)"
    by (auto simp: catalogue_profile_def dest: decoded_profile_fields split: if_splits sum.splits option.splits)
  then show ?case using Cons.IH [OF c'(2)] Cons.prems(2) c'(3) by auto
qed

lemma read_catalogue_valid:
  "read_catalogue file = Inr cs \<Longrightarrow> (n, c) \<in> set cs \<Longrightarrow> valid_environment_name n \<and> validate_platform c = None
     \<and> session_only c = (False, False, False, None)"
  using catalogue_profiles_valid
  by (simp add: read_catalogue_def decode_catalogue_def split: file_read.splits limited.splits single.splits option.splits)

lemma load_catalogue_valid:
  assumes "load_catalogue fs = Inr cs" "(n, c) \<in> set cs"
  shows "valid_environment_name n \<and> validate_platform c = None \<and> session_only c = (False, False, False, None)"
proof (cases "cf_catalogue_var fs = []")
  case False
  then show ?thesis using assms read_catalogue_valid by (simp add: load_catalogue_def)
next
  case True
  then obtain root where root: "user_root fs = Inr root" using assms(1) by (auto simp: load_catalogue_def ebind_Inr_iff)
  then show ?thesis using True assms read_catalogue_valid
    by (cases "cf_lstat fs (path_join [root, ''bivrost'', ''catalogue.json''])") (auto simp: load_catalogue_def Let_def)
qed

lemma validate_platform_environment [simp]: "validate_platform (c\<lparr>pf_environment := n\<rparr>) = validate_platform c"
  by (simp add: validate_platform_def validate_connection_def validate_proxy_def validate_private_hosts_def Let_def
      cong: option.case_cong)

lemma loaded_session_fields:
  assumes "load_environment fs name path = Inr c"
  shows "\<not> pf_skip_pull_probe c \<and> \<not> pf_acr_session c \<and> \<not> pf_skip_registry_login c \<and> pf_prompt c = None
    \<and> pf_environment c = (if path = [] then name else [])"
proof -
  have "session_only c = (False, False, False, None) \<and> pf_environment c = (if path = [] then name else [])"
  proof (cases "path = []")
    case False
    then show ?thesis using assms
      by (auto simp: load_environment_def ebind_Inr_iff dest: load_profile_fields)
  next
    case True
    then obtain p where p: "resolve_path fs name [] = Inr p" using assms by (auto simp: load_environment_def ebind_Inr_iff)
    have "\<exists>c0. c = c0\<lparr>pf_environment := name\<rparr> \<and>
      ((\<exists>file. load_profile file = Inr c0) \<or> (\<exists>cs. load_catalogue fs = Inr cs \<and> (name, c0) \<in> set cs))"
      using assms True p
      by (cases "cf_lstat fs p")
        (fastforce simp: load_environment_def ebind_Inr_iff split: option.splits dest: map_of_SomeD)+
    then obtain c0 where c: "c = c0\<lparr>pf_environment := name\<rparr>" and
      "(\<exists>file. load_profile file = Inr c0) \<or> (\<exists>cs. load_catalogue fs = Inr cs \<and> (name, c0) \<in> set cs)" by blast
    then have "session_only c0 = (False, False, False, None)"
      using load_profile_fields load_catalogue_valid by blast
    then show ?thesis using c True by (simp add: session_only_def)
  qed
  then show ?thesis by (simp add: session_only_def)
qed

text \<open>
  A profile, wherever it comes from, cannot switch off the registry login or the pull probe, open
  a registry session or set the prompt: no configuration file reaches those fields, and the
  environment name is the one that was asked for.
\<close>

theorem load_environment_session_fields:
  assumes "load_environment fs name path = Inr c"
  shows "\<not> pf_skip_pull_probe c \<and> \<not> pf_acr_session c \<and> \<not> pf_skip_registry_login c \<and> pf_prompt c = None
    \<and> pf_environment c = (if path = [] then name else [])"
  by (rule loaded_session_fields [OF assms])

text \<open>
  An environment chosen by name comes from the user's own file when one exists (also when that file
  is a broken link, which is then an error) and otherwise from a validated catalogue entry; the
  catalogue never replaces a local file.
\<close>

theorem load_environment_source:
  assumes "load_environment fs name [] = Inr c"
  shows "valid_environment_name name \<and> (\<exists>root. user_root fs = Inr root
     \<and> (case cf_lstat fs (environment_path root name) of
          Present \<Rightarrow> load_profile (cf_read fs (environment_path root name)) = Inr (c\<lparr>pf_environment := []\<rparr>)
        | Missing \<Rightarrow> validate_platform c = None \<and> (\<exists>cs. load_catalogue fs = Inr cs \<and> name \<in> fst ` set cs)
        | Uninspectable \<Rightarrow> False))"
proof -
  obtain root where root: "valid_environment_name name" "user_root fs = Inr root"
    using assms by (auto simp: load_environment_def resolve_path_def ebind_Inr_iff split: if_splits)
  then have r: "resolve_path fs name [] = Inr (environment_path root name)" by (simp add: resolve_path_def)
  show ?thesis
  proof (cases "cf_lstat fs (environment_path root name)")
    case Missing
    then obtain cs c0 where "load_catalogue fs = Inr cs" "map_of cs name = Some c0" "c = c0\<lparr>pf_environment := name\<rparr>"
      using assms r by (auto simp: load_environment_def ebind_Inr_iff split: option.splits)
    moreover from this have "(name, c0) \<in> set cs" by (auto dest: map_of_SomeD)
    ultimately show ?thesis using root Missing load_catalogue_valid
      by (auto intro!: exI [of _ root] rev_image_eqI)
  next
    case Uninspectable
    then show ?thesis using assms r by (simp add: load_environment_def)
  next
    case Present
    then obtain c0 where c0: "load_profile (cf_read fs (environment_path root name)) = Inr c0" "c = c0\<lparr>pf_environment := name\<rparr>"
      using assms r by (auto simp: load_environment_def ebind_Inr_iff)
    then have "pf_environment c0 = []" using load_profile_fields by blast
    then have "c\<lparr>pf_environment := []\<rparr> = c0" using c0(2) by simp
    then show ?thesis using root Present c0(1) by auto
  qed
qed

definition sample_files :: config_files where
  "sample_files = \<lparr>cf_xdg_config_home = ''/cfg'', cf_user_config_dir = None, cf_catalogue_var = [],
     cf_read = (\<lambda>_. Contents [CHR 0x7B, CHR 0x7D]), cf_lstat = (\<lambda>_. Present), cf_dir = (\<lambda>_. Inl True)\<rparr>"

lemma sample_load: "load_environment sample_files ''dev'' [] = Inr (empty_profile\<lparr>pf_environment := ''dev''\<rparr>)"
proof -
  have "valid_environment_name ''dev''" by code_simp
  moreover have "load_profile (Contents [CHR 0x7B, CHR 0x7D]) = Inr empty_profile"
    by (simp add: load_profile_def decode_single_def decode_next_object expect_sep decode_struct_def skip_ws_def)
  ultimately show ?thesis
    by (simp add: load_environment_def resolve_path_def user_root_def sample_files_def is_abs_def)
qed

theorem load_environment_session_fields_witness:
  "\<exists>c. load_environment sample_files ''dev'' [] = Inr c \<and> pf_environment c = ''dev'' \<and> \<not> pf_skip_registry_login c"
  using load_environment_session_fields [OF sample_load] sample_load by simp

theorem load_environment_source_witness: "valid_environment_name ''dev'' \<and> (\<exists>root. user_root sample_files = Inr root)"
  using load_environment_source [OF sample_load] by blast

text \<open>
  Only the first 64 KiB of a profile file decide whether and how it loads: what follows them is
  ignored instead of refused.
\<close>

theorem load_profile_truncates: "load_profile (Contents c) = load_profile (Contents (take (64 * 1024) c))"
  by (simp add: load_profile_def)

end
