(* ===== verification/Flags.thy ===== *)
theory Flags
  imports Runes
begin

section \<open>The flag package\<close>

text \<open>
  What \<open>internal/cli/parse.go\<close> uses of Go's \<open>flag\<close> package: \<open>FlagSet.Parse\<close> with
  \<open>ContinueOnError\<close>, boolean, string, duration and function flags. Instead of the variables the
  flags are bound to, parsing returns the settings in the order they were made, from which each
  variable's final value is read; two names bound to one variable are read together.
\<close>

datatype flag_kind = BoolFlag | TextFlag | DurationFlag

datatype flag_value = VBool bool | VText string | VDuration int

datatype flag_error = ErrHelp | BadSyntax | UndefinedFlag | InvalidBool | NeedsArgument | InvalidDuration

type_synonym flag_spec = "(string \<times> flag_kind) list"

text \<open>\<open>strconv.ParseBool\<close>.\<close>

definition parse_bool :: "string \<Rightarrow> bool option" where
  "parse_bool s = (if s \<in> {''1'', ''t'', ''T'', ''true'', ''TRUE'', ''True''} then Some True
     else if s \<in> {''0'', ''f'', ''F'', ''false'', ''FALSE'', ''False''} then Some False else None)"

subsection \<open>time.ParseDuration\<close>

text \<open>
  Nanoseconds. A fraction is scaled in exact arithmetic, where Go uses a 64-bit float; the two
  agree for every fraction whose scaled value a float represents exactly.
\<close>

fun leading_int :: "nat \<Rightarrow> string \<Rightarrow> (nat \<times> string) option" where
  "leading_int x [] = Some (x, [])"
| "leading_int x (c # s) = (if \<not> is_digit c then Some (x, c # s)
     else if x > 2 ^ 63 div 10 then None
     else let y = x * 10 + digit_val c in if y > 2 ^ 63 then None else leading_int y s)"

fun leading_fraction :: "nat \<Rightarrow> nat \<Rightarrow> bool \<Rightarrow> string \<Rightarrow> nat \<times> nat \<times> string" where
  "leading_fraction x scale over [] = (x, scale, [])"
| "leading_fraction x scale over (c # s) = (if \<not> is_digit c then (x, scale, c # s)
     else if over then leading_fraction x scale over s
     else if x > (2 ^ 63 - 1) div 10 then leading_fraction x scale True s
     else let y = x * 10 + digit_val c in
       if y > 2 ^ 63 then leading_fraction x scale True s else leading_fraction y (scale * 10) over s)"

definition unit_ns :: "string \<Rightarrow> nat option" where
  "unit_ns u = map_of [(''ns'', 1), (''us'', 1000), ([CHR 0xC2, CHR 0xB5, CHR ''s''], 1000),
     ([CHR 0xCE, CHR 0xBC, CHR ''s''], 1000), (''ms'', 1000000), (''s'', 1000000000),
     (''m'', 60000000000), (''h'', 3600000000000)] u"

definition unit_byte :: "char \<Rightarrow> bool" where
  "unit_byte c \<longleftrightarrow> \<not> (c = CHR ''.'' \<or> is_digit c)"

text \<open>One number with its unit: its value and the text after it.\<close>

definition duration_part :: "string \<Rightarrow> (nat \<times> string) option" where
  "duration_part s = (case leading_int 0 s of None \<Rightarrow> None
     | Some (v, s1) \<Rightarrow>
       let pre = s1 \<noteq> s;
         (f, scale, s2) = (if has_prefix s1 ''.'' then leading_fraction 0 1 False (drop 1 s1) else (0, 1, s1));
         post = has_prefix s1 ''.'' \<and> s2 \<noteq> drop 1 s1;
         u = takeWhile unit_byte s2
       in if \<not> pre \<and> \<not> post then None
          else if u = [] then None
          else case unit_ns u of None \<Rightarrow> None
            | Some unit \<Rightarrow> if v > 2 ^ 63 div unit then None
              else let v = v * unit + (f * unit) div scale in
                if f > 0 \<and> v > 2 ^ 63 then None else Some (v, dropWhile unit_byte s2))"

lemma leading_int_length: "leading_int x s = Some (v, t) \<Longrightarrow> length t \<le> length s"
  by (induction x s rule: leading_int.induct) (auto simp: Let_def split: if_splits)

lemma leading_fraction_length: "leading_fraction x k b s = (f, k', t) \<Longrightarrow> length t \<le> length s"
  by (induction x k b s rule: leading_fraction.induct) (auto simp: Let_def split: if_splits)

lemma dropWhile_shorter: "takeWhile p s \<noteq> [] \<Longrightarrow> length (dropWhile p s) < length s"
  by (cases s) (auto simp: less_Suc_eq_le length_dropWhile_le split: if_splits)

lemma duration_part_shorter: "duration_part s = Some (v, t) \<Longrightarrow> length t < length s"
  by (auto simp: duration_part_def Let_def split: option.splits prod.splits if_splits
      dest!: leading_int_length leading_fraction_length dropWhile_shorter)

function duration_parts :: "nat \<Rightarrow> string \<Rightarrow> nat option" where
  "duration_parts d s = (if s = [] then Some d else
     case duration_part s of None \<Rightarrow> None
     | Some (v, t) \<Rightarrow> let d = (d + v) mod 2 ^ 64 in if d > 2 ^ 63 then None else duration_parts d t)"
  by pat_completeness auto
termination
  by (relation "measure (length \<circ> snd)") (auto dest: duration_part_shorter)

declare duration_parts.simps [simp del]

definition parse_duration :: "string \<Rightarrow> int option" where
  "parse_duration s =
     (let neg = has_prefix s ''-'';
        t = (if has_prefix s ''-'' \<or> has_prefix s ''+'' then drop 1 s else s)
      in if t = ''0'' then Some 0
         else if t = [] then None
         else case duration_parts 0 t of None \<Rightarrow> None
           | Some d \<Rightarrow> if neg then Some (- int d) else if d > 2 ^ 63 - 1 then None else Some (int d))"

subsection \<open>Parsing arguments\<close>

definition set_flag :: "flag_kind \<Rightarrow> string \<Rightarrow> (flag_error, flag_value) res" where
  "set_flag k v = (case k of
     BoolFlag \<Rightarrow> (case parse_bool v of None \<Rightarrow> Inl InvalidBool | Some b \<Rightarrow> Inr (VBool b))
   | TextFlag \<Rightarrow> Inr (VText v)
   | DurationFlag \<Rightarrow> (case parse_duration v of None \<Rightarrow> Inl InvalidDuration | Some d \<Rightarrow> Inr (VDuration d)))"

definition add_setting :: "string \<Rightarrow> (flag_error, flag_value) res
    \<Rightarrow> (flag_error, (string \<times> flag_value) list \<times> string list) res
    \<Rightarrow> (flag_error, (string \<times> flag_value) list \<times> string list) res" where
  "add_setting name v rest = (case v of Inl e \<Rightarrow> Inl e | Inr x \<Rightarrow>
     (case rest of Inl e \<Rightarrow> Inl e | Inr (ss, args) \<Rightarrow> Inr ((name, x) # ss, args)))"

definition flag_name :: "string \<Rightarrow> string" where
  "flag_name s = (if has_prefix s ''--'' then drop 2 s else drop 1 s)"

fun parse_flags :: "flag_spec \<Rightarrow> string list
    \<Rightarrow> (flag_error, (string \<times> flag_value) list \<times> string list) res" where
  "parse_flags spec [] = Inr ([], [])"
| "parse_flags spec (s # args) =
     (if length s < 2 \<or> \<not> has_prefix s ''-'' then Inr ([], s # args)
      else if s = ''--'' then Inr ([], args)
      else let text = flag_name s in
      if has_prefix text ''-'' \<or> has_prefix text ''='' then Inl BadSyntax
      else case cut CHR ''='' text of (name, v, has_value) \<Rightarrow>
      case map_of spec name of
        None \<Rightarrow> Inl (if name = ''help'' \<or> name = ''h'' then ErrHelp else UndefinedFlag)
      | Some BoolFlag \<Rightarrow>
          add_setting name (if has_value then set_flag BoolFlag v else Inr (VBool True)) (parse_flags spec args)
      | Some k \<Rightarrow>
          if has_value then add_setting name (set_flag k v) (parse_flags spec args)
          else (case args of [] \<Rightarrow> Inl NeedsArgument
            | v # args \<Rightarrow> add_setting name (set_flag k v) (parse_flags spec args)))"

text \<open>The final values of the variables bound to some names.\<close>

definition text_of :: "string list \<Rightarrow> string \<Rightarrow> (string \<times> flag_value) list \<Rightarrow> string" where
  "text_of names d ss = foldl (\<lambda>acc (n, v). case v of VText t \<Rightarrow> if n \<in> set names then t else acc | _ \<Rightarrow> acc) d ss"

definition bool_of :: "string list \<Rightarrow> (string \<times> flag_value) list \<Rightarrow> bool" where
  "bool_of names ss = foldl (\<lambda>acc (n, v). case v of VBool b \<Rightarrow> if n \<in> set names then b else acc | _ \<Rightarrow> acc) False ss"

definition duration_of :: "string list \<Rightarrow> int \<Rightarrow> (string \<times> flag_value) list \<Rightarrow> int" where
  "duration_of names d ss = foldl (\<lambda>acc (n, v). case v of VDuration t \<Rightarrow> if n \<in> set names then t else acc | _ \<Rightarrow> acc) d ss"

definition texts_of :: "string \<Rightarrow> (string \<times> flag_value) list \<Rightarrow> string list" where
  "texts_of name ss = concat (map (\<lambda>(n, v). case v of VText t \<Rightarrow> if n = name then [t] else [] | _ \<Rightarrow> []) ss)"

definition was_set :: "string list \<Rightarrow> (string \<times> flag_value) list \<Rightarrow> bool" where
  "was_set names ss = list_ex (\<lambda>(n, v). n \<in> set names) ss"

lemma parse_flags_terminator [simp]: "parse_flags spec (''--'' # args) = Inr ([], args)"
  by simp

lemma parse_flags_stop: "\<not> has_prefix s ''-'' \<Longrightarrow> parse_flags spec (s # args) = Inr ([], s # args)"
  by simp

text \<open>A string flag given as two arguments takes the second one whatever it is.\<close>

lemma parse_flags_text:
  assumes "map_of spec name = Some TextFlag" "name \<noteq> []" "\<not> has_prefix name ''-''" "CHR ''='' \<notin> set name"
  shows "parse_flags spec ((CHR ''-'' # name) # v # args) = add_setting name (Inr (VText v)) (parse_flags spec args)"
    "parse_flags spec ((CHR ''-'' # CHR ''-'' # name) # v # args) = add_setting name (Inr (VText v)) (parse_flags spec args)"
proof -
  obtain c n where name: "name = c # n" "c \<noteq> CHR ''-''" "c \<noteq> CHR ''=''" using assms by (cases name) auto
  then show "parse_flags spec ((CHR ''-'' # name) # v # args) = add_setting name (Inr (VText v)) (parse_flags spec args)"
    "parse_flags spec ((CHR ''-'' # CHR ''-'' # name) # v # args) = add_setting name (Inr (VText v)) (parse_flags spec args)"
    using assms(1,4) cut_absent [of "CHR ''=''" name]
    by (auto simp: flag_name_def set_flag_def Let_def)
qed

end
