(* ===== verification/Cli_Help.thy ===== *)
theory Cli_Help
  imports Prelude
begin

section \<open>Help texts\<close>

text \<open>
  \<open>internal/cli/help.go\<close>: the help topics, their aliases and their texts, byte for byte. A topic
  without a text has the empty text, which is how the parser recognises an unknown topic. The
  topics of the connection commands are composed from a description, notes and an example.
\<close>

text \<open>Lines, each ended by a line feed.\<close>

definition text_lines :: "string list \<Rightarrow> string" where
  "text_lines ls = concat (map (\<lambda>l. l @ [CHR 0x0A]) ls)"

text \<open>The description, the notes with the line feed written after them, and the example.\<close>

type_synonym topic_help = "string \<times> string \<times> string"

definition canonical_help_topic :: "string \<Rightarrow> string" where
  "canonical_help_topic topic =
     (if topic \<in> {''environments'', ''env'', ''envs''} then ''list''
      else if topic \<in> {''v'', ''-v'', ''--version''} then ''version'' else topic)"

definition help_root :: string where
  "help_root = text_lines [
     ''Bivrost '' @ [CHR 0xE2, CHR 0x80, CHR 0x94] @ '' local platform access through Azure Bastion'',
     [],
     ''Usage: bivrost <command> [options]'',
     [],
     ''Access'',
     ''  connect       Open a local shell for platform commands'',
     ''  run           Run one local command in a temporary session'',
     ''  switch        Reconnect the active shell to another environment'',
     ''  session       Share a Kubernetes session; list active sessions'',
     ''  ssh           Open a shell on the management VM'',
     ''  acr           Access container images with Podman'',
     [],
     ''Setup'',
     ''  heimdal init  Publish initial metadata into an existing Azure container'',
     ''  doctor        Check prerequisites for an environment'',
     ''  doctor terraform'',
     ''                Probe explicit Azure Blob backend container metadata'',
     ''  login         Sign in locally with Azure CLI, when needed'',
     ''  list          List connection targets (aliases: environments, env, envs)'',
     ''  list subscriptions'',
     ''                List subscriptions visible to the current Azure CLI login'',
     ''  config init   Create optional user settings'',
     ''  version       Show the build version (aliases: v, -v, --version)'',
     [],
     ''Start here'',
     ''  bivrost list'',
     ''  bivrost doctor -e example'',
     ''  bivrost connect -e example'',
     ''  bivrost connect -e example --acr'',
     ''  bivrost run -e example -- kubectl get pods'',
     [],
     ''Help: bivrost <command> --help  or  bivrost help <command>'',
     ''For image access: bivrost acr --help'']"

definition help_heimdal :: string where
  "help_heimdal = text_lines [
     ''Publish initial Heimdal metadata into an existing Azure Blob container.'',
     [],
     ''Usage: bivrost heimdal init -e NAME --subscription ID --account NAME [options]'',
     [],
     ''Options'',
     ''      --container NAME     Existing container (default: heimdal)'',
     ''      --prefix PATH        Blob prefix (default: environments/NAME)'',
     ''      --private-host HOST  Exact private route to publish; repeat as needed'',
     ''      --valid-for DURATION Metadata lifetime (default: 24h; maximum: 168h)'',
     ''  -h, --help               Show this help'',
     [],
     ''Uses your local Azure CLI Entra login to upload a digest-named revision and'',
     ''then current.json. Both uploads are create-only: init never replaces an existing'',
     ''revision or current pointer. The container and publisher permissions must exist.'',
     ''If the second upload fails, an unreferenced revision may remain for an operator'',
     ''to inspect; init does not delete blobs. Output includes the source locator.'',
     [],
     ''Inside a Bivrost session, uploads use its configured proxy; configure the metadata'',
     ''storage hostname as a private route when needed. Outside a session, normal'',
     ''network settings apply. No account, container, roles or public access are created.'',
     [],
     ''This command publishes route-only metadata. Configure a profile'' @ [CHR 0x27] @ ''s heimdal source'',
     ''for retrieval on connect. Updating an existing pointer and rollback are not'',
     ''implemented yet. No Terraform state is used.'']"

definition help_session :: string where
  "help_session = text_lines [
     ''Share a Kubernetes session with other local tools, explicitly.'',
     [],
     ''Usage: bivrost session <command>'',
     [],
     ''Commands'',
     ''  publish     Publish this session'' @ [CHR 0x27] @ ''s temporary kubeconfig; print its path'',
     ''  unpublish   Withdraw it and close published client connections'',
     ''  path        Print the current published kubeconfig path'',
     ''  clean       Remove stale publications and session records'',
     ''  list        List active connect and run sessions'',
     [],
     ''Publish, unpublish and path require an active Bash, Zsh or PowerShell session'',
     ''and act on that session only. Clean and list also work outside a session.'',
     ''Publish and path print only a path, suitable for use with --kubeconfig.'',
     ''Inside the connected shell, plain k9s uses the session'' @ [CHR 0x27] @ ''s KUBECONFIG.'',
     ''In another terminal, use k9s --kubeconfig PATH with the published path.'',
     ''Plain k9s there does not automatically discover published sessions.'',
     ''Freelens/Lens can discover them when configured to watch the publication'',
     ''directory. Bivrost does not change client settings or your normal kubeconfig.'',
     ''kubelogin uses your local Azure CLI identity. Publishing does not grant'',
     ''additional permissions.'',
     [],
     ''Publications live under '' @ [CHR 0x24] @ ''XDG_RUNTIME_DIR/bivrost/published, or'',
     [CHR 0x24, CHR 0x7B] @ ''XDG_STATE_HOME:-'' @ [CHR 0x24] @ ''HOME/.local/state'' @ [CHR 0x7D] @ ''/bivrost/published when unset.'',
     ''Switching withdraws the old publication and publishes a new target with a'',
     ''new path. Existing clients are disconnected, never silently retargeted.'',
     ''Exit withdraws the publication. After a crash, stale files cannot connect;'',
     ''clean removes them, and publish also performs this cleanup.'',
     [],
     ''Sessions to different environments can run at the same time, each in its own'',
     ''terminal with its own ports and publication. The number of concurrent sessions'',
     ''is limited by the lowest max_sessions among the active sessions'' @ [CHR 0x27] @ '' profiles, or'',
     ''by the number of configured environments when no profile sets it. Only one'',
     ''session at a time can have Podman registry access (--acr or acr enable).'',
     ''A session that ended abnormally is no longer counted; clean removes its record.'']"

definition help_acr :: string where
  "help_acr = text_lines [
     ''Enable local Podman access to private container images.'',
     [],
     ''Usage: bivrost acr <command> [options]'',
     [],
     ''Commands'',
     ''  enable   Enable ACR in the current Bivrost shell'',
     ''  connect  Compatibility alias for bivrost connect --acr'',
     ''  proxy    Run an advanced standalone HTTPS proxy'',
     ''  login    Refresh registry login over an advanced connection'',
     ''  doctor   Check Podman and live ACR connectivity'',
     [],
     ''Start with ACR'',
     ''  bivrost connect -e example --acr'',
     [],
     ''Or enable it inside an existing Bivrost shell'',
     ''  bivrost acr enable'',
     [],
     ''Deferred activation supports Bash, Zsh, and PowerShell. Other shells'',
     ''can use --acr at startup. Podman is required only when enabling ACR.'',
     ''Exit closes the session connections. Images stay on your computer.'',
     [],
     ''Help: bivrost acr <command> --help'']"

definition help_acr_enable :: string where
  "help_acr_enable = text_lines [
     ''Enable Podman registry access in the current Bivrost shell.'',
     [],
     ''Usage: bivrost acr enable'',
     [],
     ''Uses the current session'' @ [CHR 0x27] @ ''s target, identity, and existing tunnel.'',
     ''Authenticates Podman and applies temporary settings to this shell.'',
     ''Calling it again safely reports that ACR is already enabled.'',
     [],
     ''Supported inside Bivrost'' @ [CHR 0x27] @ ''s Bash, Zsh, and PowerShell sessions.'',
     ''For other shells, start with bivrost connect -e NAME --acr.'',
     ''No environment, configuration, or other activation options are accepted.'',
     [],
     ''Options'',
     ''  -h, --help  Show this help'']"

definition help_login :: string where
  "help_login = text_lines [
     ''Sign in with Azure CLI on this computer.'',
     [],
     ''Usage: bivrost login [options]'',
     [],
     ''Options'',
     ''  -t, --tenant TENANT  Choose an Azure tenant'',
     ''      --device-code    Sign in with a code instead of opening a browser'',
     ''      --ssh            Also satisfy VM SSH certificate sign-in requirements'',
     ''  -d, --debug          Record a bounded local diagnostic log'',
     ''  -h, --help           Show this help'',
     [],
     ''Use this initially or when Azure requires reauthentication.'',
     ''An existing az login works too. Connect and ACR commands reuse'',
     ''that sign-in; they do not call bivrost login automatically. When the'',
     ''SSH certificate needs multi-factor or Conditional Access sign-in,'',
     ''connect opens the browser and waits for you to finish. Doctor and'',
     ''discovery commands never open a browser.'',
     [],
     ''The authentication_browser setting, or a per-organization file in'',
     ''authentication-browsers.d matched by tenant ID or account domain,'',
     ''selects the browser and profile for sign-in pages; otherwise your'',
     ''BROWSER setting or the system default is used. Without -t, login uses'',
     ''the rule marked login_default, or the only rule when it names a single'',
     ''tenant, so that organization'' @ [CHR 0x27] @ ''s browser opens; otherwise name the tenant'',
     ''with -t. To sign in without naming any tenant, run az login directly.'',
     ''--ssh signs in for the VM SSH certificate in advance.'',
     ''This does not sign Azure CLI into the management VM.'',
     [],
     ''Example: bivrost login -t YOUR-TENANT-ID'']"

definition help_config :: string where
  "help_config = text_lines [
     ''Create optional user preferences without overwriting existing settings.'',
     [],
     ''Usage: bivrost config init'',
     [],
     ''Settings control the shell prompt and, optionally, the browser and'',
     ''profile used for Azure sign-in (authentication_browser, plus files in'',
     ''authentication-browsers.d per organization) and whether connect may'',
     ''open it (interactive_connect).'',
     ''Defaults work without a file. The file uses XDG_CONFIG_HOME when'',
     ''set, otherwise the platform'' @ [CHR 0x27] @ ''s native user configuration directory.'',
     ''Environment profiles can come from BIVROST_CATALOGUE_FILE, otherwise'',
     ''from catalogue.json beside this settings file, and from the'',
     ''environments directory there.'',
     [],
     ''Options'',
     ''  -h, --help  Show this help'']"

definition help_list :: string where
  "help_list = text_lines [
     ''List configured connection targets from the catalogue and local profiles.'',
     [],
     ''Usage: bivrost list'',
     ''Aliases: bivrost environments, bivrost env, bivrost envs'',
     [],
     ''Shows configuration source, configured Kubernetes/registry capabilities and PIM'',
     ''requirements. No login or tunnel is needed. Capabilities describe configuration,'',
     ''not verified connectivity or permissions.'',
     [],
     ''Listing an environment does not grant access. Azure and Kubernetes'',
     ''enforce your permissions. Profiles marked requires_pim require activation.'',
     [],
     ''To discover subscriptions visible to your Azure CLI login, run:'',
     ''  bivrost list subscriptions [--refresh]'',
     [],
     ''Options'',
     ''  -h, --help  Show this help'']"

definition help_list_subscriptions :: string where
  "help_list_subscriptions = text_lines [
     ''List Azure subscriptions visible to the current Azure CLI login.'',
     [],
     ''Usage: bivrost list subscriptions [--refresh]'',
     [],
     ''Shows subscription name, ID, tenant, state, and which subscription Azure CLI'',
     ''currently marks as default. Discovery does not change the selected subscription,'',
     ''sign in, grant access, inspect storage, or read Terraform state.'',
     [],
     ''Options'',
     ''      --refresh  Retrieve an up-to-date subscription list from Azure'',
     ''  -h, --help     Show this help'',
     [],
     ''Without --refresh, Azure CLI may use its local subscription cache.'',
     ''The list includes enabled subscriptions in the current Azure cloud.'',
     ''If discovery fails, run bivrost login or az login, check your access and'',
     ''connectivity, then retry.'']"

definition help_doctor_terraform :: string where
  "help_doctor_terraform = text_lines [
     ''Check explicit Azure Blob backend container metadata with your Azure CLI login.'',
     [],
     ''Usage: bivrost doctor terraform --subscription NAME_OR_ID --account NAME --container NAME [options]'',
     [],
     ''The command derives the Blob endpoint from the active supported Azure CLI cloud,'',
     ''then requests properties for only the named container with Microsoft Entra login.'',
     ''It does not select a subscription globally, set ARM variables, require Terraform,'',
     ''list or read blobs, download state, run init, or acquire a state lock.'',
     [],
     ''Inside an authenticated Bivrost session, the probe is forced through that'',
     ''session'' @ [CHR 0x27] @ ''s proxy and reports whether the endpoint has an exact private route.'',
     ''Outside a session, ambient network and proxy settings apply. A failed probe does'',
     ''not by itself distinguish login, authorization, target, or network failures.'',
     ''If a private route is missing, supported named-environment sessions get a'',
     ''bivrost switch suggestion including existing private routes and enabled ACR.'',
     ''Otherwise, add the suggested --private-host option to your original connection'',
     ''command and reconnect. Custom profiles and skipped ACR login use this fallback.'',
     [],
     ''Required target'',
     ''      --subscription NAME_OR_ID  Project-owned backend subscription'',
     ''      --account NAME             Azure storage account name'',
     ''      --container NAME           Azure Blob container name'',
     [],
     ''Options'',
     ''  -d, --debug  Record a bounded local diagnostic log'',
     ''  -h, --help   Show this help'']"

definition help_version :: string where
  "help_version = text_lines [
     ''Show the installed Bivrost build version.'',
     [],
     ''Usage: bivrost version'',
     ''Aliases: bivrost v, bivrost -v, bivrost --version'',
     [],
     ''Options'',
     ''  -h, --help  Show this help'']"

definition about_connect :: topic_help where
  "about_connect = (''Open a local shell with platform connectivity.'',
     text_lines [
     ''Azure sign-in is reused. Proxy variables and kubeconfig apply only'',
     ''to this shell; your personal Kubernetes context stays unchanged. Kubernetes'',
     ''setup is automatic; missing client tools or unavailable AKS credentials leave'',
     ''other commands usable with an isolated empty kubeconfig.'',
     ''Repeat --private-host for exact DNS hosts needed only by this session;'',
     ''these additions are not saved. Exit the shell to disconnect. Add --acr'',
     ''for Podman registry access, or run bivrost acr enable inside a Bash, Zsh,'',
     ''or PowerShell session. Podman is required only when ACR is enabled.'',
     ''Other terminals can connect to further environments at the same time, up to'',
     ''the session limit; bivrost session list shows active sessions.''],
     ''bivrost connect -e example'')"

definition about_run :: topic_help where
  "about_run = (''Run one local command in a temporary platform session, then disconnect.'',
     text_lines [
     ''Sets up the same session as connect, runs COMMAND directly (not through a'',
     ''shell) with the session'' @ [CHR 0x27] @ ''s proxy and kubeconfig, then closes the session.'',
     ''Use sh -c or pwsh -Command explicitly when shell syntax is needed. Setup'',
     ''messages go to stderr; the command'' @ [CHR 0x27] @ ''s own stdin, stdout and stderr are passed'',
     ''through unchanged. Without usable Kubernetes, KUBECONFIG points to an isolated'',
     ''empty configuration and the command still runs.'',
     [],
     ''Exit status is the command'' @ [CHR 0x27] @ ''s own. Bivrost exits 125 when the session cannot'',
     ''be set up or is lost, or when it is terminated before the command finishes;'',
     ''126 when COMMAND cannot be executed and 127 when it is not found. A command'',
     ''ended by a signal yields 128 plus the signal number.'',
     [],
     ''In a terminal, Ctrl+C reaches the command directly. SIGTERM or SIGHUP sent to'',
     ''Bivrost, or SIGINT when it is not the terminal'' @ [CHR 0x27] @ ''s foreground job, asks the'',
     ''command to stop with SIGTERM; the session stays connected for up to 10 seconds'',
     ''while it shuts down. Outside a terminal, the command runs in its own process'',
     ''group, which receives the stop request and is ended when the command exits.'',
     [],
     ''The session'' @ [CHR 0x27] @ ''s controller is not started, so session publish, switch,'',
     ''acr enable, doctor terraform and heimdal init are unavailable inside COMMAND;'',
     ''use --acr for registry access.''],
     ''bivrost run -e example -- kubectl get pods -A'')"

definition about_switch :: topic_help where
  "about_switch = (''Close the active session and connect to another environment.'',
     text_lines [
     ''Run inside a Bivrost Bash, Zsh, or PowerShell session. Finish shell jobs'',
     ''before switching; in PowerShell, remove finished job records with Remove-Job.'',
     ''The target configuration is validated before leaving. A fresh shell opens after'',
     ''cleanup; shell-local variables, directory changes, and prior --private-host'',
     ''additions are not carried over. Repeat --private-host for exact DNS hosts needed'',
     ''by the new session. Add --acr to enable registry access in the new session.'',
     ''If the new connection fails, you return to your original terminal; the old'',
     ''session is not restored. Provider permissions and PIM still apply.''],
     ''bivrost switch -e example --acr'')"

definition about_ssh :: topic_help where
  "about_ssh = (''Open an interactive shell on the management VM.'',
     text_lines [
     ''Uses local Azure sign-in for SSH authentication. Commands inside'',
     ''the VM use the VM'' @ [CHR 0x27] @ ''s own environment and Azure authentication.''],
     ''bivrost ssh -e example'')"

definition about_doctor :: topic_help where
  "about_doctor = (''Check environment prerequisites without changing your setup.'',
     text_lines [
     ''Inside a supported Bivrost session, the target defaults to that session.'',
     ''Checks active Podman settings and registry login history, plus read-only'',
     ''Kubernetes API and node-list requests in a matching session.'',
     ''With ACR enabled, pulls the configured diagnostic image (cached locally).'',
     ''Use --no-pull to skip this check. For an explicit Azure Blob backend metadata'',
     ''probe, use bivrost doctor terraform --help. NOT VERIFIED means a live or manual'',
     ''check is still needed. Does not install tools, log in, start tunnels, activate'',
     ''PIM, or restart services.''],
     ''bivrost doctor -e example'')"

definition about_acr_proxy :: topic_help where
  "about_acr_proxy = (''Run an advanced standalone HTTPS proxy for Podman.'',
     text_lines [
     ''Advanced transport mode; persistent service proxy settings are manual.'',
     ''For automatic setup and cleanup, use bivrost connect --acr.'',
     ''Listens on proxy_port, or 18080 when the profile omits it; acr login and'',
     ''acr doctor look for it there. Private ACR traffic uses socks_port, or 18081.''],
     ''bivrost acr proxy -e example'')"

definition about_acr_connect :: topic_help where
  "about_acr_connect = (''Compatibility alias for bivrost connect --acr.'',
     text_lines [
     ''Starts its own proxy and Bastion connection, then authenticates Podman.'',
     ''Proxy and Podman settings apply only to this shell. Repeat --private-host for'',
     ''exact DNS hosts needed only by this session; these additions are not saved.'',
     ''Exit to disconnect. Uses an existing local Podman engine or running Podman'',
     ''Machine. Only one session at a time can have registry access.''],
     ''bivrost acr connect -e example'')"

definition about_acr_login :: topic_help where
  "about_acr_login = (''Refresh Podman'' @ [CHR 0x27] @ ''s registry login.'',
     text_lines [
     ''Advanced standalone-proxy login. ACR sessions log in automatically;'',
     ''exit and reconnect to refresh a session. Uses local Azure sign-in and'',
     ''Podman credential storage. This is not a new Azure login.''],
     ''bivrost acr login -e example'')"

definition about_acr_doctor :: topic_help where
  "about_acr_doctor = (''Check Podman prerequisites and live ACR connectivity.'',
     text_lines [
     ''Requires an existing proxy and connection for network checks.'',
     ''For an initial setup check without a tunnel, use bivrost doctor.'',
     ''A successful check does not verify image push/pull permissions.''],
     ''bivrost acr doctor -e example'')"

subsection \<open>Topics\<close>

definition help_texts :: "(string \<times> string) list" where
  "help_texts = [
     ([], help_root),
     (''heimdal'', help_heimdal),
     (''heimdal init'', help_heimdal),
     (''session'', help_session),
     (''session publish'', help_session),
     (''session unpublish'', help_session),
     (''session path'', help_session),
     (''session clean'', help_session),
     (''session list'', help_session),
     (''acr'', help_acr),
     (''acr enable'', help_acr_enable),
     (''login'', help_login),
     (''config'', help_config),
     (''config init'', help_config),
     (''list'', help_list),
     (''list subscriptions'', help_list_subscriptions),
     (''doctor terraform'', help_doctor_terraform),
     (''version'', help_version)]"

definition connection_topics :: "(string \<times> topic_help) list" where
  "connection_topics = [
     (''connect'', about_connect),
     (''run'', about_run),
     (''switch'', about_switch),
     (''ssh'', about_ssh),
     (''doctor'', about_doctor),
     (''acr proxy'', about_acr_proxy),
     (''acr connect'', about_acr_connect),
     (''acr login'', about_acr_login),
     (''acr doctor'', about_acr_doctor)]"

definition connection_help :: "string \<Rightarrow> topic_help \<Rightarrow> string" where
  "connection_help topic about = (case about of (description, notes, example) \<Rightarrow>
     (if topic = ''doctor'' then
        description @ text_lines [[], [], ''Usage: bivrost doctor ['' @ ''-e NAME | -c PATH] [options]'', [],
          ''Target (optional inside an active Bivrost session)'']
      else description @ text_lines [[], [], ''Usage: bivrost '' @ topic @ '' (-e NAME | -c PATH) [options]''
          @ (if topic = ''run'' then '' [--] COMMAND [ARGS...]'' else []), [], ''Target (choose one)''])
     @ text_lines [''  -e, --env NAME     Catalogue environment or local profile'',
          ''  -c, --config PATH  Explicit custom profile'', [], ''Options'']
     @ (if topic = ''doctor'' then text_lines [''      --no-pull      Skip the diagnostic image pull''] else [])
     @ (if topic \<in> {''connect'', ''switch'', ''run''}
        then text_lines [''      --acr          Enable Podman registry access at startup''] else [])
     @ (if topic \<in> {''connect'', ''acr connect'', ''switch'', ''run''}
        then text_lines [''      --private-host HOST'',
          ''                     Route one exact private DNS host (repeatable)''] else [])
     @ (if topic \<in> {''acr connect'', ''connect'', ''run''}
        then text_lines [''  -n, --no-login     Connect without refreshing registry login''] else [])
     @ text_lines [''  -d, --debug        Record a bounded local diagnostic log'', ''  -h, --help         Show this help'', []]
     @ notes @ text_lines [[], ''Example: '' @ example])"

definition help_text :: "string \<Rightarrow> string" where
  "help_text topic = (case map_of help_texts topic of Some text \<Rightarrow> text
     | None \<Rightarrow> (case map_of connection_topics topic of None \<Rightarrow> [] | Some about \<Rightarrow> connection_help topic about))"

text \<open>The topics that have a text.\<close>

lemma text_lines_nonempty: "ls \<noteq> [] \<Longrightarrow> text_lines ls \<noteq> []"
  by (cases ls) (simp_all add: text_lines_def)

lemma help_texts_nonempty: "list_all (\<lambda>(_, text). text \<noteq> []) help_texts"
  by (simp add: help_texts_def text_lines_nonempty help_acr_def help_acr_enable_def help_config_def help_doctor_terraform_def help_heimdal_def help_list_def help_list_subscriptions_def help_login_def help_root_def help_session_def help_version_def)

lemma connection_help_nonempty: "connection_help topic about \<noteq> []"
  by (cases about) (simp add: connection_help_def text_lines_nonempty)

lemma help_text_known: "help_text topic \<noteq> [] \<longleftrightarrow> topic \<in> fst ` set help_texts \<union> fst ` set connection_topics"
proof (cases "map_of help_texts topic")
  case None
  then show ?thesis
    by (auto simp: help_text_def connection_help_nonempty map_of_eq_None_iff split: option.splits
        dest: map_of_SomeD) (force simp: map_of_eq_None_iff dest: map_of_SomeD)+
next
  case (Some t)
  then have "(topic, t) \<in> set help_texts" by (rule map_of_SomeD)
  then have "topic \<in> fst ` set help_texts" and "t \<noteq> []"
    using help_texts_nonempty by (auto simp: list_all_iff intro: rev_image_eqI)
  then show ?thesis using Some by (simp add: help_text_def)
qed

end
