(* ===== verification/Times.thy ===== *)
theory Times
  imports Prelude
begin

section \<open>Instants and their RFC 3339 text\<close>

text \<open>
  The part of Go's \<open>time\<close> package that the metadata documents use. An instant is a number of
  nanoseconds since the zero time, midnight UTC of the first day of year 1. \<open>parse_rfc3339\<close> is the
  fast path of the package's parser, \<open>format_time\<close> the text of \<open>Time.MarshalJSON\<close> for a time in UTC.
\<close>

subsection \<open>The calendar\<close>

definition leap :: "int \<Rightarrow> bool" where
  "leap y \<longleftrightarrow> y mod 4 = 0 \<and> (y mod 100 \<noteq> 0 \<or> y mod 400 = 0)"

definition month_lengths :: "int \<Rightarrow> int list" where
  "month_lengths y = [31, if leap y then 29 else 28, 31, 30, 31, 30, 31, 31, 30, 31, 30, 31]"

definition days_before_year :: "int \<Rightarrow> int" where
  "days_before_year y = 365 * (y - 1) + (y - 1) div 4 - (y - 1) div 100 + (y - 1) div 400"

definition days_of_date :: "int \<Rightarrow> nat \<Rightarrow> int \<Rightarrow> int" where
  "days_of_date y m d = days_before_year y + sum_list (take (m - 1) (month_lengths y)) + d - 1"

fun split_month :: "int list \<Rightarrow> int \<Rightarrow> nat \<times> int" where
  "split_month [] d = (1, d + 1)"
| "split_month (l # ls) d = (if d < l then (1, d + 1) else case split_month ls (d - l) of (m, d) \<Rightarrow> (Suc m, d))"

text \<open>The year and the day of the year, by the 400, 100, 4 and 1 year cycles.\<close>

definition year_of_days :: "int \<Rightarrow> int \<times> int" where
  "year_of_days d =
     (let a = d div 146097; d = d mod 146097;
        b = d div 36524; b = b - b div 4; d = d - 36524 * b;
        c = d div 1461; d = d mod 1461;
        e = d div 365; e = e - e div 4
      in (400 * a + 100 * b + 4 * c + e + 1, d - 365 * e))"

definition date_of_days :: "int \<Rightarrow> int \<times> nat \<times> int" where
  "date_of_days days = (case year_of_days days of (y, d) \<Rightarrow> (y, split_month (month_lengths y) d))"

lemma split_month_sum:
  assumes "0 \<le> d" "d < sum_list ls" "split_month ls d = (m, k)"
  shows "1 \<le> m \<and> m \<le> length ls \<and> 1 \<le> k \<and> k \<le> ls ! (m - 1) \<and> sum_list (take (m - 1) ls) + k - 1 = d"
  using assms
proof (induction ls arbitrary: d m)
  case (Cons l ls)
  show ?case
  proof (cases "d < l")
    case False
    obtain m' k' where s: "split_month ls (d - l) = (m', k')" by (cases "split_month ls (d - l)")
    then have m: "m = Suc m'" "k = k'" using Cons.prems False by auto
    have "1 \<le> m' \<and> m' \<le> length ls \<and> 1 \<le> k \<and> k \<le> ls ! (m' - 1) \<and> sum_list (take (m' - 1) ls) + k - 1 = d - l"
      using Cons.IH [of "d - l" m'] Cons.prems False s m by simp
    then show ?thesis using m by (cases m') auto
  qed (use Cons.prems in auto)
qed simp

lemma year_of_days_cycles:
  fixes a b c e yday :: int
  assumes "0 \<le> b" "b \<le> 3" "0 \<le> c" "c \<le> 24" "0 \<le> e" "e \<le> 3"
  shows "days_before_year (400 * a + 100 * b + 4 * c + e + 1) = 146097 * a + 36524 * b + 1461 * c + 365 * e"
proof -
  have "(400 * a + 100 * b + 4 * c + e) div 4 = 100 * a + 25 * b + c" using assms by simp
  moreover have "(400 * a + 100 * b + 4 * c + e) div 100 = 4 * a + b" using assms by simp
  moreover have "(400 * a + 100 * b + 4 * c + e) div 400 = a" using assms by simp
  ultimately show ?thesis by (simp add: days_before_year_def)
qed

lemma leap_cycles:
  fixes a b c :: int
  assumes "0 \<le> c" "c \<le> 24" "c = 24 \<longrightarrow> b = 3"
  shows "leap (400 * a + 100 * b + 4 * c + 3 + 1)"
proof (cases "c = 24")
  case True
  then have y: "400 * a + 100 * b + 4 * c + 3 + 1 = 400 * (a + 1)" using assms by simp
  have "4 * (100 * (a + 1)) mod 4 = 0" "400 * (a + 1) mod 400 = 0" by (rule mod_mult_self1_is_0)+
  then show ?thesis unfolding y leap_def by simp
next
  case False
  have "400 * a + 100 * b + 4 * c + 3 + 1 = (4 * c + 4) + 100 * (4 * a + b)" by simp
  then have "(400 * a + 100 * b + 4 * c + 3 + 1) mod 100 = (4 * c + 4) mod 100" by (simp only: mod_mult_self2)
  also have "\<dots> = 4 * c + 4" using assms False by (intro mod_pos_pos_trivial) auto
  finally have "(400 * a + 100 * b + 4 * c + 3 + 1) mod 100 \<noteq> 0" using assms by simp
  moreover have "400 * a + 100 * b + 4 * c + 3 + 1 = 4 * (100 * a + 25 * b + c + 1)" by simp
  then have "(400 * a + 100 * b + 4 * c + 3 + 1) mod 4 = 0" by (simp only: mod_mult_self1_is_0)
  ultimately show ?thesis by (simp add: leap_def)
qed

text \<open>A cycle of four equal parts of which the last may be one day longer.\<close>

lemma cycle_part:
  fixes d n :: int
  assumes "0 \<le> d" "d \<le> 4 * n" "1 \<le> n" "q = d div n - d div n div 4"
  shows "0 \<le> q \<and> q \<le> 3 \<and> 0 \<le> d - n * q \<and> d - n * q \<le> n \<and> (q < 3 \<longrightarrow> d - n * q < n)"
proof (cases "d = 4 * n")
  case True
  then have "d div n = 4" using assms by simp
  then show ?thesis using assms True by simp
next
  case False
  define k where "k = d div n"
  have kn: "n * k + d mod n = d" "0 \<le> d mod n" "d mod n < n" using assms(3) by (simp_all add: k_def)
  then have "k * n \<le> d" "d < (k + 1) * n" by (simp_all add: algebra_simps)
  moreover have "n * k < n * 4" using kn assms(2) False by linarith
  then have "k < 4" using assms(3) mult_less_cancel_left_pos [of n k 4] by linarith
  moreover have "0 \<le> k" using assms unfolding k_def by (simp add: pos_imp_zdiv_nonneg_iff)
  ultimately show ?thesis using assms(4) unfolding k_def [symmetric] by (simp add: algebra_simps)
qed

lemma sum_month_lengths: "sum_list (month_lengths y) = (if leap y then 366 else 365)"
  by (simp add: month_lengths_def)

lemma year_of_days_bounds:
  assumes "year_of_days days = (y, d)"
  shows "0 \<le> d \<and> d < sum_list (month_lengths y) \<and> days_before_year y + d = days"
proof -
  define a d1 where ad: "a = days div 146097" "d1 = days mod 146097"
  define b d2 where bd: "b = d1 div 36524 - d1 div 36524 div 4" "d2 = d1 - 36524 * b"
  define c d3 where cd: "c = d2 div 1461" "d3 = d2 mod 1461"
  define e where e: "e = d3 div 365 - d3 div 365 div 4"
  have y: "y = 400 * a + 100 * b + 4 * c + e + 1" "d = d3 - 365 * e"
    using assms unfolding year_of_days_def Let_def ad bd cd e prod.inject by blast+
  have d1: "0 \<le> d1" "d1 < 146097" "days = 146097 * a + d1" by (simp_all add: ad)
  have b: "0 \<le> b \<and> b \<le> 3 \<and> 0 \<le> d2 \<and> d2 \<le> 36524 \<and> (b < 3 \<longrightarrow> d2 < 36524)"
    unfolding bd(2) by (rule cycle_part [of d1 36524 b]) (use d1 bd(1) in simp_all)
  have c: "0 \<le> c" "c \<le> 24" "0 \<le> d3" "d3 \<le> 1460" "d2 = 1461 * c + d3"
    unfolding cd using b zdiv_mono1 [of d2 36524 1461] by (simp_all add: pos_imp_zdiv_nonneg_iff)
  have e': "0 \<le> e \<and> e \<le> 3 \<and> 0 \<le> d \<and> d \<le> 365 \<and> (e < 3 \<longrightarrow> d < 365)"
    unfolding y(2) by (rule cycle_part [of d3 365 e]) (use c e in simp_all)
  have "d < 365 \<or> leap y"
  proof (rule ccontr)
    assume "\<not> (d < 365 \<or> leap y)"
    then have d: "d = 365" "e = 3" "\<not> leap y" using e' by auto
    then have "d3 = 1460" using y(2) by simp
    then have "c = 24 \<longrightarrow> b = 3" using b c by auto
    then show False using leap_cycles [of c b a] c d y(1) by simp
  qed
  then have "d < sum_list (month_lengths y)" using e' by (auto simp: sum_month_lengths)
  moreover have "days_before_year y + d = days"
    unfolding y(1) using year_of_days_cycles [of b c e a] b c e' y(2) d1(3) bd(2) by simp
  ultimately show ?thesis using e' by simp
qed

lemma month_lengths_length: "length (month_lengths y) = 12"
  by (simp add: month_lengths_def)

lemma date_of_days_inverse:
  assumes "date_of_days days = (y, m, d)"
  shows "days_of_date y m d = days \<and> 1 \<le> m \<and> m \<le> 12 \<and> 1 \<le> d \<and> d \<le> month_lengths y ! (m - 1)"
proof -
  obtain k where k: "year_of_days days = (y, k)" using assms by (auto simp: date_of_days_def split: prod.splits)
  then have "split_month (month_lengths y) k = (m, d)" using assms by (simp add: date_of_days_def)
  then show ?thesis
    using split_month_sum [of k "month_lengths y" m d] year_of_days_bounds [OF k]
    by (simp add: days_of_date_def month_lengths_length)
qed

subsection \<open>Text\<close>

text \<open>Decimal digits with leading zeros.\<close>

fun pad :: "nat \<Rightarrow> nat \<Rightarrow> string" where
  "pad 0 n = []"
| "pad (Suc w) n = pad w (n div 10) @ [digit_char (n mod 10)]"

definition ns_per_second :: int where "ns_per_second = 1000000000"

text \<open>Nine digits of a second without their trailing zeros, and nothing for a whole second.\<close>

definition fraction_text :: "nat \<Rightarrow> string" where
  "fraction_text ns = (if ns = 0 then [] else CHR ''.'' # rev (dropWhile (\<lambda>c. c = CHR ''0'') (rev (pad 9 ns))))"

definition clock_text :: "int \<Rightarrow> string" where
  "clock_text sod = pad 2 (nat (sod div 3600)) @ '':'' @ pad 2 (nat (sod div 60 mod 60)) @ '':'' @ pad 2 (nat (sod mod 60))"

definition date_text :: "int \<Rightarrow> nat \<Rightarrow> int \<Rightarrow> string" where
  "date_text y m d = pad 4 (nat y) @ ''-'' @ pad 2 m @ ''-'' @ pad 2 (nat d)"

text \<open>\<open>MarshalJSON\<close> refuses a year outside the four digits.\<close>

definition format_time :: "int \<Rightarrow> string option" where
  "format_time t = (let secs = t div ns_per_second in
     case date_of_days (secs div 86400) of (y, m, d) \<Rightarrow>
       if y < 0 \<or> 9999 < y then None
       else Some (date_text y m d @ ''T'' @ clock_text (secs mod 86400) @ fraction_text (nat (t mod ns_per_second)) @ ''Z''))"

definition parse_uint :: "nat \<Rightarrow> nat \<Rightarrow> string \<Rightarrow> int \<Rightarrow> int \<Rightarrow> int option" where
  "parse_uint i n s lo hi = (case digits_val 0 (take n (drop i s)) of None \<Rightarrow> None
     | Some x \<Rightarrow> if int x < lo \<or> hi < int x then None else Some (int x))"

text \<open>The fraction after the seconds and the text that follows it.\<close>

definition parse_fraction :: "string \<Rightarrow> int \<times> string" where
  "parse_fraction s = (case s of c # c' # _ \<Rightarrow>
       if c = CHR ''.'' \<and> is_digit c' then
         let digits = takeWhile is_digit (tl s); used = take 9 digits in
         (case digits_val 0 used of None \<Rightarrow> 0 | Some n \<Rightarrow> int n * 10 ^ (9 - length used), dropWhile is_digit (tl s))
       else (0, s)
     | _ \<Rightarrow> (0, s))"

text \<open>The offset of the zone in seconds.\<close>

definition parse_zone :: "string \<Rightarrow> int option" where
  "parse_zone s = (if s = ''Z'' then Some 0
     else if length s \<noteq> 6 then None
     else case parse_uint 1 2 s 0 23 of None \<Rightarrow> None | Some hr \<Rightarrow>
       case parse_uint 4 2 s 0 59 of None \<Rightarrow> None | Some mm \<Rightarrow>
       if (s ! 0 = CHR ''-'' \<or> s ! 0 = CHR ''+'') \<and> s ! 3 = CHR '':''
       then Some (if s ! 0 = CHR ''-'' then - ((hr * 60 + mm) * 60) else (hr * 60 + mm) * 60) else None)"

definition separators_ok :: "string \<Rightarrow> bool" where
  "separators_ok s \<longleftrightarrow> s ! 4 = CHR ''-'' \<and> s ! 7 = CHR ''-'' \<and> s ! 10 = CHR ''T'' \<and> s ! 13 = CHR '':'' \<and> s ! 16 = CHR '':''"

definition parse_rfc3339 :: "string \<Rightarrow> int option" where
  "parse_rfc3339 s =
     (if length s < 19 then None
      else case parse_uint 0 4 s 0 9999 of None \<Rightarrow> None | Some y \<Rightarrow>
      case parse_uint 5 2 s 1 12 of None \<Rightarrow> None | Some m \<Rightarrow>
      case parse_uint 8 2 s 1 (month_lengths y ! (nat m - 1)) of None \<Rightarrow> None | Some d \<Rightarrow>
      case parse_uint 11 2 s 0 23 of None \<Rightarrow> None | Some h \<Rightarrow>
      case parse_uint 14 2 s 0 59 of None \<Rightarrow> None | Some mi \<Rightarrow>
      case parse_uint 17 2 s 0 59 of None \<Rightarrow> None | Some sec \<Rightarrow>
      if \<not> separators_ok s then None
      else case parse_fraction (drop 19 s) of (ns, zone) \<Rightarrow>
      case parse_zone zone of None \<Rightarrow> None | Some offset \<Rightarrow>
        Some ((days_of_date y (nat m) d * 86400 + h * 3600 + mi * 60 + sec - offset) * ns_per_second + ns))"

subsection \<open>The text of an instant is read back\<close>

lemma length_pad [simp]: "length (pad w n) = w"
  by (induction w n rule: pad.induct) simp_all

lemma digits_val_pad: "n < 10 ^ w \<Longrightarrow> digits_val 0 (pad w n) = Some n"
proof (induction w n rule: pad.induct)
  case (2 w n)
  then have "n div 10 < 10 ^ w" by (simp add: div_less_iff_less_mult algebra_simps)
  then show ?case using 2 by (simp add: digits_val_append is_digit_digit_char digit_val_digit_char)
qed simp

lemma pad_digits: "list_all is_digit (pad w n)"
  by (induction w n rule: pad.induct) (simp_all add: is_digit_digit_char)

lemma digits_val_zeros: "digits_val a (s @ replicate k (CHR ''0'')) = map_option (\<lambda>n. n * 10 ^ k) (digits_val a s)"
proof -
  have "digits_val n (replicate k (CHR ''0'')) = Some (n * 10 ^ k)" for n
    by (induction k arbitrary: n) (simp_all add: is_digit_def digit_val_def byte_def)
  then show ?thesis by (cases "digits_val a s") (simp_all add: digits_val_append)
qed

lemma drop_zeros:
  obtains k where "s = rev (dropWhile (\<lambda>c. c = CHR ''0'') (rev s)) @ replicate k (CHR ''0'')"
    "length s = length (rev (dropWhile (\<lambda>c. c = CHR ''0'') (rev s))) + k"
proof -
  have t: "takeWhile (\<lambda>c. c = CHR ''0'') xs = replicate (length (takeWhile (\<lambda>c. c = CHR ''0'') xs)) (CHR ''0'')" for xs
    by (induction xs) auto
  have "s = rev (takeWhile (\<lambda>c. c = CHR ''0'') (rev s) @ dropWhile (\<lambda>c. c = CHR ''0'') (rev s))" by simp
  also have "\<dots> = rev (dropWhile (\<lambda>c. c = CHR ''0'') (rev s)) @ replicate (length (takeWhile (\<lambda>c. c = CHR ''0'') (rev s))) (CHR ''0'')"
    by (subst t) simp
  finally show ?thesis by (rule that) (metis add.commute length_append length_rev takeWhile_dropWhile_id)
qed

lemma takeWhile_stop: "list_all p xs \<Longrightarrow> \<not> p z \<Longrightarrow> takeWhile p (xs @ z # ys) = xs \<and> dropWhile p (xs @ z # ys) = z # ys"
  by (induction xs) auto

lemma parse_fraction_text:
  assumes "ns < 1000000000"
  shows "parse_fraction (fraction_text ns @ ''Z'') = (int ns, ''Z'')"
proof (cases "ns = 0")
  case True
  then show ?thesis by (simp add: fraction_text_def parse_fraction_def)
next
  case False
  let ?d = "rev (dropWhile (\<lambda>c. c = CHR ''0'') (rev (pad 9 ns)))"
  obtain k where k: "pad 9 ns = ?d @ replicate k (CHR ''0'')" "length (pad 9 ns) = length ?d + k" by (rule drop_zeros)
  have v: "digits_val 0 (pad 9 ns) = Some ns" using assms by (intro digits_val_pad) simp
  have "map_option (\<lambda>n. n * 10 ^ k) (digits_val 0 ?d) = Some ns" using v k(1) digits_val_zeros [of 0 ?d k] by metis
  then obtain n where n: "digits_val 0 ?d = Some n" "n * 10 ^ k = ns" by auto
  have d: "list_all is_digit ?d" using pad_digits [of 9 ns] k(1) by (metis list_all_append)
  have ne: "?d \<noteq> []" using n False by (cases "?d = []") auto
  have z: "\<not> is_digit (CHR ''Z'')" by (simp add: is_digit_def)
  then have "takeWhile is_digit (?d @ ''Z'') = ?d" "dropWhile is_digit (?d @ ''Z'') = ''Z''"
    using takeWhile_stop [OF d z, of "[]"] by simp_all
  moreover obtain c ds where "?d = c # ds" "is_digit c" using ne d by (cases ?d) auto
  moreover have "length ?d \<le> 9" "9 - length ?d = k" using k(2) by simp_all
  moreover have "int n * 10 ^ k = int ns" using n(2) by (metis of_nat_mult of_nat_numeral of_nat_power)
  ultimately show ?thesis using n False
    by (simp add: fraction_text_def parse_fraction_def Let_def)
qed

lemma parse_uint_pad:
  assumes "drop i s = pad w n @ t" "n < 10 ^ w" "lo \<le> int n" "int n \<le> hi"
  shows "parse_uint i w s lo hi = Some (int n)"
  using assms digits_val_pad [OF assms(2)] by (simp add: parse_uint_def)

text \<open>The text before the fraction, with its parts at fixed places.\<close>

definition stamp :: "nat \<Rightarrow> nat \<Rightarrow> nat \<Rightarrow> nat \<Rightarrow> nat \<Rightarrow> nat \<Rightarrow> string \<Rightarrow> string" where
  "stamp y m d h mi sec rest = pad 4 y @ ''-'' @ pad 2 m @ ''-'' @ pad 2 d @ ''T'' @ pad 2 h @ '':'' @ pad 2 mi @ '':'' @ pad 2 sec @ rest"

lemma stamp_parts:
  "drop 0 (stamp y m d h mi sec rest) = pad 4 y @ ''-'' @ pad 2 m @ ''-'' @ pad 2 d @ ''T'' @ pad 2 h @ '':'' @ pad 2 mi @ '':'' @ pad 2 sec @ rest"
  "drop 5 (stamp y m d h mi sec rest) = pad 2 m @ ''-'' @ pad 2 d @ ''T'' @ pad 2 h @ '':'' @ pad 2 mi @ '':'' @ pad 2 sec @ rest"
  "drop 8 (stamp y m d h mi sec rest) = pad 2 d @ ''T'' @ pad 2 h @ '':'' @ pad 2 mi @ '':'' @ pad 2 sec @ rest"
  "drop 11 (stamp y m d h mi sec rest) = pad 2 h @ '':'' @ pad 2 mi @ '':'' @ pad 2 sec @ rest"
  "drop 14 (stamp y m d h mi sec rest) = pad 2 mi @ '':'' @ pad 2 sec @ rest"
  "drop 17 (stamp y m d h mi sec rest) = pad 2 sec @ rest"
  "drop 19 (stamp y m d h mi sec rest) = rest"
  "length (stamp y m d h mi sec rest) = 19 + length rest"
  "separators_ok (stamp y m d h mi sec rest)"
  by (simp_all add: stamp_def separators_ok_def nth_append)

lemma parse_stamp:
  assumes "y \<le> 9999" "1 \<le> m" "m \<le> 12" "1 \<le> d" "int d \<le> month_lengths (int y) ! (m - 1)" "h < 24" "mi < 60" "sec < 60"
    "ns < 1000000000"
  shows "parse_rfc3339 (stamp y m d h mi sec (fraction_text ns @ ''Z'')) =
    Some ((days_of_date (int y) m (int d) * 86400 + int h * 3600 + int mi * 60 + int sec) * ns_per_second + int ns)"
proof -
  let ?s = "stamp y m d h mi sec (fraction_text ns @ ''Z'')"
  have "list_all (\<lambda>l. l \<le> 31) (month_lengths (int y))" by (simp add: month_lengths_def)
  then have "month_lengths (int y) ! (m - 1) \<le> 31"
    using assms(2,3) by (simp add: list_all_length month_lengths_length)
  then have "d < 100" using assms(5) by simp
  then have "parse_uint 8 2 ?s 1 (month_lengths (int y) ! (m - 1)) = Some (int d)"
    using assms(4,5) by (intro parse_uint_pad [OF stamp_parts(3)]) simp_all
  moreover have "parse_uint 0 4 ?s 0 9999 = Some (int y)" using assms(1) by (intro parse_uint_pad [OF stamp_parts(1)]) simp_all
  moreover have "parse_uint 5 2 ?s 1 12 = Some (int m)" using assms(2,3) by (intro parse_uint_pad [OF stamp_parts(2)]) simp_all
  moreover have "parse_uint 11 2 ?s 0 23 = Some (int h)" using assms(6) by (intro parse_uint_pad [OF stamp_parts(4)]) simp_all
  moreover have "parse_uint 14 2 ?s 0 59 = Some (int mi)" using assms(7) by (intro parse_uint_pad [OF stamp_parts(5)]) simp_all
  moreover have "parse_uint 17 2 ?s 0 59 = Some (int sec)" using assms(8) by (intro parse_uint_pad [OF stamp_parts(6)]) simp_all
  ultimately show ?thesis
    using parse_fraction_text [OF assms(9)] by (simp add: parse_rfc3339_def stamp_parts(7,8,9) parse_zone_def)
qed

theorem parse_format_time:
  assumes "format_time t = Some s"
  shows "parse_rfc3339 s = Some t"
proof -
  define secs where "secs = t div ns_per_second"
  obtain y m d where dd: "date_of_days (secs div 86400) = (y, m, d)" by (cases "date_of_days (secs div 86400)")
  note inv = date_of_days_inverse [OF dd]
  let ?sod = "secs mod 86400" and ?ns = "t mod ns_per_second"
  have y: "0 \<le> y" "y \<le> 9999" using assms dd by (auto simp: format_time_def secs_def Let_def split: if_splits)
  have s: "s = stamp (nat y) m (nat d) (nat (?sod div 3600)) (nat (?sod div 60 mod 60)) (nat (?sod mod 60)) (fraction_text (nat ?ns) @ ''Z'')"
    using assms dd y by (simp add: format_time_def secs_def [symmetric] Let_def date_text_def clock_text_def stamp_def)
  have sod: "0 \<le> ?sod" "?sod < 86400" by simp_all
  have clock: "?sod div 3600 * 3600 + ?sod div 60 mod 60 * 60 + ?sod mod 60 = ?sod"
  proof -
    have "?sod div 60 div 60 = ?sod div 3600" using zdiv_zmult2_eq [of 60 ?sod 60] by simp
    then show ?thesis
      using div_mult_mod_eq [of ?sod 60] div_mult_mod_eq [of "?sod div 60" 60] by linarith
  qed
  have h: "nat (?sod div 3600) < 24" using sod zdiv_mono1 [of ?sod 86399 3600] by simp
  have d: "1 \<le> nat d" using inv by linarith
  have "parse_rfc3339 s = Some ((days_of_date y m d * 86400 + ?sod div 3600 * 3600 + ?sod div 60 mod 60 * 60 + ?sod mod 60)
      * ns_per_second + ?ns)"
    unfolding s by (subst parse_stamp) (use y inv sod h d in \<open>simp_all add: nat_less_iff ns_per_second_def pos_imp_zdiv_nonneg_iff\<close>)
  also have "days_of_date y m d * 86400 + ?sod div 3600 * 3600 + ?sod div 60 mod 60 * 60 + ?sod mod 60 = secs"
    by (simp only: add.assoc clock [unfolded add.assoc] inv [THEN conjunct1] div_mult_mod_eq)
  also have "secs * ns_per_second + ?ns = t" unfolding secs_def by (rule div_mult_mod_eq)
  finally show ?thesis .
qed

end
