(* ===== verification/Bounded.thy ===== *)
theory Bounded
  imports Prelude
begin

section \<open>Bounded samples of subprocess output\<close>

text \<open>
  The interface of the two writers that keep a bounded prefix of what a subprocess prints:
  \<open>boundedBuffer\<close> of \<open>internal/azure/subscriptions.go\<close> and \<open>limitedOutput\<close> of
  \<open>internal/session/kubeconfig.go\<close>. A client feeds it chunks and then reads the sample and whether
  anything was lost; the locale proves once what the sample is after any sequence of chunks.
\<close>

locale bounded_sink =
  fixes put :: "'s \<Rightarrow> string \<Rightarrow> 's"
    and sample :: "'s \<Rightarrow> string"
    and lost :: "'s \<Rightarrow> bool"
    and bound :: "'s \<Rightarrow> nat"
  assumes sample_put: "sample (put s p) = sample s @ take (bound s - length (sample s)) p"
    and bound_put: "bound (put s p) = bound s"
    and lost_put: "p \<noteq> [] \<Longrightarrow> lost (put s p) \<longleftrightarrow> lost s \<or> length (sample s) + length p > bound s"
begin

lemma bound_puts: "bound (foldl put s ps) = bound s"
  by (induction ps arbitrary: s) (simp_all add: bound_put)

text \<open>The sample is the longest prefix within the bound.\<close>

lemma sample_puts:
  assumes "length (sample s) \<le> bound s"
  shows "sample (foldl put s ps) = take (bound s) (sample s @ concat ps)"
  using assms
proof (induction ps arbitrary: s)
  case Nil
  then show ?case by simp
next
  case (Cons p ps)
  have "length (sample (put s p)) \<le> bound (put s p)" using Cons.prems by (simp add: sample_put bound_put)
  from Cons.IH [OF this] show ?case using Cons.prems
    by (cases "length (sample s) + length p \<le> bound s") (simp_all add: sample_put bound_put)
qed

lemma lost_puts:
  assumes "length (sample s) \<le> bound s" "\<forall>p \<in> set ps. p \<noteq> []"
  shows "lost (foldl put s ps) \<longleftrightarrow> lost s \<or> length (sample s) + length (concat ps) > bound s"
  using assms
proof (induction ps arbitrary: s)
  case Nil
  then show ?case by simp
next
  case (Cons p ps)
  have "length (sample (put s p)) \<le> bound (put s p)" using Cons.prems by (simp add: sample_put bound_put)
  then have "lost (foldl put (put s p) ps) \<longleftrightarrow>
      lost (put s p) \<or> length (sample (put s p)) + length (concat ps) > bound (put s p)"
    using Cons by auto
  then show ?case using Cons.prems by (auto simp: sample_put bound_put lost_put)
qed

text \<open>Nothing lost: the sample is everything that was written.\<close>

lemma sample_complete:
  assumes "sample s = []" "\<not> lost s" "\<forall>p \<in> set ps. p \<noteq> []" "\<not> lost (foldl put s ps)"
  shows "sample (foldl put s ps) = concat ps"
  using assms sample_puts [of s ps] lost_puts [of s ps] by simp

end

subsection \<open>The buffer of the Azure commands\<close>

record bounded_buffer =
  bb_data :: string
  bb_limit :: nat
  bb_exceeded :: bool

definition bounded_write :: "bounded_buffer \<Rightarrow> string \<Rightarrow> bounded_buffer" where
  "bounded_write b p =
     (let remaining = int (bb_limit b) - int (length (bb_data b)) in
      if remaining \<le> 0 then b\<lparr>bb_exceeded := True\<rparr>
      else if int (length p) > remaining
      then b\<lparr>bb_data := bb_data b @ take (nat remaining) p, bb_exceeded := True\<rparr>
      else b\<lparr>bb_data := bb_data b @ p\<rparr>)"

definition new_buffer :: "nat \<Rightarrow> bounded_buffer" where
  "new_buffer limit = \<lparr>bb_data = [], bb_limit = limit, bb_exceeded = False\<rparr>"

definition buffered :: "nat \<Rightarrow> string list \<Rightarrow> bounded_buffer" where
  "buffered limit chunks = foldl bounded_write (new_buffer limit) chunks"

interpretation bounded: bounded_sink bounded_write bb_data bb_exceeded bb_limit
proof
  fix s p
  show "bb_data (bounded_write s p) = bb_data s @ take (bb_limit s - length (bb_data s)) p"
    by (auto simp: bounded_write_def Let_def nat_diff_distrib)
  show "bb_limit (bounded_write s p) = bb_limit s" by (simp add: bounded_write_def Let_def)
  show "p \<noteq> [] \<Longrightarrow> bb_exceeded (bounded_write s p) \<longleftrightarrow> bb_exceeded s \<or> length (bb_data s) + length p > bb_limit s"
    by (cases p) (auto simp: bounded_write_def Let_def)
qed

lemma buffered_data: "bb_data (buffered limit ps) = take limit (concat ps)"
  using bounded.sample_puts [of "new_buffer limit" ps] by (simp add: buffered_def new_buffer_def)

lemma buffered_exceeded:
  "\<forall>p \<in> set ps. p \<noteq> [] \<Longrightarrow> bb_exceeded (buffered limit ps) \<longleftrightarrow> length (concat ps) > limit"
  using bounded.lost_puts [of "new_buffer limit" ps] by (simp add: buffered_def new_buffer_def)

subsection \<open>The buffer of the session commands\<close>

record limited_output =
  lo_buffer :: string
  lo_limit :: nat
  lo_overflow :: bool

definition limited_write :: "limited_output \<Rightarrow> string \<Rightarrow> limited_output" where
  "limited_write w p =
     (let remaining = int (lo_limit w) - int (length (lo_buffer w));
        kept = (if remaining > int (length p) then int (length p) else remaining);
        w' = (if remaining > 0 then w\<lparr>lo_buffer := lo_buffer w @ take (nat kept) p\<rparr> else w)
      in if kept < int (length p) then w'\<lparr>lo_overflow := True\<rparr> else w')"

definition limited_chunks :: "nat \<Rightarrow> string list \<Rightarrow> limited_output" where
  "limited_chunks limit chunks =
     foldl limited_write \<lparr>lo_buffer = [], lo_limit = limit, lo_overflow = False\<rparr> chunks"

interpretation limited: bounded_sink limited_write lo_buffer lo_overflow lo_limit
proof
  fix s p
  show "lo_buffer (limited_write s p) = lo_buffer s @ take (lo_limit s - length (lo_buffer s)) p"
    by (auto simp: limited_write_def Let_def nat_diff_distrib)
  show "lo_limit (limited_write s p) = lo_limit s" by (simp add: limited_write_def Let_def)
  show "p \<noteq> [] \<Longrightarrow> lo_overflow (limited_write s p) \<longleftrightarrow> lo_overflow s \<or> length (lo_buffer s) + length p > lo_limit s"
    by (auto simp: limited_write_def Let_def)
qed

lemma limited_data: "lo_buffer (limited_chunks limit ps) = take limit (concat ps)"
  using limited.sample_puts [of "\<lparr>lo_buffer = [], lo_limit = limit, lo_overflow = False\<rparr>" ps]
  by (simp add: limited_chunks_def)

lemma limited_overflow:
  "\<forall>p \<in> set ps. p \<noteq> [] \<Longrightarrow> lo_overflow (limited_chunks limit ps) \<longleftrightarrow> length (concat ps) > limit"
  using limited.lost_puts [of "\<lparr>lo_buffer = [], lo_limit = limit, lo_overflow = False\<rparr>" ps]
  by (simp add: limited_chunks_def)

end
