(* ===== verification/Azure.thy ===== *)
theory Azure
  imports Bounded Runes Json_Struct Profile
begin

section \<open>Azure CLI commands and blob storage\<close>

text \<open>
  \<open>internal/azure\<close>: the arguments Bivrost passes to the Azure CLI, the checks on what it passes and on
  what comes back, and the two sequences that touch storage, publishing initial metadata and reading
  a metadata blob. The CLI and the HTTP client are outside the program: a command is given by how it
  ended (\<open>cli_run\<close>) and a request by its response; for publication the CLI is a function of its
  arguments and the calls made are recorded in order.
\<close>

record terraform_backend =
  tb_subscription :: string
  tb_account :: string
  tb_container :: string

text \<open>How a command ended, with the answers the code asks for when it failed.\<close>

record cli_run =
  cr_found :: bool
  cr_ok :: bool
  cr_ctx_done :: bool
  cr_deadline :: bool
  cr_exec_error :: bool
  cr_stdout :: "string list"
  cr_stderr :: "string list"

datatype backend_error = BackendSubscription | BackendAccount | BackendContainer

datatype probe_failure = ProbeUnknown | ProbeCli | ProbeTimeout | ProbeLogin | ProbeNetwork

datatype publication_stage = RevisionStage | PointerStage
datatype publication_failure = PubUnknown | PubCli | PubTimeout | PubCanceled

datatype read_failure = ReadUnknown | ReadCli | ReadTokenTimeout | ReadToken | ReadInvalidToken
  | ReadRequestTimeout | ReadTransport | ReadRedirect | ReadDenied | ReadMissing | ReadResponse | ReadOversize

datatype azure_error =
    Backend backend_error | AccountName | CtxDone | CliMissing
  | CloudTimeout | CloudUnreadable | CloudOutput | CloudUnsupported
  | EndpointInvalid | Probe probe_failure
  | PrefixInvalid | RevisionInvalid | RevisionSource | PointerSource
  | Publication publication_stage publication_failure
  | BlobName | SizeLimit | BlobRead read_failure
  | SubsTimeout | SubsFailed | SubsTooMuch | SubsInvalid | SubsNone
  | ProxyUrl | ProxyNotLoopback

subsection \<open>Targets\<close>

definition storage_account_pattern :: rx where
  "storage_account_pattern = rep_range 3 24 (Cls lower_or_digit)"

definition container_pattern :: rx where
  "container_pattern = Seq (Cls lower_or_digit)
    (Seq (rep_range 1 61 (Cls (\<lambda>c. lower_or_digit c \<or> c = CHR ''-''))) (Cls lower_or_digit))"

definition supported_storage_cloud :: "(string \<times> string) list" where
  "supported_storage_cloud = [(''AzureCloud'', ''core.windows.net''),
     (''AzureUSGovernment'', ''core.usgovcloudapi.net''), (''AzureChinaCloud'', ''core.chinacloudapi.cn'')]"

definition validate_terraform_backend :: "terraform_backend \<Rightarrow> backend_error err" where
  "validate_terraform_backend t =
     (if \<not> valid_azure_argument (tb_subscription t) then Some BackendSubscription
      else if \<not> rmatch storage_account_pattern (tb_account t) then Some BackendAccount
      else if \<not> rmatch container_pattern (tb_container t) \<or> contains_str (tb_container t) ''--''
      then Some BackendContainer else None)"

definition blob_endpoint :: "string \<Rightarrow> string \<Rightarrow> string" where
  "blob_endpoint account suffix = ''https://'' @ account @ ''.blob.'' @ suffix"

definition valid_terraform_blob_endpoint :: "string \<Rightarrow> string \<Rightarrow> bool" where
  "valid_terraform_blob_endpoint account endpoint \<longleftrightarrow>
     list_ex (\<lambda>(_, suffix). endpoint = blob_endpoint account suffix) supported_storage_cloud"

definition without_storage_credentials :: "string list \<Rightarrow> string list" where
  "without_storage_credentials environment =
     filter (\<lambda>entry. \<not> has_prefix (to_upper (fst (cut CHR ''='' entry))) ''AZURE_STORAGE_'') environment"

subsection \<open>Arguments\<close>

definition ssh_login_scope :: string where
  "ssh_login_scope = ''ce6ff14a-7fdc-4685-bbe0-f6afdfcfa8e0/.default''"

definition login_arguments :: "string \<Rightarrow> bool \<Rightarrow> bool \<Rightarrow> string list" where
  "login_arguments tenant device_code ssh = [''login'', ''--output'', ''none'']
     @ (if tenant \<noteq> [] then [''--tenant'', tenant] else [])
     @ (if device_code then [''--use-device-code''] else [])
     @ (if ssh then [''--scope'', ssh_login_scope] else [])"

definition aks_credentials_arguments :: "string \<Rightarrow> string \<Rightarrow> string \<Rightarrow> string \<Rightarrow> string list" where
  "aks_credentials_arguments name resource_group subscription path = [''aks'', ''get-credentials'',
     ''--subscription'', subscription, ''--resource-group'', resource_group, ''--name'', name,
     ''--file'', path, ''--format'', ''exec'', ''--only-show-errors'']"

definition subscription_list_arguments :: "bool \<Rightarrow> string list" where
  "subscription_list_arguments refresh = [''account'', ''list'', ''--query'',
     ''[].[id,name,tenantId,state,isDefault]'', ''--output'', ''json'', ''--only-show-errors'']
     @ (if refresh then [''--refresh''] else [])"

definition terraform_cloud_arguments :: "string list" where
  "terraform_cloud_arguments = [''cloud'', ''show'', ''--query'', ''[name,suffixes.storageEndpoint]'',
     ''--output'', ''json'', ''--only-show-errors'']"

definition terraform_probe_arguments :: "terraform_backend \<Rightarrow> string \<Rightarrow> string list" where
  "terraform_probe_arguments t endpoint = [''storage'', ''container'', ''show'',
     ''--subscription'', tb_subscription t, ''--account-name'', tb_account t, ''--name'', tb_container t,
     ''--blob-endpoint'', endpoint, ''--auth-mode'', ''login'', ''--output'', ''none'', ''--only-show-errors'']"

definition heimdal_upload_arguments :: "terraform_backend \<Rightarrow> string \<Rightarrow> string \<Rightarrow> string \<Rightarrow> string list" where
  "heimdal_upload_arguments t endpoint blob_name file = [''storage'', ''blob'', ''upload'',
     ''--subscription'', tb_subscription t, ''--account-name'', tb_account t,
     ''--container-name'', tb_container t, ''--name'', blob_name, ''--file'', file,
     ''--blob-endpoint'', endpoint, ''--auth-mode'', ''login'', ''--type'', ''block'',
     ''--overwrite'', ''false'', ''--if-none-match'', ''*'', ''--content-type'', ''application/json'',
     ''--no-progress'', ''--timeout'', ''30'', ''--output'', ''none'', ''--only-show-errors'']"

definition heimdal_token_arguments :: "terraform_backend \<Rightarrow> string \<Rightarrow> string list" where
  "heimdal_token_arguments t endpoint = [''account'', ''get-access-token'', ''--subscription'', tb_subscription t,
     ''--resource'', endpoint, ''--query'', ''accessToken'', ''--output'', ''tsv'', ''--only-show-errors'']"

subsection \<open>The Blob endpoint of the active cloud\<close>

definition max_cloud_suffix_output :: nat where "max_cloud_suffix_output = 256"

text \<open>\<open>decodeTerraformCloud\<close>.\<close>

definition decode_terraform_cloud :: "string \<Rightarrow> (string \<times> string) option" where
  "decode_terraform_cloud data = (case parse_json data of
     Some (JArr vs) \<Rightarrow> (case str_items vs of
         Some [cloud, suffix] \<Rightarrow> if cloud = [] \<or> suffix = [] then None else Some (cloud, suffix)
       | _ \<Rightarrow> None)
   | _ \<Rightarrow> None)"

definition terraform_blob_endpoint :: "bool \<Rightarrow> string \<Rightarrow> cli_run \<Rightarrow> (azure_error, string) res" where
  "terraform_blob_endpoint ctx_done account run =
     (if \<not> rmatch storage_account_pattern account then Inl AccountName
      else if ctx_done then Inl CtxDone
      else if \<not> cr_found run then Inl CliMissing
      else if \<not> cr_ok run then
        (if cr_ctx_done run then Inl CtxDone else if cr_deadline run then Inl CloudTimeout
         else if cr_exec_error run then Inl CliMissing else Inl CloudUnreadable)
      else let output = buffered max_cloud_suffix_output (cr_stdout run) in
      if bb_exceeded output then Inl CloudOutput
      else case decode_terraform_cloud (bb_data output) of None \<Rightarrow> Inl CloudUnsupported
        | Some (cloud, suffix) \<Rightarrow>
          if map_of supported_storage_cloud cloud \<noteq> Some suffix then Inl CloudUnsupported
          else Inr (blob_endpoint account suffix))"

subsection \<open>The metadata probe\<close>

definition max_probe_error_output :: nat where "max_probe_error_output = 8 * 1024"

definition classify_probe_stderr :: "string \<Rightarrow> bool \<Rightarrow> probe_failure" where
  "classify_probe_stderr stderr truncated =
     (if truncated then ProbeUnknown
      else if contains_str stderr (''Please run '' @ [CHR 0x27] @ ''az login'' @ [CHR 0x27] @ '' to setup account.'') then ProbeLogin
      else if list_ex (contains_str stderr) [
     ''azure.core.exceptions.ServiceRequestError:'',
     ''urllib3.exceptions.NameResolutionError:'',
     ''urllib3.exceptions.NewConnectionError:'',
     ''urllib3.exceptions.ProxyError:'',
     ''requests.exceptions.ConnectionError:'']
      then ProbeNetwork else ProbeUnknown)"

definition probe_terraform_backend :: "bool \<Rightarrow> terraform_backend \<Rightarrow> string \<Rightarrow> cli_run \<Rightarrow> azure_error err" where
  "probe_terraform_backend ctx_done t endpoint run =
     (case validate_terraform_backend t of Some e \<Rightarrow> Some (Backend e) | None \<Rightarrow>
      if \<not> valid_terraform_blob_endpoint (tb_account t) endpoint then Some EndpointInvalid
      else if ctx_done then Some CtxDone
      else if \<not> cr_found run then Some (Probe ProbeCli)
      else if cr_ok run then None
      else let stderr = buffered max_probe_error_output (cr_stderr run) in
      if cr_ctx_done run then Some CtxDone
      else if cr_deadline run then Some (Probe ProbeTimeout)
      else if cr_exec_error run then Some (Probe ProbeCli)
      else Some (Probe (classify_probe_stderr (bb_data stderr) (bb_exceeded stderr))))"

definition terraform_probe_guidance :: "azure_error \<Rightarrow> string" where
  "terraform_probe_guidance e = (case e of
     Probe ProbeCli \<Rightarrow> ''Azure CLI is unavailable; install it, then retry''
   | Probe ProbeTimeout \<Rightarrow> ''the metadata request timed out; check the network path and retry''
   | Probe ProbeLogin \<Rightarrow> ''Azure CLI login is required; run bivrost login or az login, then retry''
   | Probe ProbeNetwork \<Rightarrow> ''a network request failed while checking backend metadata; check connectivity, proxy settings, and the private route, then retry''
   | _ \<Rightarrow> ''the named container properties could not be verified; check Azure login, container metadata read permission, target names, active cloud, and network connectivity'')"

subsection \<open>Publishing initial metadata\<close>

definition heimdal_prefix_segment_pattern :: rx where
  "heimdal_prefix_segment_pattern = Seq (Cls lower_or_digit)
     (rep_range 0 62 (Cls (\<lambda>c. lower_or_digit c \<or> c \<in> set ''._-'')))"

definition heimdal_revision_pattern :: rx where
  "heimdal_revision_pattern = rep 64 (Cls is_hex)"

definition valid_heimdal_prefix :: "string \<Rightarrow> bool" where
  "valid_heimdal_prefix prefix \<longleftrightarrow> \<not> (prefix = [] \<or> length prefix > 256)
     \<and> list_all (rmatch heimdal_prefix_segment_pattern) (split_on CHR ''/'' prefix)"

text \<open>One upload: the call that is made, or none, and how it went.\<close>

definition upload_heimdal_blob :: "(string list \<Rightarrow> cli_run) \<Rightarrow> terraform_backend \<Rightarrow> string \<Rightarrow> string \<Rightarrow> string
    \<Rightarrow> publication_stage \<Rightarrow> string list list \<times> azure_error err" where
  "upload_heimdal_blob cli t endpoint blob_name file stage =
     (let args = heimdal_upload_arguments t endpoint blob_name file; run = cli args in
      if \<not> cr_found run then ([], Some (Publication stage PubCli))
      else if cr_ok run then ([args], None)
      else ([args], Some (Publication stage
        (if cr_ctx_done run then PubCanceled else if cr_deadline run then PubTimeout
         else if cr_exec_error run then PubCli else PubUnknown))))"

definition publish_initial_heimdal :: "(string list \<Rightarrow> cli_run) \<Rightarrow> bool \<Rightarrow> (string \<Rightarrow> bool) \<Rightarrow> terraform_backend \<Rightarrow> string
    \<Rightarrow> string \<Rightarrow> string \<Rightarrow> string \<Rightarrow> string \<Rightarrow> string list list \<times> azure_error err" where
  "publish_initial_heimdal cli ctx_done regular t endpoint prefix revision revision_file pointer_file =
     (case validate_terraform_backend t of Some e \<Rightarrow> ([], Some (Backend e)) | None \<Rightarrow>
      if \<not> valid_terraform_blob_endpoint (tb_account t) endpoint then ([], Some EndpointInvalid)
      else if \<not> valid_heimdal_prefix prefix then ([], Some PrefixInvalid)
      else if \<not> rmatch heimdal_revision_pattern revision then ([], Some RevisionInvalid)
      else if revision_file = [] \<or> \<not> regular revision_file then ([], Some RevisionSource)
      else if pointer_file = [] \<or> \<not> regular pointer_file then ([], Some PointerSource)
      else if ctx_done then ([], Some CtxDone)
      else case upload_heimdal_blob cli t endpoint (prefix @ ''/revisions/'' @ revision @ ''.json'') revision_file RevisionStage of
        (calls, Some e) \<Rightarrow> (calls, Some e)
      | (calls, None) \<Rightarrow>
        (case upload_heimdal_blob cli t endpoint (prefix @ ''/current.json'') pointer_file PointerStage of
           (calls', e) \<Rightarrow> (calls @ calls', e)))"

definition heimdal_revision_orphaned :: "azure_error \<Rightarrow> bool" where
  "heimdal_revision_orphaned e = (case e of Publication PointerStage _ \<Rightarrow> True | _ \<Rightarrow> False)"

definition publication_reason :: "publication_failure \<Rightarrow> string" where
  "publication_reason f = (case f of
     PubCli \<Rightarrow> ''Azure CLI is unavailable; install it, then retry''
   | PubTimeout \<Rightarrow> ''the Azure Blob create request timed out; check connectivity and retry''
   | PubCanceled \<Rightarrow> ''Heimdal publication was canceled''
   | PubUnknown \<Rightarrow> ''the Azure Blob create request failed; check Azure login, Blob data access, connectivity, and whether the destination blob already exists'')"

definition heimdal_publication_guidance :: "azure_error \<Rightarrow> string" where
  "heimdal_publication_guidance e = (case e of
     Publication PointerStage f \<Rightarrow> publication_reason f @ ''; the immutable revision was created but current pointer creation was not confirmed, so the revision may remain unreferenced and no cleanup was attempted''
   | Publication RevisionStage f \<Rightarrow> publication_reason f @ ''; no current pointer was attempted, and an unconfirmed immutable revision may remain unreferenced''
   | _ \<Rightarrow> ''Heimdal publication failed; check the target names and local source files'')"

subsection \<open>Reading metadata\<close>

definition token_char :: "char \<Rightarrow> bool" where
  "token_char c \<longleftrightarrow> is_lower c \<or> is_upper c \<or> is_digit c \<or> c \<in> set ''-._~+/=''"

definition valid_heimdal_bearer_token :: "string \<Rightarrow> bool" where
  "valid_heimdal_bearer_token token \<longleftrightarrow> token \<noteq> [] \<and> list_all token_char token"

text \<open>\<open>strings.LastIndex\<close> as a cut: the text before and after the last occurrence of a text.\<close>

fun cut_last_text :: "string \<Rightarrow> string \<Rightarrow> (string \<times> string) option" where
  "cut_last_text x [] = (if x = [] then Some ([], []) else None)"
| "cut_last_text x (c # s) = (case cut_last_text x s of
     Some (a, b) \<Rightarrow> Some (c # a, b)
   | None \<Rightarrow> if has_prefix (c # s) x then Some ([], drop (length x) (c # s)) else None)"

definition valid_heimdal_read_blob_name :: "string \<Rightarrow> bool" where
  "valid_heimdal_read_blob_name name =
     (if has_suffix name ''/current.json'' then valid_heimdal_prefix (trim_suffix name ''/current.json'')
      else case cut_last_text ''/revisions/'' name of None \<Rightarrow> False
        | Some (prefix, revision_file) \<Rightarrow>
          valid_heimdal_prefix prefix \<and> has_suffix revision_file ''.json''
          \<and> rmatch heimdal_revision_pattern (trim_suffix revision_file ''.json''))"

definition max_heimdal_token_output :: nat where "max_heimdal_token_output = 64 * 1024"
definition max_heimdal_read_bytes :: int where "max_heimdal_read_bytes = 64 * 1024"

definition heimdal_storage_token :: "cli_run \<Rightarrow> (azure_error, string) res" where
  "heimdal_storage_token run =
     (if \<not> cr_found run then Inl (BlobRead ReadCli)
      else if \<not> cr_ok run then
        (if cr_ctx_done run then Inl CtxDone else if cr_deadline run then Inl (BlobRead ReadTokenTimeout)
         else if cr_exec_error run then Inl (BlobRead ReadCli) else Inl (BlobRead ReadToken))
      else let output = buffered max_heimdal_token_output (cr_stdout run) in
      if bb_exceeded output then Inl (BlobRead ReadInvalidToken)
      else let token = trim_suffix (trim_suffix (bb_data output) [CHR 0x0A]) [CHR 0x0D] in
      if \<not> valid_heimdal_bearer_token token then Inl (BlobRead ReadInvalidToken) else Inr token)"

text \<open>The answer to a request: the client's error, or the response as far as the code looks at it.\<close>

datatype body_error = BodyCtxDone | BodyDeadline | BodyFailed

record http_response =
  hr_same_url :: bool
  hr_status :: int
  hr_content_length :: int
  hr_body :: string
  hr_body_error :: "body_error option"

datatype http_answer = RequestDone | RequestDeadline | RequestFailed | Response http_response

definition read_heimdal_response :: "int \<Rightarrow> http_answer \<Rightarrow> (azure_error, string) res" where
  "read_heimdal_response max_bytes answer = (case answer of
     RequestDone \<Rightarrow> Inl CtxDone
   | RequestDeadline \<Rightarrow> Inl (BlobRead ReadRequestTimeout)
   | RequestFailed \<Rightarrow> Inl (BlobRead ReadTransport)
   | Response r \<Rightarrow>
     if \<not> hr_same_url r \<or> (hr_status r \<ge> 300 \<and> hr_status r < 400) then Inl (BlobRead ReadRedirect)
     else if hr_status r = 401 \<or> hr_status r = 403 then Inl (BlobRead ReadDenied)
     else if hr_status r = 404 then Inl (BlobRead ReadMissing)
     else if hr_status r \<noteq> 200 then Inl (BlobRead ReadResponse)
     else if hr_content_length r > max_bytes then Inl (BlobRead ReadOversize)
     else case hr_body_error r of
       Some BodyCtxDone \<Rightarrow> Inl CtxDone
     | Some BodyDeadline \<Rightarrow> Inl (BlobRead ReadRequestTimeout)
     | Some BodyFailed \<Rightarrow> Inl (BlobRead ReadTransport)
     | None \<Rightarrow> let data = take (nat (max_bytes + 1)) (hr_body r) in
         if int (length data) > max_bytes then Inl (BlobRead ReadOversize) else Inr data)"

text \<open>The request goes to one address under the endpoint with the token; \<open>fetch\<close> is the client.\<close>

definition read_heimdal_blob :: "bool \<Rightarrow> terraform_backend \<Rightarrow> string \<Rightarrow> string \<Rightarrow> int \<Rightarrow> cli_run
    \<Rightarrow> (string \<Rightarrow> string \<Rightarrow> http_answer) \<Rightarrow> (azure_error, string) res" where
  "read_heimdal_blob ctx_done t endpoint blob_name max_bytes run fetch =
     (case validate_terraform_backend t of Some e \<Rightarrow> Inl (Backend e) | None \<Rightarrow>
      if \<not> valid_terraform_blob_endpoint (tb_account t) endpoint then Inl EndpointInvalid
      else if \<not> valid_heimdal_read_blob_name blob_name then Inl BlobName
      else if max_bytes \<le> 0 \<or> max_bytes > max_heimdal_read_bytes then Inl SizeLimit
      else if ctx_done then Inl CtxDone
      else ebind (heimdal_storage_token run) (\<lambda>token.
        read_heimdal_response max_bytes (fetch (endpoint @ ''/'' @ tb_container t @ ''/'' @ blob_name) (''Bearer '' @ token))))"

definition heimdal_read_message :: "read_failure \<Rightarrow> string" where
  "heimdal_read_message f = (case f of
     ReadCli \<Rightarrow> ''Azure CLI is unavailable; install it, then retry''
   | ReadTokenTimeout \<Rightarrow> ''Azure Storage token acquisition timed out; check Azure login and connectivity, then retry''
   | ReadToken \<Rightarrow> ''Azure Storage token acquisition failed; run bivrost login or az login, check the subscription, and retry''
   | ReadInvalidToken \<Rightarrow> ''Azure CLI returned an invalid Azure Storage token''
   | ReadRequestTimeout \<Rightarrow> ''the Heimdal Blob request timed out; check the session proxy and private route, then retry''
   | ReadTransport \<Rightarrow> ''the Heimdal Blob request failed; check the session proxy, private route, and TLS trust, then retry''
   | ReadRedirect \<Rightarrow> ''the Heimdal Blob request was redirected and was refused''
   | ReadDenied \<Rightarrow> ''Azure denied access to the Heimdal Blob; check Blob data read permission''
   | ReadMissing \<Rightarrow> ''the requested Heimdal Blob does not exist''
   | ReadResponse \<Rightarrow> ''Azure Blob Storage returned an unsuccessful response''
   | ReadOversize \<Rightarrow> ''the Heimdal Blob exceeds the configured size limit''
   | ReadUnknown \<Rightarrow> ''the Heimdal Blob could not be read'')"

subsection \<open>Subscriptions\<close>

record subscription =
  su_id :: string
  su_name :: string
  su_tenant :: string
  su_state :: string
  su_default :: bool

definition decode_subscription :: "json \<Rightarrow> subscription option" where
  "decode_subscription v = (case v of
     JArr [JStr i, JStr n, JStr t, JStr s, JBool d] \<Rightarrow>
       if i = [] \<or> n = [] \<or> t = [] \<or> s = [] then None
       else Some \<lparr>su_id = i, su_name = n, su_tenant = t, su_state = s, su_default = d\<rparr>
   | _ \<Rightarrow> None)"

fun decode_subscription_list :: "json list \<Rightarrow> subscription list option" where
  "decode_subscription_list [] = Some []"
| "decode_subscription_list (v # vs) = (case decode_subscription v of None \<Rightarrow> None
     | Some s \<Rightarrow> map_option ((#) s) (decode_subscription_list vs))"

definition decode_subscriptions :: "string \<Rightarrow> subscription list option" where
  "decode_subscriptions data = (case parse_json data of
     Some (JArr vs) \<Rightarrow> decode_subscription_list vs | Some JNull \<Rightarrow> Some [] | _ \<Rightarrow> None)"

definition max_subscription_output :: nat where "max_subscription_output = 1048576"

definition discover_subscriptions :: "bool \<Rightarrow> cli_run \<Rightarrow> (azure_error, subscription list) res" where
  "discover_subscriptions ctx_done run =
     (if ctx_done then Inl CtxDone
      else if \<not> cr_found run then Inl CliMissing
      else if \<not> cr_ok run then
        (if cr_ctx_done run then Inl CtxDone else if cr_deadline run then Inl SubsTimeout
         else if cr_exec_error run then Inl CliMissing else Inl SubsFailed)
      else let output = buffered max_subscription_output (cr_stdout run) in
      if bb_exceeded output then Inl SubsTooMuch
      else case decode_subscriptions (bb_data output) of None \<Rightarrow> Inl SubsInvalid
        | Some subs \<Rightarrow> if subs = [] then Inl SubsNone else Inr subs)"

text \<open>One row of \<open>WriteSubscriptions\<close> (\<open>internal/cli/subscriptions.go\<close>).\<close>

definition subscription_row :: "subscription \<Rightarrow> string list" where
  "subscription_row s = [if su_default s then ''yes'' else [], sanitize_terminal_text (su_name s),
     sanitize_terminal_text (su_id s), sanitize_terminal_text (su_tenant s), sanitize_terminal_text (su_state s)]"

subsection \<open>Why a tunnel failed\<close>

definition tunnel_error_sample_bytes :: nat where "tunnel_error_sample_bytes = 65536"

definition tunnel_failures :: "(string list \<times> string) list" where
  "tunnel_failures = [
     ([''AuthorizationFailed''],
      ''Azure denied access to this environment'' @ [CHR 0x27] @ ''s Bastion host or VM (AuthorizationFailed). Check that your PIM activation or group membership covers it; after activating, wait a few minutes and run bivrost login before connecting again''),
     ([''SubscriptionNotFound'', ''InvalidSubscriptionId''],
      ''this environment'' @ [CHR 0x27] @ ''s Azure subscription is not available to your account; check the environment configuration and that you signed in to the right tenant''),
     ([''ResourceGroupNotFound'', ''ResourceNotFound'', ''ParentResourceNotFound''],
      ''Azure could not find this environment'' @ [CHR 0x27] @ ''s Bastion host or VM; check the environment configuration, or ask its maintainers whether it moved''),
     ([''Native Client must be enabled''],
      ''this environment'' @ [CHR 0x27] @ ''s Bastion host does not allow native client tunnels; its maintainers must enable native client support on a Standard or Premium SKU''),
     ([''AADSTS'', ''az login'', ''InvalidAuthenticationToken'', ''ExpiredAuthenticationToken''],
      ''the Azure CLI sign-in has expired or must be renewed; run bivrost login and connect again''),
     ([''Failed to establish a new connection'', ''Max retries exceeded'', ''ConnectionError'', ''Name or service not known'', ''nodename nor servname'', ''getaddrinfo failed''],
      ''the Bastion tunnel could not reach Azure; check network connectivity and proxy settings, then retry''),
     ([''Defined port is currently unavailable''],
      ''the local port chosen for the Bastion tunnel was taken by another program; connect again'')]"

definition unrecognised_tunnel_error :: string where
  "unrecognised_tunnel_error = ''Azure Bastion tunnel exited before it was ready; check your Azure access and PIM activation for this environment, and run bivrost doctor with the same --env or --config''"

fun first_failure :: "(string list \<times> string) list \<Rightarrow> string \<Rightarrow> string" where
  "first_failure [] data = unrecognised_tunnel_error"
| "first_failure ((markers, guidance) # fs) data =
     (if list_ex (contains_str data) markers then ''Azure Bastion tunnel failed: '' @ guidance
      else first_failure fs data)"

text \<open>\<open>TunnelErrors\<close>: the sample its writes leave, and \<open>Err\<close>.\<close>

definition tunnel_errors :: "string list \<Rightarrow> bounded_buffer" where
  "tunnel_errors writes = buffered tunnel_error_sample_bytes writes"

definition tunnel_error :: "bounded_buffer \<Rightarrow> string" where
  "tunnel_error sample = first_failure tunnel_failures (if bb_exceeded sample then [] else bb_data sample)"

subsection \<open>The endpoint of a supported cloud can always be routed\<close>

lemma storage_account_iff:
  "rmatch storage_account_pattern s \<longleftrightarrow> 3 \<le> length s \<and> length s \<le> 24 \<and> list_all lower_or_digit s"
  by (simp add: storage_account_pattern_def rmatch_lang lang_rep_range_Cls)

lemma account_label: "rmatch storage_account_pattern s \<Longrightarrow> remote_label s \<and> CHR ''.'' \<notin> set s"
proof -
  assume s: "rmatch storage_account_pattern s"
  have c: "lower_or_digit c \<Longrightarrow> c \<noteq> CHR ''-'' \<and> c \<noteq> CHR ''.''" for c
    by (auto simp: lower_or_digit_def is_lower_def is_digit_def)
  have "s \<noteq> []" "length s \<le> 63" "list_all lower_or_digit s" using s by (auto simp: storage_account_iff)
  then show ?thesis using c hd_in_set [of s] last_in_set [of s]
    by (auto simp: remote_label_def list_all_iff lower_or_digit_def)
qed

definition blob_host :: "string \<Rightarrow> string \<Rightarrow> string" where
  "blob_host account suffix = account @ ''.blob.'' @ suffix"

lemma blob_host_labels:
  assumes "rmatch storage_account_pattern account"
  shows "split_on CHR ''.'' (blob_host account suffix) = account # ''blob'' # split_on CHR ''.'' suffix"
  using account_label [OF assms] split_on_append [of "CHR ''.''" account "''blob.'' @ suffix"]
    split_on_append [of "CHR ''.''" "''blob''" suffix]
  by (simp add: blob_host_def)

lemma supported_suffix_labels:
  "suffix \<in> snd ` set supported_storage_cloud \<Longrightarrow>
   split_on CHR ''.'' suffix \<in> {[''core'', ''windows'', ''net''], [''core'', ''usgovcloudapi'', ''net''], [''core'', ''chinacloudapi'', ''cn'']}"
  by (auto simp: supported_storage_cloud_def)

lemma blob_host_routable:
  assumes account: "rmatch storage_account_pattern account" and suffix: "suffix \<in> snd ` set supported_storage_cloud"
  shows "check_private_hosts [blob_host account suffix] = None"
proof -
  note labels = blob_host_labels [OF account, of suffix] supported_suffix_labels [OF suffix]
  have sym: "remote_label ''blob''" "remote_label ''core''" "remote_label ''windows''" "remote_label ''net''"
    "remote_label ''usgovcloudapi''" "remote_label ''chinacloudapi''" "remote_label ''cn''"
    by (simp_all add: remote_label_def is_lower_def is_digit_def)
  have len: "length (blob_host account suffix) \<le> 253"
    using account suffix by (auto simp: blob_host_def storage_account_iff supported_storage_cloud_def)
  have "remote_name_spec (split_on CHR ''.'' (blob_host account suffix))"
    using labels account_label [OF account] sym len join_split_on [of "CHR ''.''" "blob_host account suffix"]
    by (auto simp: remote_name_spec_def dotted_quad_def)
  then have "valid_remote_dns_name (blob_host account suffix)" by (simp add: valid_remote_dns_name_split)
  moreover have "\<not> public_control_plane_host (blob_host account suffix)"
  proof
    assume "public_control_plane_host (blob_host account suffix)"
    then obtain h pre where h: "h \<in> set public_control_plane_hosts"
      "account # ''blob'' # split_on CHR ''.'' suffix = pre @ split_on CHR ''.'' h"
      unfolding public_control_plane_host_labels labels(1) by blast
    have tail: "drop n (account # ''blob'' # split_on CHR ''.'' suffix) = split_on CHR ''.'' h" if "n = length pre" for n
      using h(2) that by simp
    have "length (split_on CHR ''.'' h) \<ge> 3"
      using h(1) unfolding public_control_plane_hosts_def by auto
    moreover have "length (split_on CHR ''.'' suffix) = 3" using labels(2) by auto
    ultimately have "length pre \<le> 2" using arg_cong [OF h(2), of length] by simp
    then have "split_on CHR ''.'' h \<in> {account # ''blob'' # split_on CHR ''.'' suffix,
        ''blob'' # split_on CHR ''.'' suffix, split_on CHR ''.'' suffix}"
      using tail [of 0] tail [of 1] tail [of 2] by (auto simp: le_Suc_eq numeral_2_eq_2)
    then show False using h(1) labels(2) unfolding public_control_plane_hosts_def by auto
  qed
  ultimately show ?thesis by simp
qed

text \<open>
  The Blob endpoint that is derived from the CLI's cloud is an HTTPS address of the requested account
  in one of the three supported clouds, whatever the CLI printed, and its host always passes the
  checks on private routes, so the \<open>--private-host\<close> option that Bivrost suggests for it works.
\<close>

theorem terraform_blob_endpoint_routable:
  assumes "terraform_blob_endpoint ctx_done account run = Inr endpoint"
  shows "\<exists>suffix \<in> {''core.windows.net'', ''core.usgovcloudapi.net'', ''core.chinacloudapi.cn''}.
     endpoint = ''https://'' @ account @ ''.blob.'' @ suffix \<and> valid_terraform_blob_endpoint account endpoint
     \<and> check_private_hosts [trim_prefix endpoint ''https://''] = None"
proof -
  obtain cloud suffix where s: "rmatch storage_account_pattern account"
    "map_of supported_storage_cloud cloud = Some suffix" "endpoint = blob_endpoint account suffix"
    using assms by (auto simp: terraform_blob_endpoint_def Let_def split: if_splits option.splits prod.splits)
  then have in_set: "suffix \<in> snd ` set supported_storage_cloud" by (auto dest!: map_of_SomeD intro: rev_image_eqI)
  have "trim_prefix endpoint ''https://'' = blob_host account suffix"
    using trim_prefix_append [of "''https://''" "blob_host account suffix"]
    by (simp add: s(3) blob_endpoint_def blob_host_def)
  moreover have "valid_terraform_blob_endpoint account endpoint"
    using s(3) in_set by (auto simp: valid_terraform_blob_endpoint_def list_ex_iff)
  moreover have "suffix \<in> {''core.windows.net'', ''core.usgovcloudapi.net'', ''core.chinacloudapi.cn''}"
    using in_set by (auto simp: supported_storage_cloud_def)
  ultimately show ?thesis using blob_host_routable [OF s(1) in_set] s(3) by (auto simp: blob_endpoint_def)
qed

definition sample_cloud_run :: cli_run where
  "sample_cloud_run = \<lparr>cr_found = True, cr_ok = True, cr_ctx_done = False, cr_deadline = False, cr_exec_error = False,
     cr_stdout = [json_text (JArr [JStr ''AzureCloud'', JStr ''core.windows.net''])], cr_stderr = []\<rparr>"

lemma sample_cloud_endpoint:
  "terraform_blob_endpoint False ''demoacct1'' sample_cloud_run = Inr ''https://demoacct1.blob.core.windows.net''"
proof -
  let ?v = "JArr [JStr ''AzureCloud'', JStr ''core.windows.net'']"
  have ascii: "list_all is_ascii ''AzureCloud''" "list_all is_ascii ''core.windows.net''"
    by (simp_all add: is_ascii_def)
  have "wf_json ?v" by (simp add: utf8_ascii [OF ascii(1)] utf8_ascii [OF ascii(2)])
  then have "parse_json (json_text ?v) = Some ?v" by (rule parse_json_text)
  then have cloud: "decode_terraform_cloud (json_text ?v) = Some (''AzureCloud'', ''core.windows.net'')"
    by (simp add: decode_terraform_cloud_def)
  have short: "length (json_text ?v) \<le> 256" and ne: "json_text ?v \<noteq> []"
    using string_text_ascii_length [OF ascii(1)] string_text_ascii_length [OF ascii(2)] by simp_all
  have "rmatch storage_account_pattern ''demoacct1''"
    unfolding storage_account_iff by (simp add: lower_or_digit_def is_lower_def is_digit_def)
  then show ?thesis using cloud short ne
    by (simp add: terraform_blob_endpoint_def sample_cloud_run_def buffered_data buffered_exceeded
        max_cloud_suffix_output_def supported_storage_cloud_def blob_endpoint_def del: json_text.simps)
qed

theorem terraform_blob_endpoint_routable_witness:
  "check_private_hosts [trim_prefix ''https://demoacct1.blob.core.windows.net'' ''https://''] = None"
  using terraform_blob_endpoint_routable [OF sample_cloud_endpoint] by blast

subsection \<open>Names of metadata blobs\<close>

lemma cut_last_text_None: "x \<noteq> [] \<Longrightarrow> cut_last_text x s = None \<longleftrightarrow> \<not> contains_str s x"
  by (induction s) (auto split: option.splits)

lemma cut_last_text_Some: "cut_last_text x s = Some (a, b) \<Longrightarrow> s = a @ x @ b"
  by (induction s arbitrary: a) (auto simp: has_prefix_iff split: option.splits if_splits)

lemma cut_last_text_append:
  "x = c # y \<Longrightarrow> \<not> contains_str (y @ b) x \<Longrightarrow> cut_last_text x (a @ x @ b) = Some (a, b)"
proof (induction a)
  case Nil
  then have "cut_last_text x (y @ b) = None" by (simp add: cut_last_text_None)
  moreover have "has_prefix (x @ b) x" by simp
  ultimately show ?case using Nil by simp
qed simp

lemma contains_count: "contains_str s x \<Longrightarrow> count_list x c \<le> count_list s c"
  by (auto simp: contains_str_iff count_list_append)

lemma revision_iff: "rmatch heimdal_revision_pattern r \<longleftrightarrow> length r = 64 \<and> list_all is_hex r"
  by (simp add: heimdal_revision_pattern_def rmatch_lang)

lemma hex_not_slash: "is_hex c \<Longrightarrow> c \<noteq> CHR ''/'' \<and> c \<noteq> CHR ''t''"
  by (auto simp: is_hex_def is_digit_def)

lemma revision_name_cut:
  assumes "rmatch heimdal_revision_pattern r"
  shows "cut_last_text ''/revisions/'' (p @ ''/revisions/'' @ r @ ''.json'') = Some (p, r @ ''.json'')"
    "\<not> has_suffix (p @ ''/revisions/'' @ r @ ''.json'') ''/current.json''"
proof -
  have hex: "list_all is_hex r" "r \<noteq> []" using assms by (auto simp: revision_iff)
  have "CHR ''/'' \<notin> set r" using hex hex_not_slash by (auto simp: list_all_iff)
  then have "count_list (''revisions/'' @ r @ ''.json'') CHR ''/'' = 1" by (simp add: count_list_append count_list_0_iff)
  then have "\<not> contains_str (''revisions/'' @ r @ ''.json'') ''/revisions/''"
    using contains_count [of "''revisions/'' @ r @ ''.json''" "''/revisions/''" "CHR ''/''"] by auto
  then show "cut_last_text ''/revisions/'' (p @ ''/revisions/'' @ r @ ''.json'') = Some (p, r @ ''.json'')"
    by (intro cut_last_text_append [OF refl]) simp
  obtain q d where r: "r = q @ [d]" "is_hex d" using hex by (cases r rule: rev_cases) auto
  then show "\<not> has_suffix (p @ ''/revisions/'' @ r @ ''.json'') ''/current.json''"
    using hex_not_slash by (auto simp: has_suffix_def)
qed

text \<open>
  The blob names that may be read are exactly the current pointer and the revisions under a valid
  prefix, so no name leads outside the container's metadata.
\<close>

theorem valid_heimdal_read_blob_name_exact:
  "valid_heimdal_read_blob_name name \<longleftrightarrow> (\<exists>prefix. valid_heimdal_prefix prefix \<and>
     (name = prefix @ ''/current.json''
      \<or> (\<exists>r. length r = 64 \<and> list_all is_hex r \<and> name = prefix @ ''/revisions/'' @ r @ ''.json'')))"
  (is "?L \<longleftrightarrow> ?R")
proof
  assume ?L
  then show ?R
    by (fastforce simp: valid_heimdal_read_blob_name_def has_suffix_iff revision_iff
        split: if_splits option.splits dest!: cut_last_text_Some)
next
  assume ?R
  then obtain p where p: "valid_heimdal_prefix p"
    "name = p @ ''/current.json'' \<or> (\<exists>r. rmatch heimdal_revision_pattern r \<and> name = p @ ''/revisions/'' @ r @ ''.json'')"
    by (auto simp: revision_iff)
  from p(2) show ?L
  proof
    assume "name = p @ ''/current.json''"
    then show ?thesis using p(1) trim_suffix_append [of p "''/current.json''"]
      by (simp add: valid_heimdal_read_blob_name_def)
  next
    assume "\<exists>r. rmatch heimdal_revision_pattern r \<and> name = p @ ''/revisions/'' @ r @ ''.json''"
    then obtain r where r: "rmatch heimdal_revision_pattern r" "name = p @ ''/revisions/'' @ r @ ''.json''" by blast
    show ?thesis unfolding valid_heimdal_read_blob_name_def r(2) revision_name_cut(1) [OF r(1)]
      using revision_name_cut(2) [OF r(1)] p(1) r(1) by simp
  qed
qed

subsection \<open>Reading is bounded and goes to one address\<close>

text \<open>
  C33. A metadata blob that is returned was the whole body of a 200 response from the requested address
  itself, within the size limit, and the request carried a token without bytes that could end a header.
\<close>

theorem read_heimdal_blob_bounded:
  assumes "read_heimdal_blob ctx_done t endpoint blob_name max_bytes run fetch = Inr data"
  shows "\<exists>token r. token \<noteq> [] \<and> list_all token_char token
     \<and> fetch (endpoint @ ''/'' @ tb_container t @ ''/'' @ blob_name) (''Bearer '' @ token) = Response r
     \<and> hr_status r = 200 \<and> hr_same_url r \<and> data = hr_body r
     \<and> int (length data) \<le> max_bytes \<and> max_bytes \<le> 65536
     \<and> valid_terraform_blob_endpoint (tb_account t) endpoint \<and> valid_heimdal_read_blob_name blob_name"
proof -
  have checks: "valid_terraform_blob_endpoint (tb_account t) endpoint" "valid_heimdal_read_blob_name blob_name"
    "0 < max_bytes" "max_bytes \<le> 65536"
    using assms by (auto simp: read_heimdal_blob_def max_heimdal_read_bytes_def split: option.splits if_splits)
  obtain token where token: "heimdal_storage_token run = Inr token"
    "read_heimdal_response max_bytes (fetch (endpoint @ ''/'' @ tb_container t @ ''/'' @ blob_name) (''Bearer '' @ token)) = Inr data"
    using assms by (auto simp: read_heimdal_blob_def ebind_Inr_iff split: option.splits if_splits)
  have "valid_heimdal_bearer_token token"
    using token(1) by (auto simp: heimdal_storage_token_def Let_def split: if_splits)
  moreover obtain r where r: "fetch (endpoint @ ''/'' @ tb_container t @ ''/'' @ blob_name) (''Bearer '' @ token) = Response r"
    "hr_same_url r" "hr_status r = 200" "data = take (nat (max_bytes + 1)) (hr_body r)" "int (length data) \<le> max_bytes"
    using token(2) by (auto simp: read_heimdal_response_def Let_def
        split: http_answer.splits if_splits option.splits body_error.splits)
  moreover have "data = hr_body r" using r(4,5) checks(3) by (cases "nat (max_bytes + 1) \<le> length (hr_body r)") auto
  ultimately show ?thesis using checks by (auto simp: valid_heimdal_bearer_token_def)
qed

definition sample_backend :: terraform_backend where
  "sample_backend = \<lparr>tb_subscription = ''sub'', tb_account = ''demoacct1'', tb_container = ''heimdal''\<rparr>"

definition sample_token_run :: cli_run where
  "sample_token_run = \<lparr>cr_found = True, cr_ok = True, cr_ctx_done = False, cr_deadline = False, cr_exec_error = False,
     cr_stdout = [''abc.def'', [CHR 0x0A]], cr_stderr = []\<rparr>"

definition sample_fetch :: "string \<Rightarrow> string \<Rightarrow> http_answer" where
  "sample_fetch url authorization = Response \<lparr>hr_same_url = True, hr_status = 200, hr_content_length = 2,
     hr_body = ''ok'', hr_body_error = None\<rparr>"

lemma sample_backend_valid: "validate_terraform_backend sample_backend = None"
proof -
  have "valid_azure_argument ''sub''"
    by (simp add: valid_azure_argument_def runes_of_ascii is_ascii_def is_control_def is_format_def
        format_ranges_def byte_def trim_space_def trim_left_by_idle space_len_def ascii_space_def wide_spaces_def)
  moreover have "rmatch storage_account_pattern ''demoacct1''"
    unfolding storage_account_iff by (simp add: lower_or_digit_def is_lower_def is_digit_def)
  moreover have "rmatch container_pattern ''heimdal''" by code_simp
  ultimately show ?thesis by (simp add: validate_terraform_backend_def sample_backend_def del: rmatch.simps)
qed

lemma sample_read:
  "read_heimdal_blob False sample_backend ''https://demoacct1.blob.core.windows.net'' ''environments/dev/current.json''
     100 sample_token_run sample_fetch = Inr ''ok''"
proof -
  have "valid_heimdal_read_blob_name ''environments/dev/current.json''" by code_simp
  moreover have "valid_terraform_blob_endpoint (tb_account sample_backend) ''https://demoacct1.blob.core.windows.net''"
    by (simp add: valid_terraform_blob_endpoint_def supported_storage_cloud_def blob_endpoint_def sample_backend_def)
  moreover have "heimdal_storage_token sample_token_run = Inr ''abc.def''"
    by (simp add: heimdal_storage_token_def sample_token_run_def buffered_data buffered_exceeded max_heimdal_token_output_def
        Let_def valid_heimdal_bearer_token_def token_char_def str_simps)
  ultimately show ?thesis
    by (simp add: read_heimdal_blob_def sample_backend_valid max_heimdal_read_bytes_def read_heimdal_response_def sample_fetch_def)
qed

theorem read_heimdal_blob_bounded_witness: "int (length ''ok'') \<le> 100 \<and> valid_heimdal_read_blob_name ''environments/dev/current.json''"
  using read_heimdal_blob_bounded [OF sample_read] by blast

subsection \<open>Publication never overwrites and never points at a missing revision\<close>

text \<open>
  C32. Publishing makes at most two calls, both create-only, the pointer's only after the revision's
  succeeded; it succeeds exactly when both did, and it reports an orphaned revision exactly when the
  revision was created and the pointer was not confirmed.
\<close>

theorem publish_initial_heimdal_order:
  assumes "publish_initial_heimdal cli ctx_done regular t endpoint prefix revision rf pf = (calls, e)"
  shows "let first = heimdal_upload_arguments t endpoint (prefix @ ''/revisions/'' @ revision @ ''.json'') rf;
           second = heimdal_upload_arguments t endpoint (prefix @ ''/current.json'') pf;
           done = (\<lambda>args. cr_found (cli args) \<and> cr_ok (cli args))
     in (calls = [] \<or> calls = [first] \<or> calls = [first, second] \<and> done first)
      \<and> (e = None \<longleftrightarrow> calls = [first, second] \<and> done first \<and> done second)
      \<and> ((\<exists>x. e = Some x \<and> heimdal_revision_orphaned x) \<longleftrightarrow> calls \<noteq> [] \<and> done first \<and> \<not> done second)
      \<and> (\<forall>c \<in> set calls. \<exists>a b. c = a @ [''--overwrite'', ''false'', ''--if-none-match'', ''*''] @ b)"
proof -
  let ?first = "heimdal_upload_arguments t endpoint (prefix @ ''/revisions/'' @ revision @ ''.json'') rf"
  let ?second = "heimdal_upload_arguments t endpoint (prefix @ ''/current.json'') pf"
  have only: "\<exists>a b. heimdal_upload_arguments t endpoint n f = a @ [''--overwrite'', ''false'', ''--if-none-match'', ''*''] @ b" for n f
    unfolding heimdal_upload_arguments_def
    by (rule exI [of _ "take 19 (heimdal_upload_arguments t endpoint n f)"],
        rule exI [of _ "drop 23 (heimdal_upload_arguments t endpoint n f)"]) (simp add: heimdal_upload_arguments_def)
  have all: "\<forall>c \<in> set calls. c = ?first \<or> c = ?second"
    using assms
    by (auto simp: publish_initial_heimdal_def upload_heimdal_blob_def Let_def split: option.splits if_splits prod.splits)
  show ?thesis
  proof (cases "validate_terraform_backend t = None \<and> valid_terraform_blob_endpoint (tb_account t) endpoint
      \<and> valid_heimdal_prefix prefix \<and> rmatch heimdal_revision_pattern revision \<and> rf \<noteq> [] \<and> regular rf
      \<and> pf \<noteq> [] \<and> regular pf \<and> \<not> ctx_done")
    case False
    then have "calls = []" "e \<noteq> None" "\<forall>x. e = Some x \<longrightarrow> \<not> heimdal_revision_orphaned x"
      using assms by (auto simp: publish_initial_heimdal_def heimdal_revision_orphaned_def split: option.splits if_splits)
    then show ?thesis by (auto simp: Let_def)
  next
    case True
    then have calls: "(calls, e) = (case upload_heimdal_blob cli t endpoint (prefix @ ''/revisions/'' @ revision @ ''.json'') rf RevisionStage of
        (calls, Some e) \<Rightarrow> (calls, Some e)
      | (calls, None) \<Rightarrow> (case upload_heimdal_blob cli t endpoint (prefix @ ''/current.json'') pf PointerStage of
           (calls', e) \<Rightarrow> (calls @ calls', e)))"
      using assms by (simp add: publish_initial_heimdal_def)
    have "\<forall>c \<in> set calls. \<exists>a b. c = a @ [''--overwrite'', ''false'', ''--if-none-match'', ''*''] @ b"
      using all only by metis
    then show ?thesis using calls
      by (cases "cr_found (cli ?first)"; cases "cr_ok (cli ?first)"; cases "cr_found (cli ?second)"; cases "cr_ok (cli ?second)")
        (auto simp: upload_heimdal_blob_def Let_def heimdal_revision_orphaned_def)
  qed
qed

definition sample_cli :: "string list \<Rightarrow> cli_run" where
  "sample_cli args = \<lparr>cr_found = True, cr_ok = True, cr_ctx_done = False, cr_deadline = False, cr_exec_error = False,
     cr_stdout = [], cr_stderr = []\<rparr>"

theorem publish_initial_heimdal_order_witness:
  "snd (publish_initial_heimdal sample_cli True (\<lambda>_. True) sample_backend ''x'' ''p'' ''r'' ''a'' ''b'') \<noteq> None"
proof -
  obtain calls e where p: "publish_initial_heimdal sample_cli True (\<lambda>_. True) sample_backend ''x'' ''p'' ''r'' ''a'' ''b'' = (calls, e)"
    by (cases "publish_initial_heimdal sample_cli True (\<lambda>_. True) sample_backend ''x'' ''p'' ''r'' ''a'' ''b''")
  have "calls = []" using p
    by (auto simp: publish_initial_heimdal_def sample_backend_valid split: if_splits)
  then show ?thesis using publish_initial_heimdal_order [OF p] p by (auto simp: Let_def)
qed

subsection \<open>Explaining a failed tunnel\<close>

lemma first_failure_empty: "list_all (\<lambda>(ms, _). list_all (\<lambda>m. m \<noteq> []) ms) fs \<Longrightarrow> first_failure fs [] = unrecognised_tunnel_error"
  by (induction fs "[] :: string" rule: first_failure.induct) (auto simp: list_ex_iff list_all_iff)

text \<open>
  The explanation of a failed tunnel depends only on what the tunnel printed, not on how the output was
  split into writes: up to 64 KiB it is the guidance of the first recognised error, beyond that, where
  the final error may be lost, it is the general one.
\<close>

theorem tunnel_error_explains:
  assumes "\<forall>p \<in> set writes. p \<noteq> []"
  shows "tunnel_error (tunnel_errors writes) =
     (if length (concat writes) > 65536 then unrecognised_tunnel_error
      else first_failure tunnel_failures (concat writes))"
proof -
  have "first_failure tunnel_failures [] = unrecognised_tunnel_error"
    by (rule first_failure_empty) (simp add: tunnel_failures_def)
  then show ?thesis using buffered_exceeded [OF assms]
    by (auto simp: tunnel_error_def tunnel_errors_def buffered_data tunnel_error_sample_bytes_def)
qed

theorem tunnel_error_explains_witness:
  "tunnel_error (tunnel_errors [''Authoriza'', ''tionFailed'']) = first_failure tunnel_failures ''AuthorizationFailed''"
  using tunnel_error_explains [of "[''Authoriza'', ''tionFailed'']"] by simp

end
