(* ===== verification/Process_Environment.thy ===== *)
theory Process_Environment
  imports Prelude
begin

section \<open>Environments of child processes\<close>

text \<open>
  Environments are lists of \<open>NAME=value\<close> entries: the last entry of a name counts and names are
  compared without case. The operations are \<open>ReplaceEnvironment\<close> and \<open>EnvironmentValue\<close> of
  \<open>internal/shell/prompt.go\<close>, \<open>platformEnvironment\<close> of \<open>internal/session/platform.go\<close> and
  \<open>proxyEnvironment\<close> of \<open>internal/session/registry.go\<close>.
\<close>

definition entry_name :: "string \<Rightarrow> string" where
  "entry_name entry = fst (cut CHR ''='' entry)"

definition replace_environment :: "string list \<Rightarrow> string \<Rightarrow> string \<Rightarrow> string list" where
  "replace_environment env key v =
     filter (\<lambda>entry. \<not> equal_fold (entry_name entry) key) env @ [key @ ''='' @ v]"

definition environment_value :: "string list \<Rightarrow> string \<Rightarrow> string" where
  "environment_value env name =
     (case find (\<lambda>entry. snd (snd (cut CHR ''='' entry)) \<and> equal_fold (entry_name entry) name) (rev env) of
        Some entry \<Rightarrow> fst (snd (cut CHR ''='' entry)) | None \<Rightarrow> [])"

text \<open>What the program relies on wherever it builds the environment of a child process.\<close>

locale environment_map =
  fixes get :: "'env \<Rightarrow> string \<Rightarrow> string"
    and put :: "'env \<Rightarrow> string \<Rightarrow> string \<Rightarrow> 'env"
    and key :: "string \<Rightarrow> bool"
  assumes get_put: "key k \<Longrightarrow> equal_fold k n \<Longrightarrow> get (put e k v) n = v"
    and get_put_other: "key k \<Longrightarrow> \<not> equal_fold k n \<Longrightarrow> get (put e k v) n = get e n"
begin

lemma get_puts_other:
  "list_all (\<lambda>(k, _). key k \<and> \<not> equal_fold k n) kvs \<Longrightarrow> get (foldl (\<lambda>e (k, v). put e k v) e kvs) n = get e n"
  by (induction kvs arbitrary: e) (auto simp: get_put_other)

lemma get_puts:
  assumes "key k" "equal_fold k n" "list_all (\<lambda>(k, _). key k \<and> \<not> equal_fold k n) later"
  shows "get (foldl (\<lambda>e (k, v). put e k v) e (earlier @ (k, v) # later)) n = v"
  using get_puts_other [OF assms(3)] get_put [OF assms(1,2)] by simp

end

lemma entry_name_append: "CHR ''='' \<notin> set k \<Longrightarrow> cut CHR ''='' (k @ CHR ''='' # v) = (k, v, True)"
  by (rule cut_append)

lemma equal_fold_trans: "equal_fold k n \<Longrightarrow> equal_fold k m \<longleftrightarrow> equal_fold m n"
  by (auto simp: equal_fold_def)

lemma find_filter: "(\<And>x. p x \<Longrightarrow> q x) \<Longrightarrow> find p (filter q xs) = find p xs"
  by (induction xs) auto

lemma environment_put:
  assumes "CHR ''='' \<notin> set k"
  shows "environment_value (replace_environment env k v) n =
    (if equal_fold k n then v else environment_value env n)"
proof (cases "equal_fold k n")
  case True
  then show ?thesis
    using entry_name_append [OF assms] by (simp add: environment_value_def replace_environment_def entry_name_def)
next
  case False
  have "find (\<lambda>entry. snd (snd (cut CHR ''='' entry)) \<and> equal_fold (entry_name entry) n)
      (filter (\<lambda>entry. \<not> equal_fold (entry_name entry) k) (rev env))
    = find (\<lambda>entry. snd (snd (cut CHR ''='' entry)) \<and> equal_fold (entry_name entry) n) (rev env)"
    by (rule find_filter) (use False in \<open>auto simp: equal_fold_def\<close>)
  then show ?thesis
    using False entry_name_append [OF assms]
    by (simp add: environment_value_def replace_environment_def entry_name_def rev_filter)
qed

interpretation env: environment_map environment_value replace_environment "\<lambda>k. CHR ''='' \<notin> set k"
  by unfold_locales (simp_all add: environment_put)

subsection \<open>Environments of a session\<close>

definition without_names :: "string list \<Rightarrow> string list \<Rightarrow> string list" where
  "without_names names env = filter (\<lambda>entry. to_upper (entry_name entry) \<notin> set names) env"

definition run_marker :: string where "run_marker = ''BIVROST_RUN''"

definition platform_environment :: "string list \<Rightarrow> string \<Rightarrow> string \<Rightarrow> string list" where
  "platform_environment env proxy kubeconfig =
     without_names [''HTTPS_PROXY'', ''ALL_PROXY'', ''NO_PROXY'', ''BIVROST_SESSION'', run_marker, ''KUBECONFIG''] env
     @ [''HTTPS_PROXY='' @ proxy, ''NO_PROXY=127.0.0.1,localhost'', ''KUBECONFIG='' @ kubeconfig, ''BIVROST_SESSION=1'']"

definition proxy_environment :: "string list \<Rightarrow> string \<Rightarrow> string list" where
  "proxy_environment env proxy = without_names [''HTTP_PROXY'', ''HTTPS_PROXY'', ''ALL_PROXY'', ''NO_PROXY''] env
     @ [''HTTPS_PROXY='' @ proxy, ''HTTP_PROXY='' @ proxy, ''NO_PROXY=127.0.0.1,localhost'']"

lemma environment_value_Cons_last:
  assumes "CHR ''='' \<notin> set k"
  shows "environment_value (env @ [k @ CHR ''='' # v]) n = (if equal_fold k n then v else environment_value env n)"
  using entry_name_append [OF assms] by (simp add: environment_value_def entry_name_def)

end
