(* ===== verification/Heimdal_Metadata.thy ===== *)
theory Heimdal_Metadata
  imports Times Azure Process_Environment
begin

section \<open>Metadata documents\<close>

text \<open>
  \<open>internal/heimdal/metadata.go\<close> and \<open>internal/session/heimdal_read.go\<close>: the document that holds an
  environment's private routes, the pointer that names its current revision by digest, how both are
  created, and how a session fetches and checks them. Instants are those of \<open>Times\<close>. The forms
  that Go's time parser accepts beyond RFC 3339 are a parameter, \<open>lenient\<close>.
\<close>

subsection \<open>Data\<close>

definition max_document_size :: nat where "max_document_size = 64 * 1024"
definition max_pointer_size :: nat where "max_pointer_size = 4 * 1024"
definition default_validity :: int where "default_validity = 24 * 3600000000000"
definition max_validity :: int where "max_validity = 7 * 24 * 3600000000000"
definition max_clock_skew :: int where "max_clock_skew = 5 * 60000000000"
definition max_document_hosts :: nat where "max_document_hosts = 128"

record document =
  doc_version :: int
  doc_environment :: string
  doc_issued_at :: int
  doc_expires_at :: int
  doc_private_hosts :: "string list"

record pointer =
  ptr_version :: int
  ptr_environment :: string
  ptr_revision :: string

datatype metadata_error =
    ValidityRange | DocumentVersion | DocumentEnvironment | DocumentExpired | DocumentHosts | DocumentHost profile_error
  | DocumentEncode | DocumentSize | PointerSize | PointerInvalid | PointerVersion | PointerEnvironment
  | PointerRevision | DocumentDigest | DocumentInvalid | DocumentTrailing

definition default_prefix :: "string \<Rightarrow> string" where
  "default_prefix environment = ''environments/'' @ environment"

definition valid_prefix :: "string \<Rightarrow> bool" where
  "valid_prefix prefix \<longleftrightarrow> \<not> (length prefix = 0 \<or> length prefix > 256)
     \<and> list_all (rmatch heimdal_prefix_segment_pattern) (split_on CHR ''/'' prefix)"

definition valid_revision :: "string \<Rightarrow> bool" where
  "valid_revision revision \<longleftrightarrow> length revision = 64 \<and> list_all is_hex revision"

definition validate_document :: "document \<Rightarrow> string \<Rightarrow> int \<Rightarrow> metadata_error err" where
  "validate_document d environment now =
     (if doc_version d \<noteq> 1 then Some DocumentVersion
      else if \<not> valid_environment_name environment \<or> doc_environment d \<noteq> environment then Some DocumentEnvironment
      else if doc_issued_at d = 0 \<or> doc_issued_at d > now + max_clock_skew \<or> \<not> doc_expires_at d > now
          \<or> \<not> doc_expires_at d > doc_issued_at d \<or> doc_expires_at d - doc_issued_at d > max_validity
      then Some DocumentExpired
      else if length (doc_private_hosts d) > max_document_hosts then Some DocumentHosts
      else map_option DocumentHost (check_private_hosts (doc_private_hosts d)))"

subsection \<open>Create\<close>

definition document_json :: "document \<Rightarrow> string \<Rightarrow> string \<Rightarrow> json" where
  "document_json d issued expires = JObj [(''schema_version'', JNum (itoa (doc_version d))),
     (''environment'', JStr (doc_environment d)), (''issued_at'', JStr issued), (''expires_at'', JStr expires),
     (''private_hosts'', JArr (map JStr (doc_private_hosts d)))]"

definition pointer_json :: "pointer \<Rightarrow> json" where
  "pointer_json p = JObj [(''schema_version'', JNum (itoa (ptr_version p))), (''environment'', JStr (ptr_environment p)),
     (''revision'', JStr (ptr_revision p))]"

definition new_document :: "string \<Rightarrow> string list \<Rightarrow> int \<Rightarrow> int \<Rightarrow> document" where
  "new_document environment hosts now validity = \<lparr>doc_version = 1, doc_environment = environment, doc_issued_at = now,
     doc_expires_at = now + validity, doc_private_hosts = remdups_adj (sort hosts)\<rparr>"

definition new_pointer :: "string \<Rightarrow> string \<Rightarrow> pointer" where
  "new_pointer environment revision = \<lparr>ptr_version = 1, ptr_environment = environment, ptr_revision = revision\<rparr>"

text \<open>The document, the pointer and the revision.\<close>

definition create_metadata :: "string \<Rightarrow> string list \<Rightarrow> int \<Rightarrow> int \<Rightarrow> (metadata_error, string \<times> string \<times> string) res" where
  "create_metadata environment hosts now validity =
     (if validity \<le> 0 \<or> validity > max_validity then Inl ValidityRange
      else let d = new_document environment hosts now validity in
      case validate_document d environment now of Some e \<Rightarrow> Inl e | None \<Rightarrow>
      case (format_time (doc_issued_at d), format_time (doc_expires_at d)) of
        (Some issued, Some expires) \<Rightarrow>
          let data = json_text (document_json d issued expires) @ [CHR 0x0A] in
          if length data > max_document_size then Inl DocumentSize
          else let revision = sha256_hex data in
            Inr (data, json_text (pointer_json (new_pointer environment revision)) @ [CHR 0x0A], revision)
      | _ \<Rightarrow> Inl DocumentEncode)"

subsection \<open>Strict objects\<close>

text \<open>
  Both decoders read an object member by member and refuse unknown, repeated, null and missing
  members. One member: its name, the text and the value of its content, and what follows.
\<close>

definition next_member :: "string \<Rightarrow> (string \<times> string \<times> json \<times> string) option" where
  "next_member s = (case decode_next s of
     Some (JStr k, r) \<Rightarrow> (case expect (CHR '':'') r of None \<Rightarrow> None
       | Some r \<Rightarrow> (case decode_next r of None \<Rightarrow> None
         | Some (v, q) \<Rightarrow> Some (k, take (length (skip_ws r) - length q) (skip_ws r), v, q)))
   | _ \<Rightarrow> None)"

lemma next_member_shorter: "next_member s = Some (k, raw, v, q) \<Longrightarrow> length q < length s"
  unfolding next_member_def decode_next_def
  by (auto split: option.splits json.splits prod.splits dest!: parse_shorter(1) expect_shorter)

function object_members :: "string \<Rightarrow> ((string \<times> string \<times> json) list \<times> string) option" where
  "object_members s = (case next_member s of None \<Rightarrow> None
     | Some (k, raw, v, q) \<Rightarrow> (case expect (CHR '','') q of
         Some r \<Rightarrow> (case object_members r of None \<Rightarrow> None | Some (ms, r) \<Rightarrow> Some ((k, raw, v) # ms, r))
       | None \<Rightarrow> (case expect (CHR 0x7D) q of None \<Rightarrow> None | Some r \<Rightarrow> Some ([(k, raw, v)], r))))"
  by pat_completeness auto
termination
  by (relation "measure length") (auto dest!: next_member_shorter expect_shorter)

declare object_members.simps [simp del]

definition read_object :: "string \<Rightarrow> ((string \<times> string \<times> json) list \<times> string) option" where
  "read_object data = (case expect (CHR 0x7B) data of None \<Rightarrow> None
     | Some r \<Rightarrow> (case expect (CHR 0x7D) r of Some q \<Rightarrow> Some ([], q) | None \<Rightarrow> object_members r))"

type_synonym 'r member_field = "string \<times> (string \<Rightarrow> json \<Rightarrow> 'r \<Rightarrow> 'r option)"

fun exact_members :: "'r member_field list \<Rightarrow> string list \<Rightarrow> 'r \<Rightarrow> (string \<times> string \<times> json) list \<Rightarrow> ('r \<times> string list) option" where
  "exact_members fs seen r [] = Some (r, seen)"
| "exact_members fs seen r ((k, raw, v) # ms) = (case map_of fs k of None \<Rightarrow> None
     | Some f \<Rightarrow> if k \<in> set seen \<or> v = JNull then None
         else (case f raw v r of None \<Rightarrow> None | Some r \<Rightarrow> exact_members fs (k # seen) r ms))"

text \<open>The record, and whether only white space follows the object.\<close>

definition exact_object :: "'r member_field list \<Rightarrow> 'r \<Rightarrow> string \<Rightarrow> ('r \<times> bool) option" where
  "exact_object fs zero data = (case read_object data of None \<Rightarrow> None
     | Some (ms, rest) \<Rightarrow> (case exact_members fs [] zero ms of None \<Rightarrow> None
         | Some (r, seen) \<Rightarrow> if list_all (\<lambda>(k, _). k \<in> set seen) fs then Some (r, skip_ws rest = []) else None))"

definition int_member :: "(int \<Rightarrow> 'r \<Rightarrow> 'r) \<Rightarrow> string \<Rightarrow> json \<Rightarrow> 'r \<Rightarrow> 'r option" where
  "int_member upd raw v r = (case v of JNum t \<Rightarrow> map_option (\<lambda>i. upd i r) (int_literal t) | _ \<Rightarrow> None)"

definition str_member :: "(string \<Rightarrow> 'r \<Rightarrow> 'r) \<Rightarrow> string \<Rightarrow> json \<Rightarrow> 'r \<Rightarrow> 'r option" where
  "str_member upd raw v r = (case v of JStr s \<Rightarrow> Some (upd s r) | _ \<Rightarrow> None)"

definition strs_member :: "(string list \<Rightarrow> 'r \<Rightarrow> 'r) \<Rightarrow> string \<Rightarrow> json \<Rightarrow> 'r \<Rightarrow> 'r option" where
  "strs_member upd raw v r = (case v of JArr vs \<Rightarrow> map_option (\<lambda>ss. upd ss r) (str_items vs) | _ \<Rightarrow> None)"

text \<open>\<open>Time.UnmarshalJSON\<close> looks at the bytes between the quotes, escapes included.\<close>

definition parse_instant :: "(string \<Rightarrow> int option) \<Rightarrow> string \<Rightarrow> int option" where
  "parse_instant lenient s = (case parse_rfc3339 s of Some t \<Rightarrow> Some t | None \<Rightarrow> lenient s)"

definition time_member :: "(string \<Rightarrow> int option) \<Rightarrow> (int \<Rightarrow> 'r \<Rightarrow> 'r) \<Rightarrow> string \<Rightarrow> json \<Rightarrow> 'r \<Rightarrow> 'r option" where
  "time_member lenient upd raw v r =
     (if length raw < 2 \<or> hd raw \<noteq> CHR 0x22 \<or> last raw \<noteq> CHR 0x22 then None
      else map_option (\<lambda>t. upd t r) (parse_instant lenient (butlast (tl raw))))"

subsection \<open>Decoding\<close>

definition pointer_members :: "pointer member_field list" where
  "pointer_members = [(''schema_version'', int_member (\<lambda>x. ptr_version_update (\<lambda>_. x))),
     (''environment'', str_member (\<lambda>x. ptr_environment_update (\<lambda>_. x))),
     (''revision'', str_member (\<lambda>x. ptr_revision_update (\<lambda>_. x)))]"

definition decode_pointer :: "string \<Rightarrow> string \<Rightarrow> (metadata_error, pointer) res" where
  "decode_pointer data environment =
     (if length data > max_pointer_size then Inl PointerSize
      else case exact_object pointer_members \<lparr>ptr_version = 0, ptr_environment = [], ptr_revision = []\<rparr> data of
        None \<Rightarrow> Inl PointerInvalid
      | Some (p, at_end) \<Rightarrow>
          if \<not> at_end then Inl PointerInvalid
          else if ptr_version p \<noteq> 1 then Inl PointerVersion
          else if \<not> valid_environment_name environment \<or> ptr_environment p \<noteq> environment then Inl PointerEnvironment
          else if \<not> valid_revision (ptr_revision p) then Inl PointerRevision else Inr p)"

definition document_members :: "(string \<Rightarrow> int option) \<Rightarrow> document member_field list" where
  "document_members lenient = [(''schema_version'', int_member (\<lambda>x. doc_version_update (\<lambda>_. x))),
     (''environment'', str_member (\<lambda>x. doc_environment_update (\<lambda>_. x))),
     (''issued_at'', time_member lenient (\<lambda>x. doc_issued_at_update (\<lambda>_. x))),
     (''expires_at'', time_member lenient (\<lambda>x. doc_expires_at_update (\<lambda>_. x))),
     (''private_hosts'', strs_member (\<lambda>x. doc_private_hosts_update (\<lambda>_. x)))]"

definition empty_document :: document where
  "empty_document = \<lparr>doc_version = 0, doc_environment = [], doc_issued_at = 0, doc_expires_at = 0, doc_private_hosts = []\<rparr>"

definition decode_document :: "(string \<Rightarrow> int option) \<Rightarrow> string \<Rightarrow> string \<Rightarrow> string \<Rightarrow> int \<Rightarrow> (metadata_error, document) res" where
  "decode_document lenient data environment revision now =
     (if length data > max_document_size then Inl DocumentSize
      else if revision \<noteq> sha256_hex data then Inl DocumentDigest
      else case exact_object (document_members lenient) empty_document data of
        None \<Rightarrow> Inl DocumentInvalid
      | Some (d, at_end) \<Rightarrow>
          if \<not> at_end then Inl DocumentTrailing
          else case validate_document d environment now of Some e \<Rightarrow> Inl e | None \<Rightarrow> Inr d)"

subsection \<open>Reading what was written\<close>

lemma decode_next_key: "utf8 k \<Longrightarrow> decode_next (string_text k @ t) = Some (JStr k, t)"
  using parse_string_text [of k t] by (auto simp: decode_next_string)

lemma skip_ws_json: "wf_json v \<Longrightarrow> skip_ws (json_text v @ t) = json_text v @ t"
  using json_text_head [of v] by (auto simp: skip_ws_def)

lemma expect_open: "expect (CHR '':'') (CHR '':'' # t) = Some t" "expect (CHR 0x7B) (CHR 0x7B # t) = Some t"
  by (simp_all add: expect_def skip_ws_def json_space_def)

lemma next_member_text:
  assumes "utf8 k" "wf_json v" "ends_value t"
  shows "next_member (string_text k @ '':'' @ json_text v @ t) = Some (k, json_text v, v, t)"
  using decode_next_key [OF assms(1), of "'':'' @ json_text v @ t"] decode_next_text [OF assms(2,3)] skip_ws_json [OF assms(2), of t]
  by (simp add: next_member_def expect_open)

lemma object_members_text:
  assumes "ms \<noteq> []" "list_all (\<lambda>(k, v). utf8 k \<and> wf_json v) ms"
  shows "object_members (join '','' (map (\<lambda>(k, v). string_text k @ '':'' @ json_text v) ms) @ CHR 0x7D # t)
    = Some (map (\<lambda>(k, v). (k, json_text v, v)) ms, t)"
  using assms
proof (induction ms)
  case (Cons m ms)
  obtain k v where m: "m = (k, v)" by (cases m)
  have kv: "utf8 k" "wf_json v" using Cons.prems m by simp_all
  show ?case
  proof (cases "ms = []")
    case True
    then show ?thesis
      using next_member_text [OF kv, of "CHR 0x7D # t"] m
      by (subst object_members.simps) (simp add: expect_sep ends_value_sep)
  next
    case False
    let ?r = "join '','' (map (\<lambda>(k, v). string_text k @ '':'' @ json_text v) ms) @ CHR 0x7D # t"
    have "object_members ?r = Some (map (\<lambda>(k, v). (k, json_text v, v)) ms, t)" using Cons False by simp
    then show ?thesis
      using next_member_text [OF kv, of "CHR '','' # ?r"] m False
      by (subst object_members.simps) (simp add: expect_sep ends_value_sep join_Cons)
  qed
qed simp

lemma read_object_text:
  assumes "ms \<noteq> []" "wf_json (JObj ms)"
  shows "read_object (json_text (JObj ms) @ t) = Some (map (\<lambda>(k, v). (k, json_text v, v)) ms, t)"
proof -
  obtain k v ms' where ms: "ms = (k, v) # ms'" using assms(1) by (cases ms) auto
  have "expect (CHR 0x7D) (join '','' (map (\<lambda>(k, v). string_text k @ '':'' @ json_text v) ms) @ CHR 0x7D # t) = None"
    unfolding ms by (cases ms') (simp_all add: string_text_def expect_sep)
  then show ?thesis using object_members_text [OF assms(1)] assms(2) by (simp add: read_object_def expect_open)
qed

text \<open>The texts of instants are plain: no byte is escaped.\<close>

definition plain_json_byte :: "char \<Rightarrow> bool" where
  "plain_json_byte c \<longleftrightarrow> is_digit c \<or> c \<in> set ''-:T.Z''"

lemma plain_json_byte_text: "plain_json_byte c \<Longrightarrow> is_ascii c \<and> rune_text (byte c) = [c]"
proof -
  assume c: "plain_json_byte c"
  then have b: "0x20 \<le> byte c" "byte c \<noteq> 0x3C" "byte c \<noteq> 0x3E" "byte c \<noteq> 0x22" "byte c \<noteq> 0x5C" "byte c < 0x80" "byte c \<noteq> 0x26"
    by (auto simp: plain_json_byte_def class_byte byte_def)
  then have "encode_rune (byte c) = [c]" by (simp add: encode_rune_def) (simp add: byte_def)
  then show ?thesis using b by (simp add: rune_text_def short_escapes_def class_byte)
qed

lemma string_text_plain:
  assumes "list_all plain_json_byte s"
  shows "string_text s = CHR 0x22 # s @ [CHR 0x22]"
proof -
  have "list_all is_ascii s" using assms by (rule list.pred_mono_strong) (simp add: plain_json_byte_text)
  then have "runes s = map byte s" by (rule runes_of_ascii)
  moreover have "concat (map rune_text (map byte s)) = s" using assms by (induction s) (simp_all add: plain_json_byte_text)
  ultimately show ?thesis by (simp add: string_text_def)
qed

lemma pad_plain: "list_all plain_json_byte (pad w n)"
  using pad_digits [of w n] by (rule list.pred_mono_strong) (simp add: plain_json_byte_def)

lemma format_time_plain:
  assumes "format_time t = Some s"
  shows "list_all plain_json_byte s"
proof -
  have sep: "plain_json_byte (CHR ''-'')" "plain_json_byte (CHR '':'')" "plain_json_byte (CHR ''T'')"
    "plain_json_byte (CHR ''.'')" "plain_json_byte (CHR ''Z'')" by (simp_all add: plain_json_byte_def)
  have "list_all plain_json_byte (rev (dropWhile p (rev xs)))" if "list_all plain_json_byte xs" for p xs
    using that by (auto simp: list_all_iff dest: set_dropWhileD)
  then have "list_all plain_json_byte (fraction_text n)" for n by (simp add: fraction_text_def sep pad_plain)
  then show ?thesis using assms
    by (auto simp: format_time_def Let_def date_text_def clock_text_def pad_plain sep simp del: pad.simps split: prod.splits if_splits)
qed

lemma format_time_length:
  assumes "format_time t = Some s"
  shows "length s \<le> 30"
proof -
  have "length (dropWhile p (rev xs)) \<le> length xs" for p and xs :: string using length_dropWhile_le [of p "rev xs"] by simp
  from this [of _ "pad 9 _"] have "length (fraction_text n) \<le> 10" for n by (simp add: fraction_text_def del: pad.simps)
  from this [of "nat (t mod ns_per_second)"] show ?thesis using assms
    by (auto simp: format_time_def Let_def date_text_def clock_text_def simp del: pad.simps split: prod.splits if_splits)
qed

lemma time_member_text:
  assumes "format_time t = Some s"
  shows "time_member lenient upd (json_text (JStr s)) v r = Some (upd t r)"
  using parse_format_time [OF assms] string_text_plain [OF format_time_plain [OF assms]]
  by (simp add: time_member_def parse_instant_def butlast_append)

lemma plain_ascii: "list_all plain_json_byte s \<Longrightarrow> utf8 s"
  by (rule utf8_ascii) (rule list.pred_mono_strong, assumption, simp add: plain_json_byte_text)

lemma itoa_one: "itoa 1 = ''1''"
  by code_simp

lemma wf_one: "wf_json (JNum (itoa 1))"
proof -
  have "rmatch number_pattern ''1''" by code_simp
  then show ?thesis by (simp add: itoa_one number_byte_def is_digit_def)
qed

lemma int_literal_one: "int_literal (itoa 1) = Some 1"
  by (simp add: itoa_one int_literal_def str_simps)

lemma str_items_strings: "str_items (map JStr ss) = Some ss"
  by (induction ss) simp_all

lemma names_ascii: "utf8 ''schema_version''" "utf8 ''environment''" "utf8 ''issued_at''" "utf8 ''expires_at''"
    "utf8 ''private_hosts''" "utf8 ''revision''"
  by (rule utf8_ascii, simp add: str_simps)+

text \<open>An encoded document decodes to itself, with white space after it.\<close>

lemma exact_document:
  assumes "format_time (doc_issued_at d) = Some issued" "format_time (doc_expires_at d) = Some expires"
    "doc_version d = 1" "utf8 (doc_environment d)" "list_all utf8 (doc_private_hosts d)"
  shows "exact_object (document_members lenient) empty_document (json_text (document_json d issued expires) @ [CHR 0x0A])
    = Some (d, True)"
proof -
  let ?ms = "[(''schema_version'', JNum (itoa (doc_version d))),
     (''environment'', JStr (doc_environment d)), (''issued_at'', JStr issued), (''expires_at'', JStr expires),
     (''private_hosts'', JArr (map JStr (doc_private_hosts d)))]"
  have times: "utf8 issued" "utf8 expires" using assms(1,2) by (simp_all add: plain_ascii format_time_plain)
  have "wf_json (JObj ?ms)"
    using wf_one times assms(3,4,5) names_ascii by (simp add: list.pred_map comp_def del: wf_json.simps(1))
  from read_object_text [OF _ this, of "[CHR 0x0A]"]
  have read: "read_object (json_text (document_json d issued expires) @ [CHR 0x0A])
      = Some (map (\<lambda>(k, v). (k, json_text v, v)) ?ms, [CHR 0x0A])"
    unfolding document_json_def by simp
  have "exact_members (document_members lenient) [] empty_document (map (\<lambda>(k, v). (k, json_text v, v)) ?ms)
      = Some (d, map fst (rev ?ms))"
    using int_literal_one assms(3)
    by (simp add: time_member_text [OF assms(1)] time_member_text [OF assms(2)] document_members_def int_member_def str_member_def strs_member_def str_items_strings empty_document_def
      del: json_text.simps)
  then show ?thesis
    by (simp add: exact_object_def read document_members_def skip_ws_def json_space_def del: exact_members.simps)
qed

lemma exact_pointer:
  assumes "ptr_version p = 1" "utf8 (ptr_environment p)" "utf8 (ptr_revision p)"
  shows "exact_object pointer_members \<lparr>ptr_version = 0, ptr_environment = [], ptr_revision = []\<rparr>
    (json_text (pointer_json p) @ [CHR 0x0A]) = Some (p, True)"
proof -
  let ?ms = "[(''schema_version'', JNum (itoa (ptr_version p))), (''environment'', JStr (ptr_environment p)),
     (''revision'', JStr (ptr_revision p))]"
  have "wf_json (JObj ?ms)"
    using wf_one assms names_ascii by (simp del: wf_json.simps(1))
  from read_object_text [OF _ this, of "[CHR 0x0A]"]
  have read: "read_object (json_text (pointer_json p) @ [CHR 0x0A]) = Some (map (\<lambda>(k, v). (k, json_text v, v)) ?ms, [CHR 0x0A])"
    unfolding pointer_json_def by simp
  have "exact_members pointer_members [] \<lparr>ptr_version = 0, ptr_environment = [], ptr_revision = []\<rparr>
      (map (\<lambda>(k, v). (k, json_text v, v)) ?ms) = Some (p, map fst (rev ?ms))"
    using int_literal_one assms(1)
    by (simp add: pointer_members_def int_member_def str_member_def del: json_text.simps)
  then show ?thesis
    by (simp add: exact_object_def read pointer_members_def skip_ws_def json_space_def del: exact_members.simps)
qed

lemma valid_hosts_utf8: "check_private_hosts hs = None \<Longrightarrow> list_all utf8 hs"
proof -
  assume hs: "check_private_hosts hs = None"
  have "utf8 h" if "h \<in> set hs" for h
    using hs that by (intro utf8_ascii)
      (auto simp: check_private_hosts_iff valid_remote_dns_name_def intro: valid_dns_name_ascii)
  then show ?thesis by (simp add: list_all_iff)
qed

lemma name_char_ascii: "lower_or_digit c \<or> c = CHR ''-'' \<Longrightarrow> is_ascii c"
  by (auto simp: lower_or_digit_def class_byte byte_def)

lemma environment_ascii:
  assumes "valid_environment_name e"
  shows "list_all is_ascii e \<and> length e \<le> 63"
proof -
  obtain c t where e: "e = c # t" "is_lower c" "length t \<le> 62" "list_all (\<lambda>c. lower_or_digit c \<or> c = CHR ''-'') t"
    using assms by (auto simp: valid_environment_name_iff)
  then have "list_all is_ascii t" by (auto elim!: list.pred_mono_strong simp: name_char_ascii)
  then show ?thesis using e by (simp add: class_byte)
qed

lemma hex_ascii: "list_all is_hex s \<Longrightarrow> list_all is_ascii s"
  by (erule list.pred_mono_strong) (auto simp: is_hex_def class_byte char_le_byte byte_lit)

lemma pointer_text_length:
  assumes "list_all is_ascii (ptr_environment p)" "list_all is_ascii (ptr_revision p)" "ptr_version p = 1"
  shows "length (json_text (pointer_json p)) \<le> 6 * length (ptr_environment p) + 6 * length (ptr_revision p) + 300"
proof -
  have names: "list_all is_ascii ''schema_version''" "list_all is_ascii ''environment''" "list_all is_ascii ''revision''"
    by (simp_all add: str_simps)
  show ?thesis
    using string_text_ascii_length [OF assms(1)] string_text_ascii_length [OF assms(2)]
      string_text_ascii_length [OF names(1)] string_text_ascii_length [OF names(2)] string_text_ascii_length [OF names(3)]
    by (simp add: pointer_json_def itoa_one assms(3))
qed

lemma created_metadata_exact:
  assumes "create_metadata environment hosts now validity = Inr (data, pointer_data, revision)"
    and "now - max_clock_skew \<le> later" "later < now + validity"
  shows "\<exists>p d. decode_pointer pointer_data environment = Inr p \<and> ptr_revision p = revision
    \<and> decode_document lenient data environment revision later = Inr d \<and> doc_private_hosts d = remdups_adj (sort hosts)"
proof -
  define d where "d = new_document environment hosts now validity"
  define p where "p = new_pointer environment revision"
  obtain issued expires where t: "format_time (doc_issued_at d) = Some issued" "format_time (doc_expires_at d) = Some expires"
    and v: "validate_document d environment now = None"
    and data: "data = json_text (document_json d issued expires) @ [CHR 0x0A]" "length data \<le> max_document_size"
    and rev: "revision = sha256_hex data" "pointer_data = json_text (pointer_json p) @ [CHR 0x0A]"
    using assms(1) by (auto simp: create_metadata_def Let_def d_def [symmetric] p_def split: if_splits option.splits)
  have env: "valid_environment_name environment" "check_private_hosts (doc_private_hosts d) = None"
    using v by (auto simp: validate_document_def split: if_splits)
  have hosts: "doc_private_hosts d = remdups_adj (sort hosts)" and simps: "doc_version d = 1" "doc_environment d = environment"
    "doc_issued_at d = now" "doc_expires_at d = now + validity" by (simp_all add: d_def new_document_def)
  have "exact_object (document_members lenient) empty_document data = Some (d, True)"
    unfolding data(1) using t simps environment_ascii [OF env(1)] valid_hosts_utf8 [OF env(2)]
    by (intro exact_document) (simp_all add: utf8_ascii)
  moreover have "validate_document d environment later = None"
    using v assms(2,3) simps by (auto simp: validate_document_def split: if_splits)
  ultimately have doc: "decode_document lenient data environment revision later = Inr d"
    using data(2) rev(1) by (simp add: decode_document_def)
  have sha: "list_all is_hex revision" "length revision = 64" using rev(1) sha256_hex_is_hex length_sha256_hex by simp_all
  have p: "ptr_version p = 1" "ptr_environment p = environment" "ptr_revision p = revision" by (simp_all add: p_def new_pointer_def)
  have "length pointer_data \<le> max_pointer_size"
    using pointer_text_length [of p] p environment_ascii [OF env(1)] hex_ascii [OF sha(1)] sha(2)
    by (simp add: rev(2) max_pointer_size_def)
  moreover have "exact_object pointer_members \<lparr>ptr_version = 0, ptr_environment = [], ptr_revision = []\<rparr> pointer_data = Some (p, True)"
    unfolding rev(2) using p environment_ascii [OF env(1)] hex_ascii [OF sha(1)] by (intro exact_pointer) (simp_all add: utf8_ascii)
  ultimately have "decode_pointer pointer_data environment = Inr p"
    using p env(1) sha by (simp add: decode_pointer_def valid_revision_def)
  then show ?thesis using doc hosts p by blast
qed

text \<open>
  What \<open>Create\<close> publishes is what every reader decodes: from the moment of publication (or up to the
  tolerated clock skew before it) until the metadata expires, the pointer decodes to the document's
  digest and the document to the given routes, sorted and without repetitions.
\<close>

theorem created_metadata_decodes:
  assumes "create_metadata environment hosts now validity = Inr (data, pointer_data, revision)"
    and "now - max_clock_skew \<le> later" "later < now + validity"
  shows "\<exists>p d. decode_pointer pointer_data environment = Inr p \<and> ptr_revision p = revision
    \<and> decode_document lenient data environment revision later = Inr d \<and> doc_private_hosts d = remdups_adj (sort hosts)"
  using created_metadata_exact [OF assms] .

text \<open>A created document, at one instant of year 2 (the arithmetic of larger instants is the same).\<close>

definition sample_hosts :: "string list" where
  "sample_hosts = [''b.demo.internal'', ''a.demo.internal'', ''b.demo.internal'']"

definition sample_now :: int where "sample_now = 400 * 86400 * ns_per_second"

lemma sample_hosts_sorted: "remdups_adj (sort sample_hosts) = [''a.demo.internal'', ''b.demo.internal'']"
  by code_simp

lemma sample_created: "\<exists>data pointer_data revision. create_metadata ''lab'' sample_hosts sample_now default_validity = Inr (data, pointer_data, revision)"
proof -
  let ?now = "400 * 86400 * ns_per_second" and ?hosts = "sample_hosts"
  note h = sample_hosts_sorted
  have hosts: "check_private_hosts [''a.demo.internal'', ''b.demo.internal''] = None" by code_simp
  have env: "valid_environment_name ''lab''" by code_simp
  have "date_of_days 400 = (2, 2, 5)" "date_of_days 401 = (2, 2, 6)"
    by (simp_all add: date_of_days_def year_of_days_def month_lengths_def)
  then obtain issued expires where t: "format_time ?now = Some issued" "format_time (?now + default_validity) = Some expires"
    by (simp add: format_time_def ns_per_second_def default_validity_def Let_def)
  have v: "validate_document (new_document ''lab'' ?hosts ?now default_validity) ''lab'' ?now = None"
    using hosts env h by (simp add: validate_document_def new_document_def default_validity_def max_validity_def
      max_clock_skew_def max_document_hosts_def ns_per_second_def)
  let ?d = "new_document ''lab'' ?hosts ?now default_validity"
  let ?data = "json_text (document_json ?d issued expires) @ [CHR 0x0A]"
  have times: "doc_issued_at ?d = ?now" "doc_expires_at ?d = ?now + default_validity" by (simp_all add: new_document_def)
  have ascii: "list_all (list_all is_ascii) [''schema_version'', ''environment'', ''issued_at'', ''expires_at'', ''private_hosts'',
      ''lab'', ''a.demo.internal'', ''b.demo.internal'']" by (simp add: str_simps)
  have "list_all (\<lambda>s. length (string_text s) \<le> 6 * length s + 2) [''schema_version'', ''environment'', ''issued_at'',
      ''expires_at'', ''private_hosts'', ''lab'', ''a.demo.internal'', ''b.demo.internal'']"
    using ascii by (rule list.pred_mono_strong) (rule string_text_ascii_length)
  then have "length ?data \<le> max_document_size"
    using format_time_length [OF t(1)] format_time_length [OF t(2)] h
    by (simp add: document_json_def new_document_def itoa_one max_document_size_def
      string_text_plain [OF format_time_plain [OF t(1)]] string_text_plain [OF format_time_plain [OF t(2)]])
  then obtain pointer_data revision where c: "create_metadata ''lab'' ?hosts ?now default_validity = Inr (?data, pointer_data, revision)"
    using v t times by (simp add: create_metadata_def Let_def default_validity_def max_validity_def)
  then show ?thesis by (simp add: sample_now_def)
qed

lemma created_metadata_decodes_witness:
  "\<exists>data p d. decode_document (\<lambda>_. None) data ''lab'' (ptr_revision (p :: pointer)) (sample_now + 1) = Inr d
     \<and> doc_private_hosts d = [''a.demo.internal'', ''b.demo.internal'']"
proof -
  obtain data pointer_data revision where c: "create_metadata ''lab'' sample_hosts sample_now default_validity = Inr (data, pointer_data, revision)"
    using sample_created by blast
  from created_metadata_decodes [OF c, of "sample_now + 1" "\<lambda>_. None"] obtain p d where
    "ptr_revision (p :: pointer) = revision" "decode_document (\<lambda>_. None) data ''lab'' revision (sample_now + 1) = Inr d"
    "doc_private_hosts d = remdups_adj (sort sample_hosts)"
    by (auto simp: max_clock_skew_def default_validity_def)
  then show ?thesis using sample_hosts_sorted by metis
qed

end
