(* ===== verification/Cli.thy ===== *)
theory Cli
  imports Flags Cli_Help Heimdal_Metadata
begin

section \<open>The command line\<close>

text \<open>
  \<open>internal/cli/parse.go\<close>: from the arguments of the process to one command, before anything starts.
  Each sub-parser declares its flags, parses them and checks the result, in the order of the code.
\<close>

datatype kind = Help | Environments | Subscriptions | ConfigInit | Connect | Switch | Version | SSH
  | ACRProxy | ACRConnect | ACRLogin | ACREnable | ACRDoctor | Login | Doctor | TerraformDoctor
  | SessionPublish | SessionUnpublish | SessionPath | SessionClean | SessionList | HeimdalInit | Run

record command =
  cmd_kind :: kind
  cmd_environment :: string
  cmd_config_path :: string
  cmd_private_hosts :: "string list"
  cmd_acr :: bool
  cmd_no_pull :: bool
  cmd_no_login :: bool
  cmd_tenant :: string
  cmd_device_code :: bool
  cmd_ssh_login :: bool
  cmd_debug :: bool
  cmd_refresh :: bool
  cmd_subscription :: string
  cmd_account :: string
  cmd_container :: string
  cmd_metadata_prefix :: string
  cmd_metadata_validity :: int
  cmd_help_topic :: string
  cmd_argv :: "string list"

definition command_of :: "kind \<Rightarrow> command" where
  "command_of k = \<lparr>cmd_kind = k, cmd_environment = [], cmd_config_path = [], cmd_private_hosts = [], cmd_acr = False,
     cmd_no_pull = False, cmd_no_login = False, cmd_tenant = [], cmd_device_code = False, cmd_ssh_login = False,
     cmd_debug = False, cmd_refresh = False, cmd_subscription = [], cmd_account = [], cmd_container = [],
     cmd_metadata_prefix = [], cmd_metadata_validity = 0, cmd_help_topic = [], cmd_argv = []\<rparr>"

definition help_on :: "string \<Rightarrow> command" where
  "help_on topic = (command_of Help)\<lparr>cmd_help_topic := topic\<rparr>"

datatype cli_error =
    UnknownTopic | UseHeimdalInit | ListArguments | NoArguments string | UseConfigInit | VersionArguments
  | UseSession | MissingAcr | AcrEnableArguments | UnknownAcr string | HelpArguments | UnknownCommand string
  | InvalidOptions string flag_error | Positional string | RunNeedsCommand
  | TargetsExclusive | TargetRequired string | BadEnvironment | EmptyConfigPath | BadPrivateHost profile_error
  | NoLoginNeedsAcr | EmptyTenant | BadBackend backend_error | BadPrefix | BadValidity | TooManyHosts

definition max_published_hosts :: nat where "max_published_hosts = 128"

definition is_help :: "string \<Rightarrow> bool" where
  "is_help a \<longleftrightarrow> a = ''--help'' \<or> a = ''-h''"

subsection \<open>Connection commands\<close>

definition debug_flags :: flag_spec where
  "debug_flags = [(''debug'', BoolFlag), (''d'', BoolFlag)]"

definition connection_flags :: "kind \<Rightarrow> bool \<Rightarrow> flag_spec" where
  "connection_flags k allow_no_login = debug_flags
     @ [(''env'', TextFlag), (''e'', TextFlag), (''config'', TextFlag), (''c'', TextFlag)]
     @ (if k \<in> {Connect, ACRConnect, Switch, Run} then [(''private-host'', TextFlag)] else [])
     @ (if k = Doctor then [(''no-pull'', BoolFlag)] else [])
     @ (if k \<in> {Connect, Switch, Run} then [(''acr'', BoolFlag)] else [])
     @ (if allow_no_login then [(''no-login'', BoolFlag), (''n'', BoolFlag)] else [])"

definition connection_command :: "kind \<Rightarrow> (string \<times> flag_value) list \<Rightarrow> string list \<Rightarrow> command" where
  "connection_command k ss argv = (command_of k)\<lparr>cmd_no_pull := bool_of [''no-pull''] ss, cmd_acr := bool_of [''acr''] ss,
     cmd_environment := text_of [''env'', ''e''] [] ss, cmd_config_path := text_of [''config'', ''c''] [] ss,
     cmd_private_hosts := texts_of ''private-host'' ss, cmd_debug := bool_of [''debug'', ''d''] ss,
     cmd_argv := argv, cmd_no_login := bool_of [''no-login'', ''n''] ss\<rparr>"

definition check_connection :: "kind \<Rightarrow> string \<Rightarrow> (string \<times> flag_value) list \<Rightarrow> string list \<Rightarrow> (cli_error, command) res" where
  "check_connection k name ss argv =
     (let c = connection_command k ss argv;
        seen_environment = was_set [''env'', ''e''] ss;
        seen_config = was_set [''config'', ''c''] ss
      in if seen_environment \<and> seen_config then Inl TargetsExclusive
         else if \<not> seen_environment \<and> \<not> seen_config \<and> k \<noteq> Doctor then Inl (TargetRequired name)
         else if seen_environment \<and> \<not> valid_environment_name (cmd_environment c) then Inl BadEnvironment
         else if seen_config \<and> trim_space (cmd_config_path c) = [] then Inl EmptyConfigPath
         else case check_private_hosts (cmd_private_hosts c) of Some e \<Rightarrow> Inl (BadPrivateHost e)
         | None \<Rightarrow> if (k = Connect \<or> k = Run) \<and> cmd_no_login c \<and> \<not> cmd_acr c then Inl NoLoginNeedsAcr
             else Inr c)"

definition parse_connection :: "kind \<Rightarrow> string \<Rightarrow> string list \<Rightarrow> bool \<Rightarrow> (cli_error, command) res" where
  "parse_connection k name args allow_no_login =
     (case parse_flags (connection_flags k allow_no_login) args of
        Inl ErrHelp \<Rightarrow> Inr (help_on name)
      | Inl e \<Rightarrow> Inl (InvalidOptions name e)
      | Inr (ss, rest) \<Rightarrow>
          if k = Run then
            (if rest = [] \<or> hd rest = [] then Inl RunNeedsCommand else check_connection k name ss rest)
          else if rest \<noteq> [] then Inl (Positional name)
          else check_connection k name ss [])"

subsection \<open>Other commands with flags\<close>

definition parse_terraform_doctor :: "string list \<Rightarrow> (cli_error, command) res" where
  "parse_terraform_doctor args =
     (case parse_flags ([(''subscription'', TextFlag), (''account'', TextFlag), (''container'', TextFlag)] @ debug_flags) args of
        Inl ErrHelp \<Rightarrow> Inr (help_on ''doctor terraform'')
      | Inl e \<Rightarrow> Inl (InvalidOptions ''doctor terraform'' e)
      | Inr (ss, rest) \<Rightarrow>
          if rest \<noteq> [] then Inl (Positional ''doctor terraform'')
          else let t = \<lparr>tb_subscription = text_of [''subscription''] [] ss, tb_account = text_of [''account''] [] ss,
              tb_container = text_of [''container''] [] ss\<rparr> in
          case validate_terraform_backend t of Some e \<Rightarrow> Inl (BadBackend e)
          | None \<Rightarrow> Inr ((command_of TerraformDoctor)\<lparr>cmd_subscription := tb_subscription t, cmd_account := tb_account t,
              cmd_container := tb_container t, cmd_debug := bool_of [''debug'', ''d''] ss\<rparr>))"

definition parse_subscriptions :: "string list \<Rightarrow> (cli_error, command) res" where
  "parse_subscriptions args =
     (case parse_flags [(''refresh'', BoolFlag)] args of
        Inl ErrHelp \<Rightarrow> Inr (help_on ''list subscriptions'')
      | Inl e \<Rightarrow> Inl (InvalidOptions ''list subscriptions'' e)
      | Inr (ss, rest) \<Rightarrow> if rest \<noteq> [] then Inl (Positional ''list subscriptions'')
          else Inr ((command_of Subscriptions)\<lparr>cmd_refresh := bool_of [''refresh''] ss\<rparr>))"

definition parse_login :: "string list \<Rightarrow> (cli_error, command) res" where
  "parse_login args =
     (case parse_flags (debug_flags @ [(''tenant'', TextFlag), (''t'', TextFlag), (''device-code'', BoolFlag), (''ssh'', BoolFlag)]) args of
        Inl ErrHelp \<Rightarrow> Inr (help_on ''login'')
      | Inl e \<Rightarrow> Inl (InvalidOptions ''login'' e)
      | Inr (ss, rest) \<Rightarrow>
          let tenant = text_of [''tenant'', ''t''] [] ss in
          if rest \<noteq> [] then Inl (Positional ''login'')
          else if was_set [''tenant'', ''t''] ss \<and> trim_space tenant = [] then Inl EmptyTenant
          else Inr ((command_of Login)\<lparr>cmd_tenant := tenant, cmd_device_code := bool_of [''device-code''] ss,
            cmd_ssh_login := bool_of [''ssh''] ss, cmd_debug := bool_of [''debug'', ''d''] ss\<rparr>))"

definition heimdal_flags :: flag_spec where
  "heimdal_flags = [(''env'', TextFlag), (''e'', TextFlag), (''subscription'', TextFlag), (''account'', TextFlag),
     (''container'', TextFlag), (''prefix'', TextFlag), (''valid-for'', DurationFlag), (''private-host'', TextFlag)]"

definition heimdal_command :: "(string \<times> flag_value) list \<Rightarrow> command" where
  "heimdal_command ss = (command_of HeimdalInit)\<lparr>cmd_environment := text_of [''env'', ''e''] [] ss,
     cmd_subscription := text_of [''subscription''] [] ss, cmd_account := text_of [''account''] [] ss,
     cmd_container := text_of [''container''] ''heimdal'' ss, cmd_metadata_prefix := text_of [''prefix''] [] ss,
     cmd_metadata_validity := duration_of [''valid-for''] default_validity ss,
     cmd_private_hosts := texts_of ''private-host'' ss\<rparr>"

definition with_default_prefix :: "command \<Rightarrow> command" where
  "with_default_prefix c = (if cmd_metadata_prefix c = []
     then c\<lparr>cmd_metadata_prefix := default_prefix (cmd_environment c)\<rparr> else c)"

definition parse_heimdal_init :: "string list \<Rightarrow> (cli_error, command) res" where
  "parse_heimdal_init args =
     (case parse_flags heimdal_flags args of
        Inl ErrHelp \<Rightarrow> Inr (help_on ''heimdal init'')
      | Inl e \<Rightarrow> Inl (InvalidOptions ''heimdal init'' e)
      | Inr (ss, rest) \<Rightarrow>
          let c = heimdal_command ss; d = with_default_prefix c in
          if rest \<noteq> [] then Inl (Positional ''heimdal init'')
          else if \<not> valid_environment_name (cmd_environment c) then Inl BadEnvironment
          else case validate_terraform_backend \<lparr>tb_subscription = cmd_subscription c, tb_account = cmd_account c,
              tb_container = cmd_container c\<rparr> of Some e \<Rightarrow> Inl (BadBackend e) | None \<Rightarrow>
          if \<not> valid_prefix (cmd_metadata_prefix d) then Inl BadPrefix
          else if cmd_metadata_validity d \<le> 0 \<or> cmd_metadata_validity d > max_validity then Inl BadValidity
          else case check_private_hosts (cmd_private_hosts d) of Some e \<Rightarrow> Inl (BadPrivateHost e) | None \<Rightarrow>
          if length (cmd_private_hosts d) > max_published_hosts then Inl TooManyHosts else Inr d)"

subsection \<open>Dispatch\<close>

definition session_kind :: "string \<Rightarrow> kind option" where
  "session_kind a = map_of [(''publish'', SessionPublish), (''unpublish'', SessionUnpublish), (''path'', SessionPath),
     (''clean'', SessionClean), (''list'', SessionList)] a"

definition acr_kind :: "string \<Rightarrow> kind option" where
  "acr_kind a = map_of [(''proxy'', ACRProxy), (''connect'', ACRConnect), (''login'', ACRLogin), (''doctor'', ACRDoctor)] a"

definition parse_session :: "string list \<Rightarrow> (cli_error, command) res" where
  "parse_session rest = (case rest of [] \<Rightarrow> Inr (help_on ''session'')
     | action # others \<Rightarrow>
       if length others = 1 \<and> is_help (hd others) \<and> help_text (''session '' @ action) \<noteq> [] then Inr (help_on (''session '' @ action))
       else case session_kind action of None \<Rightarrow> Inl UseSession
         | Some k \<Rightarrow> if others \<noteq> [] then Inl UseSession else Inr (command_of k))"

definition parse_acr :: "string list \<Rightarrow> (cli_error, command) res" where
  "parse_acr rest = (case rest of [] \<Rightarrow> Inl MissingAcr
     | action # others \<Rightarrow>
       if others = [] \<and> (is_help action \<or> action = ''help'') then Inr (help_on ''acr'')
       else if action = ''enable'' then
         (if length others = 1 \<and> is_help (hd others) then Inr (help_on ''acr enable'')
          else if others \<noteq> [] then Inl AcrEnableArguments else Inr (command_of ACREnable))
       else case acr_kind action of None \<Rightarrow> Inl (UnknownAcr action)
         | Some k \<Rightarrow> parse_connection k (''acr '' @ action) others (k = ACRConnect))"

definition parse_command :: "string \<Rightarrow> string list \<Rightarrow> (cli_error, command) res" where
  "parse_command name rest =
     (if name = ''heimdal'' then
        (case rest of [] \<Rightarrow> Inr (help_on ''heimdal'')
         | a # others \<Rightarrow> if a \<noteq> ''init'' then Inl UseHeimdalInit else parse_heimdal_init others)
      else if name = ''list'' then
        (case rest of [] \<Rightarrow> Inr (command_of Environments)
         | a # others \<Rightarrow> if a = ''subscriptions'' then parse_subscriptions others else Inl ListArguments)
      else if name \<in> {''environments'', ''env'', ''envs''} then
        (if rest \<noteq> [] then Inl (NoArguments name) else Inr (command_of Environments))
      else if name = ''config'' then
        (if length rest = 1 \<and> is_help (hd rest) then Inr (command_of Help)
         else if rest \<noteq> [''init''] then Inl UseConfigInit else Inr (command_of ConfigInit))
      else if name \<in> {''version'', ''v'', ''-v'', ''--version''} then
        (if rest \<noteq> [] then Inl VersionArguments else Inr (command_of Version))
      else if name = ''session'' then parse_session rest
      else if name = ''doctor'' then
        (if rest \<noteq> [] \<and> hd rest = ''terraform'' then parse_terraform_doctor (tl rest)
         else parse_connection Doctor ''doctor'' rest False)
      else if name = ''switch'' then parse_connection Switch ''switch'' rest False
      else if name = ''connect'' then parse_connection Connect ''connect'' rest True
      else if name = ''ssh'' then parse_connection SSH ''ssh'' rest False
      else if name = ''run'' then parse_connection Run ''run'' rest True
      else if name = ''acr'' then parse_acr rest
      else if name = ''login'' then parse_login rest
      else if name = ''help'' then Inl HelpArguments
      else Inl (UnknownCommand name))"

definition parse_args :: "string list \<Rightarrow> (cli_error, command) res" where
  "parse_args args =
     (if length args > 1 \<and> hd args = ''help'' then
        (let topic = canonical_help_topic (join '' '' (tl args)) in
         if help_text topic = [] then Inl UnknownTopic else Inr (help_on topic))
      else if length args = 2 \<and> is_help (args ! 1) \<and> help_text (canonical_help_topic (hd args)) \<noteq> []
      then Inr (help_on (canonical_help_topic (hd args)))
      else if length args = 3 \<and> take 2 args = [''config'', ''init''] \<and> is_help (args ! 2) then Inr (help_on ''config init'')
      else if length args = 3 \<and> take 2 args = [''doctor'', ''terraform''] \<and> is_help (args ! 2)
      then Inr (help_on ''doctor terraform'')
      else if args = [] \<or> (length args = 1 \<and> (hd args = ''help'' \<or> is_help (hd args))) then Inr (command_of Help)
      else parse_command (hd args) (tl args))"

subsection \<open>What a parsed command carries\<close>

lemma add_setting_Inr:
  "add_setting name r q = Inr (ss, rest) \<longleftrightarrow> (\<exists>v ss'. r = Inr v \<and> q = Inr (ss', rest) \<and> ss = (name, v) # ss')"
  by (auto simp: add_setting_def split: sum.splits)

lemma parse_flags_step:
  assumes "parse_flags spec (s # args) = Inr (ss, rest)" "ss \<noteq> []"
  obtains name k v ss' args' where "map_of spec name = Some k" "ss = (name, v) # ss'"
    "parse_flags spec args' = Inr (ss', rest)" "length args' \<le> length args"
proof -
  obtain name v has where n: "cut CHR ''='' (flag_name s) = (name, v, has)" by (cases "cut CHR ''='' (flag_name s)") auto
  obtain k where k: "map_of spec name = Some k"
    using assms n by (cases "map_of spec name") (simp_all add: Let_def split: if_splits)
  have "\<exists>v ss' args'. ss = (name, v) # ss' \<and> parse_flags spec args' = Inr (ss', rest) \<and> length args' \<le> length args"
  proof (cases "k = BoolFlag \<or> has")
    case True
    then show ?thesis using assms n k by (cases k) (auto simp: Let_def add_setting_Inr split: if_splits)
  next
    case False
    then show ?thesis using assms n k
      by (cases k; cases args) (auto simp: Let_def add_setting_Inr intro: le_SucI split: if_splits)
  qed
  then show thesis using that k by blast
qed

lemma parse_flags_names:
  "parse_flags spec args = Inr (ss, rest) \<Longrightarrow> fst ` set ss \<subseteq> fst ` set spec"
proof (induction "length args" arbitrary: args ss rule: less_induct)
  case less
  show ?case
  proof (cases args)
    case Nil then show ?thesis using less.prems by simp
  next
    case (Cons s as)
    show ?thesis
    proof (cases "ss = []")
      case False
      with less.prems Cons obtain name k v ss' as' where s: "map_of spec name = Some k" "ss = (name, v) # ss'"
        "parse_flags spec as' = Inr (ss', rest)" "length as' \<le> length as"
        by (metis parse_flags_step)
      then have "fst ` set ss' \<subseteq> fst ` set spec" using less.hyps [of as' ss'] Cons by simp
      then show ?thesis using s(1,2) by (auto dest!: map_of_SomeD intro: rev_image_eqI)
    qed simp
  qed
qed

lemma foldl_ignored: "list_all (\<lambda>x. \<forall>acc. f acc x = acc) xs \<Longrightarrow> foldl f d xs = d"
  by (induction xs) auto

lemma unset_setting: "\<not> was_set names ss \<Longrightarrow> (n, v) \<in> set ss \<Longrightarrow> n \<notin> set names"
  by (auto simp: was_set_def list_ex_iff)

lemma text_of_none: "\<not> was_set names ss \<Longrightarrow> text_of names d ss = d"
  unfolding text_of_def by (rule foldl_ignored) (auto simp: list_all_iff dest: unset_setting split: flag_value.split)

lemma bool_of_none: "\<not> was_set names ss \<Longrightarrow> \<not> bool_of names ss"
  unfolding bool_of_def
  by (subst foldl_ignored) (auto simp: list_all_iff dest: unset_setting split: flag_value.splits)

lemma texts_of_none: "\<not> was_set [name] ss \<Longrightarrow> texts_of name ss = []"
  by (auto simp: texts_of_def dest: unset_setting split: flag_value.split)

lemma was_set_names: "was_set names ss \<longleftrightarrow> set names \<inter> fst ` set ss \<noteq> {}"
  by (induction ss) (auto simp: was_set_def)

lemma not_was_set:
  assumes "parse_flags spec args = Inr (ss, rest)" "set names \<inter> fst ` set spec = {}"
  shows "\<not> was_set names ss"
  using parse_flags_names [OF assms(1)] assms(2) by (simp add: was_set_names) blast

text \<open>The settings each kind of command may carry; every other field has its initial value.\<close>

definition connection_kinds :: "kind list" where
  "connection_kinds = [Connect, Switch, SSH, Run, Doctor, ACRProxy, ACRConnect, ACRLogin, ACRDoctor]"

definition target_ok :: "command \<Rightarrow> bool" where
  "target_ok c \<longleftrightarrow> (cmd_environment c = [] \<or> valid_environment_name (cmd_environment c))
     \<and> (cmd_config_path c = [] \<or> trim_space (cmd_config_path c) \<noteq> [])
     \<and> (cmd_environment c = [] \<or> cmd_config_path c = [])
     \<and> (cmd_kind c = Doctor \<or> cmd_environment c \<noteq> [] \<or> cmd_config_path c \<noteq> [])"

definition connection_ok :: "command \<Rightarrow> bool" where
  "connection_ok c \<longleftrightarrow> target_ok c
     \<and> check_private_hosts (cmd_private_hosts c) = None
     \<and> (cmd_private_hosts c \<noteq> [] \<longrightarrow> cmd_kind c \<in> {Connect, ACRConnect, Switch, Run})
     \<and> (cmd_acr c \<longrightarrow> cmd_kind c \<in> {Connect, Switch, Run})
     \<and> (cmd_no_pull c \<longrightarrow> cmd_kind c = Doctor)
     \<and> (cmd_no_login c \<longrightarrow> cmd_kind c = ACRConnect \<or> (cmd_kind c \<in> {Connect, Run} \<and> cmd_acr c))
     \<and> (if cmd_kind c = Run then cmd_argv c \<noteq> [] \<and> hd (cmd_argv c) \<noteq> [] else cmd_argv c = [])"

definition heimdal_ok :: "command \<Rightarrow> bool" where
  "heimdal_ok c \<longleftrightarrow> valid_environment_name (cmd_environment c)
     \<and> validate_terraform_backend \<lparr>tb_subscription = cmd_subscription c, tb_account = cmd_account c,
         tb_container = cmd_container c\<rparr> = None
     \<and> valid_prefix (cmd_metadata_prefix c)
     \<and> 0 < cmd_metadata_validity c \<and> cmd_metadata_validity c \<le> max_validity
     \<and> check_private_hosts (cmd_private_hosts c) = None
     \<and> length (cmd_private_hosts c) \<le> max_published_hosts"

definition command_ok :: "command \<Rightarrow> bool" where
  "command_ok c = (if cmd_kind c \<in> set connection_kinds then connection_ok c
     else case cmd_kind c of
       HeimdalInit \<Rightarrow> heimdal_ok c
     | TerraformDoctor \<Rightarrow> validate_terraform_backend \<lparr>tb_subscription = cmd_subscription c, tb_account = cmd_account c,
         tb_container = cmd_container c\<rparr> = None
     | Help \<Rightarrow> cmd_help_topic c = [] \<or> help_text (cmd_help_topic c) \<noteq> []
     | _ \<Rightarrow> cmd_environment c = [] \<and> cmd_config_path c = [] \<and> cmd_argv c = [])"

lemma valid_environment_name_nonempty: "valid_environment_name e \<Longrightarrow> e \<noteq> []"
  by (auto simp: valid_environment_name_iff)

lemmas command_simps = command_of_def help_on_def connection_kinds_def command_ok_def

lemma help_topics_known:
  "help_text ''connect'' \<noteq> []" "help_text ''ssh'' \<noteq> []" "help_text ''run'' \<noteq> []"
  "help_text ''switch'' \<noteq> []" "help_text ''doctor'' \<noteq> []" "help_text ''doctor terraform'' \<noteq> []"
  "help_text ''list subscriptions'' \<noteq> []" "help_text ''login'' \<noteq> []" "help_text ''heimdal init'' \<noteq> []"
  "help_text ''heimdal'' \<noteq> []" "help_text ''session'' \<noteq> []" "help_text ''acr'' \<noteq> []"
  "help_text ''acr enable'' \<noteq> []" "help_text ''acr proxy'' \<noteq> []" "help_text ''acr connect'' \<noteq> []"
  "help_text ''acr login'' \<noteq> []" "help_text ''acr doctor'' \<noteq> []" "help_text ''config init'' \<noteq> []"
  unfolding help_text_known help_texts_def connection_topics_def by simp_all

lemma help_on_ok: "help_text t \<noteq> [] \<Longrightarrow> command_ok (help_on t)"
  by (simp add: command_simps)

lemma command_of_ok: "k \<notin> set connection_kinds \<union> {HeimdalInit, TerraformDoctor} \<Longrightarrow> command_ok (command_of k)"
  by (cases k) (auto simp: command_simps)

lemma check_connection_ok:
  assumes "check_connection k name ss argv = Inr c" "k \<in> set connection_kinds"
    "(if k = Run then argv \<noteq> [] \<and> hd argv \<noteq> [] else argv = [])"
    "k \<notin> {Connect, ACRConnect, Switch, Run} \<Longrightarrow> \<not> was_set [''private-host''] ss"
    "k \<notin> {Connect, Switch, Run} \<Longrightarrow> \<not> was_set [''acr''] ss" "k \<noteq> Doctor \<Longrightarrow> \<not> was_set [''no-pull''] ss"
    "k \<notin> {Connect, ACRConnect, Run} \<Longrightarrow> \<not> was_set [''no-login'', ''n''] ss"
  shows "connection_ok c \<and> cmd_kind c = k"
proof -
  have c: "c = connection_command k ss argv"
    using assms(1) by (auto simp: check_connection_def Let_def split: if_splits option.splits)
  have e: "cmd_environment c = [] \<or> was_set [''env'', ''e''] ss" "cmd_config_path c = [] \<or> was_set [''config'', ''c''] ss"
    using text_of_none by (auto simp: c connection_command_def)
  have t: "target_ok c"
    using assms(1) e by (auto simp: target_ok_def check_connection_def Let_def c [symmetric] valid_environment_name_nonempty
      split: if_splits option.splits) (auto simp: c connection_command_def command_of_def valid_environment_name_iff)
  have h: "check_private_hosts (cmd_private_hosts c) = None" "(k = Connect \<or> k = Run) \<Longrightarrow> cmd_no_login c \<Longrightarrow> cmd_acr c"
    using assms(1) by (auto simp: check_connection_def Let_def c [symmetric] split: if_splits option.splits)
  have f: "cmd_private_hosts c = texts_of ''private-host'' ss" "cmd_acr c = bool_of [''acr''] ss"
    "cmd_no_pull c = bool_of [''no-pull''] ss" "cmd_no_login c = bool_of [''no-login'', ''n''] ss" "cmd_kind c = k"
    "cmd_argv c = argv"
    by (simp_all add: c connection_command_def command_of_def)
  show ?thesis
    using t h assms(3) texts_of_none [OF assms(4)] bool_of_none [OF assms(5)] bool_of_none [OF assms(6)] bool_of_none [OF assms(7)]
    by (auto simp: connection_ok_def f)
qed

lemma parse_connection_ok:
  assumes "parse_connection k name args allow = Inr c" "k \<in> set connection_kinds"
    "allow \<longrightarrow> k \<in> {Connect, ACRConnect, Run}" "help_text name \<noteq> []"
  shows "command_ok c"
proof (cases "parse_flags (connection_flags k allow) args")
  case (Inl e) then show ?thesis using assms(1,4) by (cases e) (auto simp: parse_connection_def help_on_ok)
next
  case (Inr q)
  then obtain ss rest where q: "parse_flags (connection_flags k allow) args = Inr (ss, rest)" by (cases q) auto
  let ?argv = "if k = Run then rest else []"
  have c: "check_connection k name ss ?argv = Inr c" "if k = Run then ?argv \<noteq> [] \<and> hd ?argv \<noteq> [] else ?argv = []"
    using assms(1) q by (auto simp: parse_connection_def split: if_splits)
  have "connection_ok c \<and> cmd_kind c = k"
    by (rule check_connection_ok [OF c(1) assms(2) c(2)]; rule not_was_set [OF q]; use assms(3) in \<open>auto simp: connection_flags_def debug_flags_def\<close>)
  then show ?thesis using assms(2) by (simp add: command_ok_def)
qed


lemma parse_terraform_doctor_ok: "parse_terraform_doctor args = Inr c \<Longrightarrow> command_ok c"
  by (auto simp: parse_terraform_doctor_def Let_def help_on_ok help_topics_known
    split: sum.splits prod.splits if_splits option.splits flag_error.splits) (simp add: command_simps)

lemma parse_subscriptions_ok: "parse_subscriptions args = Inr c \<Longrightarrow> command_ok c"
  by (auto simp: parse_subscriptions_def help_on_ok help_topics_known
    split: sum.splits prod.splits if_splits flag_error.splits) (simp add: command_simps)

lemma parse_login_ok: "parse_login args = Inr c \<Longrightarrow> command_ok c"
  by (auto simp: parse_login_def Let_def help_on_ok help_topics_known
    split: sum.splits prod.splits if_splits flag_error.splits) (simp_all add: command_simps)

lemma with_default_prefix_simps [simp]:
  "cmd_kind (with_default_prefix c) = cmd_kind c" "cmd_environment (with_default_prefix c) = cmd_environment c"
  "cmd_subscription (with_default_prefix c) = cmd_subscription c" "cmd_account (with_default_prefix c) = cmd_account c"
  "cmd_container (with_default_prefix c) = cmd_container c"
  by (simp_all add: with_default_prefix_def)

lemma heimdal_command_kind [simp]: "cmd_kind (heimdal_command ss) = HeimdalInit"
  by (simp add: heimdal_command_def command_of_def)

lemma parse_heimdal_init_ok: "parse_heimdal_init args = Inr c \<Longrightarrow> command_ok c"
  by (auto simp: parse_heimdal_init_def Let_def help_on_ok help_topics_known heimdal_ok_def command_ok_def [of "with_default_prefix _"]
    connection_kinds_def
    split: sum.splits prod.splits if_splits option.splits flag_error.splits)

lemma parse_session_ok: "parse_session rest = Inr c \<Longrightarrow> command_ok c"
  by (auto simp: parse_session_def session_kind_def help_on_ok help_topics_known
    split: list.splits if_splits option.splits intro!: command_of_ok)
    (auto simp: connection_kinds_def split: if_splits)

lemma acr_kind_topic: "acr_kind a = Some k \<Longrightarrow> k \<in> set connection_kinds \<and> help_text (''acr '' @ a) \<noteq> []"
  by (auto simp: acr_kind_def connection_kinds_def help_topics_known split: if_splits)

lemma parse_acr_ok: "parse_acr rest = Inr c \<Longrightarrow> command_ok c"
  by (auto simp: parse_acr_def help_on_ok help_topics_known split: list.splits if_splits option.splits
    intro!: command_of_ok dest!: parse_connection_ok dest: acr_kind_topic)
    (auto simp: connection_kinds_def)

text \<open>The dispatch is a tree of conditions: every leaf is an error, a fixed command or a sub-parser.\<close>

definition all_ok :: "(cli_error, command) res \<Rightarrow> bool" where
  "all_ok r \<longleftrightarrow> (case r of Inl _ \<Rightarrow> True | Inr c \<Rightarrow> command_ok c)"

lemma all_okI: "(\<And>c. r = Inr c \<Longrightarrow> command_ok c) \<Longrightarrow> all_ok r"
  by (simp add: all_ok_def split: sum.split)

lemma all_ok_if: "(p \<Longrightarrow> all_ok r) \<Longrightarrow> (\<not> p \<Longrightarrow> all_ok s) \<Longrightarrow> all_ok (if p then r else s)"
  by simp

lemma all_ok_list: "all_ok r \<Longrightarrow> (\<And>a as. all_ok (f a as)) \<Longrightarrow> all_ok (case xs of [] \<Rightarrow> r | a # as \<Rightarrow> f a as)"
  by (cases xs) simp_all

lemma all_ok_leaf:
  "all_ok (Inl e)" "k \<notin> set connection_kinds \<union> {HeimdalInit, TerraformDoctor} \<Longrightarrow> all_ok (Inr (command_of k))"
  "help_text t \<noteq> [] \<Longrightarrow> all_ok (Inr (help_on t))"
  by (simp_all add: all_ok_def command_of_ok help_on_ok)

lemma all_ok_parsers:
  "all_ok (parse_terraform_doctor args)" "all_ok (parse_subscriptions args)" "all_ok (parse_login args)"
  "all_ok (parse_heimdal_init args)" "all_ok (parse_session args)" "all_ok (parse_acr args)"
  by (rule all_okI, erule parse_terraform_doctor_ok parse_subscriptions_ok parse_login_ok parse_heimdal_init_ok
    parse_session_ok parse_acr_ok)+

lemma all_ok_connection:
  "k \<in> set connection_kinds \<Longrightarrow> allow \<longrightarrow> k \<in> {Connect, ACRConnect, Run} \<Longrightarrow> help_text name \<noteq> []
    \<Longrightarrow> all_ok (parse_connection k name args allow)"
  by (rule all_okI) (rule parse_connection_ok)

lemma parse_command_ok: "all_ok (parse_command name rest)"
  unfolding parse_command_def
  by (intro all_ok_if all_ok_list all_ok_parsers all_ok_connection all_ok_leaf)
    (simp_all (no_asm) only: connection_kinds_def help_topics_known list.set insert_iff empty_iff Un_iff kind.simps
      simp_thms)

text \<open>
  C31. Whatever the arguments, a command that \<open>Parse\<close> returns is well formed: a connection command
  has one target (at most one for \<open>doctor\<close>), a valid environment name or a configuration path that
  is not blank, private hosts that pass the profile's own check, and carries \<open>--acr\<close>,
  \<open>--private-host\<close>, \<open>--no-pull\<close> and \<open>--no-login\<close> only for the kinds that take them;
  \<open>run\<close> and only \<open>run\<close> has a command to execute; \<open>heimdal init\<close> has a valid backend, prefix,
  host list and validity of at most seven days; a help topic has a help text.
\<close>

theorem parse_args_command_ok:
  assumes "parse_args args = Inr c"
  shows "command_ok c"
proof -
  have "all_ok (parse_args args)"
    unfolding parse_args_def Let_def
    by (intro all_ok_if parse_command_ok all_ok_leaf) (simp_all add: connection_kinds_def help_topics_known)
  then show ?thesis using assms by (simp add: all_ok_def)
qed

lemma run_command_args:
  "parse_args (''run'' # a # b # rest) = parse_connection Run ''run'' (a # b # rest) True"
  by (simp add: parse_args_def parse_command_def)

text \<open>
  \<open>bivrost run -e NAME -- COMMAND ARGS\<close> executes exactly the words after the terminator: none
  of them is read as an option, split or dropped, whatever they contain.
\<close>

theorem run_argv_verbatim:
  assumes "valid_environment_name name" "argv \<noteq> []" "hd argv \<noteq> []"
  shows "parse_args ([''run'', ''-e'', name, ''--''] @ argv)
    = Inr ((command_of Run)\<lparr>cmd_environment := name, cmd_argv := argv\<rparr>)"
proof -
  have "parse_flags (connection_flags Run True) ((CHR ''-'' # ''e'') # name # ''--'' # argv)
      = add_setting ''e'' (Inr (VText name)) (Inr ([], argv))"
    by (subst parse_flags_text(1)) (simp_all add: connection_flags_def debug_flags_def)
  then have "parse_flags (connection_flags Run True) (''-e'' # name # ''--'' # argv) = Inr ([(''e'', VText name)], argv)"
    by (simp add: add_setting_def)
  then show ?thesis
    using assms
    by (simp add: run_command_args parse_connection_def check_connection_def connection_command_def Let_def was_set_def
      text_of_def bool_of_def texts_of_def command_of_def)
qed

lemma parse_args_command_ok_witness:
  "command_ok ((command_of Run)\<lparr>cmd_environment := ''lab'', cmd_argv := [''kubectl'', ''--acr'', ''-e'', ''x'']\<rparr>)"
  by (rule parse_args_command_ok [of "[''run'', ''-e'', ''lab'', ''--'', ''kubectl'', ''--acr'', ''-e'', ''x'']"]) code_simp

lemma run_argv_verbatim_witness:
  "parse_args [''run'', ''-e'', ''lab'', ''--'', ''terraform'', ''--help'']
    = Inr ((command_of Run)\<lparr>cmd_environment := ''lab'', cmd_argv := [''terraform'', ''--help'']\<rparr>)"
  using run_argv_verbatim [of "''lab''" "[''terraform'', ''--help'']"]
  by (simp add: valid_environment_name_iff str_simps lower_or_digit_def)

end
