(* ===== verification/Shell_Texts.thy ===== *)
theory Shell_Texts
  imports Prelude
begin

section \<open>Startup texts of the session shells\<close>

text \<open>
  The programs that \<open>internal/shell/prompt.go\<close> writes for \<open>bash\<close>, \<open>zsh\<close> and PowerShell, byte for
  byte. They are data of the Go program: what the shells do with them is not modelled.
\<close>

definition shell_lines :: "string list \<Rightarrow> string" where
  "shell_lines ls = concat (map (\<lambda>l. l @ [CHR 0x0A]) ls)"

definition unix_podman_path_init :: string where
  "unix_podman_path_init = shell_lines [
     ''if [[ -n '' @ [CHR 0x22] @ ''$BIVROST_PODMAN_BIN'' @ [CHR 0x22] @ '' ]]; then'',
     ''    case '' @ [CHR 0x22] @ ''$PATH'' @ [CHR 0x22] @ '' in'',
     ''        '' @ [CHR 0x22] @ ''$BIVROST_PODMAN_BIN'' @ [CHR 0x22] @ ''|'' @ [CHR 0x22] @ ''$BIVROST_PODMAN_BIN'' @ [CHR 0x22] @ '':*) ;;'',
     ''        *) export PATH='' @ [CHR 0x22] @ ''$BIVROST_PODMAN_BIN:$PATH'' @ [CHR 0x22] @ '' ;;'',
     ''    esac'',
     ''    hash -r 2>/dev/null || true'',
     ''fi'']"

definition unix_activation_init :: string where
  "unix_activation_init = unix_podman_path_init @ shell_lines [
     ''if [[ -n '' @ [CHR 0x22] @ ''$BIVROST_EXECUTABLE'' @ [CHR 0x22] @ '' && -n '' @ [CHR 0x22] @ ''$BIVROST_ACR_ENV_FILE'' @ [CHR 0x22] @ '' ]]; then'',
     ''    unalias bivrost 2>/dev/null || true'',
     ''    function bivrost '' @ [CHR 0x7B],
     ''        local bivrost_status=0'',
     ''        local bivrost_switch=0'',
     ''        if [[ '' @ [CHR 0x22] @ ''$#'' @ [CHR 0x22] @ '' -gt 0 && '' @ [CHR 0x22] @ ''$1'' @ [CHR 0x22] @ '' == switch ]]; then'',
     ''            bivrost_switch=1'',
     ''            if [[ -n '' @ [CHR 0x22] @ ''$'' @ [CHR 0x7B] @ ''BASH_VERSION-'' @ [CHR 0x7D, CHR 0x22] @ '' && ( -n '' @ [CHR 0x22] @ ''$'' @ [CHR 0x7B] @ ''BASHPID-'' @ [CHR 0x7D, CHR 0x22] @ '' && '' @ [CHR 0x22] @ ''$BASHPID'' @ [CHR 0x22] @ '' != '' @ [CHR 0x22] @ ''$$'' @ [CHR 0x22] @ '' || -z '' @ [CHR 0x22] @ ''$'' @ [CHR 0x7B] @ ''BASHPID-'' @ [CHR 0x7D, CHR 0x22] @ '' && '' @ [CHR 0x22] @ ''$'' @ [CHR 0x7B] @ ''BASH_SUBSHELL:-0'' @ [CHR 0x7D, CHR 0x22] @ '' != 0 ) ]]; then'',
     ''                printf '' @ [CHR 0x27] @ ''%s'' @ [CHR 0x5C] @ ''n'' @ [CHR 0x27] @ '' '' @ [CHR 0x27] @ ''bivrost: switch must run directly in the Bivrost shell'' @ [CHR 0x27] @ '' >&2'',
     ''                return 1'',
     ''            fi'',
     ''            if [[ -n '' @ [CHR 0x22] @ ''$'' @ [CHR 0x7B] @ ''ZSH_VERSION-'' @ [CHR 0x7D, CHR 0x22] @ '' && '' @ [CHR 0x22] @ ''$'' @ [CHR 0x7B] @ ''ZSH_SUBSHELL:-0'' @ [CHR 0x7D, CHR 0x22] @ '' != 0 ]]; then'',
     ''                printf '' @ [CHR 0x27] @ ''%s'' @ [CHR 0x5C] @ ''n'' @ [CHR 0x27] @ '' '' @ [CHR 0x27] @ ''bivrost: switch must run directly in the Bivrost shell'' @ [CHR 0x27] @ '' >&2'',
     ''                return 1'',
     ''            fi'',
     ''            if [[ -n '' @ [CHR 0x22] @ ''$'' @ [CHR 0x7B] @ ''BASH_VERSION-'' @ [CHR 0x7D, CHR 0x22] @ '' && -n '' @ [CHR 0x22] @ ''$(jobs -p)'' @ [CHR 0x22] @ '' ]]; then'',
     ''                printf '' @ [CHR 0x27] @ ''%s'' @ [CHR 0x5C] @ ''n'' @ [CHR 0x27] @ '' '' @ [CHR 0x27] @ ''bivrost: finish background or stopped shell jobs before switching'' @ [CHR 0x27] @ '' >&2'',
     ''                return 1'',
     ''            fi'',
     ''            if [[ -n '' @ [CHR 0x22] @ ''$'' @ [CHR 0x7B] @ ''ZSH_VERSION-'' @ [CHR 0x7D, CHR 0x22] @ '' && '' @ [CHR 0x22] @ ''$'' @ [CHR 0x7B] @ ''#jobstates'' @ [CHR 0x7D, CHR 0x22] @ '' -gt 0 ]]; then'',
     ''                printf '' @ [CHR 0x27] @ ''%s'' @ [CHR 0x5C] @ ''n'' @ [CHR 0x27] @ '' '' @ [CHR 0x27] @ ''bivrost: finish background or stopped shell jobs before switching'' @ [CHR 0x27] @ '' >&2'',
     ''                return 1'',
     ''            fi'',
     ''            BIVROST_SWITCH_ALLOWED=1 '' @ [CHR 0x22] @ ''$BIVROST_EXECUTABLE'' @ [CHR 0x22] @ '' '' @ [CHR 0x22] @ ''$@'' @ [CHR 0x22] @ '' || bivrost_status=$?'',
     ''        else'',
     ''            '' @ [CHR 0x22] @ ''$BIVROST_EXECUTABLE'' @ [CHR 0x22] @ '' '' @ [CHR 0x22] @ ''$@'' @ [CHR 0x22] @ '' || bivrost_status=$?'',
     ''        fi'',
     ''        if [[ '' @ [CHR 0x22] @ ''$bivrost_status'' @ [CHR 0x22] @ '' == 0 && '' @ [CHR 0x22] @ ''$#'' @ [CHR 0x22] @ '' == 2 && '' @ [CHR 0x22] @ ''$1'' @ [CHR 0x22] @ '' == acr && '' @ [CHR 0x22] @ ''$2'' @ [CHR 0x22] @ '' == enable ]]; then'',
     ''            source '' @ [CHR 0x22] @ ''$BIVROST_ACR_ENV_FILE'' @ [CHR 0x22] @ '' || return $?'',
     ''        fi'',
     ''        if [[ '' @ [CHR 0x22] @ ''$bivrost_switch'' @ [CHR 0x22] @ '' == 1 && '' @ [CHR 0x22] @ ''$bivrost_status'' @ [CHR 0x22] @ '' == 85 ]]; then'',
     ''            exit 85'',
     ''        fi'',
     ''        return '' @ [CHR 0x22] @ ''$bivrost_status'' @ [CHR 0x22],
     ''    '' @ [CHR 0x7D],
     ''fi'']"

definition bash_prompt_init :: string where
  "bash_prompt_init = shell_lines [
     ''if [[ -f '' @ [CHR 0x22] @ ''$HOME/.bashrc'' @ [CHR 0x22] @ '' ]]; then source '' @ [CHR 0x22] @ ''$HOME/.bashrc'' @ [CHR 0x22] @ ''; fi''] @ unix_activation_init @ shell_lines [
     ''if [[ '' @ [CHR 0x22] @ ''$BIVROST_PROMPT_ENABLED'' @ [CHR 0x22] @ '' != 0 ]]; then'',
     ''_bivrost_prompt_indicator() '' @ [CHR 0x7B],
     ''    local previous_status=$?'',
     ''    local indicator='' @ [CHR 0x22] @ ''$BIVROST_PROMPT_START$BIVROST_PROMPT_LABEL$BIVROST_PROMPT_END '' @ [CHR 0x22],
     ''    if [[ '' @ [CHR 0x22] @ ''$BIVROST_PROMPT_PLACEMENT'' @ [CHR 0x22] @ '' == prefix ]]; then'',
     ''        case '' @ [CHR 0x22] @ ''$PS1'' @ [CHR 0x22] @ '' in'',
     ''            '' @ [CHR 0x22] @ ''$indicator'' @ [CHR 0x22] @ ''*) ;;'',
     ''            *) PS1='' @ [CHR 0x22] @ ''$indicator$PS1'' @ [CHR 0x22] @ '' ;;'',
     ''        esac'',
     ''    else'',
     ''        case '' @ [CHR 0x22] @ ''$PS1'' @ [CHR 0x22] @ '' in'',
     ''            *'' @ [CHR 0x22] @ '' $indicator'' @ [CHR 0x22] @ '') ;;'',
     ''            *) PS1='' @ [CHR 0x22] @ ''$PS1 $indicator'' @ [CHR 0x22] @ '' ;;'',
     ''        esac'',
     ''    fi'',
     ''    return '' @ [CHR 0x22] @ ''$previous_status'' @ [CHR 0x22],
     [CHR 0x7D],
     ''if [[ $(declare -p PROMPT_COMMAND 2>/dev/null) == '' @ [CHR 0x27] @ ''declare -a '' @ [CHR 0x27] @ ''* ]]; then'',
     ''    PROMPT_COMMAND+=(_bivrost_prompt_indicator)'',
     ''else'',
     ''    PROMPT_COMMAND='' @ [CHR 0x22] @ ''$'' @ [CHR 0x7B] @ ''PROMPT_COMMAND-'' @ [CHR 0x7D, CHR 0x22] @ ''$'' @ [CHR 0x27, CHR 0x5C] @ ''n'' @ [CHR 0x27] @ ''_bivrost_prompt_indicator'',
     ''fi'',
     ''fi'']"

definition zsh_environment_init :: string where
  "zsh_environment_init = shell_lines [
     ''if [[ -n '' @ [CHR 0x22] @ ''$BIVROST_ORIGINAL_ZDOTDIR'' @ [CHR 0x22] @ '' ]]; then'',
     ''    export ZDOTDIR='' @ [CHR 0x22] @ ''$BIVROST_ORIGINAL_ZDOTDIR'' @ [CHR 0x22],
     ''else'',
     ''    unset ZDOTDIR'',
     ''fi'',
     ''if [[ -f '' @ [CHR 0x22] @ ''$'' @ [CHR 0x7B] @ ''ZDOTDIR:-$HOME'' @ [CHR 0x7D] @ ''/.zshenv'' @ [CHR 0x22] @ '' ]]; then source '' @ [CHR 0x22] @ ''$'' @ [CHR 0x7B] @ ''ZDOTDIR:-$HOME'' @ [CHR 0x7D] @ ''/.zshenv'' @ [CHR 0x22] @ ''; fi'',
     ''export BIVROST_ORIGINAL_ZDOTDIR='' @ [CHR 0x22] @ ''$'' @ [CHR 0x7B] @ ''ZDOTDIR-'' @ [CHR 0x7D, CHR 0x22],
     ''export ZDOTDIR='' @ [CHR 0x22] @ ''$BIVROST_STARTUP_DIR'' @ [CHR 0x22]]"

definition zsh_prompt_init :: string where
  "zsh_prompt_init = shell_lines [
     ''if [[ -n '' @ [CHR 0x22] @ ''$BIVROST_ORIGINAL_ZDOTDIR'' @ [CHR 0x22] @ '' ]]; then'',
     ''    export ZDOTDIR='' @ [CHR 0x22] @ ''$BIVROST_ORIGINAL_ZDOTDIR'' @ [CHR 0x22],
     ''else'',
     ''    unset ZDOTDIR'',
     ''fi'',
     ''unset BIVROST_ORIGINAL_ZDOTDIR BIVROST_STARTUP_DIR'',
     ''if [[ -f '' @ [CHR 0x22] @ ''$'' @ [CHR 0x7B] @ ''ZDOTDIR:-$HOME'' @ [CHR 0x7D] @ ''/.zshrc'' @ [CHR 0x22] @ '' ]]; then source '' @ [CHR 0x22] @ ''$'' @ [CHR 0x7B] @ ''ZDOTDIR:-$HOME'' @ [CHR 0x7D] @ ''/.zshrc'' @ [CHR 0x22] @ ''; fi''] @ unix_activation_init @ shell_lines [
     ''if [[ '' @ [CHR 0x22] @ ''$BIVROST_PROMPT_ENABLED'' @ [CHR 0x22] @ '' != 0 ]]; then'',
     ''_bivrost_prompt_indicator() '' @ [CHR 0x7B],
     ''    local previous_status=$?'',
     ''    local indicator='' @ [CHR 0x22] @ ''$BIVROST_PROMPT_START$BIVROST_PROMPT_LABEL$BIVROST_PROMPT_END '' @ [CHR 0x22],
     ''    if [[ '' @ [CHR 0x22] @ ''$BIVROST_PROMPT_PLACEMENT'' @ [CHR 0x22] @ '' == prefix ]]; then'',
     ''        case '' @ [CHR 0x22] @ ''$PROMPT'' @ [CHR 0x22] @ '' in'',
     ''            '' @ [CHR 0x22] @ ''$indicator'' @ [CHR 0x22] @ ''*) ;;'',
     ''            *) PROMPT='' @ [CHR 0x22] @ ''$indicator$PROMPT'' @ [CHR 0x22] @ '' ;;'',
     ''        esac'',
     ''    else'',
     ''        case '' @ [CHR 0x22] @ ''$PROMPT'' @ [CHR 0x22] @ '' in'',
     ''            *'' @ [CHR 0x22] @ '' $indicator'' @ [CHR 0x22] @ '') ;;'',
     ''            *) PROMPT='' @ [CHR 0x22] @ ''$PROMPT $indicator'' @ [CHR 0x22] @ '' ;;'',
     ''        esac'',
     ''    fi'',
     ''    return '' @ [CHR 0x22] @ ''$previous_status'' @ [CHR 0x22],
     [CHR 0x7D],
     ''autoload -Uz add-zsh-hook'',
     ''add-zsh-hook precmd _bivrost_prompt_indicator'',
     ''fi'']"

definition powershell_prompt_init :: string where
  "powershell_prompt_init = shell_lines [
     ''function global:Set-BivrostPodmanPath '' @ [CHR 0x7B],
     ''    if ($env:BIVROST_PODMAN_BIN) '' @ [CHR 0x7B],
     ''        $separator = [IO.Path]::PathSeparator'',
     ''        if (($env:PATH -split [regex]::Escape([string]$separator), 2)[0] -cne $env:BIVROST_PODMAN_BIN) '' @ [CHR 0x7B],
     ''            $env:PATH = $env:BIVROST_PODMAN_BIN + $separator + $env:PATH'',
     ''        '' @ [CHR 0x7D],
     ''    '' @ [CHR 0x7D],
     [CHR 0x7D],
     ''Set-BivrostPodmanPath'',
     ''if ($env:BIVROST_EXECUTABLE -and $env:BIVROST_ACR_ENV_FILE) '' @ [CHR 0x7B],
     ''    Remove-Item Alias:bivrost -Force -ErrorAction SilentlyContinue'',
     ''    function global:bivrost '' @ [CHR 0x7B],
     ''        $bivrostSwitch = $args.Count -gt 0 -and $args[0] -ceq '' @ [CHR 0x27] @ ''switch'' @ [CHR 0x27],
     ''        if ($bivrostSwitch -and ($MyInvocation.PipelineLength -gt 1 -or $MyInvocation.ScriptName)) '' @ [CHR 0x7B],
     ''            [Console]::Error.WriteLine('' @ [CHR 0x27] @ ''bivrost: switch must run directly in the Bivrost shell'' @ [CHR 0x27] @ '')'',
     ''            $global:LASTEXITCODE = 1'',
     ''            return'',
     ''        '' @ [CHR 0x7D],
     ''        if ($bivrostSwitch) '' @ [CHR 0x7B],
     ''            $activeJobs = @(Get-Job -ErrorAction SilentlyContinue)'',
     ''            if ($activeJobs.Count -gt 0) '' @ [CHR 0x7B],
     ''                [Console]::Error.WriteLine('' @ [CHR 0x27] @ ''bivrost: finish shell jobs and remove their records with Remove-Job before switching'' @ [CHR 0x27] @ '')'',
     ''                $global:LASTEXITCODE = 1'',
     ''                return'',
     ''            '' @ [CHR 0x7D],
     ''            $hadSwitchAllowed = Test-Path -LiteralPath Env:BIVROST_SWITCH_ALLOWED'',
     ''            $previousSwitchAllowed = $env:BIVROST_SWITCH_ALLOWED'',
     ''            try '' @ [CHR 0x7B],
     ''                $env:BIVROST_SWITCH_ALLOWED = '' @ [CHR 0x27] @ ''1'' @ [CHR 0x27],
     ''                & $env:BIVROST_EXECUTABLE @args'',
     ''                $bivrostStatus = $LASTEXITCODE'',
     ''            '' @ [CHR 0x7D] @ '' finally '' @ [CHR 0x7B],
     ''                if ($hadSwitchAllowed) '' @ [CHR 0x7B],
     ''                    $env:BIVROST_SWITCH_ALLOWED = $previousSwitchAllowed'',
     ''                '' @ [CHR 0x7D] @ '' else '' @ [CHR 0x7B],
     ''                    Remove-Item -LiteralPath Env:BIVROST_SWITCH_ALLOWED -ErrorAction SilentlyContinue'',
     ''                '' @ [CHR 0x7D],
     ''            '' @ [CHR 0x7D],
     ''        '' @ [CHR 0x7D] @ '' else '' @ [CHR 0x7B],
     ''            & $env:BIVROST_EXECUTABLE @args'',
     ''            $bivrostStatus = $LASTEXITCODE'',
     ''        '' @ [CHR 0x7D],
     ''        if ($bivrostStatus -eq 0 -and $args.Count -eq 2 -and $args[0] -ceq '' @ [CHR 0x27] @ ''acr'' @ [CHR 0x27] @ '' -and $args[1] -ceq '' @ [CHR 0x27] @ ''enable'' @ [CHR 0x27] @ '') '' @ [CHR 0x7B],
     ''            try '' @ [CHR 0x7B],
     ''                if (-not (Test-Path -LiteralPath $env:BIVROST_ACR_ENV_FILE -PathType Leaf)) '' @ [CHR 0x7B],
     ''                    throw '' @ [CHR 0x27] @ ''Bivrost activation settings are unavailable.'' @ [CHR 0x27],
     ''                '' @ [CHR 0x7D],
     ''                $settingsText = (Get-Content -LiteralPath $env:BIVROST_ACR_ENV_FILE -Raw -Encoding UTF8 -ErrorAction Stop).Trim()'',
     ''                if (-not $settingsText.StartsWith('' @ [CHR 0x27, CHR 0x7B, CHR 0x27] @ '') -or -not $settingsText.EndsWith('' @ [CHR 0x27, CHR 0x7D, CHR 0x27] @ '')) '' @ [CHR 0x7B],
     ''                    throw '' @ [CHR 0x27] @ ''Bivrost activation settings must be a JSON object.'' @ [CHR 0x27],
     ''                '' @ [CHR 0x7D],
     ''                $settings = $settingsText | ConvertFrom-Json -ErrorAction Stop'',
     ''                $allowedKeys = @('' @ [CHR 0x27] @ ''CONTAINER_HOST'' @ [CHR 0x27] @ '', '' @ [CHR 0x27] @ ''CONTAINER_CONNECTION'' @ [CHR 0x27] @ '', '' @ [CHR 0x27] @ ''CONTAINER_SSHKEY'' @ [CHR 0x27] @ '', '' @ [CHR 0x27] @ ''CONTAINERS_CONF_OVERRIDE'' @ [CHR 0x27] @ '', '' @ [CHR 0x27] @ ''BIVROST_PODMAN_BIN'' @ [CHR 0x27] @ '')'',
     ''                if ($null -eq $settings -or $settings -isnot [System.Management.Automation.PSCustomObject]) '' @ [CHR 0x7B],
     ''                    throw '' @ [CHR 0x27] @ ''Bivrost activation settings must be a JSON object.'' @ [CHR 0x27],
     ''                '' @ [CHR 0x7D],
     ''                foreach ($property in $settings.PSObject.Properties) '' @ [CHR 0x7B],
     ''                    if ($allowedKeys -cnotcontains $property.Name -or $property.Value -isnot [string]) '' @ [CHR 0x7B],
     ''                        throw '' @ [CHR 0x27] @ ''Bivrost activation settings contain an invalid environment assignment.'' @ [CHR 0x27],
     ''                    '' @ [CHR 0x7D],
     ''                '' @ [CHR 0x7D],
     ''                foreach ($key in $allowedKeys) '' @ [CHR 0x7B],
     ''                    $property = $settings.PSObject.Properties[$key]'',
     ''                    if ($null -eq $property) '' @ [CHR 0x7B],
     ''                        Remove-Item -LiteralPath ('' @ [CHR 0x27] @ ''Env:'' @ [CHR 0x27] @ '' + $key) -ErrorAction SilentlyContinue'',
     ''                    '' @ [CHR 0x7D] @ '' else '' @ [CHR 0x7B],
     ''                        Set-Item -LiteralPath ('' @ [CHR 0x27] @ ''Env:'' @ [CHR 0x27] @ '' + $key) -Value $property.Value -ErrorAction Stop'',
     ''                    '' @ [CHR 0x7D],
     ''                '' @ [CHR 0x7D],
     ''                Set-BivrostPodmanPath'',
     ''            '' @ [CHR 0x7D] @ '' catch '' @ [CHR 0x7B],
     ''                $global:LASTEXITCODE = 1'',
     ''                throw'',
     ''            '' @ [CHR 0x7D],
     ''        '' @ [CHR 0x7D],
     ''        if ($bivrostSwitch -and $bivrostStatus -eq 85) '' @ [CHR 0x7B],
     ''            exit 85'',
     ''        '' @ [CHR 0x7D],
     ''        $global:LASTEXITCODE = $bivrostStatus'',
     ''    '' @ [CHR 0x7D],
     [CHR 0x7D],
     ''if ($env:BIVROST_PROMPT_ENABLED -ne '' @ [CHR 0x27] @ ''0'' @ [CHR 0x27] @ '') '' @ [CHR 0x7B],
     ''$global:BivrostOriginalPrompt = $function:prompt'',
     ''function global:prompt '' @ [CHR 0x7B],
     ''    $original = & $global:BivrostOriginalPrompt'',
     ''    $indicator = $env:BIVROST_PROMPT_LABEL + '' @ [CHR 0x27] @ '' '' @ [CHR 0x27],
     ''    if ($Host.UI.SupportsVirtualTerminal) '' @ [CHR 0x7B],
     ''        $indicator = $env:BIVROST_PROMPT_START + $env:BIVROST_PROMPT_LABEL + $env:BIVROST_PROMPT_END + '' @ [CHR 0x27] @ '' '' @ [CHR 0x27],
     ''    '' @ [CHR 0x7D],
     ''    if ($env:BIVROST_PROMPT_PLACEMENT -eq '' @ [CHR 0x27] @ ''prefix'' @ [CHR 0x27] @ '') '' @ [CHR 0x7B] @ '' $indicator + ($original -join '' @ [CHR 0x27, CHR 0x27] @ '') '' @ [CHR 0x7D],
     ''    else '' @ [CHR 0x7B] @ '' ($original -join '' @ [CHR 0x27, CHR 0x27] @ '') + '' @ [CHR 0x27] @ '' '' @ [CHR 0x27] @ '' + $indicator '' @ [CHR 0x7D],
     [CHR 0x7D],
     [CHR 0x7D]]"

end
