(* ===== verification/Shell.thy ===== *)
theory Shell
  imports Shell_Texts Settings Process_Environment
begin

section \<open>The session prompt\<close>

text \<open>
  \<open>internal/shell/prompt.go\<close>: the prompt label is composed from the settings and the profile, and
  \<open>PreparePrompt\<close> writes the startup files of the session's shell
  and returns its arguments and environment.
\<close>

subsection \<open>The label\<close>

definition custom_profile :: string where "custom_profile = ''custom-profile''"

definition effective_prompt_settings :: "profile \<Rightarrow> prompt_settings" where
  "effective_prompt_settings c = (case pf_prompt c of Some p \<Rightarrow> p | None \<Rightarrow> default_prompt_settings)"

definition label_rune :: "nat \<Rightarrow> bool" where
  "label_rune r \<longleftrightarrow> 97 \<le> r \<and> r \<le> 122 \<or> 65 \<le> r \<and> r \<le> 90 \<or> 48 \<le> r \<and> r \<le> 57 \<or> r \<in> byte ` set '' ._-''"

definition prompt_label_part :: "string \<Rightarrow> string" where
  "prompt_label_part s = map (\<lambda>r. if label_rune r then char_of r else CHR ''_'') (runes s)"

definition environment_or_custom :: "profile \<Rightarrow> string" where
  "environment_or_custom c = (if pf_environment c = [] then custom_profile else pf_environment c)"

definition label :: "profile \<Rightarrow> string" where
  "label c = replace_marks [(environment_mark, prompt_label_part (environment_or_custom c)),
      (cluster_mark, prompt_label_part (case pf_aks c of None \<Rightarrow> ''no AKS'' | Some a \<Rightarrow> aks_name a))]
     (ps_label (effective_prompt_settings c))"

definition colour_code :: "string \<Rightarrow> string" where
  "colour_code colour = (case map_of [(''cyan'', ''36''), (''yellow'', ''33''), (''red'', ''31''), (''green'', ''32'')] colour of
     Some code \<Rightarrow> code | None \<Rightarrow> [])"

definition prompt_colour :: "string \<Rightarrow> string \<Rightarrow> string \<times> string" where
  "prompt_colour shell colour =
     (if colour = ''none'' then ([], [])
      else if shell = ''bash'' then
        ([CHR 0x5C] @ ''['' @ [CHR 0x5C] @ ''e[1;'' @ colour_code colour @ ''m'' @ [CHR 0x5C] @ '']'',
         [CHR 0x5C] @ ''['' @ [CHR 0x5C] @ ''e[0m'' @ [CHR 0x5C] @ '']'')
      else if shell = ''zsh'' then (''%B%F'' @ [CHR 0x7B] @ colour @ [CHR 0x7D], ''%f%b'')
      else ([CHR 0x1B] @ ''[1;'' @ colour_code colour @ ''m'', [CHR 0x1B] @ ''[0m''))"

subsection \<open>PreparePrompt\<close>

text \<open>
  The files written, in order, and the shell's arguments and environment, or \<open>None\<close> when a file
  could not be written (\<open>write_ok\<close> says which writes succeed).
\<close>

type_synonym prompt_result = "(string \<times> string) list \<times> (string list \<times> string list) option"

definition label_environment :: "profile \<Rightarrow> string list \<Rightarrow> string list" where
  "label_environment c env =
     (let env = replace_environment env ''BIVROST_ENVIRONMENT'' (prompt_label_part (environment_or_custom c));
        env = replace_environment env ''BIVROST_CLUSTER''
          (prompt_label_part (case pf_aks c of None \<Rightarrow> [] | Some a \<Rightarrow> aks_name a));
        env = replace_environment env ''BIVROST_PROMPT_LABEL'' (label c)
      in replace_environment env ''BIVROST_PROMPT_PLACEMENT'' (ps_placement (effective_prompt_settings c)))"

definition colour_environment :: "prompt_settings \<Rightarrow> string \<Rightarrow> string list \<Rightarrow> string list" where
  "colour_environment p shell env =
     (let env = replace_environment env ''BIVROST_PROMPT_ENABLED'' (if ps_enabled p then ''1'' else ''0'');
        env = replace_environment env ''BIVROST_PROMPT_START'' (fst (prompt_colour shell (ps_colour p)))
      in replace_environment env ''BIVROST_PROMPT_END'' (snd (prompt_colour shell (ps_colour p))))"

definition zsh_environment :: "string \<Rightarrow> string list \<Rightarrow> string list" where
  "zsh_environment directory env =
     (let env = replace_environment env ''BIVROST_ORIGINAL_ZDOTDIR'' (environment_value env ''ZDOTDIR'');
        env = replace_environment env ''BIVROST_STARTUP_DIR'' directory
      in replace_environment env ''ZDOTDIR'' directory)"

definition has_activation :: "string list \<Rightarrow> bool" where
  "has_activation env \<longleftrightarrow> environment_value env ''BIVROST_EXECUTABLE'' \<noteq> []
     \<and> environment_value env ''BIVROST_ACR_ENV_FILE'' \<noteq> []"

definition prepare_prompt :: "(string \<Rightarrow> bool) \<Rightarrow> string \<Rightarrow> string \<Rightarrow> string list \<Rightarrow> string list \<Rightarrow> profile \<Rightarrow> prompt_result" where
  "prepare_prompt write_ok directory shell args env c =
     (let p = effective_prompt_settings c; env = label_environment c env in
      if \<not> ps_enabled p \<and> \<not> has_activation env then ([], Some (args, env))
      else let kind = to_lower (path_base shell); env = colour_environment p kind env;
          path = (\<lambda>name. path_join [directory, name]) in
        if kind = ''bash'' then
          (if write_ok (path ''bashrc'')
           then ([(path ''bashrc'', bash_prompt_init)], Some ([''--rcfile'', path ''bashrc'', ''-i''], env))
           else ([], None))
        else if kind = ''zsh'' then
          (if \<not> write_ok (path ''.zshenv'') then ([], None)
           else if \<not> write_ok (path ''.zshrc'') then ([(path ''.zshenv'', zsh_environment_init)], None)
           else ([(path ''.zshenv'', zsh_environment_init), (path ''.zshrc'', zsh_prompt_init)],
             Some (args, zsh_environment directory env)))
        else if kind \<in> {''pwsh'', ''pwsh.exe'', ''powershell'', ''powershell.exe''} then
          ([], Some ([''-NoLogo'', ''-NoExit'', ''-Command'', powershell_prompt_init], env))
        else ([], Some (args, env)))"

subsection \<open>Labels are safe in every prompt\<close>

lemma label_rune_byte: "label_rune (byte c) \<Longrightarrow> prompt_safe c"
  by (auto simp: label_rune_def prompt_safe_def byte_def)

lemma prompt_label_part_safe: "list_all prompt_safe (prompt_label_part s)"
proof -
  have "prompt_safe (if label_rune r then char_of r else CHR ''_'')" for r
  proof (cases "label_rune r")
    case True
    then have "r < 256" by (auto simp: label_rune_def byte_def)
    then have "byte (char_of r) = r" by (simp add: byte_def)
    then show ?thesis using True label_rune_byte [of "char_of r"] by simp
  qed (simp add: prompt_safe_def byte_def)
  then show ?thesis unfolding prompt_label_part_def list.pred_map comp_def by (simp add: list.pred_True)
qed

lemma replace_marks_safe:
  "list_all p s \<Longrightarrow> list_all (\<lambda>(_, new). list_all p new) reps \<Longrightarrow> list_all p (replace_marks reps s)"
proof (induction reps s rule: replace_marks.induct)
  case (1 reps s)
  show ?case
  proof (cases s)
    case Nil then show ?thesis by (simp add: replace_marks.simps)
  next
    case (Cons c t)
    show ?thesis
    proof (cases "find (\<lambda>(old, _). old \<noteq> [] \<and> has_prefix s old) reps")
      case None
      then show ?thesis using 1 Cons by (subst replace_marks.simps) simp
    next
      case (Some r)
      obtain old new where r: "r = (old, new)" by (cases r)
      have "(old, new) \<in> set reps" using Some r by (auto simp: find_Some_iff) (metis nth_mem)
      then have "list_all p new" using 1(4) by (auto simp: list_all_iff)
      moreover have "list_all p (drop (length old) s)"
        using 1(3) by (auto simp: list_all_iff dest: in_set_dropD)
      moreover have "replace_marks reps s = new @ replace_marks reps (drop (length old) s)"
        using Some r Cons by (subst replace_marks.simps) simp
      ultimately show ?thesis using 1(2) [OF Cons Some r [symmetric]] 1(4) by simp
    qed
  qed
qed

lemma label_safe:
  assumes "validate_prompt_settings (effective_prompt_settings c) = None"
  shows "list_all prompt_safe (label c)"
  unfolding label_def
  by (rule replace_marks_safe) (use assms in \<open>auto simp: validate_prompt_settings_ok prompt_label_part_safe intro: label_bytes_safe\<close>)

text \<open>The variables that \<open>PreparePrompt\<close> sets.\<close>

definition prompt_keys :: "string list" where
  "prompt_keys = [''BIVROST_ENVIRONMENT'', ''BIVROST_CLUSTER'', ''BIVROST_PROMPT_LABEL'', ''BIVROST_PROMPT_PLACEMENT'',
     ''BIVROST_PROMPT_ENABLED'', ''BIVROST_PROMPT_START'', ''BIVROST_PROMPT_END'', ''BIVROST_ORIGINAL_ZDOTDIR'',
     ''BIVROST_STARTUP_DIR'', ''ZDOTDIR'']"

lemma label_environment_value:
  "environment_value (label_environment c env) n =
    (if equal_fold ''BIVROST_PROMPT_PLACEMENT'' n then ps_placement (effective_prompt_settings c)
     else if equal_fold ''BIVROST_PROMPT_LABEL'' n then label c
     else if equal_fold ''BIVROST_CLUSTER'' n then prompt_label_part (case pf_aks c of None \<Rightarrow> [] | Some a \<Rightarrow> aks_name a)
     else if equal_fold ''BIVROST_ENVIRONMENT'' n then prompt_label_part (environment_or_custom c)
     else environment_value env n)"
  by (simp add: label_environment_def Let_def environment_put)

lemma colour_environment_value:
  "\<not> equal_fold ''BIVROST_PROMPT_ENABLED'' n \<Longrightarrow> \<not> equal_fold ''BIVROST_PROMPT_START'' n \<Longrightarrow> \<not> equal_fold ''BIVROST_PROMPT_END'' n
    \<Longrightarrow> environment_value (colour_environment p shell env) n = environment_value env n"
  by (simp add: colour_environment_def Let_def environment_put)

lemma zsh_environment_value:
  "\<not> equal_fold ''BIVROST_ORIGINAL_ZDOTDIR'' n \<Longrightarrow> \<not> equal_fold ''BIVROST_STARTUP_DIR'' n \<Longrightarrow> \<not> equal_fold ''ZDOTDIR'' n
    \<Longrightarrow> environment_value (zsh_environment directory env) n = environment_value env n"
  by (simp add: zsh_environment_def Let_def environment_put)

lemma prepare_prompt_cases:
  assumes "prepare_prompt write_ok directory shell args env c = (files, Some (args', env'))"
  shows "env' \<in> (let base = label_environment c env; p = effective_prompt_settings c;
      full = colour_environment p (to_lower (path_base shell)) base in {base, full, zsh_environment directory full})"
  using assms by (auto simp: prepare_prompt_def Let_def split: if_splits)

lemma prepared_value:
  assumes "prepare_prompt write_ok directory shell args env c = (files, Some (args', env'))"
    "list_all (\<lambda>k. \<not> equal_fold k n) (drop 4 prompt_keys)"
  shows "environment_value env' n = environment_value (label_environment c env) n"
  using prepare_prompt_cases [OF assms(1)] assms(2)
  by (auto simp: Let_def prompt_keys_def colour_environment_value zsh_environment_value)

text \<open>
  C36. Whatever the profile's names contain, the shell that \<open>PreparePrompt\<close> prepares sees a prompt
  label, environment name and cluster name made of printable bytes that neither \<open>bash\<close>, \<open>zsh\<close> nor
  PowerShell expands; the label is the one shown in the banner; and every variable outside the
  prompt's own keeps its value, whatever the case of its name.
\<close>

theorem prepared_prompt_safe:
  assumes prepared: "prepare_prompt write_ok directory shell args env c = (files, Some (args', env'))"
    and valid: "validate_prompt_settings (effective_prompt_settings c) = None"
    and other: "list_all (\<lambda>k. \<not> equal_fold k n) prompt_keys"
  shows "environment_value env' ''BIVROST_PROMPT_LABEL'' = label c
    \<and> list_all (\<lambda>k. list_all prompt_safe (environment_value env' k))
      [''BIVROST_PROMPT_LABEL'', ''BIVROST_ENVIRONMENT'', ''BIVROST_CLUSTER'']
    \<and> environment_value env' n = environment_value env n"
proof -
  have "environment_value env' ''BIVROST_PROMPT_LABEL'' = label c"
    using prepared_value [OF prepared, of "''BIVROST_PROMPT_LABEL''"]
    by (simp add: label_environment_value prompt_keys_def str_simps)
  moreover have "environment_value env' ''BIVROST_ENVIRONMENT'' = prompt_label_part (environment_or_custom c)"
    using prepared_value [OF prepared, of "''BIVROST_ENVIRONMENT''"]
    by (simp add: label_environment_value prompt_keys_def str_simps)
  moreover have "environment_value env' ''BIVROST_CLUSTER'' = prompt_label_part (case pf_aks c of None \<Rightarrow> [] | Some a \<Rightarrow> aks_name a)"
    using prepared_value [OF prepared, of "''BIVROST_CLUSTER''"]
    by (simp add: label_environment_value prompt_keys_def str_simps)
  moreover have "environment_value env' n = environment_value env n"
    using prepared_value [OF prepared, of n] other by (simp add: prompt_keys_def label_environment_value)
  ultimately show ?thesis using label_safe [OF valid] by (simp add: prompt_label_part_safe)
qed

definition sample_prompt_profile :: profile where
  "sample_prompt_profile = empty_profile\<lparr>pf_environment := ''lab''\<rparr>"

definition sample_prompt :: prompt_result where
  "sample_prompt = prepare_prompt (\<lambda>_. True) ''/run/b'' ''/bin/bash'' [] [''HOME=/home/me''] sample_prompt_profile"

lemma sample_settings: "effective_prompt_settings sample_prompt_profile = default_prompt_settings"
  by (simp add: effective_prompt_settings_def sample_prompt_profile_def empty_profile_def)

lemma sample_shell: "to_lower (path_base ''/bin/bash'') = ''bash''"
  by (simp add: path_base_def str_simps)

lemma sample_prompt_prepared: "\<exists>files args env. sample_prompt = (files, Some (args, env))"
  unfolding sample_prompt_def prepare_prompt_def Let_def sample_settings sample_shell
  by (simp add: default_prompt_settings_def)

lemma prepared_prompt_safe_witness:
  "\<exists>files args env. sample_prompt = (files, Some (args, env))
     \<and> environment_value env ''BIVROST_PROMPT_LABEL'' = label sample_prompt_profile
     \<and> environment_value env ''HOME'' = ''/home/me''"
proof -
  obtain files args env where e: "sample_prompt = (files, Some (args, env))" using sample_prompt_prepared by blast
  have "list_all (\<lambda>k. \<not> equal_fold k ''HOME'') prompt_keys" by (simp add: prompt_keys_def str_simps)
  from prepared_prompt_safe [OF e [unfolded sample_prompt_def] default_prompt_valid [folded sample_settings] this]
  have "environment_value env ''BIVROST_PROMPT_LABEL'' = label sample_prompt_profile"
    "environment_value env ''HOME'' = environment_value [''HOME=/home/me''] ''HOME''" by simp_all
  moreover have "environment_value [''HOME=/home/me''] ''HOME'' = ''/home/me''"
    by (simp add: environment_value_def entry_name_def)
  ultimately show ?thesis using e by metis
qed

end
