(* ===== verification/Heimdal_Session.thy ===== *)
theory Heimdal_Session
  imports Heimdal_Metadata
begin

section \<open>Metadata in a session\<close>

text \<open>
  \<open>internal/session/heimdal_read.go\<close>, which fetches and checks the routes of an environment, and
  \<open>internal/session/heimdal.go\<close>, which publishes the first metadata of one. The Azure operations
  and the clock are parameters, so both can be composed with any store.
\<close>

subsection \<open>Fetching routes\<close>

datatype fetch_error = SourceRejected profile_error | FetchFailed azure_error | PointerRejected | DocumentRejected | RouteRefused

type_synonym endpoint_service =
  "string \<Rightarrow> string list \<Rightarrow> (azure_error, string) res"

text \<open>Target, endpoint, blob name, proxy, environment and size limit.\<close>

type_synonym blob_service = "terraform_backend \<Rightarrow> string \<Rightarrow> string \<Rightarrow> string \<Rightarrow> string list \<Rightarrow> int \<Rightarrow> (azure_error, string) res"

definition source_backend :: "heimdal_source \<Rightarrow> terraform_backend" where
  "source_backend s = \<lparr>tb_subscription = hs_subscription s, tb_account = hs_account s, tb_container = container_name s\<rparr>"

definition pointer_blob :: "string \<Rightarrow> string" where
  "pointer_blob prefix = prefix @ ''/current.json''"

definition revision_blob :: "string \<Rightarrow> string \<Rightarrow> string" where
  "revision_blob prefix revision = prefix @ ''/revisions/'' @ revision @ ''.json''"

definition fetch_heimdal_routes ::
  "endpoint_service \<Rightarrow> blob_service \<Rightarrow> (string \<Rightarrow> int option) \<Rightarrow> string list \<Rightarrow> int \<Rightarrow> profile \<Rightarrow> (fetch_error, string list) res" where
  "fetch_heimdal_routes endpoint_for read_blob lenient environ now c =
     (case pf_heimdal c of None \<Rightarrow> Inr [] | Some source \<Rightarrow>
      case validate_heimdal source of Some e \<Rightarrow> Inl (SourceRejected e) | None \<Rightarrow>
      let environment = proxy_environment environ (proxy_url c); prefix = blob_prefix source; target = source_backend source in
      case endpoint_for (hs_account source) environment of Inl e \<Rightarrow> Inl (FetchFailed e) | Inr endpoint \<Rightarrow>
      case read_blob target endpoint (pointer_blob prefix) (proxy_url c) environment (int max_pointer_size) of
        Inl e \<Rightarrow> Inl (FetchFailed e) | Inr data \<Rightarrow>
      case decode_pointer data (hs_environment source) of Inl _ \<Rightarrow> Inl PointerRejected | Inr p \<Rightarrow>
      case read_blob target endpoint (revision_blob prefix (ptr_revision p)) (proxy_url c) environment (int max_document_size) of
        Inl e \<Rightarrow> Inl (FetchFailed e) | Inr data \<Rightarrow>
      case decode_document lenient data (hs_environment source) (ptr_revision p) now of Inl _ \<Rightarrow> Inl DocumentRejected | Inr d \<Rightarrow>
      if list_all (allows_route source) (doc_private_hosts d) then Inr (doc_private_hosts d) else Inl RouteRefused)"

lemma decoded_document:
  assumes "decode_document lenient data environment revision now = Inr d"
  shows "sha256_hex data = revision \<and> validate_document d environment now = None"
  using assms by (auto simp: decode_document_def split: if_splits option.splits)

text \<open>
  C34. Routes that a fetch returns come from one document whose bytes have the digest that names its blob,
  is in force now and is of the profile's environment; every route is an exact remote DNS name that
  is no Azure control plane host and that the profile's own allowlist admits, and there are at most
  128 of them. One inadmissible route rejects the whole document.
\<close>

theorem fetched_routes_safe:
  assumes fetched: "fetch_heimdal_routes endpoint_for read_blob lenient environ now c = Inr hosts"
    and source: "pf_heimdal c = Some source"
  shows "\<exists>endpoint data environment issued expires.
      read_blob (source_backend source) endpoint (revision_blob (blob_prefix source) (sha256_hex data)) (proxy_url c)
        environment (int max_document_size) = Inr data
    \<and> decode_document lenient data (hs_environment source) (sha256_hex data) now
        = Inr \<lparr>doc_version = 1, doc_environment = hs_environment source, doc_issued_at = issued, doc_expires_at = expires,
            doc_private_hosts = hosts\<rparr>
    \<and> issued \<le> now + max_clock_skew \<and> now < expires \<and> expires \<le> issued + max_validity
    \<and> length hosts \<le> 128
    \<and> (\<forall>h \<in> set hosts. valid_remote_dns_name h \<and> \<not> public_control_plane_host h \<and> allows_route source h)"
proof -
  let ?environment = "proxy_environment environ (proxy_url c)"
  have "\<exists>endpoint revision data d. read_blob (source_backend source) endpoint (revision_blob (blob_prefix source) revision)
      (proxy_url c) ?environment (int max_document_size) = Inr data
    \<and> decode_document lenient data (hs_environment source) revision now = Inr d
    \<and> list_all (allows_route source) (doc_private_hosts d) \<and> hosts = doc_private_hosts d"
    using fetched source unfolding fetch_heimdal_routes_def Let_def
    by (simp split: option.splits sum.splits if_splits) blast
  then obtain endpoint revision data d where r: "read_blob (source_backend source) endpoint (revision_blob (blob_prefix source) revision)
      (proxy_url c) ?environment (int max_document_size) = Inr data"
    "decode_document lenient data (hs_environment source) revision now = Inr d"
    "list_all (allows_route source) (doc_private_hosts d)" "hosts = doc_private_hosts d" by blast
  note d = decoded_document [OF r(2)]
  then have v: "doc_version d = 1" "doc_environment d = hs_environment source" "doc_issued_at d \<le> now + max_clock_skew"
    "now < doc_expires_at d" "doc_expires_at d \<le> doc_issued_at d + max_validity" "length hosts \<le> 128"
    "check_private_hosts hosts = None"
    using r(4) by (auto simp: validate_document_def max_document_hosts_def split: if_splits)
  then have "d = \<lparr>doc_version = 1, doc_environment = hs_environment source, doc_issued_at = doc_issued_at d,
      doc_expires_at = doc_expires_at d, doc_private_hosts = hosts\<rparr>" using r(4) by simp
  then show ?thesis using r d v check_private_hosts_iff [of hosts] by (metis list_all_iff)
qed

lemma published_routes:
  assumes created: "create_metadata (hs_environment source) hosts published validity = Inr (data, pointer_data, revision)"
    and stored: "read_blob (source_backend source) endpoint (pointer_blob (blob_prefix source)) (proxy_url c)
        (proxy_environment environ (proxy_url c)) (int max_pointer_size) = Inr pointer_data"
      "read_blob (source_backend source) endpoint (revision_blob (blob_prefix source) revision) (proxy_url c)
        (proxy_environment environ (proxy_url c)) (int max_document_size) = Inr data"
    and endpoint: "endpoint_for (hs_account source) (proxy_environment environ (proxy_url c)) = Inr endpoint"
    and source: "pf_heimdal c = Some source" "validate_heimdal source = None" "list_all (allows_route source) hosts"
    and time: "published - max_clock_skew \<le> now" "now < published + validity"
  shows "fetch_heimdal_routes endpoint_for read_blob lenient environ now c = Inr (remdups_adj (sort hosts))"
proof -
  obtain p d where "decode_pointer pointer_data (hs_environment source) = Inr p" "ptr_revision p = revision"
    "decode_document lenient data (hs_environment source) revision now = Inr d" "doc_private_hosts d = remdups_adj (sort hosts)"
    using created_metadata_exact [OF created time] by blast
  moreover have "list_all (allows_route source) (remdups_adj (sort hosts))" using source(3) by (simp add: list_all_iff)
  ultimately show ?thesis using stored endpoint source(1,2) by (simp add: fetch_heimdal_routes_def Let_def)
qed

text \<open>
  C35. A store that holds what one publication created serves the published routes to every reader of the
  environment whose allowlist admits them, until the metadata expires.
\<close>

theorem published_routes_fetched:
  assumes created: "create_metadata (hs_environment source) hosts published validity = Inr (data, pointer_data, revision)"
    and stored: "read_blob (source_backend source) endpoint (pointer_blob (blob_prefix source)) (proxy_url c)
        (proxy_environment environ (proxy_url c)) (int max_pointer_size) = Inr pointer_data"
      "read_blob (source_backend source) endpoint (revision_blob (blob_prefix source) revision) (proxy_url c)
        (proxy_environment environ (proxy_url c)) (int max_document_size) = Inr data"
    and endpoint: "endpoint_for (hs_account source) (proxy_environment environ (proxy_url c)) = Inr endpoint"
    and source: "pf_heimdal c = Some source" "validate_heimdal source = None" "list_all (allows_route source) hosts"
    and time: "published - max_clock_skew \<le> now" "now < published + validity"
  shows "fetch_heimdal_routes endpoint_for read_blob lenient environ now c = Inr (remdups_adj (sort hosts))"
  by (rule published_routes) (use assms in simp_all)

definition sample_source :: heimdal_source where
  "sample_source = \<lparr>hs_subscription = ''sub'', hs_account = ''demoacct1'', hs_container = [], hs_environment = ''lab'',
     hs_prefix = [], hs_allow_local_fallback = False, hs_allowed_route_suffixes = Some [''demo.internal'']\<rparr>"

definition sample_store :: "string \<Rightarrow> string \<Rightarrow> blob_service" where
  "sample_store data pointer_data target endpoint name proxy env limit =
     Inr (if name = pointer_blob ''environments/lab'' then pointer_data else data)"

lemma sample_source_valid: "validate_heimdal sample_source = None" "list_all (allows_route sample_source) sample_hosts"
  by code_simp+

lemma sample_fetch_routes:
  "\<exists>data pointer_data. fetch_heimdal_routes (\<lambda>_ _. Inr ''https://demoacct1.blob.core.windows.net'') (sample_store data pointer_data)
     (\<lambda>_. None) [] (sample_now + 1) (empty_profile\<lparr>pf_heimdal := Some sample_source\<rparr>) = Inr [''a.demo.internal'', ''b.demo.internal'']"
proof -
  obtain data pointer_data revision where c: "create_metadata ''lab'' sample_hosts sample_now default_validity = Inr (data, pointer_data, revision)"
    using sample_created by blast
  have prefix: "blob_prefix sample_source = ''environments/lab''" "hs_environment sample_source = ''lab''"
    by (simp_all add: blob_prefix_def sample_source_def)
  have "revision_blob ''environments/lab'' revision \<noteq> pointer_blob ''environments/lab''"
    by (simp add: revision_blob_def pointer_blob_def)
  then show ?thesis
    using published_routes [of sample_source sample_hosts sample_now default_validity data pointer_data revision
        "sample_store data pointer_data" "''https://demoacct1.blob.core.windows.net''" "empty_profile\<lparr>pf_heimdal := Some sample_source\<rparr>" "[]"
        "\<lambda>_ _. Inr ''https://demoacct1.blob.core.windows.net''" "sample_now + 1" "\<lambda>_. None"]
      c prefix sample_source_valid sample_hosts_sorted
    by (auto simp: sample_store_def max_clock_skew_def default_validity_def)
qed

lemma published_routes_fetched_witness:
  "\<exists>data pointer_data. fetch_heimdal_routes (\<lambda>_ _. Inr ''https://demoacct1.blob.core.windows.net'') (sample_store data pointer_data)
     (\<lambda>_. None) [] (sample_now + 1) (empty_profile\<lparr>pf_heimdal := Some sample_source\<rparr>) = Inr [''a.demo.internal'', ''b.demo.internal'']"
proof -
  obtain data pointer_data revision where c: "create_metadata ''lab'' sample_hosts sample_now default_validity = Inr (data, pointer_data, revision)"
    using sample_created by blast
  have prefix: "blob_prefix sample_source = ''environments/lab''" "hs_environment sample_source = ''lab''"
    by (simp_all add: blob_prefix_def sample_source_def)
  have "revision_blob ''environments/lab'' revision \<noteq> pointer_blob ''environments/lab''"
    by (simp add: revision_blob_def pointer_blob_def)
  then show ?thesis
    using published_routes_fetched [of sample_source sample_hosts sample_now default_validity data pointer_data revision
        "sample_store data pointer_data" "''https://demoacct1.blob.core.windows.net''" "empty_profile\<lparr>pf_heimdal := Some sample_source\<rparr>" "[]"
        "\<lambda>_ _. Inr ''https://demoacct1.blob.core.windows.net''" "sample_now + 1" "\<lambda>_. None"]
      c prefix sample_source_valid sample_hosts_sorted
    by (auto simp: sample_store_def max_clock_skew_def default_validity_def)
qed

lemma fetched_routes_safe_witness:
  "valid_remote_dns_name ''a.demo.internal'' \<and> valid_remote_dns_name ''b.demo.internal''
    \<and> allows_route sample_source ''a.demo.internal'' \<and> allows_route sample_source ''b.demo.internal''"
proof -
  obtain data pointer_data where f: "fetch_heimdal_routes (\<lambda>_ _. Inr ''https://demoacct1.blob.core.windows.net'')
      (sample_store data pointer_data) (\<lambda>_. None) [] (sample_now + 1) (empty_profile\<lparr>pf_heimdal := Some sample_source\<rparr>)
      = Inr [''a.demo.internal'', ''b.demo.internal'']"
    using sample_fetch_routes by blast
  from fetched_routes_safe [OF f, of sample_source] show ?thesis by auto
qed

subsection \<open>Publishing the first metadata\<close>

datatype init_error = InitMetadata metadata_error | InitPrefix | InitInsideRun | InitIncomplete | InitSession | InitProxy
  | InitAzure azure_error | InitDirectory | InitRevisionFile | InitPointerFile

text \<open>
  What the command sees: the session variables, the session's profile when its controller answers,
  whether a profile's proxy answers, the staging directory, which files can be written there, and
  the Azure CLI in a given environment.
\<close>

record init_env =
  ie_environ :: "string list"
  ie_status :: "profile option"
  ie_proxy_ok :: "profile \<Rightarrow> bool"
  ie_endpoint :: endpoint_service
  ie_directory :: "string option"
  ie_write :: "string \<Rightarrow> bool"
  ie_cli :: "string list \<Rightarrow> string list \<Rightarrow> cli_run"
  ie_cancelled :: bool

definition inside_run :: "string list \<Rightarrow> bool" where
  "inside_run env \<longleftrightarrow> environment_value env run_marker = ''1''"

text \<open>The environment of the Azure CLI: inside a session, the one that uses the session's proxy.\<close>

definition init_environment :: "init_env \<Rightarrow> (init_error, string list) res" where
  "init_environment e =
     (let session = environment_value (ie_environ e) ''BIVROST_SESSION''; control = environment_value (ie_environ e) ''BIVROST_CONTROL_FILE'' in
      if session = [] \<and> control = [] then Inr (ie_environ e)
      else if inside_run (ie_environ e) then Inl InitInsideRun
      else if session = [] \<or> control = [] then Inl InitIncomplete
      else case ie_status e of None \<Rightarrow> Inl InitSession
        | Some c \<Rightarrow> if \<not> ie_proxy_ok e c then Inl InitProxy else Inr (proxy_environment (ie_environ e) (proxy_url c)))"

text \<open>The files staged, the calls of the Azure CLI, and the error.\<close>

definition run_heimdal_init ::
  "init_env \<Rightarrow> int \<Rightarrow> string \<Rightarrow> string list \<Rightarrow> int \<Rightarrow> string \<Rightarrow> terraform_backend
    \<Rightarrow> (string \<times> string) list \<times> string list list \<times> init_error err" where
  "run_heimdal_init e now environment hosts validity prefix target =
     (case create_metadata environment hosts now validity of Inl x \<Rightarrow> ([], [], Some (InitMetadata x))
      | Inr (data, pointer_data, revision) \<Rightarrow>
      if \<not> valid_prefix prefix then ([], [], Some InitPrefix)
      else case init_environment e of Inl x \<Rightarrow> ([], [], Some x) | Inr env \<Rightarrow>
      case ie_endpoint e (tb_account target) env of Inl x \<Rightarrow> ([], [], Some (InitAzure x)) | Inr endpoint \<Rightarrow>
      case ie_directory e of None \<Rightarrow> ([], [], Some InitDirectory) | Some directory \<Rightarrow>
      let rf = path_join [directory, ''revision.json'']; pf = path_join [directory, ''current.json''] in
      if \<not> ie_write e rf then ([], [], Some InitRevisionFile)
      else if \<not> ie_write e pf then ([(rf, data)], [], Some InitPointerFile)
      else case publish_initial_heimdal (ie_cli e env) (ie_cancelled e) (\<lambda>f. f = rf \<or> f = pf) target endpoint prefix revision rf pf of
        (calls, x) \<Rightarrow> ([(rf, data), (pf, pointer_data)], calls, map_option InitAzure x))"

text \<open>
  Nothing is uploaded before everything was checked and staged, and a successful run has uploaded
  exactly the revision under its digest and the pointer, each from a file that decodes.
\<close>

lemma heimdal_init_success:
  assumes "run_heimdal_init e now environment hosts validity prefix target = (files, calls, None)"
  shows "\<exists>env endpoint data pointer_data revision rf pf.
      create_metadata environment hosts now validity = Inr (data, pointer_data, revision)
    \<and> files = [(rf, data), (pf, pointer_data)]
    \<and> calls = [heimdal_upload_arguments target endpoint (revision_blob prefix revision) rf,
        heimdal_upload_arguments target endpoint (pointer_blob prefix) pf]
    \<and> list_all (\<lambda>args. cr_ok (ie_cli e env args)) calls"
proof -
  obtain data pointer_data revision where c: "create_metadata environment hosts now validity = Inr (data, pointer_data, revision)"
    using assms by (cases "create_metadata environment hosts now validity") (auto simp: run_heimdal_init_def)
  obtain env endpoint directory where x: "init_environment e = Inr env" "ie_endpoint e (tb_account target) env = Inr endpoint"
    "ie_directory e = Some directory"
    using assms c by (auto simp: run_heimdal_init_def split: if_splits sum.splits option.splits)
  let ?rf = "path_join [directory, ''revision.json'']" and ?pf = "path_join [directory, ''current.json'']"
  have p: "publish_initial_heimdal (ie_cli e env) (ie_cancelled e) (\<lambda>f. f = ?rf \<or> f = ?pf) target endpoint prefix revision ?rf ?pf
      = (calls, None)" "files = [(?rf, data), (?pf, pointer_data)]"
    using assms c x by (auto simp: run_heimdal_init_def Let_def split: if_splits prod.splits)
  have "calls = [heimdal_upload_arguments target endpoint (revision_blob prefix revision) ?rf,
      heimdal_upload_arguments target endpoint (pointer_blob prefix) ?pf] \<and> list_all (\<lambda>args. cr_ok (ie_cli e env args)) calls"
    using p(1) by (auto simp: publish_initial_heimdal_def upload_heimdal_blob_def Let_def revision_blob_def pointer_blob_def
      split: if_splits option.splits prod.splits)
  then show ?thesis using c p(2) by blast
qed

end
