(* ===== verification/Diagnostics.thy ===== *)
theory Diagnostics
  imports Json Paths
begin

section \<open>The diagnostics log\<close>

text \<open>
  \<open>internal/diagnostics/diagnostics.go\<close>: a private file in one of ten slots that takes at most 256 KiB
  of JSON lines. The log's mutex makes each write and the close atomic, so any number of goroutines act
  on it as a sequence of actions; each write's outcome is chosen by the file system. The text of a
  timestamp and the elapsed milliseconds come with the action.
\<close>

datatype event_name = EventCommand | EventConfiguration | EventAzureLogin | EventProxy | EventSSHCredentials
  | EventBastion | EventKubeconfig | EventSSHForward | EventShell | EventCleanup | EventProxyStopped
  | EventSSHStopped | EventBastionStopped | EventForwardReady | EventProxyRouteFailed | EventACRLogin
  | EventDoctor | EventACRConnect | EventPodmanBridge | EventPodmanSession | OtherEvent nat

fun diagnostic_name :: "event_name \<Rightarrow> string" where
  "diagnostic_name EventCommand = ''command''"
| "diagnostic_name EventConfiguration = ''configuration''"
| "diagnostic_name EventAzureLogin = ''azure_login''"
| "diagnostic_name EventProxy = ''proxy''"
| "diagnostic_name EventSSHCredentials = ''ssh_credentials''"
| "diagnostic_name EventBastion = ''bastion''"
| "diagnostic_name EventKubeconfig = ''kubeconfig''"
| "diagnostic_name EventSSHForward = ''ssh_forward''"
| "diagnostic_name EventShell = ''shell''"
| "diagnostic_name EventCleanup = ''cleanup''"
| "diagnostic_name EventProxyStopped = ''proxy_stopped''"
| "diagnostic_name EventSSHStopped = ''ssh_stopped''"
| "diagnostic_name EventBastionStopped = ''bastion_stopped''"
| "diagnostic_name EventForwardReady = ''forward_ready''"
| "diagnostic_name EventProxyRouteFailed = ''proxy_route_failed''"
| "diagnostic_name EventACRLogin = ''acr_login''"
| "diagnostic_name EventDoctor = ''doctor''"
| "diagnostic_name EventACRConnect = ''acr_connect''"
| "diagnostic_name EventPodmanSession = ''podman_session''"
| "diagnostic_name EventPodmanBridge = ''podman_bridge''"
| "diagnostic_name (OtherEvent _) = []"

definition diagnostic_max_bytes :: nat where "diagnostic_max_bytes = 256 * 1024"
definition diagnostic_max_files :: nat where "diagnostic_max_files = 10"

subsection \<open>The directory and the slots\<close>

datatype go_os = Windows | Darwin | OtherUnix

text \<open>The variables and system directories that decide the place; \<open>None\<close> is a failed lookup.\<close>

record diagnostic_env =
  de_goos :: go_os
  de_xdg_state_home :: string
  de_local_app_data :: string
  de_user_cache :: "string option"
  de_user_home :: "string option"

datatype diagnostic_error = StateHomeRelative | NoStateDirectory | CannotCreateDirectory | NotRealDirectory
  | DirectoryNotPrivate | CannotCreateFile | FileLimitReached | SizeLimitReached | CannotWriteFile | CannotCloseFile

definition diagnostic_directory :: "diagnostic_env \<Rightarrow> (diagnostic_error, string) res" where
  "diagnostic_directory env =
     (if de_xdg_state_home env \<noteq> [] then
        (if \<not> is_abs (de_xdg_state_home env) then Inl StateHomeRelative
         else Inr (path_join [de_xdg_state_home env, ''bivrost'', ''logs'']))
      else if de_goos env = Windows then
        (if is_abs (de_local_app_data env) then Inr (path_join [de_local_app_data env, ''bivrost'', ''logs''])
         else case de_user_cache env of None \<Rightarrow> Inl NoStateDirectory
         | Some root \<Rightarrow> Inr (path_join [root, ''bivrost'', ''logs'']))
      else case de_user_home env of None \<Rightarrow> Inl NoStateDirectory
      | Some root \<Rightarrow>
          if \<not> is_abs root then Inl NoStateDirectory
          else if de_goos env = Darwin then Inr (path_join [root, ''Library'', ''Logs'', ''bivrost''])
          else Inr (path_join [root, ''.local'', ''state'', ''bivrost'', ''logs'']))"

text \<open>
  What \<open>MkdirAll\<close> and \<open>Lstat\<close> say of a directory: made, inspected, a directory, a link, its permissions.
  The mask 63 is octal 077, the permissions of everybody but the owner.
\<close>

record dir_info =
  di_made :: bool
  di_inspected :: bool
  di_is_dir :: bool
  di_symlink :: bool
  di_perm :: "32 word"

unbundle bit_operations_syntax

definition prepare_diagnostic_directory :: "go_os \<Rightarrow> dir_info \<Rightarrow> diagnostic_error err" where
  "prepare_diagnostic_directory goos info =
     (if \<not> di_made info then Some CannotCreateDirectory
      else if \<not> di_inspected info \<or> \<not> di_is_dir info \<or> di_symlink info then Some NotRealDirectory
      else if goos \<noteq> Windows \<and> di_perm info AND 63 \<noteq> 0 then Some DirectoryNotPrivate
      else None)"

datatype slot_open = SlotOpened | SlotExists | SlotFailed

fun open_slot :: "(nat \<Rightarrow> slot_open) \<Rightarrow> nat list \<Rightarrow> (diagnostic_error, nat) res" where
  "open_slot try [] = Inl FileLimitReached"
| "open_slot try (slot # slots) = (case try slot of SlotOpened \<Rightarrow> Inr slot
     | SlotExists \<Rightarrow> open_slot try slots | SlotFailed \<Rightarrow> Inl CannotCreateFile)"

definition slot_path :: "string \<Rightarrow> nat \<Rightarrow> string" where
  "slot_path directory slot = path_join [directory, ''log-'' @ itoa (int slot) @ ''.jsonl'']"

subsection \<open>Writing\<close>

record diagnostic_log =
  dl_path :: string
  dl_open :: bool
  dl_data :: string
  dl_bytes :: nat
  dl_err :: "diagnostic_error err"

record diagnostic_record =
  dr_timestamp :: string
  dr_event :: string
  dr_phase :: string
  dr_outcome :: string
  dr_elapsed_ms :: "int option"

definition start_log :: "diagnostic_env \<Rightarrow> (string \<Rightarrow> dir_info) \<Rightarrow> (string \<Rightarrow> slot_open) \<Rightarrow> (diagnostic_error, diagnostic_log) res" where
  "start_log env inspect create = ebind (diagnostic_directory env) (\<lambda>directory.
     case prepare_diagnostic_directory (de_goos env) (inspect directory) of Some e \<Rightarrow> Inl e
     | None \<Rightarrow> ebind (open_slot (\<lambda>slot. create (slot_path directory slot)) [0..<diagnostic_max_files]) (\<lambda>slot.
         Inr \<lparr>dl_path = slot_path directory slot, dl_open = True, dl_data = [], dl_bytes = 0, dl_err = None\<rparr>))"

definition record_value :: "diagnostic_record \<Rightarrow> json" where
  "record_value r = JObj ([(''timestamp'', JStr (dr_timestamp r)), (''event'', JStr (dr_event r)), (''phase'', JStr (dr_phase r))]
     @ (if dr_outcome r = [] then [] else [(''outcome'', JStr (dr_outcome r))])
     @ (case dr_elapsed_ms r of None \<Rightarrow> [] | Some ms \<Rightarrow> [(''elapsed_ms'', JNum (itoa ms))]))"

definition record_line :: "diagnostic_record \<Rightarrow> string" where
  "record_line r = json_text (record_value r) @ [CHR 0x0A]"

text \<open>The file system's answer to a write: how many bytes it took, and whether it reported an error.\<close>

type_synonym write_answer = "string \<Rightarrow> nat \<times> bool"

definition log_write :: "write_answer \<Rightarrow> diagnostic_record \<Rightarrow> diagnostic_log \<Rightarrow> diagnostic_log" where
  "log_write answer r log =
     (let data = record_line r in
      if \<not> dl_open log \<or> dl_err log \<noteq> None then log
      else if dl_bytes log + length data > diagnostic_max_bytes then log\<lparr>dl_err := Some SizeLimitReached\<rparr>
      else let (n, failed) = answer data;
               log = log\<lparr>dl_data := dl_data log @ take n data, dl_bytes := dl_bytes log + n\<rparr>
           in if failed \<or> n \<noteq> length data then log\<lparr>dl_err := Some CannotWriteFile\<rparr> else log)"

definition log_close :: "bool \<Rightarrow> diagnostic_log \<Rightarrow> diagnostic_log \<times> diagnostic_error err" where
  "log_close close_ok log =
     (let log = (if dl_open log
          then (if \<not> close_ok \<and> dl_err log = None then log\<lparr>dl_err := Some CannotCloseFile\<rparr> else log)\<lparr>dl_open := False\<rparr>
          else log)
      in (log, dl_err log))"

subsection \<open>Events and steps\<close>

text \<open>What \<open>errors.Is\<close> finds in the chain of the error of a step.\<close>

record step_error =
  se_deadline :: bool
  se_cancelled :: bool
  se_interaction :: bool

definition step_outcome :: "step_error err \<Rightarrow> string" where
  "step_outcome err = (case err of None \<Rightarrow> ''success''
     | Some e \<Rightarrow> if se_deadline e then ''timeout'' else if se_cancelled e then ''cancelled''
         else if se_interaction e then ''interaction_required'' else ''failure'')"

text \<open>
  The actions of the program on one context's log: \<open>Event\<close>, \<open>Step\<close>, the function that \<open>Step\<close> returned,
  and \<open>Close\<close>. A step is known by its number; its function acts once. \<open>None\<close> is a step without a name.
\<close>

datatype diag_action = EmitEvent event_name string write_answer | StartStep event_name string write_answer
  | FinishStep nat "step_error err" string int write_answer | CloseLog bool

record diagnostics =
  ds_log :: diagnostic_log
  ds_steps :: "(string \<times> bool) list"

definition event_record :: "string \<Rightarrow> string \<Rightarrow> string \<Rightarrow> diagnostic_record" where
  "event_record timestamp name phase =
     \<lparr>dr_timestamp = timestamp, dr_event = name, dr_phase = phase, dr_outcome = [], dr_elapsed_ms = None\<rparr>"

definition emit_event :: "event_name \<Rightarrow> string \<Rightarrow> write_answer \<Rightarrow> diagnostics \<Rightarrow> diagnostics" where
  "emit_event event timestamp answer d = (let name = diagnostic_name event in
     if name = [] then d else d\<lparr>ds_log := log_write answer (event_record timestamp name ''event'') (ds_log d)\<rparr>)"

definition start_step :: "event_name \<Rightarrow> string \<Rightarrow> write_answer \<Rightarrow> diagnostics \<Rightarrow> diagnostics" where
  "start_step event timestamp answer d = (let name = diagnostic_name event in
     if name = [] then d\<lparr>ds_steps := ds_steps d @ [([], True)]\<rparr>
     else d\<lparr>ds_log := log_write answer (event_record timestamp name ''start'') (ds_log d),
            ds_steps := ds_steps d @ [(name, False)]\<rparr>)"

definition finish_step :: "nat \<Rightarrow> step_error err \<Rightarrow> string \<Rightarrow> int \<Rightarrow> write_answer \<Rightarrow> diagnostics \<Rightarrow> diagnostics" where
  "finish_step i err timestamp elapsed answer d =
     (if i \<ge> length (ds_steps d) then d
      else let (name, finished) = ds_steps d ! i in
        if finished then d
        else d\<lparr>ds_steps := (ds_steps d)[i := (name, True)],
               ds_log := log_write answer \<lparr>dr_timestamp = timestamp, dr_event = name, dr_phase = ''end'',
                 dr_outcome = step_outcome err, dr_elapsed_ms = Some elapsed\<rparr> (ds_log d)\<rparr>)"

fun diag_act :: "diag_action \<Rightarrow> diagnostics \<Rightarrow> diagnostics" where
  "diag_act (EmitEvent event timestamp answer) d = emit_event event timestamp answer d"
| "diag_act (StartStep event timestamp answer) d = start_step event timestamp answer d"
| "diag_act (FinishStep i err timestamp elapsed answer) d = finish_step i err timestamp elapsed answer d"
| "diag_act (CloseLog close_ok) d = d\<lparr>ds_log := fst (log_close close_ok (ds_log d))\<rparr>"

definition diag_acts :: "diag_action list \<Rightarrow> diagnostics \<Rightarrow> diagnostics" where
  "diag_acts as d = fold diag_act as d"

subsection \<open>What the actions issue\<close>

text \<open>
  The specification: the records the program asks for, whatever becomes of the file. An action says
  which records it issues, depending only on the steps that were started and not yet finished.
\<close>

fun issue :: "diag_action \<Rightarrow> (string \<times> bool) list \<Rightarrow> diagnostic_record list \<times> (string \<times> bool) list" where
  "issue (EmitEvent event timestamp _) steps =
     (if diagnostic_name event = [] then [] else [event_record timestamp (diagnostic_name event) ''event''], steps)"
| "issue (StartStep event timestamp _) steps =
     (if diagnostic_name event = [] then ([], steps @ [([], True)])
      else ([event_record timestamp (diagnostic_name event) ''start''], steps @ [(diagnostic_name event, False)]))"
| "issue (FinishStep i err timestamp elapsed _) steps =
     (if i < length steps \<and> \<not> snd (steps ! i)
      then ([\<lparr>dr_timestamp = timestamp, dr_event = fst (steps ! i), dr_phase = ''end'', dr_outcome = step_outcome err,
              dr_elapsed_ms = Some elapsed\<rparr>], steps[i := (fst (steps ! i), True)])
      else ([], steps))"
| "issue (CloseLog _) steps = ([], steps)"

fun issued :: "diag_action list \<Rightarrow> (string \<times> bool) list \<Rightarrow> diagnostic_record list" where
  "issued [] steps = []"
| "issued (a # as) steps = fst (issue a steps) @ issued as (snd (issue a steps))"

text \<open>A write never takes more bytes than it was given (the contract of \<open>io.Writer\<close>).\<close>

fun honest :: "diag_action \<Rightarrow> bool" where
  "honest (EmitEvent _ _ answer) = (\<forall>data. fst (answer data) \<le> length data)"
| "honest (StartStep _ _ answer) = (\<forall>data. fst (answer data) \<le> length data)"
| "honest (FinishStep _ _ _ _ answer) = (\<forall>data. fst (answer data) \<le> length data)"
| "honest (CloseLog _) = True"

text \<open>The file holds whole lines of the first records, and part of one more only after a failed write.\<close>

definition log_inv :: "diagnostic_record list \<Rightarrow> diagnostic_log \<Rightarrow> bool" where
  "log_inv rs log \<longleftrightarrow> (\<exists>k partial. k \<le> length rs \<and> dl_data log = concat (map record_line (take k rs)) @ partial
     \<and> (partial = [] \<or> dl_err log = Some CannotWriteFile) \<and> (dl_open log \<and> dl_err log = None \<longrightarrow> k = length rs))
     \<and> dl_bytes log = length (dl_data log) \<and> dl_bytes log \<le> diagnostic_max_bytes"

lemma log_inv_more: "log_inv rs log \<Longrightarrow> \<not> dl_open log \<or> dl_err log \<noteq> None \<Longrightarrow> log_inv (rs @ later) log"
proof -
  assume inv: "log_inv rs log" and stop: "\<not> dl_open log \<or> dl_err log \<noteq> None"
  then obtain k partial where k: "k \<le> length rs" "dl_data log = concat (map record_line (take k rs)) @ partial"
    "partial = [] \<or> dl_err log = Some CannotWriteFile" by (auto simp: log_inv_def)
  have "take k (rs @ later) = take k rs" using k(1) by simp
  then show ?thesis using inv stop k unfolding log_inv_def
    by (intro conjI exI [of _ k] exI [of _ partial]) auto
qed

lemma log_write_inv:
  assumes "log_inv rs log" "fst (answer (record_line r)) \<le> length (record_line r)"
  shows "log_inv (rs @ [r]) (log_write answer r log)"
proof (cases "\<not> dl_open log \<or> dl_err log \<noteq> None")
  case True
  then show ?thesis using log_inv_more [OF assms(1), of "[r]"] by (simp add: log_write_def)
next
  case False
  then have d: "dl_data log = concat (map record_line rs)" "dl_bytes log = length (dl_data log)"
    "dl_bytes log \<le> diagnostic_max_bytes" using assms(1) by (auto simp: log_inv_def)
  show ?thesis
  proof (cases "dl_bytes log + length (record_line r) > diagnostic_max_bytes")
    case True
    have "log_inv rs (log\<lparr>dl_err := Some SizeLimitReached\<rparr>)" using d by (auto simp: log_inv_def intro!: exI [of _ "length rs"])
    from log_inv_more [OF this, of "[r]"] show ?thesis using True False by (simp add: log_write_def)
  next
    case fits: False
    obtain n failed where a: "answer (record_line r) = (n, failed)" by (cases "answer (record_line r)")
    show ?thesis
    proof (cases "failed \<or> n \<noteq> length (record_line r)")
      case True
      then show ?thesis using d a assms(2) False fits
        by (auto simp: log_inv_def log_write_def Let_def intro!: exI [of _ "length rs"] exI [of _ "take n (record_line r)"])
    next
      case whole: False
      then show ?thesis using d a assms(2) False fits
        by (auto simp: log_inv_def log_write_def Let_def intro!: exI [of _ "Suc (length rs)"])
    qed
  qed
qed

lemma log_close_inv: "log_inv rs log \<Longrightarrow> log_inv rs (fst (log_close close_ok log))"
  unfolding log_inv_def log_close_def Let_def by auto

lemma diag_act_inv:
  assumes "log_inv rs (ds_log d)" "honest a"
  shows "log_inv (rs @ fst (issue a (ds_steps d))) (ds_log (diag_act a d))
    \<and> ds_steps (diag_act a d) = snd (issue a (ds_steps d))"
  using assms
  by (cases a) (auto simp: emit_event_def start_step_def finish_step_def Let_def log_write_inv log_close_inv
      split: prod.splits)

lemma diag_acts_inv:
  assumes "log_inv rs (ds_log d)" "list_all honest as"
  shows "log_inv (rs @ issued as (ds_steps d)) (ds_log (diag_acts as d))"
  using assms
proof (induction as arbitrary: rs d)
  case Nil
  then show ?case by (simp add: diag_acts_def)
next
  case (Cons a as)
  from Cons.prems diag_act_inv [OF Cons.prems(1), of a]
  have "log_inv (rs @ fst (issue a (ds_steps d))) (ds_log (diag_act a d))"
    "ds_steps (diag_act a d) = snd (issue a (ds_steps d))" by simp_all
  then show ?case using Cons.IH [of "rs @ fst (issue a (ds_steps d))" "diag_act a d"] Cons.prems(2)
    by (simp add: diag_acts_def)
qed

lemma started_log_inv: "start_log env inspect create = Inr log \<Longrightarrow> log_inv [] log \<and> dl_open log"
  by (auto simp: start_log_def ebind_Inr_iff log_inv_def split: option.splits)

subsection \<open>What a record can say\<close>

definition allowlisted :: "diagnostic_record \<Rightarrow> bool" where
  "allowlisted r \<longleftrightarrow> (\<exists>event. dr_event r = diagnostic_name event \<and> dr_event r \<noteq> [])
     \<and> dr_phase r \<in> {''event'', ''start'', ''end''}
     \<and> dr_outcome r \<in> {[], ''success'', ''timeout'', ''cancelled'', ''interaction_required'', ''failure''}"

definition named_step :: "string \<times> bool \<Rightarrow> bool" where
  "named_step p \<longleftrightarrow> snd p \<or> (\<exists>event. fst p = diagnostic_name event \<and> fst p \<noteq> [])"

definition named_steps :: "(string \<times> bool) list \<Rightarrow> bool" where
  "named_steps steps = list_all named_step steps"

lemma step_outcome_allowed:
  "step_outcome err \<in> {[], ''success'', ''timeout'', ''cancelled'', ''interaction_required'', ''failure''}"
  by (auto simp: step_outcome_def split: option.splits)

lemma issue_allowlisted:
  assumes "named_steps steps"
  shows "(\<forall>r \<in> set (fst (issue a steps)). allowlisted r) \<and> named_steps (snd (issue a steps))"
proof (cases a)
  case (FinishStep i err timestamp elapsed answer)
  show ?thesis
  proof (cases "i < length steps \<and> \<not> snd (steps ! i)")
    case True
    then have "named_step (steps ! i)" using assms by (simp add: named_steps_def list_all_length)
    then have "\<exists>event. fst (steps ! i) = diagnostic_name event \<and> fst (steps ! i) \<noteq> []"
      using True by (simp add: named_step_def)
    moreover have "named_step (fst (steps ! i), True)" by (simp add: named_step_def)
    then have "named_steps (steps[i := (fst (steps ! i), True)])"
      using assms set_update_subset_insert [of steps i "(fst (steps ! i), True)"] unfolding named_steps_def list_all_iff by blast
    ultimately show ?thesis using True step_outcome_allowed [of err]
      by (simp add: FinishStep allowlisted_def)
  next
    case False
    then show ?thesis using assms by (auto simp: FinishStep)
  qed
qed (use assms in \<open>auto simp: named_steps_def named_step_def allowlisted_def event_record_def\<close>)

lemma issued_allowlisted: "named_steps steps \<Longrightarrow> r \<in> set (issued as steps) \<Longrightarrow> allowlisted r"
proof (induction as arbitrary: steps)
  case Nil
  then show ?case by simp
next
  case (Cons a as)
  then show ?case using issue_allowlisted [OF Cons.prems(1), of a] by auto
qed

lemma encode_rune_bytes:
  assumes "valid_rune r" "c \<in> set (encode_rune r)" "0x80 \<le> r"
  shows "0x80 \<le> byte c"
proof -
  have big: "0x80 \<le> byte (char_of n)" if "0x80 \<le> n" "n < 256" for n :: nat
    using that by (simp add: byte_char_of)
  have q: "r < 2048 \<Longrightarrow> 192 + r div 64 < 256" "r < 65536 \<Longrightarrow> 224 + r div 4096 < 256" "240 + r div 262144 < 256"
    "128 + r mod 64 < 256" "128 + r div 64 mod 64 < 256" "128 + r div 4096 mod 64 < 256"
    using assms(1) by (simp_all add: div_less_iff_less_mult valid_rune_def) linarith+
  show ?thesis using assms q by (auto simp: encode_rune_def split: if_splits intro!: big)
qed

lemma rune_text_printable:
  assumes "valid_rune r" "c \<in> set (rune_text r)"
  shows "c \<noteq> CHR 0x0A"
proof -
  have hex: "hex_digit n \<noteq> CHR 0x0A" if "n < 16" for n
    using that by (auto simp: hex_digit_def dest!: arg_cong [of _ _ byte] simp: byte_def)
  have "c \<noteq> CHR 0x0A" if "c \<in> set (u_escape n)" for n
    using that hex [of "n div 4096 mod 16"] hex [of "n div 256 mod 16"] hex [of "n div 16 mod 16"] hex [of "n mod 16"]
    by (auto simp: u_escape_def)
  moreover have "c \<noteq> CHR 0x0A" if "c \<in> set (encode_rune r)" "0x20 \<le> r"
  proof (cases "r < 0x80")
    case True
    then have "byte c = r" using that by (simp add: encode_rune_def byte_char_of)
    then show ?thesis using that(2) by (auto simp: byte_def)
  next
    case False
    then have "0x80 \<le> byte c" using encode_rune_bytes [OF assms(1) that(1)] by simp
    then show ?thesis by (auto simp: byte_def)
  qed
  moreover have "c \<noteq> CHR 0x0A" if "map_of short_escapes r = Some d" "c \<in> {CHR 0x5C, d}" for d
    using that by (auto simp: short_escapes_def split: if_splits)
  ultimately show ?thesis using assms(2) by (auto simp: rune_text_def split: option.splits if_splits)
qed

lemma string_text_one_line: "CHR 0x0A \<notin> set (string_text s)"
  using runes_valid [of s] rune_text_printable by (fastforce simp: string_text_def list_all_iff)

lemma nat_text_one_line: "CHR 0x0A \<notin> set (nat_text n)"
  using nat_text_digits [of n] by (auto simp: list_all_iff is_digit_def)

lemma record_text_one_line: "CHR 0x0A \<notin> set (json_text (record_value r))"
proof -
  have j: "CHR 0x0A \<notin> set (join '','' ts)" if "\<forall>t \<in> set ts. CHR 0x0A \<notin> set t" for ts
    using that by (induction ts rule: induct_list012) auto
  have i: "CHR 0x0A \<notin> set (itoa n)" for n using nat_text_one_line by (simp add: itoa_def)
  show ?thesis
    unfolding record_value_def json_text.simps
    by (auto simp: string_text_one_line i intro!: j [THEN notE] split: option.splits if_splits)
qed

subsection \<open>The log file\<close>

text \<open>
  Whatever the program logs, in whatever order its goroutines do, and however writes and the close
  end, the file holds at most 256 KiB: whole lines of the first records that were issued, in their
  order, with a part of one more only when a write failed. While the log is open and reports no error
  nothing is missing. Every record is one line whose event, phase and outcome come from fixed lists, so
  no message, name or argument can reach the file.
\<close>

theorem diagnostics_bounded_lines:
  assumes "start_log env inspect create = Inr log" "list_all honest as"
  shows "\<exists>k partial. dl_data (ds_log (diag_acts as \<lparr>ds_log = log, ds_steps = []\<rparr>))
        = concat (map record_line (take k (issued as []))) @ partial
    \<and> (partial = [] \<or> dl_err (ds_log (diag_acts as \<lparr>ds_log = log, ds_steps = []\<rparr>)) = Some CannotWriteFile)
    \<and> length (dl_data (ds_log (diag_acts as \<lparr>ds_log = log, ds_steps = []\<rparr>))) \<le> diagnostic_max_bytes
    \<and> (dl_open (ds_log (diag_acts as \<lparr>ds_log = log, ds_steps = []\<rparr>))
        \<and> dl_err (ds_log (diag_acts as \<lparr>ds_log = log, ds_steps = []\<rparr>)) = None \<longrightarrow> k = length (issued as []))
    \<and> (\<forall>r \<in> set (issued as []). allowlisted r \<and> CHR 0x0A \<notin> set (json_text (record_value r)))"
proof -
  have "log_inv [] (ds_log \<lparr>ds_log = log, ds_steps = []\<rparr>)" using started_log_inv [OF assms(1)] by simp
  from diag_acts_inv [OF this assms(2)]
  have inv: "log_inv (issued as []) (ds_log (diag_acts as \<lparr>ds_log = log, ds_steps = []\<rparr>))" by simp
  have "named_steps []" by (simp add: named_steps_def)
  then have "\<forall>r \<in> set (issued as []). allowlisted r \<and> CHR 0x0A \<notin> set (json_text (record_value r))"
    using issued_allowlisted record_text_one_line by blast
  then show ?thesis using inv unfolding log_inv_def by metis
qed

definition sample_diagnostic_env :: diagnostic_env where
  "sample_diagnostic_env = \<lparr>de_goos = OtherUnix, de_xdg_state_home = ''/state'', de_local_app_data = [],
     de_user_cache = None, de_user_home = None\<rparr>"

definition sample_log :: diagnostic_log where
  "sample_log = \<lparr>dl_path = slot_path (path_join [''/state'', ''bivrost'', ''logs'']) 0, dl_open = True, dl_data = [],
     dl_bytes = 0, dl_err = None\<rparr>"

lemma sample_start_log:
  "start_log sample_diagnostic_env (\<lambda>_. \<lparr>di_made = True, di_inspected = True, di_is_dir = True, di_symlink = False, di_perm = 448\<rparr>)
     (\<lambda>_. SlotOpened) = Inr sample_log"
  by (simp add: start_log_def sample_diagnostic_env_def diagnostic_directory_def is_abs_def prepare_diagnostic_directory_def
      sample_log_def diagnostic_max_files_def upt_rec)

definition sample_actions :: "diag_action list" where
  "sample_actions = [StartStep EventCommand ''t'' (\<lambda>data. (length data, False)),
     FinishStep 0 (Some \<lparr>se_deadline = True, se_cancelled = False, se_interaction = False\<rparr>) ''u'' 7 (\<lambda>data. (length data, False)),
     FinishStep 0 None ''v'' 8 (\<lambda>data. (length data, False))]"

lemma diagnostics_bounded_lines_witness:
  "\<exists>data. dl_data (ds_log (diag_acts sample_actions \<lparr>ds_log = sample_log, ds_steps = []\<rparr>)) = data
     \<and> length data \<le> diagnostic_max_bytes \<and> length (issued sample_actions []) = 2
     \<and> map dr_outcome (issued sample_actions []) = [[], ''timeout'']"
proof -
  have "list_all honest sample_actions" by (simp add: sample_actions_def)
  from diagnostics_bounded_lines [OF sample_start_log this]
  show ?thesis by (auto simp: sample_actions_def event_record_def step_outcome_def)
qed

end
