(* ===== verification/Json_Object.thy ===== *)
theory Json_Object
  imports Json_Struct "HOL-Library.AList" "HOL-Library.List_Lexorder"
begin

section \<open>JSON objects as Go maps\<close>

text \<open>
  \<open>json.Unmarshal\<close> into \<open>map[string]json.RawMessage\<close> and the maps it makes: an association list with
  distinct keys in which a later member replaces an earlier one with the same name. A missing key is
  the nil \<open>RawMessage\<close>, which is no JSON text, and differs from the value \<open>null\<close>, which decodes into a nil
  map or leaves a string empty. \<open>json.Marshal\<close> writes the members in the order of their names. The
  members keep the values they were read with, so a document is rewritten as a value; the text of the
  unchanged parts is the text that was read, with insignificant space removed.
\<close>

type_synonym object = "(string \<times> json) list"

definition as_object :: "(string \<times> json) list \<Rightarrow> object" where
  "as_object ms = foldl (\<lambda>m (k, v). AList.update k v m) [] ms"

definition marshal_object :: "object \<Rightarrow> json" where
  "marshal_object m = JObj (sort_key fst m)"

text \<open>The results of decoding into a map and into a string; the outer \<open>None\<close> is an error, the inner one nil.\<close>

definition raw_object :: "json option \<Rightarrow> object option option" where
  "raw_object raw = (case raw of Some (JObj ms) \<Rightarrow> Some (Some (as_object ms)) | Some JNull \<Rightarrow> Some None | _ \<Rightarrow> None)"

definition raw_string :: "json option \<Rightarrow> string option" where
  "raw_string raw = (case raw of Some (JStr s) \<Rightarrow> Some s | Some JNull \<Rightarrow> Some [] | _ \<Rightarrow> None)"

text \<open>A decoded \<open>bool\<close> that was false before.\<close>

definition raw_bool :: "json option \<Rightarrow> bool option" where
  "raw_bool raw = (case raw of Some (JBool b) \<Rightarrow> Some b | Some JNull \<Rightarrow> Some False | _ \<Rightarrow> None)"

lemma raw_simps [simp]:
  "raw_string (Some (JStr s)) = Some s" "raw_string None = None" "raw_string (Some JNull) = Some []"
  "raw_object (Some (JObj ms)) = Some (Some (as_object ms))" "raw_object None = None"
  "raw_object (Some JNull) = Some None"
  "raw_bool (Some (JBool b)) = Some b" "raw_bool None = None" "raw_bool (Some JNull) = Some False"
  by (simp_all add: raw_string_def raw_object_def raw_bool_def)

lemma raw_string_nonempty: "raw_string v = Some s \<Longrightarrow> s \<noteq> [] \<Longrightarrow> v = Some (JStr s)"
  by (auto simp: raw_string_def split: option.splits json.splits)

lemma distinct_as_object_from: "distinct (map fst m) \<Longrightarrow> distinct (map fst (foldl (\<lambda>m (k, v). AList.update k v m) m ms))"
  by (induction ms arbitrary: m) (auto simp: distinct_update)

lemma distinct_as_object [simp]: "distinct (map fst (as_object ms))"
  by (simp add: as_object_def distinct_as_object_from)

lemma as_object_from: "map_of (foldl (\<lambda>m (k, v). AList.update k v m) m ms) = map_of m ++ map_of (rev ms)"
proof (induction ms arbitrary: m)
  case Nil
  then show ?case by simp
next
  case (Cons p ms)
  obtain k v where p: "p = (k, v)" by (cases p)
  show ?case by (auto simp: p Cons.IH update_conv' map_add_def fun_eq_iff split: option.splits)
qed

text \<open>The last member with a name counts.\<close>

lemma map_of_as_object: "map_of (as_object ms) = map_of (rev ms)"
  by (simp add: as_object_def as_object_from)

lemma map_of_rev_distinct: "distinct (map fst m) \<Longrightarrow> map_of (rev m) = map_of m"
  by (intro map_of_inject_set [THEN iffD2]) (auto simp: rev_map [symmetric])

lemma distinct_sort_key: "distinct (map fst m) \<Longrightarrow> distinct (map fst (sort_key fst m))"
  by (simp add: distinct_map distinct_sort)

lemma map_of_sort_key: "distinct (map fst m) \<Longrightarrow> map_of (sort_key fst m) = map_of m"
  by (intro map_of_inject_set [THEN iffD2]) (simp_all add: distinct_sort_key)

text \<open>What was marshalled is what is unmarshalled.\<close>

lemma raw_object_marshal:
  assumes "distinct (map fst m)"
  shows "\<exists>m'. raw_object (Some (marshal_object m)) = Some (Some m') \<and> map_of m' = map_of m"
  using assms by (simp add: marshal_object_def map_of_as_object map_of_rev_distinct map_of_sort_key distinct_sort_key)

lemma raw_object_distinct: "raw_object raw = Some (Some m) \<Longrightarrow> distinct (map fst m)"
  by (auto simp: raw_object_def split: option.splits json.splits)

lemmas object_map = update_conv' delete_conv' distinct_update distinct_delete

subsection \<open>The length of a text\<close>

lemma length_runes: "length (runes s) \<le> length s"
proof (induction s rule: runes.induct)
  case (1 s)
  then show ?case using decode_rune_width [of s]
    by (cases s; cases "decode_rune s") (auto simp: runes.simps)
qed

lemma length_string_text: "length (string_text s) \<le> 6 * length s + 2"
proof -
  have "length (concat (map rune_text rs)) \<le> 6 * length rs" for rs
    using rune_text_length by (induction rs) (auto intro: add_mono [THEN order_trans])
  from this [of "runes s"] show ?thesis using length_runes [of s] by (simp add: string_text_def)
qed

text \<open>A bound that is easy to compute.\<close>

fun text_bound :: "json \<Rightarrow> nat" where
  "text_bound JNull = 4"
| "text_bound (JBool b) = 5"
| "text_bound (JNum t) = length t"
| "text_bound (JStr s) = 6 * length s + 2"
| "text_bound (JArr vs) = 2 + sum_list (map (\<lambda>v. Suc (text_bound v)) vs)"
| "text_bound (JObj ms) = 2 + sum_list (map (\<lambda>(k, v). 6 * length k + 4 + text_bound v) ms)"

lemma length_join_le: "length (join '','' ts) \<le> sum_list (map (\<lambda>t. Suc (length t)) ts)"
  by (induction ts rule: induct_list012) auto

lemma length_json_text: "length (json_text v) \<le> text_bound v"
proof (induction v)
  case (JStr s)
  then show ?case using length_string_text [of s] by simp
next
  case (JArr vs)
  have "sum_list (map (\<lambda>t. Suc (length t)) (map json_text vs)) \<le> sum_list (map (\<lambda>v. Suc (text_bound v)) vs)"
    using JArr by (auto intro!: sum_list_mono)
  then show ?case using length_join_le [of "map json_text vs"] by simp
next
  case (JObj ms)
  let ?t = "\<lambda>(k, v). string_text k @ '':'' @ json_text v"
  have "sum_list (map (\<lambda>t. Suc (length t)) (map ?t ms)) \<le> sum_list (map (\<lambda>(k, v). 6 * length k + 4 + text_bound v) ms)"
    unfolding map_map
  proof (rule sum_list_mono)
    fix m assume m: "m \<in> set ms"
    obtain k v where kv: "m = (k, v)" by (cases m)
    have "length (json_text v) \<le> text_bound v" using JObj m kv by force
    then show "((\<lambda>t. Suc (length t)) \<circ> ?t) m \<le> (\<lambda>(k, v). 6 * length k + 4 + text_bound v) m"
      using length_string_text [of k] by (simp add: kv)
  qed
  then show ?case using length_join_le [of "map ?t ms"] by simp
qed simp_all

end
