(* ===== verification/Url_Parse.thy ===== *)
theory Url_Parse
  imports Urls
begin

section \<open>Parsing URL texts\<close>

text \<open>
  \<open>net/url.Parse\<close>, for the addresses the program reads from kubeconfig files, from its environment
  and from other programs. \<open>None\<close> is an error: no caller looks at which one. A bracketed host must be
  an IPv6 address, and an HTTP host has at most one colon, as in the Go release the module asks for.
  The user information keeps its decoded name and password.
\<close>

datatype url_mode = EncodeHost | EncodeZone | EncodeOther

text \<open>The bytes below 128 that may stand unescaped in a host.\<close>

definition host_byte :: "char \<Rightarrow> bool" where
  "host_byte c \<longleftrightarrow> ascii_alpha_numeric c \<or> c \<in> set ''!$&()*+,;=:[]<>-_.~'' \<or> c \<in> {CHR 0x22, CHR 0x27}"

fun unescape :: "url_mode \<Rightarrow> string \<Rightarrow> string option" where
  "unescape mode [] = Some []"
| "unescape mode (c # s) =
     (if c = CHR ''%'' then (case s of
        a # b # r \<Rightarrow> (case (hex_val a, hex_val b) of
          (Some x, Some y) \<Rightarrow>
            if mode = EncodeHost \<and> x < 8 \<and> \<not> (a = CHR ''2'' \<and> b = CHR ''5'') then None
            else if mode = EncodeZone \<and> \<not> (a = CHR ''2'' \<and> b = CHR ''5'') \<and> char_of (16 * x + y) \<noteq> CHR '' ''
              \<and> \<not> host_byte (char_of (16 * x + y)) then None
            else map_option ((#) (char_of (16 * x + y))) (unescape mode r)
        | _ \<Rightarrow> None)
      | _ \<Rightarrow> None)
      else if mode \<noteq> EncodeOther \<and> is_ascii c \<and> \<not> host_byte c then None
      else map_option ((#) c) (unescape mode s))"

text \<open>The scheme and the rest; \<open>None\<close> when the text starts with a colon.\<close>

fun get_scheme_from :: "string \<Rightarrow> string \<Rightarrow> (string \<times> string) option" where
  "get_scheme_from seen [] = Some ([], seen)"
| "get_scheme_from seen (c # s) =
     (if is_lower c \<or> is_upper c then get_scheme_from (seen @ [c]) s
      else if is_digit c \<or> c \<in> set ''+-.'' then if seen = [] then Some ([], c # s) else get_scheme_from (seen @ [c]) s
      else if c = CHR '':'' then if seen = [] then None else Some (seen, s)
      else Some ([], seen @ c # s))"

definition get_scheme :: "string \<Rightarrow> (string \<times> string) option" where
  "get_scheme s = get_scheme_from [] s"

definition user_info_byte :: "char \<Rightarrow> bool" where
  "user_info_byte c \<longleftrightarrow> ascii_alpha_numeric c \<or> c \<in> set ''-._:~!$&()*+,;=%@'' \<or> c = CHR 0x27"

definition find_zone :: "string \<Rightarrow> (string \<times> string) option" where
  "find_zone s = map_option (\<lambda>i. (take i s, drop i s)) (find (\<lambda>i. has_prefix (drop i s) ''%25'') [0..<length s])"

text \<open>The IPv6 literal between the brackets and the port after them.\<close>

definition parse_bracketed :: "string \<Rightarrow> string \<Rightarrow> string option" where
  "parse_bracketed inside colon_port =
     (if \<not> valid_optional_port colon_port then None
      else case find_zone inside of
        None \<Rightarrow> (case unescape EncodeHost inside of None \<Rightarrow> None
          | Some h \<Rightarrow> if parse_ipv6 h = None then None else Some (CHR 0x5B # h @ CHR 0x5D # colon_port))
      | Some (a, z) \<Rightarrow> (case (unescape EncodeHost a, unescape EncodeZone z) of
          (Some h, Some zone) \<Rightarrow> if parse_ipv6 h = None \<or> length zone \<le> 1 then None
             else Some (CHR 0x5B # h @ zone @ CHR 0x5D # colon_port)
        | _ \<Rightarrow> None))"

definition parse_host :: "string \<Rightarrow> string \<Rightarrow> string option" where
  "parse_host scheme host =
     (case cut_last CHR 0x5B host of
        Some (lead, tail) \<Rightarrow> (case cut_last CHR 0x5D tail of None \<Rightarrow> None
          | Some (inside, colon_port) \<Rightarrow> if lead \<noteq> [] then None else parse_bracketed inside colon_port)
      | None \<Rightarrow> (case cut_last CHR '':'' host of
          None \<Rightarrow> unescape EncodeHost host
        | Some (h, p) \<Rightarrow>
            if (CHR '':'' \<in> set h \<and> (scheme = ''http'' \<or> scheme = ''https'')) \<or> \<not> valid_optional_port (CHR '':'' # p) then None
            else unescape EncodeHost host))"

definition parse_user :: "string \<Rightarrow> (string \<times> string option) option" where
  "parse_user info = (if \<not> list_all user_info_byte info then None
     else case cut CHR '':'' info of (name, password, found) \<Rightarrow>
       (case (unescape EncodeOther name, unescape EncodeOther password) of
          (Some n, Some p) \<Rightarrow> Some (n, if found then Some p else None)
        | _ \<Rightarrow> None))"

definition parse_authority :: "string \<Rightarrow> string \<Rightarrow> ((string \<times> string option) option \<times> string) option" where
  "parse_authority scheme authority = (case cut_last CHR ''@'' authority of
     None \<Rightarrow> map_option (Pair None) (parse_host scheme authority)
   | Some (info, host) \<Rightarrow> (case (parse_host scheme host, parse_user info) of
       (Some h, Some u) \<Rightarrow> Some (Some u, h) | _ \<Rightarrow> None))"

definition empty_url :: url where
  "empty_url = \<lparr>u_scheme = [], u_opaque = [], u_user = None, u_host = [], u_path = [], u_force_query = False,
     u_raw_query = [], u_fragment = []\<rparr>"

definition parse_rest :: "url \<Rightarrow> string \<Rightarrow> url option" where
  "parse_rest u rest =
     (if \<not> has_prefix rest ''/'' \<and> u_scheme u \<noteq> [] then Some (u\<lparr>u_opaque := rest\<rparr>)
      else if \<not> has_prefix rest ''/'' \<and> CHR '':'' \<in> set (fst (cut CHR ''/'' rest)) then None
      else if (u_scheme u \<noteq> [] \<or> \<not> has_prefix rest ''///'') \<and> has_prefix rest ''//'' then
        (let (authority, path, slash) = cut CHR ''/'' (drop 2 rest);
           path = (if slash then CHR ''/'' # path else [])
         in case (parse_authority (u_scheme u) authority, unescape EncodeOther path) of
              (Some (user, host), Some p) \<Rightarrow> Some (u\<lparr>u_user := user, u_host := host, u_path := p\<rparr>)
            | _ \<Rightarrow> None)
      else map_option (\<lambda>p. u\<lparr>u_path := p\<rparr>) (unescape EncodeOther rest))"

definition parse_without_fragment :: "string \<Rightarrow> url option" where
  "parse_without_fragment raw =
     (if \<not> list_all (\<lambda>c. CHR 0x20 \<le> c \<and> c \<noteq> CHR 0x7F) raw then None
      else if raw = ''*'' then Some (empty_url\<lparr>u_path := ''*''\<rparr>)
      else case get_scheme raw of None \<Rightarrow> None
      | Some (scheme, rest) \<Rightarrow>
          let u = empty_url\<lparr>u_scheme := to_lower scheme\<rparr> in
          if has_suffix rest ''?'' \<and> length (filter (\<lambda>c. c = CHR ''?'') rest) = 1
          then parse_rest (u\<lparr>u_force_query := True\<rparr>) (butlast rest)
          else (case cut CHR ''?'' rest of (rest, query, _) \<Rightarrow> parse_rest (u\<lparr>u_raw_query := query\<rparr>) rest))"

definition url_parse :: "string \<Rightarrow> url option" where
  "url_parse raw = (case cut CHR ''#'' raw of (front, fragment, _) \<Rightarrow>
     (case parse_without_fragment front of None \<Rightarrow> None
      | Some u \<Rightarrow> if fragment = [] then Some u
          else map_option (\<lambda>f. u\<lparr>u_fragment := f\<rparr>) (unescape EncodeOther fragment)))"

subsection \<open>Plain authorities\<close>

text \<open>The bytes of names, addresses, ports and hexadecimal tokens, which nothing in a URL text separates or escapes.\<close>

definition plain_url_byte :: "char \<Rightarrow> bool" where
  "plain_url_byte c \<longleftrightarrow> ascii_alpha_numeric c \<or> c = CHR ''-'' \<or> c = CHR ''.''"

lemma plain_url_byte_not:
  "plain_url_byte c \<Longrightarrow> c \<notin> {CHR ''%'', CHR '':'', CHR ''/'', CHR ''@'', CHR ''?'', CHR ''#'', CHR 0x5B, CHR 0x5D}"
  by (auto simp: plain_url_byte_def alpha_numeric_class class_byte byte_def)

lemma plain_url_byte_host: "plain_url_byte c \<Longrightarrow> host_byte c \<and> c \<noteq> CHR ''%''"
  using plain_url_byte_not by (auto simp: plain_url_byte_def host_byte_def)

lemma plain_url_byte_printable: "plain_url_byte c \<Longrightarrow> CHR 0x20 \<le> c \<and> c \<noteq> CHR 0x7F"
  by (auto simp: plain_url_byte_def alpha_numeric_class is_lower_def is_upper_def is_digit_def less_eq_char_def)

lemma unescape_plain: "list_all (\<lambda>c. host_byte c \<and> c \<noteq> CHR ''%'') s \<Longrightarrow> unescape mode s = Some s"
  by (induction s) auto

lemma host_byte_colon: "host_byte CHR '':''"
  by (simp add: host_byte_def)

lemma parse_host_plain:
  assumes "list_all plain_url_byte h" "list_all is_digit p"
  shows "parse_host scheme (h @ CHR '':'' # p) = Some (h @ CHR '':'' # p)" and "parse_host scheme h = Some h"
proof -
  have p: "list_all plain_url_byte p" using assms(2) by (auto simp: list_all_iff plain_url_byte_def alpha_numeric_class)
  have n: "c \<notin> set h \<and> c \<notin> set p" if "c \<in> {CHR '':'', CHR 0x5B, CHR 0x5D}" for c
    using assms(1) p plain_url_byte_not that by (fastforce simp: list_all_iff)
  have u: "unescape EncodeHost (h @ CHR '':'' # p) = Some (h @ CHR '':'' # p)" "unescape EncodeHost h = Some h"
    using assms(1) p plain_url_byte_host host_byte_colon by (fastforce intro!: unescape_plain simp: list_all_iff)+
  have "cut_last CHR 0x5B (h @ CHR '':'' # p) = None" "cut_last CHR 0x5B h = None" "cut_last CHR '':'' h = None"
    using n by (simp_all add: cut_last_def cut_absent)
  then show "parse_host scheme (h @ CHR '':'' # p) = Some (h @ CHR '':'' # p)" "parse_host scheme h = Some h"
    using n u assms(2) by (simp_all add: parse_host_def cut_last_append valid_optional_port_def)
qed

lemma parse_authority_plain:
  assumes "list_all plain_url_byte h" "list_all is_digit p" "list_all plain_url_byte name" "list_all plain_url_byte password"
  shows "parse_authority scheme (h @ CHR '':'' # p) = Some (None, h @ CHR '':'' # p)"
    and "parse_authority scheme h = Some (None, h)"
    and "parse_authority scheme (name @ CHR '':'' # password @ CHR ''@'' # h @ CHR '':'' # p)
      = Some (Some (name, Some password), h @ CHR '':'' # p)"
proof -
  have p: "list_all plain_url_byte p" using assms(2) by (auto simp: list_all_iff plain_url_byte_def alpha_numeric_class)
  have at: "CHR ''@'' \<notin> set (h @ CHR '':'' # p)" "CHR ''@'' \<notin> set h" "CHR '':'' \<notin> set name"
    using assms(1,3) p plain_url_byte_not by (fastforce simp: list_all_iff)+
  have "cut_last CHR ''@'' (h @ CHR '':'' # p) = None" "cut_last CHR ''@'' h = None"
    using at by (simp_all add: cut_last_def cut_absent)
  then show "parse_authority scheme (h @ CHR '':'' # p) = Some (None, h @ CHR '':'' # p)"
    "parse_authority scheme h = Some (None, h)"
    using parse_host_plain [OF assms(1,2)] by (simp_all add: parse_authority_def)
  have "unescape EncodeOther name = Some name" "unescape EncodeOther password = Some password"
    using assms(3,4) plain_url_byte_host by (auto intro!: unescape_plain simp: list_all_iff)
  moreover have "list_all user_info_byte (name @ CHR '':'' # password)"
    using assms(3,4) by (auto simp: list_all_iff user_info_byte_def plain_url_byte_def)
  ultimately have "parse_user (name @ CHR '':'' # password) = Some (name, Some password)"
    using at by (simp add: parse_user_def cut_append)
  moreover have "cut_last CHR ''@'' ((name @ CHR '':'' # password) @ CHR ''@'' # h @ CHR '':'' # p)
      = Some (name @ CHR '':'' # password, h @ CHR '':'' # p)"
    using at by (intro cut_last_append) simp
  ultimately show "parse_authority scheme (name @ CHR '':'' # password @ CHR ''@'' # h @ CHR '':'' # p)
      = Some (Some (name, Some password), h @ CHR '':'' # p)"
    using parse_host_plain [OF assms(1,2)] by (simp add: parse_authority_def)
qed

lemma get_scheme_http:
  "get_scheme (''http'' @ CHR '':'' # r) = Some (''http'', r)" "get_scheme (''https'' @ CHR '':'' # r) = Some (''https'', r)"
  by (simp_all add: get_scheme_def class_byte byte_def)

lemma to_lower_http: "map lower_char ''http'' = ''http''" "map lower_char ''https'' = ''https''"
  by (simp_all add: lower_char_def class_byte byte_def)

text \<open>An HTTP URL that is only an authority.\<close>

lemma url_parse_authority:
  assumes "scheme = ''http'' \<or> scheme = ''https''" "list_all (\<lambda>c. plain_url_byte c \<or> c = CHR '':'' \<or> c = CHR ''@'') a"
    and "parse_authority scheme a = Some (user, host)"
  shows "url_parse (scheme @ ''://'' @ a) = Some (empty_url\<lparr>u_scheme := scheme, u_user := user, u_host := host\<rparr>)"
proof -
  have n: "c \<notin> set a" if "c \<in> {CHR ''/'', CHR ''?'', CHR ''#''}" for c
    using assms(2) plain_url_byte_not that by (fastforce simp: list_all_iff)
  have all: "list_all (\<lambda>c. CHR 0x20 \<le> c \<and> c \<noteq> CHR 0x7F) a"
  proof -
    have "CHR 0x20 \<le> c \<and> c \<noteq> CHR 0x7F" if "c = CHR '':'' \<or> c = CHR ''@''" for c
      using that by (auto simp: less_eq_char_def)
    with plain_url_byte_printable show ?thesis by (intro list.pred_mono_strong [OF assms(2)]) metis
  qed
  have q: "cut CHR ''#'' a = (a, [], False)" "cut CHR ''?'' a = (a, [], False)" "cut CHR ''/'' a = (a, [], False)"
    using n by (simp_all add: cut_absent)
  have suffix: "\<not> has_suffix (''//'' @ a) ''?''"
  proof
    assume "has_suffix (''//'' @ a) ''?''"
    then obtain t where "''//'' @ a = t @ ''?''" by (auto simp: has_suffix_iff)
    then have "CHR ''?'' \<in> set (''//'' @ a)" by (metis in_set_conv_decomp)
    then show False using n by simp
  qed
  show ?thesis
    using assms(1)
  proof
    assume "scheme = ''http''"
    then show ?thesis using q suffix all assms(3) get_scheme_http to_lower_http
      by (simp add: url_parse_def parse_without_fragment_def parse_rest_def less_eq_char_def empty_url_def)
  next
    assume "scheme = ''https''"
    then show ?thesis using q suffix all assms(3) get_scheme_http to_lower_http
      by (simp add: url_parse_def parse_without_fragment_def parse_rest_def less_eq_char_def empty_url_def)
  qed
qed

text \<open>The program's own two forms: a host with a port, and the same behind a name and a password.\<close>

lemma url_parse_host_port:
  assumes "scheme = ''http'' \<or> scheme = ''https''" "list_all plain_url_byte h" "list_all is_digit p"
  shows "url_parse (scheme @ ''://'' @ h @ CHR '':'' # p)
    = Some (empty_url\<lparr>u_scheme := scheme, u_user := None, u_host := h @ CHR '':'' # p\<rparr>)"
  using assms(2,3) by (intro url_parse_authority [OF assms(1)] parse_authority_plain(1) [OF assms(2,3), of "[]" "[]"])
    (auto simp: list_all_iff plain_url_byte_def alpha_numeric_class)

lemma url_parse_user_host_port:
  assumes "scheme = ''http'' \<or> scheme = ''https''" "list_all plain_url_byte h" "list_all is_digit p"
    "list_all plain_url_byte name" "list_all plain_url_byte password"
  shows "url_parse (scheme @ ''://'' @ name @ CHR '':'' # password @ CHR ''@'' # h @ CHR '':'' # p)
    = Some (empty_url\<lparr>u_scheme := scheme, u_user := Some (name, Some password), u_host := h @ CHR '':'' # p\<rparr>)"
  using assms(2-5) by (intro url_parse_authority [OF assms(1)] parse_authority_plain(3) [OF assms(2-5)])
    (auto simp: list_all_iff plain_url_byte_def alpha_numeric_class)

lemma plain_host_port:
  assumes "list_all plain_url_byte h" "list_all is_digit p" "u_host u = h @ CHR '':'' # p"
  shows "hostname u = h" "url_port u = p"
proof -
  have "CHR '':'' \<notin> set h" "CHR 0x5B \<notin> set h"
    using assms(1) plain_url_byte_not by (fastforce simp: list_all_iff)+
  from url_split_plain(2) [OF this assms(2)]
  show "hostname u = h" "url_port u = p" by (simp_all add: hostname_def url_port_def assms(3))
qed

end
