(* ===== verification/Kubeconfig.thy ===== *)
theory Kubeconfig
  imports Json_Object Url_Parse Azure
begin

section \<open>The session's kubeconfig\<close>

text \<open>
  \<open>internal/session/kubeconfig.go\<close>. \<open>transform_kubeconfig\<close> reduces what kubectl prints of the
  downloaded kubeconfig to its active context, checks its identity and its server, and points it at the
  loopback port of the session's tunnel. \<open>prepare_kubeconfig\<close> is the sequence of commands and file
  operations around it; the outcome of each command, the file system and the context's state are
  its arguments, and its result carries the trace of what it did.
\<close>

datatype kube_unavailable = MissingKubelogin | MissingKubectl | AksCredentials | AksCredentialsTimeout

fun kube_unavailable_message :: "kube_unavailable \<Rightarrow> string" where
  "kube_unavailable_message MissingKubelogin = ''kubelogin is missing from PATH''"
| "kube_unavailable_message MissingKubectl = ''kubectl is missing from PATH''"
| "kube_unavailable_message AksCredentialsTimeout = ''AKS credential preparation timed out''"
| "kube_unavailable_message AksCredentials = ''AKS credentials could not be prepared''"

datatype kube_error =
    KubeCancelled | AksNotConfigured | InvalidLocalPort | DirectoryUnavailable | AzMissing
  | KubeUnavailable kube_unavailable | KubePathInUse | KubePathUnavailable
  | CredentialsNotRegular | KubeNotSecured | KubeloginFailed | KubeloginTimedOut | KubeloginNotRegular
  | KubectlFailed | KubectlTimedOut | KubeconfigTooLarge | RewriteFailed | FinishFailed
  | InvalidKubeconfig | NoActiveContext | ActiveContextInvalid | ActiveContextIncomplete
  | ActiveClusterInvalid | ActiveUserInvalid | UnexpectedCredential | NoValidExec | NotKubelogin
  | KubeloginUnsafe | KubeloginModeInvalid | KubeloginModeAmbiguous | KubeloginModeNotAzureCli
  | ApiServerInvalid | ApiServerNotHttps | ApiServerNotRemote | ApiServerPort
  | NoEmbeddedAuthority | TlsVerificationOff | TlsServerNameInvalid

record kube_target =
  kt_path :: string
  kt_host :: string
  kt_port :: string

subsection \<open>Named sections\<close>

datatype named_error = SectionInvalid | EntryInvalid | EntryDuplicate | ObjectInvalid | EntryNotFound

fun named_entries :: "string \<Rightarrow> string \<Rightarrow> (object \<times> object) option \<Rightarrow> json list
    \<Rightarrow> (named_error, (object \<times> object) option) res" where
  "named_entries name field matched [] = Inr matched"
| "named_entries name field matched (entry # entries) =
     (case raw_object (Some entry) of
        None \<Rightarrow> Inl EntryInvalid
      | Some outer \<Rightarrow>
          let outer = (case outer of None \<Rightarrow> [] | Some m \<Rightarrow> m) in
          if raw_string (map_of outer ''name'') \<noteq> Some name then named_entries name field matched entries
          else if matched \<noteq> None then Inl EntryDuplicate
          else (case raw_object (map_of outer field) of
            Some (Some object) \<Rightarrow> named_entries name field (Some (outer, object)) entries
          | _ \<Rightarrow> Inl ObjectInvalid))"

definition named_kube_object :: "json option \<Rightarrow> string \<Rightarrow> string \<Rightarrow> (named_error, object \<times> object) res" where
  "named_kube_object section_json name field =
     (case section_json of
        Some (JArr entries) \<Rightarrow> ebind (named_entries name field None entries)
          (\<lambda>m. case m of None \<Rightarrow> Inl EntryNotFound | Some r \<Rightarrow> Inr r)
      | Some JNull \<Rightarrow> Inl EntryNotFound
      | _ \<Rightarrow> Inl SectionInvalid)"

definition single_named_section :: "object \<Rightarrow> string \<Rightarrow> object \<Rightarrow> json" where
  "single_named_section outer field object =
     JArr [marshal_object (AList.update field (marshal_object object) outer)]"

subsection \<open>The identity: kubelogin with the login of the Azure CLI\<close>

record exec_plugin =
  ep_command :: string
  ep_args :: "string list"
  ep_env :: nat

record exec_env =
  ee_name :: string
  ee_value :: string

fun decode_envs :: "json list \<Rightarrow> bool" where
  "decode_envs [] \<longleftrightarrow> True"
| "decode_envs (v # vs) \<longleftrightarrow>
     is_ok (decode_struct False [str_field ''name'' (\<lambda>s. ee_name_update (\<lambda>_. s)), str_field ''value'' (\<lambda>s. ee_value_update (\<lambda>_. s))]
       \<lparr>ee_name = [], ee_value = []\<rparr> v) \<and> decode_envs vs"

text \<open>Of the environment entries only their number is looked at, after they decoded.\<close>

definition exec_fields :: "exec_plugin field list" where
  "exec_fields =
     [str_field ''command'' (\<lambda>s. ep_command_update (\<lambda>_. s)),
      strs_field ''args'' (\<lambda>ss. ep_args_update (\<lambda>_. case ss of None \<Rightarrow> [] | Some ss \<Rightarrow> ss)),
      (''env'', \<lambda>r v. case v of JNull \<Rightarrow> Inr (r\<lparr>ep_env := 0\<rparr>)
         | JArr vs \<Rightarrow> if decode_envs vs then Inr (r\<lparr>ep_env := length vs\<rparr>) else Inl (FieldType ''env'')
         | _ \<Rightarrow> Inl (FieldType ''env''))]"

definition credential_fields :: "string list" where
  "credential_fields = [''auth-provider'', ''client-certificate'', ''client-certificate-data'', ''client-key'',
     ''client-key-data'', ''password'', ''token'', ''tokenFile'', ''username'']"

definition attached_mode :: "string \<Rightarrow> string" where
  "attached_mode argument = (if has_prefix argument ''-l='' then trim_prefix argument ''-l=''
     else if has_prefix argument ''--login='' then trim_prefix argument ''--login='' else [])"

fun login_mode :: "string \<Rightarrow> string list \<Rightarrow> (kube_error, string) res" where
  "login_mode found [] = Inr found"
| "login_mode found (argument # rest) =
     (if argument = ''-l'' \<or> argument = ''--login'' then
        (case rest of [] \<Rightarrow> Inl KubeloginModeInvalid
         | mode # rest \<Rightarrow>
             if mode = [] then login_mode found rest
             else if found \<noteq> [] then Inl KubeloginModeAmbiguous else login_mode mode rest)
      else
        let mode = attached_mode argument
        in if mode = [] then login_mode found rest
           else if found \<noteq> [] then Inl KubeloginModeAmbiguous else login_mode mode rest)"

definition validate_azure_cli_exec :: "object \<Rightarrow> kube_error err" where
  "validate_azure_cli_exec user =
     (if list_ex (\<lambda>f. map_of user f \<noteq> None) credential_fields then Some UnexpectedCredential
      else case map_of user ''exec'' of None \<Rightarrow> Some NoValidExec
      | Some v \<Rightarrow> (case decode_struct False exec_fields \<lparr>ep_command = [], ep_args = [], ep_env = 0\<rparr> v of
          Inl _ \<Rightarrow> Some NoValidExec
        | Inr plugin \<Rightarrow>
            if ep_command plugin \<noteq> ''kubelogin'' \<and> ep_command plugin \<noteq> ''kubelogin.exe'' then Some NotKubelogin
            else if ep_args plugin = [] \<or> hd (ep_args plugin) \<noteq> ''get-token'' \<or> ep_env plugin \<noteq> 0 then Some KubeloginUnsafe
            else (case login_mode [] (tl (ep_args plugin)) of
              Inl e \<Rightarrow> Some e
            | Inr mode \<Rightarrow> if mode \<noteq> ''azurecli'' then Some KubeloginModeNotAzureCli else None)))"

subsection \<open>The API server\<close>

definition kube_api_target :: "string \<Rightarrow> (kube_error, string \<times> string) res" where
  "kube_api_target server = (case url_parse server of None \<Rightarrow> Inl ApiServerNotHttps
     | Some u \<Rightarrow>
         if u_scheme u \<noteq> ''https'' \<or> u_opaque u \<noteq> [] \<or> u_user u \<noteq> None \<or> u_host u = []
            \<or> (u_path u \<noteq> [] \<and> u_path u \<noteq> ''/'') \<or> u_raw_query u \<noteq> [] \<or> u_force_query u \<or> u_fragment u \<noteq> []
         then Inl ApiServerNotHttps
         else let host = to_lower (hostname u) in
           if \<not> valid_remote_dns_name host then Inl ApiServerNotRemote
           else if url_port u = [] \<and> has_suffix (u_host u) '':'' then Inl ApiServerPort
           else let port = (if url_port u = [] then ''443'' else url_port u) in
             (case nat_of_text port of None \<Rightarrow> Inl ApiServerPort
              | Some n \<Rightarrow> if n < 1 \<or> n > 65535 then Inl ApiServerPort else Inr (host, port)))"

subsection \<open>Rewriting\<close>

text \<open>The cluster's checks and its rewritten form.\<close>

definition name_tls_server :: "object \<Rightarrow> string \<Rightarrow> (kube_error, object) res" where
  "name_tls_server cluster host = (case map_of cluster ''tls-server-name'' of
     None \<Rightarrow> Inr (AList.update ''tls-server-name'' (JStr host) cluster)
   | Some v \<Rightarrow> (case raw_string (Some v) of None \<Rightarrow> Inl TlsServerNameInvalid
       | Some tls_name \<Rightarrow> if valid_remote_dns_name tls_name then Inr cluster else Inl TlsServerNameInvalid))"

definition rewrite_cluster :: "object \<Rightarrow> string \<Rightarrow> int \<Rightarrow> (kube_error, object) res" where
  "rewrite_cluster cluster host local_port =
     (case raw_string (map_of cluster ''certificate-authority-data'') of
        None \<Rightarrow> Inl NoEmbeddedAuthority
      | Some ca \<Rightarrow>
          if ca = [] then Inl NoEmbeddedAuthority
          else if map_of cluster ''insecure-skip-tls-verify'' \<noteq> None
             \<and> raw_bool (map_of cluster ''insecure-skip-tls-verify'') \<noteq> Some False then Inl TlsVerificationOff
          else let cluster = AList.delete ''insecure-skip-tls-verify'' cluster in
            ebind (name_tls_server cluster host) (\<lambda>cluster. Inr (AList.delete ''proxy-url'' (AList.delete ''certificate-authority''
                (AList.update ''server'' (JStr (''https://'' @ join_host_port ''127.0.0.1'' (itoa local_port))) cluster)))))"

text \<open>
  What follows the lookup of the active cluster and user. The marshalling of maps of valid raw values
  cannot fail, so the three serialisation errors of the source have no branch.
\<close>

definition rewrite_document :: "object \<Rightarrow> object \<times> object \<Rightarrow> object \<times> object \<Rightarrow> object \<times> object \<Rightarrow> int
    \<Rightarrow> (kube_error, json \<times> string \<times> string) res" where
  "rewrite_document document context_entry cluster_entry user_entry local_port =
     (case validate_azure_cli_exec (snd user_entry) of Some e \<Rightarrow> Inl e
      | None \<Rightarrow> (case raw_string (map_of (snd cluster_entry) ''server'') of None \<Rightarrow> Inl ApiServerInvalid
      | Some server \<Rightarrow> ebind (kube_api_target server) (\<lambda>(host, port).
          ebind (rewrite_cluster (snd cluster_entry) host local_port) (\<lambda>cluster.
          Inr (marshal_object
            (AList.update ''users'' (single_named_section (fst user_entry) ''user'' (snd user_entry))
            (AList.update ''clusters'' (single_named_section (fst cluster_entry) ''cluster'' cluster)
            (AList.update ''contexts'' (single_named_section (fst context_entry) ''context'' (snd context_entry))
              document))), host, port)))))"

definition named_or :: "kube_error \<Rightarrow> json option \<Rightarrow> string \<Rightarrow> string \<Rightarrow> (kube_error, object \<times> object) res" where
  "named_or e section_json name field =
     (case named_kube_object section_json name field of Inl _ \<Rightarrow> Inl e | Inr r \<Rightarrow> Inr r)"

definition transform_kubeconfig :: "string \<Rightarrow> int \<Rightarrow> (kube_error, json \<times> string \<times> string) res" where
  "transform_kubeconfig input local_port =
     (if local_port < 1 \<or> local_port > 65535 then Inl InvalidLocalPort
      else case raw_object (parse_json input) of
        Some (Some document) \<Rightarrow>
          (case raw_string (map_of document ''current-context'') of None \<Rightarrow> Inl NoActiveContext
           | Some current_context \<Rightarrow>
               if current_context = [] then Inl NoActiveContext
               else ebind (named_or ActiveContextInvalid (map_of document ''contexts'') current_context ''context'')
                 (\<lambda>context_entry.
                   case (raw_string (map_of (snd context_entry) ''cluster''), raw_string (map_of (snd context_entry) ''user'')) of
                     (Some cluster_name, Some user_name) \<Rightarrow>
                       if cluster_name = [] \<or> user_name = [] then Inl ActiveContextIncomplete
                       else ebind (named_or ActiveClusterInvalid (map_of document ''clusters'') cluster_name ''cluster'')
                         (\<lambda>cluster_entry.
                           ebind (named_or ActiveUserInvalid (map_of document ''users'') user_name ''user'')
                             (\<lambda>user_entry. rewrite_document document context_entry cluster_entry user_entry local_port))
                   | _ \<Rightarrow> Inl ActiveContextIncomplete))
      | _ \<Rightarrow> Inl InvalidKubeconfig)"

subsection \<open>Preparation\<close>

datatype command_end = Completed | CommandFailed | CommandTimedOut | ParentDone

definition kube_credentials_failure :: "command_end \<Rightarrow> kube_error" where
  "kube_credentials_failure outcome = (case outcome of ParentDone \<Rightarrow> KubeCancelled
     | CommandTimedOut \<Rightarrow> KubeUnavailable AksCredentialsTimeout | _ \<Rightarrow> KubeUnavailable AksCredentials)"

definition command_failure :: "command_end \<Rightarrow> kube_error \<Rightarrow> kube_error \<Rightarrow> kube_error" where
  "command_failure outcome failed timed_out = (case outcome of ParentDone \<Rightarrow> KubeCancelled
     | CommandTimedOut \<Rightarrow> timed_out | _ \<Rightarrow> failed)"

datatype path_state = NothingThere | SomethingThere | NotInspectable

text \<open>How rewriting the file in place ends.\<close>

datatype write_end = Written | OpenFailed | ChmodFailed | WriteFailed | CloseFailed

definition write_private_file :: "write_end \<Rightarrow> kube_error err" where
  "write_private_file outcome = (case outcome of Written \<Rightarrow> None | OpenFailed \<Rightarrow> Some RewriteFailed
     | ChmodFailed \<Rightarrow> Some KubeNotSecured | WriteFailed \<Rightarrow> Some RewriteFailed | CloseFailed \<Rightarrow> Some FinishFailed)"

text \<open>
  The world around the preparation: the context, the directory, the search path, what stands at the
  path before, how the commands end, whether the file is regular and can be secured after the Azure CLI
  and after kubelogin, the chunks kubectl prints, and how rewriting the file ends.
\<close>

record kube_env =
  ke_done :: bool
  ke_directory :: bool
  ke_look_path :: "string \<Rightarrow> bool"
  ke_lstat :: path_state
  ke_run :: "string list \<Rightarrow> command_end"
  ke_regular :: "string \<Rightarrow> bool"
  ke_secured :: "string \<Rightarrow> bool"
  ke_output :: "string list"
  ke_write :: write_end

datatype kube_step = RunCommand "string list" | RewriteFile json | RemoveFile

definition max_kubeconfig_json_size :: nat where "max_kubeconfig_json_size = 4 * 1024 * 1024"

definition kubeconfig_path :: "string \<Rightarrow> string" where
  "kubeconfig_path directory = path_join [directory, ''kubeconfig'']"

definition kubelogin_command :: "string \<Rightarrow> string list" where
  "kubelogin_command path = [''kubelogin'', ''convert-kubeconfig'', ''-l'', ''azurecli'', ''--kubeconfig'', path]"

definition kubectl_command :: "string \<Rightarrow> string list" where
  "kubectl_command path = [''kubectl'', ''--kubeconfig'', path, ''config'', ''view'', ''--raw'', ''--output'', ''json'']"

text \<open>The steps after the path was found free; a failure removes the file.\<close>

definition inspect_kubeconfig :: "kube_env \<Rightarrow> string \<Rightarrow> int \<Rightarrow> kube_step list \<times> (kube_error, kube_target) res" where
  "inspect_kubeconfig env path local_port =
     (let view = kubectl_command path; outcome = ke_run env view;
          output = limited_chunks max_kubeconfig_json_size (ke_output env) in
      if outcome \<noteq> Completed then ([RunCommand view], Inl (command_failure outcome KubectlFailed KubectlTimedOut))
      else if lo_overflow output then ([RunCommand view], Inl KubeconfigTooLarge)
      else case transform_kubeconfig (lo_buffer output) local_port of
        Inl e \<Rightarrow> ([RunCommand view], Inl e)
      | Inr (rewritten, host, port) \<Rightarrow>
          ([RunCommand view, RewriteFile rewritten],
           case write_private_file (ke_write env) of Some e \<Rightarrow> Inl e
           | None \<Rightarrow> Inr \<lparr>kt_path = path, kt_host = host, kt_port = port\<rparr>))"

definition convert_kubeconfig :: "kube_env \<Rightarrow> string \<Rightarrow> int \<Rightarrow> kube_step list \<times> (kube_error, kube_target) res" where
  "convert_kubeconfig env path local_port =
     (let convert = kubelogin_command path; outcome = ke_run env convert in
      if outcome \<noteq> Completed then ([RunCommand convert], Inl (command_failure outcome KubeloginFailed KubeloginTimedOut))
      else if \<not> ke_regular env ''kubelogin'' then ([RunCommand convert], Inl KubeloginNotRegular)
      else if \<not> ke_secured env ''kubelogin'' then ([RunCommand convert], Inl KubeNotSecured)
      else apfst ((#) (RunCommand convert)) (inspect_kubeconfig env path local_port))"

definition download_kubeconfig :: "kube_env \<Rightarrow> aks \<Rightarrow> string \<Rightarrow> int \<Rightarrow> kube_step list \<times> (kube_error, kube_target) res" where
  "download_kubeconfig env a path local_port =
     (let credentials = ''az'' # aks_credentials_arguments (aks_name a) (aks_resource_group a) (aks_subscription a) path;
          outcome = ke_run env credentials in
      if outcome \<noteq> Completed then ([RunCommand credentials], Inl (kube_credentials_failure outcome))
      else if \<not> ke_regular env ''az'' then ([RunCommand credentials], Inl CredentialsNotRegular)
      else if \<not> ke_secured env ''az'' then ([RunCommand credentials], Inl KubeNotSecured)
      else apfst ((#) (RunCommand credentials)) (convert_kubeconfig env path local_port))"

definition prepare_kubeconfig :: "kube_env \<Rightarrow> profile \<Rightarrow> string \<Rightarrow> int \<Rightarrow> kube_step list \<times> (kube_error, kube_target) res" where
  "prepare_kubeconfig env c directory local_port =
     (if ke_done env then ([], Inl KubeCancelled)
      else case pf_aks c of None \<Rightarrow> ([], Inl AksNotConfigured)
      | Some a \<Rightarrow>
          if local_port < 1 \<or> local_port > 65535 then ([], Inl InvalidLocalPort)
          else if \<not> ke_directory env then ([], Inl DirectoryUnavailable)
          else if \<not> ke_look_path env ''az'' then ([], Inl AzMissing)
          else if \<not> ke_look_path env ''kubelogin'' then ([], Inl (KubeUnavailable MissingKubelogin))
          else if \<not> ke_look_path env ''kubectl'' then ([], Inl (KubeUnavailable MissingKubectl))
          else case ke_lstat env of SomethingThere \<Rightarrow> ([], Inl KubePathInUse)
          | NotInspectable \<Rightarrow> ([], Inl KubePathUnavailable)
          | NothingThere \<Rightarrow>
              (let (trace, result) = download_kubeconfig env a (kubeconfig_path directory) local_port in
               (if is_ok result then trace else trace @ [RemoveFile], result)))"

subsection \<open>Lookups\<close>

lemma named_entries_sound:
  assumes "named_entries name field matched entries = Inr (Some (outer, obj))"
    and "\<And>o' b. matched = Some (o', b) \<Longrightarrow> P o' b"
    and "\<And>o' b. distinct (map fst o') \<Longrightarrow> distinct (map fst b) \<Longrightarrow> raw_string (map_of o' ''name'') = Some name
      \<Longrightarrow> raw_object (map_of o' field) = Some (Some b) \<Longrightarrow> P o' b"
  shows "P outer obj"
  using assms
proof (induction name field matched entries rule: named_entries.induct)
  case (1 name field matched)
  then show ?case by simp
next
  case (2 name field matched entry entries)
  note prem = 2(3)
  obtain raw where raw: "raw_object (Some entry) = Some raw"
    using prem by (auto split: option.splits)
  define o' where "o' = (case raw of None \<Rightarrow> [] | Some m \<Rightarrow> m)"
  have d: "distinct (map fst o')" using raw raw_object_distinct by (auto simp: o'_def split: option.splits)
  show ?case
  proof (cases "raw_string (map_of o' ''name'') = Some name")
    case False
    then have "named_entries name field matched entries = Inr (Some (outer, obj))"
      using prem raw by (auto simp: Let_def o'_def)
    then show ?thesis using 2(1) [OF raw o'_def] False 2(4,5) by blast
  next
    case True
    then have m: "matched = None" using prem raw by (cases matched) (auto simp: Let_def o'_def)
    obtain b where b: "raw_object (map_of o' field) = Some (Some b)"
      using prem raw True m by (auto simp: Let_def o'_def split: option.splits)
    have "named_entries name field (Some (o', b)) entries = Inr (Some (outer, obj))"
      using prem raw True m b by (auto simp: Let_def o'_def)
    then show ?thesis using 2(2) [OF raw o'_def] True m b 2(5) d raw_object_distinct [OF b] by auto
  qed
qed

lemma named_kube_object_sound:
  assumes "named_kube_object sec name field = Inr (outer, obj)"
  shows "distinct (map fst outer) \<and> distinct (map fst obj) \<and> raw_string (map_of outer ''name'') = Some name
    \<and> raw_object (map_of outer field) = Some (Some obj)"
proof -
  obtain entries where "named_entries name field None entries = Inr (Some (outer, obj))"
    using assms by (auto simp: named_kube_object_def ebind_Inr_iff split: option.splits json.splits)
  then show ?thesis
    by (rule named_entries_sound) auto
qed

lemma named_or_sound:
  assumes "named_or e sec name field = Inr entry"
  shows "distinct (map fst (fst entry))" "distinct (map fst (snd entry))"
    "raw_string (map_of (fst entry) ''name'') = Some name"
    "raw_object (map_of (fst entry) field) = Some (Some (snd entry))"
proof -
  have "named_kube_object sec name field = Inr (fst entry, snd entry)"
    using assms by (auto simp: named_or_def split: sum.splits)
  from named_kube_object_sound [OF this]
  show "distinct (map fst (fst entry))" "distinct (map fst (snd entry))"
    "raw_string (map_of (fst entry) ''name'') = Some name"
    "raw_object (map_of (fst entry) field) = Some (Some (snd entry))" by auto
qed

text \<open>A section of one entry is found again under its name, with the object that was put in.\<close>

lemma named_kube_object_single:
  assumes "distinct (map fst outer)" "distinct (map fst obj)"
    and "raw_string (map_of outer ''name'') = Some name" "field \<noteq> ''name''"
  shows "\<exists>outer' obj'. named_kube_object (Some (single_named_section outer field obj)) name field = Inr (outer', obj')
    \<and> map_of outer' = (map_of outer)(field \<mapsto> marshal_object obj) \<and> map_of obj' = map_of obj"
proof -
  let ?o = "AList.update field (marshal_object obj) outer"
  obtain o' where o': "raw_object (Some (marshal_object ?o)) = Some (Some o')" "map_of o' = map_of ?o"
    using raw_object_marshal [of ?o] assms(1) by (auto simp: distinct_update)
  obtain b where b: "raw_object (Some (marshal_object obj)) = Some (Some b)" "map_of b = map_of obj"
    using raw_object_marshal [OF assms(2)] by auto
  have n: "raw_string (map_of o' ''name'') = Some name" using assms(3,4) by (simp add: o'(2) update_conv')
  have f: "map_of o' field = Some (marshal_object obj)" by (simp add: o'(2) update_conv')
  show ?thesis
    using o' b n f by (simp add: named_kube_object_def single_named_section_def update_conv' del: raw_simps)
qed

subsection \<open>What a client sees\<close>

text \<open>
  The active context, cluster and user of a kubeconfig document, with the name of the context, as a
  client resolves them; a section is \<open>sole\<close> when it has one entry only.
\<close>

definition kube_view :: "json \<Rightarrow> (string \<times> object \<times> object \<times> object) option" where
  "kube_view document = (case raw_object (Some document) of
     Some (Some d) \<Rightarrow> (case raw_string (map_of d ''current-context'') of None \<Rightarrow> None
       | Some current \<Rightarrow> (case named_kube_object (map_of d ''contexts'') current ''context'' of Inl _ \<Rightarrow> None
         | Inr (_, c) \<Rightarrow> (case (raw_string (map_of c ''cluster''), raw_string (map_of c ''user'')) of
             (Some cluster_name, Some user_name) \<Rightarrow>
               (case (named_kube_object (map_of d ''clusters'') cluster_name ''cluster'',
                      named_kube_object (map_of d ''users'') user_name ''user'') of
                  (Inr (_, cluster), Inr (_, user)) \<Rightarrow> Some (current, c, cluster, user)
                | _ \<Rightarrow> None)
           | _ \<Rightarrow> None)))
   | _ \<Rightarrow> None)"

definition sole :: "json \<Rightarrow> string \<Rightarrow> bool" where
  "sole document field = (case raw_object (Some document) of
     Some (Some d) \<Rightarrow> (case map_of d field of Some (JArr [_]) \<Rightarrow> True | _ \<Rightarrow> False) | _ \<Rightarrow> False)"

text \<open>A document whose sections were replaced by single entries resolves to these entries.\<close>

lemma kube_view_rewritten:
  assumes "distinct (map fst d)" "distinct (map fst co)" "distinct (map fst c)" "distinct (map fst lo)"
    "distinct (map fst cluster)" "distinct (map fst uo)" "distinct (map fst user)"
    and "raw_string (map_of d ''current-context'') = Some current" "raw_string (map_of co ''name'') = Some current"
    and "raw_string (map_of c ''cluster'') = Some cluster_name" "raw_string (map_of lo ''name'') = Some cluster_name"
    and "raw_string (map_of c ''user'') = Some user_name" "raw_string (map_of uo ''name'') = Some user_name"
    and "map_of d' = (map_of d)(''contexts'' \<mapsto> single_named_section co ''context'' c,
       ''clusters'' \<mapsto> single_named_section lo ''cluster'' cluster, ''users'' \<mapsto> single_named_section uo ''user'' user)"
    and "distinct (map fst d')"
  shows "\<exists>c' cluster' user'. kube_view (marshal_object d') = Some (current, c', cluster', user')
    \<and> map_of c' = map_of c \<and> map_of cluster' = map_of cluster \<and> map_of user' = map_of user
    \<and> sole (marshal_object d') ''contexts'' \<and> sole (marshal_object d') ''clusters'' \<and> sole (marshal_object d') ''users''"
proof -
  obtain m where m: "raw_object (Some (marshal_object d')) = Some (Some m)" "map_of m = map_of d'"
    using raw_object_marshal [OF assms(15)] by auto
  obtain co' c' where c': "named_kube_object (Some (single_named_section co ''context'' c)) current ''context'' = Inr (co', c')"
    "map_of c' = map_of c" using named_kube_object_single [OF assms(2,3,9), of "''context''"] by auto
  obtain lo' l' where l': "named_kube_object (Some (single_named_section lo ''cluster'' cluster)) cluster_name ''cluster'' = Inr (lo', l')"
    "map_of l' = map_of cluster" using named_kube_object_single [OF assms(4,5,11), of "''cluster''"] by auto
  obtain uo' u' where u': "named_kube_object (Some (single_named_section uo ''user'' user)) user_name ''user'' = Inr (uo', u')"
    "map_of u' = map_of user" using named_kube_object_single [OF assms(6,7,13), of "''user''"] by auto
  have "kube_view (marshal_object d') = Some (current, c', l', u')"
    using m c' l' u' assms(8,10,12,14) by (simp add: kube_view_def)
  moreover have "sole (marshal_object d') ''contexts''" "sole (marshal_object d') ''clusters''" "sole (marshal_object d') ''users''"
    using m assms(14) by (simp_all add: sole_def single_named_section_def)
  ultimately show ?thesis using c' l' u' by blast
qed

lemma validate_azure_cli_exec_map: "map_of u = map_of v \<Longrightarrow> validate_azure_cli_exec u = validate_azure_cli_exec v"
  by (simp add: validate_azure_cli_exec_def)

lemma kube_api_target_sound:
  assumes "kube_api_target server = Inr (host, port)"
  shows "valid_remote_dns_name host \<and> (\<exists>n. nat_of_text port = Some n \<and> 1 \<le> n \<and> n \<le> 65535)"
  using assms by (auto simp: kube_api_target_def Let_def split: option.splits if_splits)

text \<open>The members of a rewritten cluster, by name.\<close>

definition loopback_cluster :: "object \<Rightarrow> string \<Rightarrow> int \<Rightarrow> (string \<Rightarrow> json option)" where
  "loopback_cluster cluster host local_port = (map_of cluster)(
     ''insecure-skip-tls-verify'' := None, ''certificate-authority'' := None, ''proxy-url'' := None,
     ''tls-server-name'' := (case map_of cluster ''tls-server-name'' of None \<Rightarrow> Some (JStr host) | Some v \<Rightarrow> Some v),
     ''server'' := Some (JStr (''https://127.0.0.1:'' @ itoa local_port)))"

lemma rewrite_cluster_sound:
  assumes "rewrite_cluster cluster host local_port = Inr cl" "distinct (map fst cluster)" "valid_remote_dns_name host"
  shows "map_of cl = loopback_cluster cluster host local_port" and "distinct (map fst cl)"
    and "\<exists>n. map_of cl ''tls-server-name'' = Some (JStr n) \<and> valid_remote_dns_name n"
    and "\<exists>ca. map_of cl ''certificate-authority-data'' = Some (JStr ca) \<and> ca \<noteq> []"
proof -
  let ?c = "AList.delete ''insecure-skip-tls-verify'' cluster"
  obtain ca where ca: "raw_string (map_of cluster ''certificate-authority-data'') = Some ca" "ca \<noteq> []"
    using assms(1) by (auto simp: rewrite_cluster_def split: option.splits if_splits)
  obtain m where m: "name_tls_server ?c host = Inr m" and cl: "cl = AList.delete ''proxy-url'' (AList.delete ''certificate-authority''
      (AList.update ''server'' (JStr (''https://'' @ join_host_port ''127.0.0.1'' (itoa local_port))) m))"
    using assms(1) ca by (auto simp: rewrite_cluster_def Let_def ebind_Inr_iff split: if_splits)
  have tls: "\<exists>n. map_of m = (map_of ?c)(''tls-server-name'' \<mapsto> JStr n) \<and> valid_remote_dns_name n
      \<and> Some (JStr n) = (case map_of cluster ''tls-server-name'' of None \<Rightarrow> Some (JStr host) | Some v \<Rightarrow> Some v)
      \<and> distinct (map fst m)"
  proof (cases "map_of ?c ''tls-server-name''")
    case None
    then show ?thesis using m assms(2,3) by (auto simp: name_tls_server_def object_map)
  next
    case (Some v)
    obtain n where n: "raw_string (Some v) = Some n" "valid_remote_dns_name n" "m = ?c"
      using m Some by (auto simp: name_tls_server_def split: option.splits if_splits)
    moreover have "n \<noteq> []" using n(2) by (auto simp: valid_remote_dns_name_def contains_char_def)
    ultimately have "v = JStr n" using raw_string_nonempty by blast
    then show ?thesis using Some n assms(2) by (auto simp: object_map fun_eq_iff)
  qed
  then obtain n where n: "map_of m = (map_of ?c)(''tls-server-name'' \<mapsto> JStr n)" "valid_remote_dns_name n"
    "Some (JStr n) = (case map_of cluster ''tls-server-name'' of None \<Rightarrow> Some (JStr host) | Some v \<Rightarrow> Some v)"
    "distinct (map fst m)" by blast
  show "map_of cl = loopback_cluster cluster host local_port"
    using n(1,3) by (auto simp: cl loopback_cluster_def object_map join_host_port_def fun_eq_iff)
  show "distinct (map fst cl)" using n(4) by (simp add: cl object_map)
  show "\<exists>n. map_of cl ''tls-server-name'' = Some (JStr n) \<and> valid_remote_dns_name n"
    using n(1,2) by (simp add: cl object_map)
  show "\<exists>ca. map_of cl ''certificate-authority-data'' = Some (JStr ca) \<and> ca \<noteq> []"
    using raw_string_nonempty [OF ca] ca(2) n(1) by (simp add: cl object_map)
qed

lemma transform_kubeconfig_steps:
  assumes "transform_kubeconfig input local_port = Inr (doc, host, port)"
  obtains d current co c lo cluster uo user server cl where
    "1 \<le> local_port" "local_port \<le> 65535" "raw_object (parse_json input) = Some (Some d)"
    "raw_string (map_of d ''current-context'') = Some current"
    "named_or ActiveContextInvalid (map_of d ''contexts'') current ''context'' = Inr (co, c)"
    "\<exists>cluster_name. raw_string (map_of c ''cluster'') = Some cluster_name
      \<and> named_or ActiveClusterInvalid (map_of d ''clusters'') cluster_name ''cluster'' = Inr (lo, cluster)"
    "\<exists>user_name. raw_string (map_of c ''user'') = Some user_name
      \<and> named_or ActiveUserInvalid (map_of d ''users'') user_name ''user'' = Inr (uo, user)"
    "validate_azure_cli_exec user = None" "raw_string (map_of cluster ''server'') = Some server"
    "kube_api_target server = Inr (host, port)" "rewrite_cluster cluster host local_port = Inr cl"
    "doc = marshal_object (AList.update ''users'' (single_named_section uo ''user'' user)
       (AList.update ''clusters'' (single_named_section lo ''cluster'' cl)
       (AList.update ''contexts'' (single_named_section co ''context'' c) d)))"
proof -
  obtain d current where d: "raw_object (parse_json input) = Some (Some d)" "1 \<le> local_port" "local_port \<le> 65535"
    and cur: "raw_string (map_of d ''current-context'') = Some current" "current \<noteq> []"
    using assms by (auto simp: transform_kubeconfig_def split: option.splits if_splits)
  obtain co c where c: "named_or ActiveContextInvalid (map_of d ''contexts'') current ''context'' = Inr (co, c)"
    using assms d cur by (auto simp: transform_kubeconfig_def ebind_Inr_iff)
  obtain cn un where n: "raw_string (map_of c ''cluster'') = Some cn" "raw_string (map_of c ''user'') = Some un" "cn \<noteq> []" "un \<noteq> []"
    using assms d cur c by (auto simp: transform_kubeconfig_def split: option.splits if_splits)
  obtain lo cluster where l: "named_or ActiveClusterInvalid (map_of d ''clusters'') cn ''cluster'' = Inr (lo, cluster)"
    using assms d cur c n by (auto simp: transform_kubeconfig_def ebind_Inr_iff)
  obtain uo user where u: "named_or ActiveUserInvalid (map_of d ''users'') un ''user'' = Inr (uo, user)"
    and r: "rewrite_document d (co, c) (lo, cluster) (uo, user) local_port = Inr (doc, host, port)"
    using assms d cur c n l by (auto simp: transform_kubeconfig_def ebind_Inr_iff)
  obtain server cl where "validate_azure_cli_exec user = None" "raw_string (map_of cluster ''server'') = Some server"
    "kube_api_target server = Inr (host, port)" "rewrite_cluster cluster host local_port = Inr cl"
    "doc = marshal_object (AList.update ''users'' (single_named_section uo ''user'' user)
       (AList.update ''clusters'' (single_named_section lo ''cluster'' cl)
       (AList.update ''contexts'' (single_named_section co ''context'' c) d)))"
    using r by (auto simp: rewrite_document_def ebind_Inr_iff split: option.splits)
  then show thesis using n l u by (intro that [OF d(2,3,1) cur(1) c]) auto
qed

lemma transformed_view:
  assumes "transform_kubeconfig input local_port = Inr (doc, host, port)"
  shows "\<exists>source current c c' cluster cluster' user user' server n ca.
      parse_json input = Some source \<and> kube_view source = Some (current, c, cluster, user)
    \<and> kube_view doc = Some (current, c', cluster', user')
    \<and> sole doc ''contexts'' \<and> sole doc ''clusters'' \<and> sole doc ''users''
    \<and> map_of c' = map_of c \<and> map_of user' = map_of user \<and> validate_azure_cli_exec user' = None
    \<and> raw_string (map_of cluster ''server'') = Some server \<and> kube_api_target server = Inr (host, port)
    \<and> valid_remote_dns_name host \<and> map_of cluster' = loopback_cluster cluster host local_port
    \<and> map_of cluster' ''tls-server-name'' = Some (JStr n) \<and> valid_remote_dns_name n
    \<and> map_of cluster' ''certificate-authority-data'' = Some (JStr ca) \<and> ca \<noteq> []"
proof -
  from assms obtain d current co c lo cluster uo user server cl cn un where
    s: "raw_object (parse_json input) = Some (Some d)" "raw_string (map_of d ''current-context'') = Some current"
    and c: "named_or ActiveContextInvalid (map_of d ''contexts'') current ''context'' = Inr (co, c)"
    and n: "raw_string (map_of c ''cluster'') = Some cn" "raw_string (map_of c ''user'') = Some un"
    and l: "named_or ActiveClusterInvalid (map_of d ''clusters'') cn ''cluster'' = Inr (lo, cluster)"
    and u: "named_or ActiveUserInvalid (map_of d ''users'') un ''user'' = Inr (uo, user)"
    and v: "validate_azure_cli_exec user = None" "raw_string (map_of cluster ''server'') = Some server"
      "kube_api_target server = Inr (host, port)" "rewrite_cluster cluster host local_port = Inr cl"
    and doc: "doc = marshal_object (AList.update ''users'' (single_named_section uo ''user'' user)
       (AList.update ''clusters'' (single_named_section lo ''cluster'' cl)
       (AList.update ''contexts'' (single_named_section co ''context'' c) d)))"
    by (rule transform_kubeconfig_steps) blast
  note C = named_or_sound [OF c, simplified] and L = named_or_sound [OF l, simplified]
    and U = named_or_sound [OF u, simplified]
  have host: "valid_remote_dns_name host" using kube_api_target_sound [OF v(3)] by blast
  note R = rewrite_cluster_sound [OF v(4) L(2) host]
  obtain source where source: "parse_json input = Some source" using s(1) by (cases "parse_json input") auto
  have "kube_view source = Some (current, c, cluster, user)"
    using s source c l u n by (simp add: kube_view_def named_or_def split: sum.splits)
  moreover have "distinct (map fst d)" using raw_object_distinct [OF s(1)] .
  then have "\<exists>c' cluster' user'. kube_view doc = Some (current, c', cluster', user')
    \<and> map_of c' = map_of c \<and> map_of cluster' = map_of cl \<and> map_of user' = map_of user
    \<and> sole doc ''contexts'' \<and> sole doc ''clusters'' \<and> sole doc ''users''"
    unfolding doc using C L U R(2) s(2) n by (intro kube_view_rewritten) (simp_all add: object_map)
  ultimately show ?thesis using source v host R(1,3,4) validate_azure_cli_exec_map by metis
qed

subsection \<open>A kubeconfig as the Azure CLI and kubelogin leave it\<close>

definition sample_kubeconfig :: json where
  "sample_kubeconfig = JObj [(''kind'', JStr ''Config''), (''current-context'', JStr ''demo''),
     (''contexts'', JArr [JObj [(''name'', JStr ''other''), (''context'', JObj [])],
        JObj [(''name'', JStr ''demo''), (''context'', JObj [(''cluster'', JStr ''aks''), (''user'', JStr ''me'')])]]),
     (''clusters'', JArr [JObj [(''name'', JStr ''aks''), (''cluster'', JObj [
        (''server'', JStr ''https://demo.hcp.westeurope.azmk8s.io:443''), (''proxy-url'', JStr ''http://10.0.0.1:80''),
        (''certificate-authority-data'', JStr ''Q0E='')])]]),
     (''users'', JArr [JObj [(''name'', JStr ''me''), (''user'', JObj [(''exec'', JObj [(''command'', JStr ''kubelogin''),
        (''args'', JArr [JStr ''get-token'', JStr ''--login'', JStr ''azurecli'']), (''env'', JNull)])])]])]"

lemma sample_kubeconfig_wf: "wf_json sample_kubeconfig"
  by (simp add: sample_kubeconfig_def utf8_ascii is_ascii_def)

lemma sample_api: "kube_api_target ''https://demo.hcp.westeurope.azmk8s.io:443'' = Inr (''demo.hcp.westeurope.azmk8s.io'', ''443'')"
proof -
  let ?h = "''demo.hcp.westeurope.azmk8s.io''"
  let ?u = "empty_url\<lparr>u_scheme := ''https'', u_user := None, u_host := ?h @ CHR '':'' # ''443''\<rparr>"
  have p: "list_all plain_url_byte ?h" "list_all is_digit ''443''"
    by (simp_all add: plain_url_byte_def alpha_numeric_class class_byte byte_def)
  have u: "url_parse ''https://demo.hcp.westeurope.azmk8s.io:443'' = Some ?u"
    using url_parse_host_port [of "''https''" ?h "''443''"] p by simp
  have h: "hostname ?u = ?h" "url_port ?u = ''443''" using p by (auto intro!: plain_host_port)
  have v: "valid_remote_dns_name ?h" "to_lower ?h = ?h" by code_simp+
  have "nat_of_text ''443'' = Some 443" by (simp add: nat_of_text_def is_digit_def digit_val_def byte_def less_eq_char_def)
  then show ?thesis unfolding kube_api_target_def u using h v by (simp add: empty_url_def)
qed

lemma sample_transform:
  "\<exists>doc. transform_kubeconfig (json_text sample_kubeconfig) 4321 = Inr (doc, ''demo.hcp.westeurope.azmk8s.io'', ''443'')"
  unfolding transform_kubeconfig_def parse_json_text [OF sample_kubeconfig_wf]
  by (simp add: sample_kubeconfig_def as_object_def named_or_def named_kube_object_def rewrite_document_def sample_api
      validate_azure_cli_exec_def credential_fields_def decode_struct_def exec_fields_def find_field_def str_field_def
      strs_field_def rewrite_cluster_def name_tls_server_def)

text \<open>
  The check for one login mode does not know the attached form of the short option, so a second mode in
  that form is not noticed.
\<close>

lemma attached_login_mode_unnoticed:
  "login_mode [] [''--login'', ''azurecli'', ''-ldevicecode''] = Inr ''azurecli''"
  "login_mode [] [''--login'', ''azurecli'', ''-l=devicecode''] = Inl KubeloginModeAmbiguous"
  by (simp_all add: attached_mode_def trim_prefix_def)

subsection \<open>How a preparation ends\<close>

lemma login_mode_error: "login_mode found args = Inl e \<Longrightarrow> e = KubeloginModeInvalid \<or> e = KubeloginModeAmbiguous"
proof (induction found args rule: login_mode.induct)
  case (1 found)
  then show ?case by simp
next
  case (2 found argument rest)
  show ?case
  proof (cases "argument = ''-l'' \<or> argument = ''--login''")
    case True
    then show ?thesis using 2 by (cases rest) (auto simp del: login_mode.simps(2) simp: login_mode.simps(2) [of found argument] split: if_splits)
  next
    case False
    then have "login_mode found (argument # rest) = (let mode = attached_mode argument in
        if mode = [] then login_mode found rest
        else if found \<noteq> [] then Inl KubeloginModeAmbiguous else login_mode mode rest)"
      by (simp only: login_mode.simps(2) if_False)
    then show ?thesis using 2(3,4) [OF False refl] 2(5)
      by (auto simp del: login_mode.simps simp: Let_def split: if_splits)
  qed
qed

lemma validate_azure_cli_exec_error: "validate_azure_cli_exec user = Some e \<Longrightarrow> e \<noteq> KubeUnavailable reason"
  by (auto simp: validate_azure_cli_exec_def split: if_splits option.splits sum.splits dest: login_mode_error)

lemma kube_api_target_error: "kube_api_target server = Inl e \<Longrightarrow> e \<noteq> KubeUnavailable reason"
  by (auto simp: kube_api_target_def Let_def split: if_splits option.splits)

lemma rewrite_cluster_error: "rewrite_cluster cluster host local_port = Inl e \<Longrightarrow> e \<noteq> KubeUnavailable reason"
  by (auto simp: rewrite_cluster_def name_tls_server_def Let_def ebind_def split: if_splits option.splits sum.splits)

lemma rewrite_document_error: "rewrite_document d co lo uo local_port = Inl e \<Longrightarrow> e \<noteq> KubeUnavailable reason"
  using validate_azure_cli_exec_error kube_api_target_error rewrite_cluster_error
  by (fastforce simp: rewrite_document_def ebind_def split: option.splits sum.splits)

lemma ebind_Inl_iff: "ebind r k = Inl e \<longleftrightarrow> r = Inl e \<or> (\<exists>x. r = Inr x \<and> k x = Inl e)"
  by (cases r) auto

lemma named_or_error: "named_or e sec name field = Inl e' \<Longrightarrow> e' = e"
  by (auto simp: named_or_def split: sum.splits)

lemma transform_kubeconfig_error: "transform_kubeconfig input local_port = Inl e \<Longrightarrow> e \<noteq> KubeUnavailable reason"
  by (auto simp: transform_kubeconfig_def ebind_Inl_iff dest: named_or_error rewrite_document_error
      split: if_splits option.splits)

lemma command_failure_error:
  "failed \<noteq> KubeUnavailable reason \<Longrightarrow> timed_out \<noteq> KubeUnavailable reason
    \<Longrightarrow> command_failure outcome failed timed_out \<noteq> KubeUnavailable reason"
  by (simp add: command_failure_def split: command_end.split)

lemma inspected_trace:
  assumes "inspect_kubeconfig env path local_port = (trace, result)"
  shows "(\<exists>e. result = Inl e \<and> trace \<noteq> [] \<and> (\<forall>reason. e \<noteq> KubeUnavailable reason))
    \<or> (\<exists>doc target. result = Inr target \<and> trace = [RunCommand (kubectl_command path), RewriteFile doc]
      \<and> transform_kubeconfig (take max_kubeconfig_json_size (concat (ke_output env))) local_port = Inr (doc, kt_host target, kt_port target)
      \<and> kt_path target = path)"
proof (cases "ke_run env (kubectl_command path) = Completed \<and> \<not> lo_overflow (limited_chunks max_kubeconfig_json_size (ke_output env))")
  case False
  then show ?thesis using assms command_failure_error by (auto simp: inspect_kubeconfig_def Let_def split: if_splits)
next
  case True
  show ?thesis
  proof (cases "transform_kubeconfig (take max_kubeconfig_json_size (concat (ke_output env))) local_port")
    case (Inl e)
    then show ?thesis using assms True transform_kubeconfig_error [OF Inl]
      by (auto simp: inspect_kubeconfig_def Let_def limited_data)
  next
    case (Inr r)
    then show ?thesis using assms True
      by (cases r; cases "ke_write env") (auto simp: inspect_kubeconfig_def Let_def limited_data write_private_file_def)
  qed
qed

lemma converted_trace:
  assumes "convert_kubeconfig env path local_port = (trace, result)"
  shows "(\<exists>e. result = Inl e \<and> trace \<noteq> [] \<and> (\<forall>reason. e \<noteq> KubeUnavailable reason))
    \<or> (\<exists>doc target. result = Inr target
      \<and> trace = [RunCommand (kubelogin_command path), RunCommand (kubectl_command path), RewriteFile doc]
      \<and> transform_kubeconfig (take max_kubeconfig_json_size (concat (ke_output env))) local_port = Inr (doc, kt_host target, kt_port target)
      \<and> kt_path target = path)"
proof -
  obtain t r where i: "inspect_kubeconfig env path local_port = (t, r)" by (cases "inspect_kubeconfig env path local_port")
  show ?thesis using assms inspected_trace [OF i] i command_failure_error
    by (auto simp: convert_kubeconfig_def Let_def split: if_splits)
qed

lemma downloaded_trace:
  assumes "download_kubeconfig env a path local_port = (trace, result)"
  defines "credentials \<equiv> ''az'' # aks_credentials_arguments (aks_name a) (aks_resource_group a) (aks_subscription a) path"
  shows "(\<exists>e. result = Inl e \<and> trace \<noteq> [] \<and> ((\<exists>reason. e = KubeUnavailable reason) \<longrightarrow> trace = [RunCommand credentials]))
    \<or> (\<exists>doc target. result = Inr target
      \<and> trace = [RunCommand credentials, RunCommand (kubelogin_command path), RunCommand (kubectl_command path), RewriteFile doc]
      \<and> transform_kubeconfig (take max_kubeconfig_json_size (concat (ke_output env))) local_port = Inr (doc, kt_host target, kt_port target)
      \<and> kt_path target = path)"
proof -
  obtain t r where i: "convert_kubeconfig env path local_port = (t, r)" by (cases "convert_kubeconfig env path local_port")
  show ?thesis using assms(1) converted_trace [OF i] i
    by (auto simp: download_kubeconfig_def credentials_def Let_def split: if_splits)
qed

lemma prepared_trace:
  assumes "prepare_kubeconfig env c directory local_port = (trace, result)"
  shows "(\<forall>target. result = Inr target \<longrightarrow> (\<exists>a doc.
        pf_aks c = Some a \<and> trace = [RunCommand (''az'' # aks_credentials_arguments (aks_name a) (aks_resource_group a)
            (aks_subscription a) (kubeconfig_path directory)),
          RunCommand (kubelogin_command (kubeconfig_path directory)),
          RunCommand (kubectl_command (kubeconfig_path directory)), RewriteFile doc]
      \<and> transform_kubeconfig (take max_kubeconfig_json_size (concat (ke_output env))) local_port
          = Inr (doc, kt_host target, kt_port target)
      \<and> kt_path target = kubeconfig_path directory))
    \<and> (\<forall>e. result = Inl e \<longrightarrow> trace = [] \<or> last trace = RemoveFile \<and> ke_lstat env = NothingThere)
    \<and> (\<forall>reason. result = Inl (KubeUnavailable reason) \<longrightarrow> trace = [] \<or> (\<exists>arguments. trace = [RunCommand (''az'' # arguments), RemoveFile]))"
proof (cases "trace = []")
  case True
  with assms show ?thesis
    by (auto simp: prepare_kubeconfig_def Let_def split: if_splits option.splits path_state.splits prod.splits
        dest!: downloaded_trace)
next
  case False
  then obtain a t r where a: "pf_aks c = Some a" "ke_lstat env = NothingThere"
    and d: "download_kubeconfig env a (kubeconfig_path directory) local_port = (t, r)"
    and t: "trace = (if is_ok r then t else t @ [RemoveFile])" "result = r"
    using assms by (auto simp: prepare_kubeconfig_def Let_def split: if_splits option.splits path_state.splits prod.splits)
  show ?thesis using downloaded_trace [OF d] a t by auto
qed

text \<open>A preparation that succeeds.\<close>

definition sample_kube_env :: kube_env where
  "sample_kube_env = \<lparr>ke_done = False, ke_directory = True, ke_look_path = (\<lambda>_. True), ke_lstat = NothingThere,
     ke_run = (\<lambda>_. Completed), ke_regular = (\<lambda>_. True), ke_secured = (\<lambda>_. True),
     ke_output = [json_text sample_kubeconfig], ke_write = Written\<rparr>"

lemma sample_kubeconfig_short: "length (json_text sample_kubeconfig) \<le> 5000"
  using length_json_text [of sample_kubeconfig] by (simp add: sample_kubeconfig_def)

lemma sample_prepared:
  "\<exists>trace target. prepare_kubeconfig sample_kube_env
     (empty_profile\<lparr>pf_aks := Some \<lparr>aks_name = ''a'', aks_resource_group = ''g'', aks_subscription = ''s''\<rparr>\<rparr>) ''/tmp/d'' 4321
     = (trace, Inr target) \<and> kt_host target = ''demo.hcp.westeurope.azmk8s.io''"
proof -
  have short: "length (json_text sample_kubeconfig) \<le> max_kubeconfig_json_size"
    using sample_kubeconfig_short by (simp add: max_kubeconfig_json_size_def)
  moreover have "json_text sample_kubeconfig \<noteq> []"
    using json_text_head [OF sample_kubeconfig_wf] by auto
  ultimately have "\<not> lo_overflow (limited_chunks max_kubeconfig_json_size [json_text sample_kubeconfig])"
    using limited_overflow [of "[json_text sample_kubeconfig]"] by simp
  moreover obtain doc where "transform_kubeconfig (json_text sample_kubeconfig) 4321
      = Inr (doc, ''demo.hcp.westeurope.azmk8s.io'', ''443'')" using sample_transform by blast
  ultimately show ?thesis using short
    by (simp add: prepare_kubeconfig_def download_kubeconfig_def convert_kubeconfig_def inspect_kubeconfig_def
        sample_kube_env_def limited_data write_private_file_def)
qed

subsection \<open>Properties\<close>




text \<open>
  Preparing the kubeconfig runs the Azure CLI, kubelogin and kubectl in this order, each with the
  session's own path, and writes only a document that transform made of kubectl's whole output. Whatever
  fails once the path was found free, the last step removes the file; before that nothing is run or
  removed. The errors after which a session goes on without Kubernetes are a missing tool and a failed
  download, never an unsafe kubeconfig.
\<close>

theorem prepare_kubeconfig_steps:
  assumes "prepare_kubeconfig env c directory local_port = (trace, result)"
  shows "(\<forall>target. result = Inr target \<longrightarrow> (\<exists>a doc.
        pf_aks c = Some a \<and> trace = [RunCommand (''az'' # aks_credentials_arguments (aks_name a) (aks_resource_group a)
            (aks_subscription a) (kubeconfig_path directory)),
          RunCommand (kubelogin_command (kubeconfig_path directory)),
          RunCommand (kubectl_command (kubeconfig_path directory)), RewriteFile doc]
      \<and> transform_kubeconfig (take max_kubeconfig_json_size (concat (ke_output env))) local_port
          = Inr (doc, kt_host target, kt_port target)
      \<and> kt_path target = kubeconfig_path directory))
    \<and> (\<forall>e. result = Inl e \<longrightarrow> trace = [] \<or> last trace = RemoveFile \<and> ke_lstat env = NothingThere)
    \<and> (\<forall>reason. result = Inl (KubeUnavailable reason) \<longrightarrow> trace = [] \<or> (\<exists>arguments. trace = [RunCommand (''az'' # arguments), RemoveFile]))"
  using prepared_trace [OF assms] by blast

lemma prepare_kubeconfig_steps_witness:
  "\<exists>trace target. prepare_kubeconfig sample_kube_env (empty_profile\<lparr>pf_aks := Some \<lparr>aks_name = ''a'', aks_resource_group = ''g'', aks_subscription = ''s''\<rparr>\<rparr>)
      ''/tmp/d'' 4321 = (trace, Inr target) \<and> length trace = 4 \<and> kt_host target = ''demo.hcp.westeurope.azmk8s.io''"
proof -
  obtain trace target where p: "prepare_kubeconfig sample_kube_env (empty_profile\<lparr>pf_aks := Some \<lparr>aks_name = ''a'', aks_resource_group = ''g'', aks_subscription = ''s''\<rparr>\<rparr>)
      ''/tmp/d'' 4321 = (trace, Inr target)" "kt_host target = ''demo.hcp.westeurope.azmk8s.io''"
    using sample_prepared by blast
  from prepare_kubeconfig_steps [OF p(1)] p show ?thesis by auto
qed

end
