(* ===== verification/Ssh_Arguments.thy ===== *)
theory Ssh_Arguments
  imports Kubeconfig
begin

section \<open>Arguments of the SSH client\<close>

text \<open>
  \<open>internal/session/ssh.go\<close>, the arguments of the platform session's forwarding client and of the
  Bastion tunnel, and the checks of \<open>internal/session/process.go\<close> and \<open>platform.go\<close> on a forward that is
  coming up. Paths are those of a Unix system, so \<open>filepath.ToSlash\<close> changes nothing.
\<close>

text \<open>\<open>strings.ReplaceAll\<close> of one byte.\<close>

definition replace_byte :: "char \<Rightarrow> string \<Rightarrow> string \<Rightarrow> string" where
  "replace_byte old new s = concat (map (\<lambda>c. if c = old then new else [c]) s)"

definition host_key_alias :: "profile \<Rightarrow> string" where
  "host_key_alias c = ''bivrost-'' @ hex_encode (take 16 (sum256 (to_lower (pf_vm_resource_id c))))"

definition known_hosts_option :: "string \<Rightarrow> string" where
  "known_hosts_option state_root =
     ''UserKnownHostsFile='' @ [CHR 0x22] @ replace_byte CHR 0x22 [CHR 0x5C, CHR 0x22] (path_join [state_root, ''known_hosts''])
       @ [CHR 0x22]"

definition base_ssh_arguments :: "profile \<Rightarrow> string \<Rightarrow> string \<Rightarrow> int \<Rightarrow> string list" where
  "base_ssh_arguments c ssh_config state_root port =
     [''-F'', ssh_config, ''-p'', itoa port,
      ''-o'', ''ExitOnForwardFailure=yes'', ''-o'', ''ServerAliveInterval=15'', ''-o'', ''ServerAliveCountMax=3'',
      ''-o'', ''ConnectTimeout=15'', ''-o'', ''BatchMode=yes'', ''-o'', ''ForwardAgent=no'',
      ''-o'', ''StrictHostKeyChecking=accept-new'', ''-o'', ''HostKeyAlias='' @ host_key_alias c,
      ''-o'', known_hosts_option state_root]
     @ (if pf_ssh_user c \<noteq> [] then [''-l'', pf_ssh_user c, ''-i'', pf_identity_file c, ''-o'', ''IdentitiesOnly=yes''] else [])"

definition ssh_arguments :: "profile \<Rightarrow> string \<Rightarrow> string \<Rightarrow> int \<Rightarrow> string list" where
  "ssh_arguments c ssh_config state_root port =
     base_ssh_arguments c ssh_config state_root port @ [''-N'', ''-T'', ''-D'', loopback (pf_socks_port c), ''127.0.0.1'']"

definition interactive_ssh_arguments :: "profile \<Rightarrow> string \<Rightarrow> string \<Rightarrow> int \<Rightarrow> string list" where
  "interactive_ssh_arguments c ssh_config state_root port =
     base_ssh_arguments c ssh_config state_root port @ [''-tt'', ''127.0.0.1'']"

definition platform_ssh_arguments :: "profile \<Rightarrow> string \<Rightarrow> string \<Rightarrow> int \<Rightarrow> int \<Rightarrow> kube_target option \<Rightarrow> string list" where
  "platform_ssh_arguments c ssh_config state_root bastion_port api_port target =
     base_ssh_arguments c ssh_config state_root bastion_port @ [''-N'', ''-T'', ''-D'', loopback (pf_socks_port c)]
     @ (case target of None \<Rightarrow> []
        | Some t \<Rightarrow>
            let host = (if CHR '':'' \<in> set (kt_host t) then [CHR 0x5B] @ kt_host t @ [CHR 0x5D] else kt_host t)
            in [''-L'', loopback api_port @ '':'' @ host @ '':'' @ kt_port t])
     @ [''127.0.0.1'']"

definition bastion_tunnel_arguments :: "profile \<Rightarrow> int \<Rightarrow> string list" where
  "bastion_tunnel_arguments c port = [''network'', ''bastion'', ''tunnel'', ''--name'', pf_bastion_name c,
     ''--resource-group'', pf_bastion_resource_group c, ''--subscription'', pf_subscription c,
     ''--target-resource-id'', pf_vm_resource_id c, ''--resource-port'', ''22'', ''--port'', itoa port, ''--only-show-errors'']"

subsection \<open>Waiting for a forward\<close>

text \<open>
  \<open>waitPlatformForward\<close> and \<open>waitPort\<close>: the ticker's events until the port answers, the process ends, the
  90 seconds are over or the context is done. The select takes any event that is ready; the list is
  the order in which it took them, and a tick carries whether the dial succeeded.
\<close>

datatype wait_event = ContextDone | ProcessDone | WaitTimeout | Tick bool

datatype wait_error = WaitCancelled | WaitProcessExited | WaitTimedOut

fun wait_forward :: "wait_event list \<Rightarrow> wait_error err option" where
  "wait_forward [] = None"
| "wait_forward (ContextDone # _) = Some (Some WaitCancelled)"
| "wait_forward (ProcessDone # _) = Some (Some WaitProcessExited)"
| "wait_forward (WaitTimeout # _) = Some (Some WaitTimedOut)"
| "wait_forward (Tick answered # events) = (if answered then Some None else wait_forward events)"

lemma ticks_first: "e # es = replicate n (Tick False) @ Tick True # rest \<Longrightarrow> \<exists>answered. e = Tick answered"
  by (cases n) auto

lemma wait_forward_ready:
  "wait_forward events = Some None \<longleftrightarrow> (\<exists>n rest. events = replicate n (Tick False) @ Tick True # rest)"
proof (induction events rule: wait_forward.induct)
  case (5 answered events)
  show ?case
  proof (cases answered)
    case True
    then show ?thesis by (auto intro: exI [of _ 0])
  next
    case False
    have "(\<exists>n rest. Tick False # events = replicate n (Tick False) @ Tick True # rest)
        \<longleftrightarrow> (\<exists>n rest. events = replicate n (Tick False) @ Tick True # rest)" (is "?l \<longleftrightarrow> ?r")
    proof
      assume ?l
      then obtain n rest where e: "Tick False # events = replicate n (Tick False) @ Tick True # rest" by blast
      then obtain m where "n = Suc m" by (cases n) auto
      then show ?r using e by auto
    next
      assume ?r
      then obtain n rest where "events = replicate n (Tick False) @ Tick True # rest" by blast
      then show ?l by (intro exI [of _ "Suc n"]) simp
    qed
    then show ?thesis using 5 False by simp
  qed
qed (auto dest: ticks_first)

subsection \<open>The options of a command line\<close>

text \<open>The values of the options that make an SSH client listen: what follows \<open>-D\<close>, \<open>-L\<close> or \<open>-R\<close> in an option's place.\<close>

fun listening :: "string list \<Rightarrow> (string \<times> string) list" where
  "listening (option # v # args) =
     (if option \<in> {''-D'', ''-L'', ''-R''} then (option, v) # listening args
      else if option \<in> {''-F'', ''-p'', ''-o'', ''-l'', ''-i''} then listening args
      else listening (v # args))"
| "listening _ = []"

lemma platform_ssh_listening:
  "listening (platform_ssh_arguments c ssh_config state_root bastion_port api_port target)
     = (''-D'', loopback (pf_socks_port c)) # (case target of None \<Rightarrow> [] | Some t \<Rightarrow>
         [(''-L'', loopback api_port @ '':'' @ (if CHR '':'' \<in> set (kt_host t) then [CHR 0x5B] @ kt_host t @ [CHR 0x5D] else kt_host t)
           @ '':'' @ kt_port t)])"
  by (simp add: platform_ssh_arguments_def base_ssh_arguments_def Let_def split: option.split)

end
