(* ===== verification/Session_Command.thy ===== *)
theory Session_Command
  imports Process_Environment Paths
begin

section \<open>Commands run in a session\<close>

text \<open>
  \<open>internal/session/run.go\<close> and the exit status of \<open>cmd/bivrost/main.go\<close>: finding the command on the
  search path, running it while the session's resources are watched, and the status the process ends
  with. The file system's answers, the outcome of starting the command and what ends the wait are
  arguments; the trace says whether the command was started and stopped.
\<close>

definition run_failure_exit_code :: nat where "run_failure_exit_code = 125"
definition run_cannot_execute :: nat where "run_cannot_execute = 126"
definition run_command_not_found :: nat where "run_command_not_found = 127"
definition run_signal_exit_offset :: nat where "run_signal_exit_offset = 128"
definition switch_shell_exit_code :: nat where "switch_shell_exit_code = 85"

subsection \<open>Errors with an exit status\<close>

text \<open>An \<open>ExitError\<close> without a message is the command's own status; every other error is a plain failure.\<close>

datatype 'e session_error = ExitError nat "'e option" | Failure 'e

definition run_failure :: "'e session_error err \<Rightarrow> 'e session_error err" where
  "run_failure err = (case err of Some (Failure e) \<Rightarrow> Some (ExitError run_failure_exit_code (Some e)) | _ \<Rightarrow> err)"

text \<open>The status of the process; \<open>switch_accepted\<close> tells whether the error is \<open>ErrSwitchAccepted\<close>.\<close>

definition exit_status :: "('e \<Rightarrow> bool) \<Rightarrow> 'e session_error err \<Rightarrow> nat" where
  "exit_status switch_accepted err = (case err of None \<Rightarrow> 0
     | Some (Failure e) \<Rightarrow> if switch_accepted e then switch_shell_exit_code else 1
     | Some (ExitError code msg) \<Rightarrow>
         if (case msg of None \<Rightarrow> False | Some e \<Rightarrow> switch_accepted e) then switch_shell_exit_code else code)"

definition logged :: "'e session_error err \<Rightarrow> 'e option" where
  "logged err = (case err of None \<Rightarrow> None | Some (Failure e) \<Rightarrow> Some e | Some (ExitError _ msg) \<Rightarrow> msg)"

subsection \<open>Finding the command\<close>

datatype start_error = ErrNotFound | ErrNotExist | ErrDenied

definition start_error_code :: "start_error \<Rightarrow> nat" where
  "start_error_code e = (if e = ErrNotFound \<or> e = ErrNotExist then run_command_not_found else run_cannot_execute)"

text \<open>\<open>exec.LookPath\<close> of a path with a separator, and whether \<open>Stat\<close> finds something that is no directory there.\<close>

record path_lookup =
  pl_executable :: "string \<Rightarrow> start_error err"
  pl_is_file :: "string \<Rightarrow> bool"

fun resolve_in :: "path_lookup \<Rightarrow> string \<Rightarrow> start_error err \<Rightarrow> string list \<Rightarrow> (start_error, string) res" where
  "resolve_in files name denied [] = Inl (case denied of None \<Rightarrow> ErrNotFound | Some e \<Rightarrow> e)"
| "resolve_in files name denied (directory # rest) =
     (if \<not> is_abs directory then resolve_in files name denied rest
      else let candidate = path_join [directory, name] in
        case pl_executable files candidate of
          None \<Rightarrow> Inr candidate
        | Some e \<Rightarrow> resolve_in files name
            (if pl_is_file files candidate \<and> denied = None then Some e else denied) rest)"

definition split_list :: "string \<Rightarrow> string list" where
  "split_list path = (if path = [] then [] else split_on CHR '':'' path)"

definition resolve_command :: "path_lookup \<Rightarrow> string \<Rightarrow> string list \<Rightarrow> (start_error, string) res" where
  "resolve_command files name env =
     (if contains_any name [CHR ''/'', CHR 0x5C]
      then (case pl_executable files name of None \<Rightarrow> Inr name | Some e \<Rightarrow> Inl e)
      else resolve_in files name None (split_list (environment_value env ''PATH'')))"

subsection \<open>Running the command\<close>

text \<open>How \<open>Wait\<close> reports the process: its code, the signal that killed it, an abnormal end without one, or an error of its own.\<close>

datatype process_end = Exited nat | Signalled nat | AbnormalEnd | NotCompleted

datatype run_error = CannotRun start_error | TerminatedBeforeStart | TerminatedWhileRunning | PodmanLost | ProxyLost
  | SshLost | BastionLost | SessionEndedEarly | CommandIncomplete | SessionCancelled

definition command_exit :: "process_end \<Rightarrow> run_error session_error err" where
  "command_exit outcome = (case outcome of
     Exited code \<Rightarrow> if code = 0 then None else Some (ExitError code None)
   | Signalled signal \<Rightarrow> Some (ExitError (run_signal_exit_offset + signal) None)
   | AbnormalEnd \<Rightarrow> Some (ExitError run_failure_exit_code None)
   | NotCompleted \<Rightarrow> Some (Failure CommandIncomplete))"

definition command_start_error :: "start_error \<Rightarrow> run_error session_error" where
  "command_start_error e = ExitError (start_error_code e) (Some (CannotRun e))"

datatype run_wait = CommandEnded process_end | TerminateRequested | PodmanDone | ProxyDone | SshDone | BastionDone | SessionDone

record run_env =
  re_cancelled :: bool
  re_terminated :: bool
  re_lookup :: path_lookup
  re_starts :: "string \<Rightarrow> start_error err"
  re_wait :: run_wait

text \<open>The path that is executed, the arguments with the name as it was given, and the environment.\<close>

datatype run_event = StartedCommand string "string list" "string list" | StoppedCommand

definition start_platform_command :: "run_env \<Rightarrow> string list \<Rightarrow> string list \<Rightarrow> (start_error, string) res" where
  "start_platform_command env argv environ = ebind (resolve_command (re_lookup env) (hd argv) environ)
     (\<lambda>path. case re_starts env path of None \<Rightarrow> Inr path | Some e \<Rightarrow> Inl e)"

definition run_session_command ::
  "run_env \<Rightarrow> string list \<Rightarrow> string list \<Rightarrow> run_event list \<times> run_error session_error err" where
  "run_session_command env argv environ =
     (let environ = replace_environment environ run_marker ''1'' in
      if re_cancelled env then ([], Some (Failure SessionCancelled))
      else if re_terminated env then ([], Some (Failure TerminatedBeforeStart))
      else case start_platform_command env argv environ of Inl e \<Rightarrow> ([], Some (command_start_error e))
      | Inr path \<Rightarrow>
          let started = StartedCommand path argv environ; stop = (\<lambda>e. ([started, StoppedCommand], Some (Failure e))) in
          (case re_wait env of
             CommandEnded outcome \<Rightarrow> ([started], command_exit outcome)
           | TerminateRequested \<Rightarrow> stop TerminatedWhileRunning
           | PodmanDone \<Rightarrow> stop PodmanLost
           | ProxyDone \<Rightarrow> stop ProxyLost
           | SshDone \<Rightarrow> stop SshLost
           | BastionDone \<Rightarrow> stop BastionLost
           | SessionDone \<Rightarrow> stop SessionEndedEarly))"

subsection \<open>The status that \<open>bivrost run\<close> ends with\<close>

lemma resolve_in_sound:
  "resolve_in files name denied dirs = Inr path \<Longrightarrow> \<exists>d \<in> set dirs. is_abs d \<and> path = path_join [d, name] \<and> pl_executable files path = None"
  by (induction files name denied dirs rule: resolve_in.induct) (auto simp: Let_def split: if_splits option.splits)

text \<open>The first executable candidate of the absolute entries is taken, whatever relative entries stand before it.\<close>

lemma resolve_in_first:
  assumes "is_abs d" "pl_executable files (path_join [d, name]) = None"
    and "\<forall>d' \<in> set before. is_abs d' \<longrightarrow> pl_executable files (path_join [d', name]) \<noteq> None"
  shows "resolve_in files name denied (before @ d # rest) = Inr (path_join [d, name])"
  using assms(3)
proof (induction before arbitrary: denied)
  case Nil
  then show ?case using assms(1,2) by simp
next
  case (Cons d' before)
  then show ?case by (cases "is_abs d'") (auto simp: Let_def)
qed

text \<open>The status of a command that ended by itself.\<close>

fun own_status :: "process_end \<Rightarrow> nat option" where
  "own_status (Exited code) = Some code"
| "own_status (Signalled signal) = Some (128 + signal)"
| "own_status _ = None"

text \<open>
  C37. The status of \<^verbatim>\<open>bivrost run\<close> is the command's own status (or 128 plus the signal that killed it) exactly
  when the command was started and ended by itself, and then Bivrost reports nothing. A command that
  could not be started gives 127 when nothing was found and 126 otherwise, and every other failure of
  Bivrost, before the start or while the command runs, gives 125 with a message. A command that is
  cut short has been stopped and waited for. It runs with its arguments as given and is marked as a
  command of a session.
\<close>

theorem run_exit_status:
  assumes "run_session_command env argv environ = (trace, err)"
  shows "(trace = [] \<longrightarrow> logged (run_failure err) \<noteq> None
        \<and> exit_status (\<lambda>_. False) (run_failure err)
          = (case start_platform_command env argv (replace_environment environ run_marker ''1'') of
               Inl e \<Rightarrow> if re_cancelled env \<or> re_terminated env then 125 else if e = ErrDenied then 126 else 127 | Inr _ \<Rightarrow> 125))
    \<and> (\<forall>path arguments env'. trace \<noteq> [] \<and> hd trace = StartedCommand path arguments env' \<longrightarrow>
        arguments = argv \<and> env' = replace_environment environ run_marker ''1'' \<and> environment_value env' run_marker = ''1'')
    \<and> (length trace = 1 \<longrightarrow> (\<exists>outcome. re_wait env = CommandEnded outcome
        \<and> (case own_status outcome of
             Some s \<Rightarrow> exit_status (\<lambda>_. False) (run_failure err) = s \<and> logged (run_failure err) = None
           | None \<Rightarrow> exit_status (\<lambda>_. False) (run_failure err) = 125)))
    \<and> (length trace \<ge> 2 \<longrightarrow> last trace = StoppedCommand \<and> logged (run_failure err) \<noteq> None
        \<and> exit_status (\<lambda>_. False) (run_failure err) = 125)"
proof -
  have marked: "environment_value (replace_environment environ run_marker ''1'') run_marker = ''1''"
    by (rule env.get_put) (simp_all add: run_marker_def equal_fold_def)
  show ?thesis
  proof (cases "re_cancelled env \<or> re_terminated env")
    case True
    then show ?thesis using assms
      by (auto simp: run_session_command_def Let_def run_failure_def exit_status_def logged_def run_failure_exit_code_def
          split: if_splits sum.split)
  next
    case False
    note run = assms [unfolded run_session_command_def Let_def]
    show ?thesis
    proof (cases "start_platform_command env argv (replace_environment environ run_marker ''1'')")
      case (Inl e)
      then show ?thesis using run False
        by (cases e) (auto simp: run_failure_def exit_status_def logged_def command_start_error_def start_error_code_def
            run_cannot_execute_def run_command_not_found_def)
    next
      case (Inr path)
      show ?thesis
      proof (cases "re_wait env")
        case (CommandEnded outcome)
        then show ?thesis using run False Inr marked
          by (cases outcome) (auto simp: command_exit_def run_failure_def exit_status_def logged_def run_failure_exit_code_def
              run_signal_exit_offset_def)
      qed (use run False Inr marked in \<open>auto simp: run_failure_def exit_status_def logged_def run_failure_exit_code_def\<close>)
    qed
  qed
qed

definition sample_lookup :: path_lookup where
  "sample_lookup = \<lparr>pl_executable = (\<lambda>p. if p = ''/usr/bin/kubectl'' then None else Some ErrNotFound), pl_is_file = (\<lambda>_. False)\<rparr>"

definition sample_run :: run_env where
  "sample_run = \<lparr>re_cancelled = False, re_terminated = False, re_lookup = sample_lookup, re_starts = (\<lambda>_. None),
     re_wait = CommandEnded (Signalled 9)\<rparr>"

lemma sample_run_started:
  "\<exists>trace err. run_session_command sample_run [''kubectl'', ''get'', ''pods''] [''PATH=bin:/opt:/usr/bin''] = (trace, err) \<and> length trace = 1"
proof -
  have "environment_value (replace_environment [''PATH=bin:/opt:/usr/bin''] run_marker ''1'') ''PATH'' = ''bin:/opt:/usr/bin''"
    by code_simp
  moreover have "split_list ''bin:/opt:/usr/bin'' = [''bin''] @ ''/opt'' # [''/usr/bin'']" by code_simp
  moreover have "path_join [''/opt'', ''kubectl''] = ''/opt/kubectl''" "path_join [''/usr/bin'', ''kubectl''] = ''/usr/bin/kubectl''"
    by code_simp+
  ultimately have "resolve_command sample_lookup ''kubectl'' (replace_environment [''PATH=bin:/opt:/usr/bin''] run_marker ''1'')
      = Inr ''/usr/bin/kubectl''"
    by (simp add: resolve_command_def contains_any_def is_abs_def sample_lookup_def)
  then show ?thesis
    by (simp add: run_session_command_def start_platform_command_def sample_run_def Let_def)
qed

lemma run_exit_status_witness:
  "\<exists>trace err. run_session_command sample_run [''kubectl'', ''get'', ''pods''] [''PATH=bin:/opt:/usr/bin''] = (trace, err)
     \<and> exit_status (\<lambda>_. False) (run_failure err) = 137 \<and> logged (run_failure err) = None"
proof -
  obtain trace err where r: "run_session_command sample_run [''kubectl'', ''get'', ''pods''] [''PATH=bin:/opt:/usr/bin''] = (trace, err)"
    "length trace = 1" using sample_run_started by blast
  from run_exit_status [OF r(1)] r show ?thesis by (simp add: sample_run_def)
qed

end
