(* ===== verification/Platform_Session.thy ===== *)
theory Platform_Session
  imports Ssh_Arguments Session_Command Shell Heimdal_Session
begin

section \<open>The platform session\<close>

text \<open>
  \<open>platformSession\<close> and \<open>platformConnectLoop\<close> of \<open>internal/session/platform.go\<close>: the acquisition of a
  session's resources, each with its deferred release, the installation of its routes, and the shell or
  command it is for. The services of the source (its \<open>platformServices\<close>) are a record of their outcomes;
  the result is the trace of what was done, in order, and the error the function returns. Messages to
  the terminal are left out.
\<close>

datatype resource = Registration | SocksPort | ApiPort | LocalProxy | BastionTunnel | SshForward | Activation | ShellProcess

datatype session_event = Acquire resource | Release resource
  | RecordPorts int int | PrepareKubeconfig int | WriteEmptyKubeconfig | FreeSocksPort | FreeApiPort
  | StartSsh "string list" | WaitFor int | FetchRoutes | ReplaceRoutes "string list" | EnableRegistry
  | OpenControl | Publish | PreparePrompt | StartShell string "string list" "string list" | RunCommandEvents "run_event list"

datatype platform_error = SessionAlreadyActive | ProfileInvalid profile_error | RegistrationFailed | NoSocksPort
  | SocksPortOccupied int | NoApiPort | ProxyFailed | PortsNotRecorded | BastionFailed | ConnectionCancelled
  | KubeconfigFailed kube_error | EmptyKubeconfigFailed | SocksNotReleased | ApiNotReleased | SshNotStarted
  | ForwardFailed wait_error | NoHeimdalReader | HeimdalRequired fetch_error | HeimdalRoutesInvalid
  | RoutesNotInstalled | NoLocalShell | RegistryFailed | ControlFailed | PromptFailed | ShellNotStarted
  | PodmanDisconnected | ShellFailed | ProxyStopped | SshDisconnected | BastionDisconnected
  | CommandError run_error | SwitchTo profile bool

record bastion =
  bn_port :: int
  bn_state_root :: string
  bn_directory :: string
  bn_ssh_config :: string

text \<open>How the shell's wait ends; a shell that ended has an exit status, or failed to report one.\<close>

datatype shell_wait = ShellEnded "int option" | PodmanEnded | ProxyEnded | SshEnded | BastionEnded | ContextEnded

record platform_services =
  sv_environ :: "string list"
  sv_register :: "profile \<Rightarrow> string \<Rightarrow> bool"
  sv_reserve_socks :: "int \<Rightarrow> int option"
  sv_reserve_api :: "int option"
  sv_start_proxy :: "profile \<Rightarrow> int option"
  sv_record_ports :: "int \<Rightarrow> int \<Rightarrow> bool"
  sv_open_bastion :: "profile \<Rightarrow> bastion option"
  sv_prepare_kubeconfig :: "profile \<Rightarrow> string \<Rightarrow> int \<Rightarrow> (kube_error, kube_target) res"
  sv_cancelled_in_kubeconfig :: bool
  sv_write_empty :: "string \<Rightarrow> string option"
  sv_free_socks :: bool
  sv_free_api :: bool
  sv_start_ssh :: "string list \<Rightarrow> bool"
  sv_wait_forward :: "int \<Rightarrow> wait_error err"
  sv_fetch_heimdal :: "(profile \<Rightarrow> (fetch_error, string list) res) option"
  sv_cancelled_in_fetch :: bool
  sv_replace_routes :: "profile \<Rightarrow> bool"
  sv_select_shell :: "(string \<times> string list) option"
  sv_enable :: bool
  sv_podman_environment :: "string list \<Rightarrow> string list"
  sv_listen :: "string list \<Rightarrow> string list option"
  sv_prompt_write :: "string \<Rightarrow> bool"
  sv_start_shell :: "string \<Rightarrow> string list \<Rightarrow> string list \<Rightarrow> bool"
  sv_shell_wait :: shell_wait
  sv_pending_switch :: "profile option"
  sv_wants_publication :: bool
  sv_run :: run_env

type_synonym outcome = "session_event list \<times> platform_error session_error err"

text \<open>A resource whose release is deferred around the rest of the function, and a step before the rest.\<close>

definition scoped :: "resource \<Rightarrow> outcome \<Rightarrow> outcome" where
  "scoped r rest = (Acquire r # fst rest @ [Release r], snd rest)"

definition prepend :: "session_event \<Rightarrow> outcome \<Rightarrow> outcome" where
  "prepend e rest = (e # fst rest, snd rest)"

definition failed :: "platform_error \<Rightarrow> outcome" where
  "failed e = ([], Some (Failure e))"

subsection \<open>Private hosts\<close>

text \<open>The additional hosts that are not there yet, each once, after the profile's own.\<close>

fun add_hosts :: "string list \<Rightarrow> string list \<Rightarrow> string list" where
  "add_hosts hosts [] = hosts"
| "add_hosts hosts (h # hs) = (if h \<in> set hosts then add_hosts hosts hs else add_hosts (hosts @ [h]) hs)"

definition with_private_hosts :: "profile \<Rightarrow> string list \<Rightarrow> (profile_error, profile) res" where
  "with_private_hosts c additional =
     (if additional = [] then Inr c
      else let c = c\<lparr>pf_private_hosts := add_hosts (pf_private_hosts c) additional\<rparr> in
        case validate_private_hosts c of None \<Rightarrow> Inr c | Some e \<Rightarrow> Inl e)"

subsection \<open>The shell or the command\<close>

definition is_switch_shell_exit :: "int option \<Rightarrow> bool" where
  "is_switch_shell_exit status \<longleftrightarrow> status = Some (int switch_shell_exit_code)"

definition shell_result :: "platform_services \<Rightarrow> platform_error session_error err" where
  "shell_result sv = (case sv_shell_wait sv of
     ShellEnded status \<Rightarrow>
       if is_switch_shell_exit status \<and> sv_pending_switch sv \<noteq> None
       then Some (Failure (SwitchTo (the (sv_pending_switch sv)) (sv_wants_publication sv)))
       else if status = Some 0 then None else Some (Failure ShellFailed)
   | PodmanEnded \<Rightarrow> Some (Failure PodmanDisconnected)
   | ProxyEnded \<Rightarrow> Some (Failure ProxyStopped)
   | SshEnded \<Rightarrow> Some (Failure SshDisconnected)
   | BastionEnded \<Rightarrow> Some (Failure BastionDisconnected)
   | ContextEnded \<Rightarrow> Some (Failure ConnectionCancelled))"

definition run_shell :: "platform_services \<Rightarrow> string \<Rightarrow> string list \<Rightarrow> string list \<Rightarrow> outcome" where
  "run_shell sv name arguments env = prepend (StartShell name arguments env)
     (if \<not> sv_start_shell sv name arguments env then failed ShellNotStarted
      else scoped ShellProcess ([], shell_result sv))"

text \<open>A publication that fails does not end the session.\<close>

definition interactive_session ::
  "platform_services \<Rightarrow> profile \<Rightarrow> bastion \<Rightarrow> bool \<Rightarrow> bool \<Rightarrow> string \<Rightarrow> string list \<Rightarrow> string list \<Rightarrow> outcome" where
  "interactive_session sv c b resume_publication kube_unavailable name arguments env =
     (case sv_listen sv env of None \<Rightarrow> prepend OpenControl (failed ControlFailed)
      | Some env \<Rightarrow>
          let rest = prepend PreparePrompt
            (case snd (prepare_prompt (sv_prompt_write sv) (bn_directory b) name arguments env c) of
               None \<Rightarrow> failed PromptFailed
             | Some (arguments, env) \<Rightarrow> run_shell sv name arguments env)
          in prepend OpenControl
            (if resume_publication \<and> pf_aks c \<noteq> None \<and> \<not> kube_unavailable then prepend Publish rest else rest))"

definition map_run_error :: "run_error session_error err \<Rightarrow> platform_error session_error err" where
  "map_run_error err = (case err of None \<Rightarrow> None
     | Some (Failure e) \<Rightarrow> Some (Failure (CommandError e))
     | Some (ExitError code msg) \<Rightarrow> Some (ExitError code (map_option CommandError msg)))"

definition command_session :: "platform_services \<Rightarrow> string list \<Rightarrow> string list \<Rightarrow> outcome" where
  "command_session sv argv env =
     (let (events, err) = run_session_command (sv_run sv) argv env in ([RunCommandEvents events], map_run_error err))"

subsection \<open>Routes, forwards and the kubeconfig\<close>

text \<open>The routes of the metadata source, installed before anything of the user's starts.\<close>

definition install_routes :: "platform_services \<Rightarrow> profile \<Rightarrow> session_event list \<times> (platform_error, profile) res" where
  "install_routes sv c = (case pf_heimdal c of None \<Rightarrow> ([], Inr c)
     | Some source \<Rightarrow> (case sv_fetch_heimdal sv of None \<Rightarrow> ([], Inl NoHeimdalReader)
       | Some fetch \<Rightarrow>
           if sv_cancelled_in_fetch sv then ([FetchRoutes], Inl ConnectionCancelled)
           else (case fetch c of
             Inl e \<Rightarrow> ([FetchRoutes], if hs_allow_local_fallback source then Inr c else Inl (HeimdalRequired e))
           | Inr hosts \<Rightarrow> (case with_private_hosts c hosts of
               Inl _ \<Rightarrow> ([FetchRoutes], Inl HeimdalRoutesInvalid)
             | Inr updated \<Rightarrow>
                 if sv_replace_routes sv updated then ([FetchRoutes, ReplaceRoutes (pf_private_hosts updated)], Inr updated)
                 else ([FetchRoutes, ReplaceRoutes (pf_private_hosts updated)], Inl RoutesNotInstalled)))))"

definition session_body ::
  "platform_services \<Rightarrow> profile \<Rightarrow> bastion \<Rightarrow> bool \<Rightarrow> bool \<Rightarrow> string \<Rightarrow> string list option \<Rightarrow> outcome" where
  "session_body sv c b resume_publication kube_unavailable kubeconfig command =
     (case (case command of Some argv \<Rightarrow> Some (hd argv, tl argv) | None \<Rightarrow> sv_select_shell sv) of
        None \<Rightarrow> failed NoLocalShell
      | Some (name, arguments) \<Rightarrow>
          let env = platform_environment (sv_environ sv) (proxy_url c) kubeconfig;
              start = (\<lambda>env. case command of
                Some argv \<Rightarrow> command_session sv argv env
              | None \<Rightarrow> interactive_session sv c b resume_publication kube_unavailable name arguments env)
          in scoped Activation
            (if pf_acr_session c
             then prepend EnableRegistry
               (if sv_enable sv then start (sv_podman_environment sv env) else failed RegistryFailed)
             else start env))"

definition after_events :: "session_event list \<Rightarrow> outcome \<Rightarrow> outcome" where
  "after_events events rest = (events @ fst rest, snd rest)"

definition forwarded_session ::
  "platform_services \<Rightarrow> profile \<Rightarrow> bastion \<Rightarrow> bool \<Rightarrow> int \<Rightarrow> kube_target option \<Rightarrow> bool \<Rightarrow> string \<Rightarrow> string list option \<Rightarrow> outcome" where
  "forwarded_session sv c b resume_publication api_port target kube_unavailable kubeconfig command =
     scoped SshForward (prepend (WaitFor (pf_socks_port c))
       (case sv_wait_forward sv (pf_socks_port c) of Some e \<Rightarrow> failed (ForwardFailed e)
        | None \<Rightarrow>
            let rest = (case install_routes sv c of
                (events, Inl e) \<Rightarrow> after_events events (failed e)
              | (events, Inr c) \<Rightarrow>
                  after_events events (session_body sv c b resume_publication kube_unavailable kubeconfig command))
            in if target = None then rest
               else prepend (WaitFor api_port)
                 (case sv_wait_forward sv api_port of Some e \<Rightarrow> failed (ForwardFailed e) | None \<Rightarrow> rest)))"

definition start_forward ::
  "platform_services \<Rightarrow> profile \<Rightarrow> bastion \<Rightarrow> bool \<Rightarrow> int \<Rightarrow> kube_target option \<Rightarrow> bool \<Rightarrow> string \<Rightarrow> string list option \<Rightarrow> outcome" where
  "start_forward sv c b resume_publication api_port target kube_unavailable kubeconfig command =
     (let arguments = platform_ssh_arguments c (bn_ssh_config b) (bn_state_root b) (bn_port b) api_port target;
          start = prepend (StartSsh arguments)
            (if \<not> sv_start_ssh sv arguments then failed SshNotStarted
             else forwarded_session sv c b resume_publication api_port target kube_unavailable kubeconfig command)
      in prepend FreeSocksPort
        (if \<not> sv_free_socks sv then failed SocksNotReleased
         else if pf_aks c = None then start
         else prepend FreeApiPort (if \<not> sv_free_api sv then failed ApiNotReleased else start)))"

definition with_empty_kubeconfig :: "platform_services \<Rightarrow> bastion \<Rightarrow> (string \<Rightarrow> outcome) \<Rightarrow> outcome" where
  "with_empty_kubeconfig sv b rest = prepend WriteEmptyKubeconfig
     (case sv_write_empty sv (bn_directory b) of None \<Rightarrow> failed EmptyKubeconfigFailed | Some path \<Rightarrow> rest path)"

definition kubernetes_session ::
  "platform_services \<Rightarrow> profile \<Rightarrow> bastion \<Rightarrow> bool \<Rightarrow> int \<Rightarrow> string list option \<Rightarrow> outcome" where
  "kubernetes_session sv c b resume_publication api_port command =
     (let forward = start_forward sv c b resume_publication api_port in
      if pf_aks c = None then with_empty_kubeconfig sv b (\<lambda>path. forward None False path command)
      else prepend (PrepareKubeconfig api_port)
        (case sv_prepare_kubeconfig sv c (bn_directory b) api_port of
           Inr prepared \<Rightarrow> forward (Some prepared) False (kt_path prepared) command
         | Inl e \<Rightarrow>
             if sv_cancelled_in_kubeconfig sv then failed ConnectionCancelled
             else (case e of
               KubeUnavailable _ \<Rightarrow> with_empty_kubeconfig sv b (\<lambda>path. forward None True path command)
             | _ \<Rightarrow> failed (KubeconfigFailed e))))"

subsection \<open>The session\<close>

definition proxied_session ::
  "platform_services \<Rightarrow> profile \<Rightarrow> bool \<Rightarrow> int \<Rightarrow> string list option \<Rightarrow> outcome" where
  "proxied_session sv c resume_publication api_port command =
     (case sv_start_proxy sv c of None \<Rightarrow> failed ProxyFailed
      | Some port \<Rightarrow>
          let c = (if pf_proxy_port c = 0 then c\<lparr>pf_proxy_port := port\<rparr> else c) in
          scoped LocalProxy (prepend (RecordPorts (pf_proxy_port c) (pf_socks_port c))
            (if \<not> sv_record_ports sv (pf_proxy_port c) (pf_socks_port c) then failed PortsNotRecorded
             else case sv_open_bastion sv c of None \<Rightarrow> failed BastionFailed
             | Some b \<Rightarrow> scoped BastionTunnel (kubernetes_session sv c b resume_publication api_port command))))"

definition platform_session ::
  "platform_services \<Rightarrow> profile \<Rightarrow> bool \<Rightarrow> string list option \<Rightarrow> outcome" where
  "platform_session sv c resume_publication command =
     (if environment_value (sv_environ sv) ''BIVROST_SESSION'' \<noteq> [] then failed SessionAlreadyActive
      else case validate_platform c of Some e \<Rightarrow> failed (ProfileInvalid e)
      | None \<Rightarrow>
          if \<not> sv_register sv c (if command = None then ''connect'' else ''run'') then failed RegistrationFailed
          else scoped Registration
            (case sv_reserve_socks sv (pf_socks_port c) of
               None \<Rightarrow> failed (if pf_socks_port c = 0 then NoSocksPort else SocksPortOccupied (pf_socks_port c))
             | Some socks \<Rightarrow>
                 let c = c\<lparr>pf_socks_port := socks\<rparr> in
                 scoped SocksPort
                   (if pf_aks c = None then proxied_session sv c resume_publication 0 command
                    else case sv_reserve_api sv of None \<Rightarrow> failed NoApiPort
                    | Some api \<Rightarrow> scoped ApiPort (proxied_session sv c resume_publication api command))))"

text \<open>\<open>nativeShell\<close>: the shell of the session and its arguments; \<open>look_path\<close> tells where \<open>exec.LookPath\<close> finds a program.\<close>

definition native_shell :: "bool \<Rightarrow> string list \<Rightarrow> (string \<Rightarrow> string option) \<Rightarrow> (string \<times> string list) option" where
  "native_shell windows environ look_path =
     (if windows
      then (case look_path ''pwsh'' of Some path \<Rightarrow> Some (path, [''-NoLogo'', ''-NoExit''])
        | None \<Rightarrow> map_option (\<lambda>path. (path, [''-NoLogo'', ''-NoExit''])) (look_path ''powershell.exe''))
      else let shell = (if environment_value environ ''SHELL'' = [] then ''/bin/sh'' else environment_value environ ''SHELL'') in
        if \<not> is_abs shell then None else map_option (\<lambda>path. (path, [''-i''])) (look_path shell))"

text \<open>
  The loop that reconnects after an accepted switch. Each round has its own services; the loop ends
  with the first round that does not end in a switch, or when the context is done (\<open>None\<close> here), and the
  list of rounds is as long as the user keeps switching.
\<close>

fun platform_connect_loop ::
  "platform_services option list \<Rightarrow> prompt_settings option \<Rightarrow> profile \<Rightarrow> bool \<Rightarrow> session_event list list \<times> platform_error session_error err" where
  "platform_connect_loop [] prompt c published = ([], Some (Failure ConnectionCancelled))"
| "platform_connect_loop (None # _) prompt c published = ([], Some (Failure ConnectionCancelled))"
| "platform_connect_loop (Some sv # rounds) prompt c published =
     (let (trace, err) = platform_session sv (c\<lparr>pf_prompt := prompt\<rparr>) published None in
      case err of
        Some (Failure (SwitchTo target was_published)) \<Rightarrow>
          apfst ((#) trace) (platform_connect_loop rounds prompt target was_published)
      | _ \<Rightarrow> ([trace], err))"

text \<open>\<open>runPlatformCommand\<close>: the command is looked up before anything is opened, and every failure of the session gets a status.\<close>

definition run_platform_command ::
  "platform_services \<Rightarrow> profile \<Rightarrow> string list \<Rightarrow> session_event list \<times> platform_error session_error err" where
  "run_platform_command sv c argv =
     (case resolve_command (re_lookup (sv_run sv)) (hd argv) (sv_environ sv) of
        Inl e \<Rightarrow> ([], map_run_error (Some (command_start_error e)))
      | Inr _ \<Rightarrow> apsnd run_failure (platform_session sv c False (Some argv)))"

subsection \<open>Resources are released in the reverse order, on every path\<close>

text \<open>The open resources after a trace, innermost first; \<open>None\<close> when a release does not match.\<close>

fun run_stack :: "session_event list \<Rightarrow> resource list \<Rightarrow> resource list option" where
  "run_stack [] st = Some st"
| "run_stack (Acquire r # es) st = run_stack es (r # st)"
| "run_stack (Release r # es) st = (case st of r' # st' \<Rightarrow> if r' = r then run_stack es st' else None | [] \<Rightarrow> None)"
| "run_stack (_ # es) st = run_stack es st"

definition nested :: "session_event list \<Rightarrow> bool" where
  "nested t \<longleftrightarrow> (\<forall>st. run_stack t st = Some st)"

lemma run_stack_append: "run_stack (xs @ ys) st = Option.bind (run_stack xs st) (run_stack ys)"
  by (induction xs st rule: run_stack.induct) (auto split: list.splits)

lemma nested_append: "nested xs \<Longrightarrow> nested ys \<Longrightarrow> nested (xs @ ys)"
  by (simp add: nested_def run_stack_append)

fun plain_event :: "session_event \<Rightarrow> bool" where
  "plain_event (Acquire _) \<longleftrightarrow> False"
| "plain_event (Release _) \<longleftrightarrow> False"
| "plain_event _ \<longleftrightarrow> True"

lemma nested_plain: "list_all plain_event t \<Longrightarrow> nested t"
  unfolding nested_def
proof (induction t)
  case (Cons e t)
  then show ?case by (cases e) auto
qed simp

named_theorems session_rules

lemma nested_scoped [session_rules]: "nested (fst rest) \<Longrightarrow> nested (fst (scoped r rest))"
  by (simp add: nested_def scoped_def run_stack_append)

lemma nested_prepend [session_rules]: "plain_event e \<Longrightarrow> nested (fst rest) \<Longrightarrow> nested (fst (prepend e rest))"
  by (cases e) (simp_all add: nested_def prepend_def)

lemma nested_after [session_rules]: "list_all plain_event es \<Longrightarrow> nested (fst rest) \<Longrightarrow> nested (fst (after_events es rest))"
  by (simp add: after_events_def nested_append nested_plain)

lemma nested_failed [session_rules]: "nested (fst (failed e))"
  by (simp add: failed_def nested_def)

lemma install_routes_plain: "install_routes sv c = (events, result) \<Longrightarrow> list_all plain_event events"
  by (auto simp: install_routes_def split: option.splits if_splits sum.splits)

text \<open>The same shape for the order of the steps: their rank never falls, and the releases come last.\<close>

fun rank :: "session_event \<Rightarrow> nat" where
  "rank (Acquire Registration) = 0"
| "rank (Acquire SocksPort) = 1"
| "rank (Acquire ApiPort) = 2"
| "rank (Acquire LocalProxy) = 3"
| "rank (RecordPorts _ _) = 4"
| "rank (Acquire BastionTunnel) = 5"
| "rank (PrepareKubeconfig _) = 6"
| "rank WriteEmptyKubeconfig = 7"
| "rank FreeSocksPort = 8"
| "rank FreeApiPort = 9"
| "rank (StartSsh _) = 10"
| "rank (Acquire SshForward) = 11"
| "rank (WaitFor _) = 12"
| "rank FetchRoutes = 13"
| "rank (ReplaceRoutes _) = 14"
| "rank (Acquire Activation) = 15"
| "rank EnableRegistry = 16"
| "rank OpenControl = 17"
| "rank Publish = 18"
| "rank PreparePrompt = 19"
| "rank (StartShell _ _ _) = 20"
| "rank (RunCommandEvents _) = 20"
| "rank (Acquire ShellProcess) = 21"
| "rank (Release _) = 22"

definition ordered_from :: "nat \<Rightarrow> session_event list \<Rightarrow> bool" where
  "ordered_from k t \<longleftrightarrow> sorted (map rank t) \<and> (\<forall>e \<in> set t. k \<le> rank e)"

lemma rank_le: "rank e \<le> 22"
  by (cases e rule: rank.cases) simp_all

lemma ordered_scoped [session_rules]:
  "k \<le> rank (Acquire r) \<Longrightarrow> ordered_from (rank (Acquire r)) (fst rest) \<Longrightarrow> ordered_from k (fst (scoped r rest))"
  using order_trans [OF _ rank_le, of k "Acquire r"] by (auto simp: ordered_from_def scoped_def sorted_append rank_le)

lemma ordered_prepend [session_rules]:
  "k \<le> rank e \<Longrightarrow> ordered_from (rank e) (fst rest) \<Longrightarrow> ordered_from k (fst (prepend e rest))"
  by (auto simp: ordered_from_def prepend_def)

lemma ordered_failed [session_rules]: "ordered_from k (fst (failed e))"
  by (simp add: failed_def ordered_from_def)

lemma ordered_mono: "ordered_from k t \<Longrightarrow> j \<le> k \<Longrightarrow> ordered_from j t"
  by (auto simp: ordered_from_def)

lemma ordered_routes:
  "install_routes sv c = (events, result) \<Longrightarrow> ordered_from 15 (fst rest) \<Longrightarrow> ordered_from 13 (fst (after_events events rest))"
  using ordered_mono [of 15 "fst rest" 13] ordered_mono [of 15 "fst rest" 14]
  by (auto simp: install_routes_def after_events_def ordered_from_def split: option.splits if_splits sum.splits)

text \<open>Both facts at once, from the innermost part outwards.\<close>

definition disciplined :: "nat \<Rightarrow> session_event list \<Rightarrow> bool" where
  "disciplined k t \<longleftrightarrow> nested t \<and> ordered_from k t"

lemma disciplined_scoped:
  "k \<le> rank (Acquire r) \<Longrightarrow> disciplined (rank (Acquire r)) (fst rest) \<Longrightarrow> disciplined k (fst (scoped r rest))"
  by (simp add: disciplined_def session_rules)

lemma disciplined_prepend:
  "plain_event e \<Longrightarrow> k \<le> rank e \<Longrightarrow> disciplined (rank e) (fst rest) \<Longrightarrow> disciplined k (fst (prepend e rest))"
  by (simp add: disciplined_def session_rules)

lemma disciplined_failed: "disciplined k (fst (failed e))"
  by (simp add: disciplined_def session_rules)

lemma disciplined_mono: "disciplined k t \<Longrightarrow> j \<le> k \<Longrightarrow> disciplined j t"
  using ordered_mono by (auto simp: disciplined_def)

lemmas disciplined_rules = disciplined_scoped disciplined_prepend disciplined_failed

lemma run_shell_disciplined: "disciplined 20 (fst (run_shell sv name arguments env))"
  unfolding run_shell_def
  by (auto intro!: disciplined_rules) (simp add: disciplined_def nested_def ordered_from_def)

lemma interactive_disciplined: "disciplined 17 (fst (interactive_session sv c b resume unavailable name arguments env))"
  unfolding interactive_session_def Let_def
  by (auto intro!: disciplined_rules disciplined_mono [OF run_shell_disciplined] split: option.split)

lemma command_session_disciplined: "disciplined 20 (fst (command_session sv argv env))"
  by (auto simp: command_session_def disciplined_def nested_def ordered_from_def split: prod.splits)

lemma session_body_disciplined: "disciplined 15 (fst (session_body sv c b resume unavailable kubeconfig command))"
  unfolding session_body_def Let_def
  by (auto intro!: disciplined_rules disciplined_mono [OF interactive_disciplined] disciplined_mono [OF command_session_disciplined]
      split: option.split)

lemma routes_disciplined:
  "install_routes sv c = (events, result) \<Longrightarrow> disciplined 15 (fst rest) \<Longrightarrow> disciplined 13 (fst (after_events events rest))"
  using ordered_routes nested_after install_routes_plain by (auto simp: disciplined_def)

lemma forwarded_disciplined:
  "disciplined 11 (fst (forwarded_session sv c b resume api target unavailable kubeconfig command))"
proof -
  have r: "disciplined 12 (fst (case install_routes sv c of (events, Inl e) \<Rightarrow> after_events events (failed e)
      | (events, Inr c) \<Rightarrow> after_events events (session_body sv c b resume unavailable kubeconfig command)))"
    by (auto intro!: disciplined_mono [OF routes_disciplined] disciplined_failed session_body_disciplined
        split: prod.split sum.split)
  show ?thesis
    unfolding forwarded_session_def Let_def
    by (auto intro!: disciplined_rules r split: option.split)
qed

lemma start_forward_disciplined:
  "disciplined 8 (fst (start_forward sv c b resume api target unavailable kubeconfig command))"
  unfolding start_forward_def Let_def
  by (auto intro!: disciplined_rules disciplined_mono [OF forwarded_disciplined])

lemma with_empty_disciplined:
  "(\<And>path. disciplined 8 (fst (rest path))) \<Longrightarrow> disciplined 6 (fst (with_empty_kubeconfig sv b rest))"
  unfolding with_empty_kubeconfig_def
  by (auto intro!: disciplined_rules intro: disciplined_mono [where k = 8] split: option.split)

lemma kubernetes_disciplined: "disciplined 5 (fst (kubernetes_session sv c b resume api command))"
  unfolding kubernetes_session_def Let_def
  by (auto intro!: disciplined_rules with_empty_disciplined disciplined_mono [OF with_empty_disciplined]
      disciplined_mono [OF start_forward_disciplined] start_forward_disciplined split: sum.split kube_error.split)

lemma proxied_disciplined: "disciplined 3 (fst (proxied_session sv c resume api command))"
  unfolding proxied_session_def Let_def
  by (auto intro!: disciplined_rules kubernetes_disciplined split: option.split)

lemma platform_session_disciplined: "disciplined 0 (fst (platform_session sv c resume command))"
  unfolding platform_session_def Let_def
  by (auto intro!: disciplined_rules disciplined_mono [OF proxied_disciplined] split: option.split)

subsection \<open>Nothing of the user's starts before its transport and routes are in place\<close>

fun starts_user :: "session_event \<Rightarrow> bool" where
  "starts_user (StartShell _ _ _) \<longleftrightarrow> True"
| "starts_user (RunCommandEvents _) \<longleftrightarrow> True"
| "starts_user _ \<longleftrightarrow> False"

text \<open>What must stand in the trace of a session with ports \<open>socks\<close> and \<open>api\<close> that starts something.\<close>

definition forwards_up :: "platform_services \<Rightarrow> int \<Rightarrow> int \<Rightarrow> kube_target option \<Rightarrow> session_event list \<Rightarrow> bool" where
  "forwards_up sv socks api target t \<longleftrightarrow> WaitFor socks \<in> set t \<and> sv_wait_forward sv socks = None
     \<and> (target \<noteq> None \<longrightarrow> WaitFor api \<in> set t \<and> sv_wait_forward sv api = None)"

definition routes_ready :: "profile \<Rightarrow> session_event list \<Rightarrow> bool" where
  "routes_ready c t \<longleftrightarrow> (case pf_heimdal c of None \<Rightarrow> True
     | Some source \<Rightarrow> (\<exists>hosts. ReplaceRoutes hosts \<in> set t) \<or> hs_allow_local_fallback source)"

lemma install_routes_ready:
  "install_routes sv c = (events, Inr c') \<Longrightarrow> routes_ready c events"
  by (auto simp: install_routes_def routes_ready_def split: option.splits if_splits sum.splits)

lemma routes_ready_mono: "routes_ready c t \<Longrightarrow> set t \<subseteq> set t' \<Longrightarrow> routes_ready c t'"
  unfolding routes_ready_def by (auto split: option.splits)

lemma forwarded_ready:
  assumes "e \<in> set (fst (forwarded_session sv c b resume api target unavailable kubeconfig command))" "starts_user e"
  shows "forwards_up sv (pf_socks_port c) api target (fst (forwarded_session sv c b resume api target unavailable kubeconfig command))
    \<and> routes_ready c (fst (forwarded_session sv c b resume api target unavailable kubeconfig command))"
proof -
  obtain events result where i: "install_routes sv c = (events, result)" by (cases "install_routes sv c")
  have plain: "\<not> starts_user e" if "e \<in> set events"
    using i that by (auto simp: install_routes_def split: option.splits if_splits sum.splits)
  have w: "sv_wait_forward sv (pf_socks_port c) = None" "target \<noteq> None \<Longrightarrow> sv_wait_forward sv api = None" "\<exists>c'. result = Inr c'"
    using assms i plain
    by (auto simp: forwarded_session_def Let_def scoped_def prepend_def failed_def after_events_def
        split: option.splits if_splits sum.splits)
  then obtain c' where c': "result = Inr c'" by blast
  have "routes_ready c events" using i c' install_routes_ready by simp
  then show ?thesis using w i c'
    by (auto simp: forwards_up_def forwarded_session_def Let_def scoped_def prepend_def after_events_def intro: routes_ready_mono)
qed

text \<open>The only listeners that the SSH client is told to open are on loopback addresses, and none is a remote one.\<close>

definition local_listeners :: "string list \<Rightarrow> bool" where
  "local_listeners arguments \<longleftrightarrow>
     list_all (\<lambda>(option, v). option \<noteq> ''-R'' \<and> has_prefix v ''127.0.0.1:'') (listening arguments)"

lemma loopback_prefix: "has_prefix (loopback port @ rest) ''127.0.0.1:''"
  by (simp add: loopback_def join_host_port_def)

lemma platform_ssh_local: "local_listeners (platform_ssh_arguments c ssh_config state_root port api target)"
  using loopback_prefix [of "pf_socks_port c" "[]"] loopback_prefix [of api]
  by (simp add: local_listeners_def platform_ssh_listening split: option.split)

lemma install_routes_no_ssh: "install_routes sv c = (events, result) \<Longrightarrow> StartSsh arguments \<notin> set events"
  by (auto simp: install_routes_def split: option.splits if_splits sum.splits)

text \<open>What a part of the session that runs behind the forwards must never contain.\<close>

lemma session_body_no_ssh: "StartSsh arguments \<notin> set (fst (session_body sv c b resume unavailable kubeconfig command))"
  by (auto simp: session_body_def interactive_session_def command_session_def run_shell_def Let_def scoped_def prepend_def
      failed_def split: option.splits prod.splits)

lemma forwarded_no_ssh:
  "StartSsh arguments \<notin> set (fst (forwarded_session sv c b resume api target unavailable kubeconfig command))"
proof -
  obtain events result where i: "install_routes sv c = (events, result)" by (cases "install_routes sv c")
  show ?thesis using install_routes_no_ssh [OF i, of arguments] session_body_no_ssh [of arguments] i
    by (auto simp: forwarded_session_def Let_def scoped_def prepend_def failed_def after_events_def
        split: option.splits sum.splits)
qed

definition ready_trace :: "platform_services \<Rightarrow> profile \<Rightarrow> int \<Rightarrow> session_event list \<Rightarrow> bool" where
  "ready_trace sv c socks t \<longleftrightarrow>
     (\<forall>arguments. StartSsh arguments \<in> set t \<longrightarrow> local_listeners arguments \<and> FreeSocksPort \<in> set t
        \<and> (pf_aks c \<noteq> None \<longrightarrow> FreeApiPort \<in> set t))
   \<and> (\<forall>e \<in> set t. starts_user e \<longrightarrow> (\<exists>arguments. StartSsh arguments \<in> set t)
        \<and> WaitFor socks \<in> set t \<and> sv_wait_forward sv socks = None \<and> routes_ready c t)"

lemma ready_more:
  assumes "ready_trace sv c socks t" "set t' = insert e (set t)" "\<not> starts_user e" "\<And>arguments. e \<noteq> StartSsh arguments"
  shows "ready_trace sv c socks t'"
proof -
  have r: "routes_ready c t \<Longrightarrow> routes_ready c t'" using assms(2) by (auto elim: routes_ready_mono)
  have old: "a \<in> set t" if "a \<in> set t'" "a \<noteq> e" for a using that assms(2) by blast
  have sub: "a \<in> set t'" if "a \<in> set t" for a using that assms(2) by blast
  have t: "\<And>a. StartSsh a \<in> set t \<Longrightarrow> local_listeners a \<and> FreeSocksPort \<in> set t \<and> (pf_aks c \<noteq> None \<longrightarrow> FreeApiPort \<in> set t)"
    "\<And>d. d \<in> set t \<Longrightarrow> starts_user d \<Longrightarrow> (\<exists>a. StartSsh a \<in> set t) \<and> WaitFor socks \<in> set t
       \<and> sv_wait_forward sv socks = None \<and> routes_ready c t"
    using assms(1) unfolding ready_trace_def by blast+
  show ?thesis
    unfolding ready_trace_def
  proof (rule conjI; clarify)
    fix a assume "StartSsh a \<in> set t'"
    then have "StartSsh a \<in> set t" using old assms(4) by metis
    then show "local_listeners a \<and> FreeSocksPort \<in> set t' \<and> (pf_aks c \<noteq> None \<longrightarrow> FreeApiPort \<in> set t')"
      using t(1) sub by blast
  next
    fix d assume d: "d \<in> set t'" "starts_user d"
    then have "d \<in> set t" using old assms(3) by metis
    then show "(\<exists>a. StartSsh a \<in> set t') \<and> WaitFor socks \<in> set t' \<and> sv_wait_forward sv socks = None \<and> routes_ready c t'"
      using t(2) d(2) sub r by metis
  qed
qed

lemma ready_scoped: "ready_trace sv c socks (fst rest) \<Longrightarrow> ready_trace sv c socks (fst (scoped r rest))"
proof -
  assume "ready_trace sv c socks (fst rest)"
  then have "ready_trace sv c socks (fst rest @ [Release r])" by (rule ready_more) auto
  then show ?thesis by (rule ready_more [where e = "Acquire r"]) (auto simp: scoped_def)
qed

lemma ready_prepend:
  "ready_trace sv c socks (fst rest) \<Longrightarrow> \<not> starts_user e \<Longrightarrow> (\<And>arguments. e \<noteq> StartSsh arguments)
    \<Longrightarrow> ready_trace sv c socks (fst (prepend e rest))"
  by (rule ready_more [where t = "fst rest" and e = e]) (auto simp: prepend_def)

lemma ready_failed: "ready_trace sv c socks (fst (failed e))"
  by (simp add: ready_trace_def failed_def)

lemmas ready_rules = ready_scoped ready_prepend ready_failed

lemma ready_start:
  assumes pre: "FreeSocksPort \<in> set pre" "pf_aks c \<noteq> None \<Longrightarrow> FreeApiPort \<in> set pre" "set pre \<subseteq> {FreeSocksPort, FreeApiPort}"
    and args: "local_listeners arguments" "\<And>a. StartSsh a \<notin> set u"
    and user: "\<And>e. e \<in> set u \<Longrightarrow> starts_user e \<Longrightarrow> WaitFor socks \<in> set u \<and> sv_wait_forward sv socks = None \<and> routes_ready c u"
  shows "ready_trace sv c socks (pre @ StartSsh arguments # u)"
proof -
  have no: "StartSsh a \<notin> set pre" "e \<in> set pre \<Longrightarrow> \<not> starts_user e" for a e using pre(3) by auto
  have routes: "routes_ready c u \<Longrightarrow> routes_ready c (pre @ StartSsh arguments # u)"
    by (erule routes_ready_mono) auto
  show ?thesis
    unfolding ready_trace_def
  proof (intro conjI allI ballI impI)
    fix a assume "StartSsh a \<in> set (pre @ StartSsh arguments # u)"
    then show "local_listeners a" using no args by auto
  next
    fix e assume "e \<in> set (pre @ StartSsh arguments # u)" "starts_user e"
    then have e: "e \<in> set u" using no by auto
    then show "WaitFor socks \<in> set (pre @ StartSsh arguments # u)" "sv_wait_forward sv socks = None"
      "routes_ready c (pre @ StartSsh arguments # u)" "\<exists>a. StartSsh a \<in> set (pre @ StartSsh arguments # u)"
      using user [OF e \<open>starts_user e\<close>] routes by auto
  qed (use pre in simp_all)
qed

lemma start_forward_ready:
  "ready_trace sv c (pf_socks_port c) (fst (start_forward sv c b resume api target unavailable kubeconfig command))"
proof -
  let ?args = "platform_ssh_arguments c (bn_ssh_config b) (bn_state_root b) (bn_port b) api target"
  let ?fwd = "forwarded_session sv c b resume api target unavailable kubeconfig command"
  have user: "WaitFor (pf_socks_port c) \<in> set (fst ?fwd) \<and> sv_wait_forward sv (pf_socks_port c) = None \<and> routes_ready c (fst ?fwd)"
    if "e \<in> set (fst ?fwd)" "starts_user e" for e
    using forwarded_ready [OF that] by (simp add: forwards_up_def)
  have start: "ready_trace sv c (pf_socks_port c) (pre @ StartSsh ?args # (if sv_start_ssh sv ?args then fst ?fwd else []))"
    if "FreeSocksPort \<in> set pre" "pf_aks c \<noteq> None \<Longrightarrow> FreeApiPort \<in> set pre" "set pre \<subseteq> {FreeSocksPort, FreeApiPort}" for pre
    using that platform_ssh_local user forwarded_no_ssh by (intro ready_start) (auto split: if_splits)
  have none: "ready_trace sv c (pf_socks_port c) t" if "set t \<subseteq> {FreeSocksPort, FreeApiPort}" for t
    using that by (auto simp: ready_trace_def)
  have n: "ready_trace sv c (pf_socks_port c) [FreeSocksPort]" "ready_trace sv c (pf_socks_port c) [FreeSocksPort, FreeApiPort]"
    by (simp_all add: none)
  show ?thesis
  proof (cases "pf_aks c")
    case None
    then have "ready_trace sv c (pf_socks_port c) ([FreeSocksPort] @ StartSsh ?args # (if sv_start_ssh sv ?args then fst ?fwd else []))"
      by (intro start) simp_all
    with None n show ?thesis by (cases "sv_start_ssh sv ?args") (simp_all add: start_forward_def prepend_def failed_def Let_def)
  next
    case (Some k)
    have "ready_trace sv c (pf_socks_port c)
        ([FreeSocksPort, FreeApiPort] @ StartSsh ?args # (if sv_start_ssh sv ?args then fst ?fwd else []))"
      by (intro start) simp_all
    with Some n show ?thesis by (cases "sv_start_ssh sv ?args") (simp_all add: start_forward_def prepend_def failed_def Let_def)
  qed
qed

lemma kubernetes_ready: "ready_trace sv c (pf_socks_port c) (fst (kubernetes_session sv c b resume api command))"
  unfolding kubernetes_session_def with_empty_kubeconfig_def Let_def
  by (auto intro!: ready_rules start_forward_ready split: option.split sum.split kube_error.split)

lemma proxied_ready: "ready_trace sv c (pf_socks_port c) (fst (proxied_session sv c resume api command))"
proof -
  have c: "ready_trace sv c (pf_socks_port c) (fst (kubernetes_session sv (c\<lparr>pf_proxy_port := port\<rparr>) b resume api command))" for port b
    using kubernetes_ready [of sv "c\<lparr>pf_proxy_port := port\<rparr>"] by (simp add: ready_trace_def routes_ready_def)
  show ?thesis
    unfolding proxied_session_def Let_def
    by (auto intro!: ready_rules c kubernetes_ready split: option.split)
qed

lemma platform_session_ready_trace:
  assumes "sv_reserve_socks sv (pf_socks_port c) = Some socks"
  shows "ready_trace sv c socks (fst (platform_session sv c resume command))"
proof -
  have p: "ready_trace sv c socks (fst (proxied_session sv (c\<lparr>pf_socks_port := socks\<rparr>) resume api cmd))" for api cmd
    using proxied_ready [of sv "c\<lparr>pf_socks_port := socks\<rparr>"] by (simp add: ready_trace_def routes_ready_def)
  show ?thesis
    unfolding platform_session_def Let_def assms option.case
    by (auto intro!: ready_rules p split: option.split)
qed

lemma platform_session_no_port:
  assumes "sv_reserve_socks sv (pf_socks_port c) = None"
  shows "e \<in> set (fst (platform_session sv c resume command)) \<Longrightarrow> \<not> starts_user e \<and> (\<forall>arguments. e \<noteq> StartSsh arguments)"
  using assms by (auto simp: platform_session_def scoped_def failed_def Let_def split: option.splits if_splits)

subsection \<open>The properties\<close>


lemma session_ready:
  assumes "e \<in> set (fst (platform_session sv c resume command))"
  shows "(\<forall>arguments. e = StartSsh arguments \<longrightarrow> local_listeners arguments
      \<and> FreeSocksPort \<in> set (fst (platform_session sv c resume command)))
    \<and> (starts_user e \<longrightarrow> (\<exists>socks. sv_reserve_socks sv (pf_socks_port c) = Some socks
        \<and> WaitFor socks \<in> set (fst (platform_session sv c resume command)) \<and> sv_wait_forward sv socks = None
        \<and> routes_ready c (fst (platform_session sv c resume command))))"
proof (cases "sv_reserve_socks sv (pf_socks_port c)")
  case None
  then show ?thesis using platform_session_no_port [OF None assms] by auto
next
  case (Some socks)
  then show ?thesis using platform_session_ready_trace [OF Some, of resume command] assms
    unfolding ready_trace_def by auto
qed


definition sample_services :: platform_services where
  "sample_services = \<lparr>sv_environ = [''PATH=/usr/bin''], sv_register = (\<lambda>_ _. True), sv_reserve_socks = (\<lambda>_. Some 40001),
     sv_reserve_api = Some 40002, sv_start_proxy = (\<lambda>_. Some 40003), sv_record_ports = (\<lambda>_ _. True),
     sv_open_bastion = (\<lambda>_. Some \<lparr>bn_port = 40004, bn_state_root = ''/s'', bn_directory = ''/s/b'', bn_ssh_config = ''/s/b/c''\<rparr>),
     sv_prepare_kubeconfig = (\<lambda>_ _ _. Inr \<lparr>kt_path = ''/s/b/k'', kt_host = ''k.demo.internal'', kt_port = ''443''\<rparr>),
     sv_cancelled_in_kubeconfig = False, sv_write_empty = (\<lambda>_. Some ''/s/b/e''), sv_free_socks = True, sv_free_api = True,
     sv_start_ssh = (\<lambda>_. True), sv_wait_forward = (\<lambda>_. None), sv_fetch_heimdal = None, sv_cancelled_in_fetch = False,
     sv_replace_routes = (\<lambda>_. True), sv_select_shell = Some (''/bin/sh'', [''-i'']), sv_enable = True,
     sv_podman_environment = (\<lambda>env. env), sv_listen = Some, sv_prompt_write = (\<lambda>_. True), sv_start_shell = (\<lambda>_ _ _. True),
     sv_shell_wait = ShellEnded (Some 0), sv_pending_switch = None, sv_wants_publication = False, sv_run = sample_run\<rparr>"

definition runs :: "session_event list \<Rightarrow> bool" where
  "runs t \<longleftrightarrow> (\<exists>events. RunCommandEvents events \<in> set t)"

lemma runs_rules: "runs (fst rest) \<Longrightarrow> runs (fst (scoped r rest))" "runs (fst rest) \<Longrightarrow> runs (fst (prepend e rest))"
  "runs (fst rest) \<Longrightarrow> runs (fst (after_events es rest))"
  by (auto simp: runs_def scoped_def prepend_def after_events_def)

lemma sample_services_convs:
  "sv_environ sample_services = [''PATH=/usr/bin'']" "sv_register sample_services c kind" "sv_reserve_socks sample_services n = Some 40001"
  "sv_reserve_api sample_services = Some 40002" "sv_start_proxy sample_services c = Some 40003" "sv_record_ports sample_services n m"
  "\<exists>b. sv_open_bastion sample_services c = Some b" "\<exists>t. sv_prepare_kubeconfig sample_services c d n = Inr t"
  "sv_write_empty sample_services d = Some ''/s/b/e''" "sv_free_socks sample_services" "sv_free_api sample_services"
  "sv_start_ssh sample_services a" "sv_wait_forward sample_services n = None"
  by (simp_all add: sample_services_def)

lemma body_runs: "\<not> pf_acr_session c \<Longrightarrow> runs (fst (session_body sv c b resume unavailable kubeconfig (Some argv)))"
  by (simp add: session_body_def command_session_def runs_def scoped_def Let_def split: prod.split)

lemma forward_runs:
  assumes "\<not> pf_acr_session c" "pf_heimdal c = None"
  shows "runs (fst (start_forward sample_services c b resume api target unavailable kubeconfig (Some argv)))"
proof -
  have "runs (fst (forwarded_session sample_services c b resume api target unavailable kubeconfig (Some argv)))"
    unfolding forwarded_session_def
    using assms by (auto intro!: runs_rules body_runs simp: sample_services_def install_routes_def Let_def)
  then show ?thesis
    unfolding start_forward_def Let_def by (simp add: runs_rules sample_services_convs)
qed

lemma proxied_runs:
  assumes "\<not> pf_acr_session c" "pf_heimdal c = None"
  shows "runs (fst (proxied_session sample_services c resume api (Some argv)))"
proof -
  have k: "runs (fst (kubernetes_session sample_services c' b resume api (Some argv)))"
    if "\<not> pf_acr_session c'" "pf_heimdal c' = None" for c' b
  proof -
    obtain t where t: "sv_prepare_kubeconfig sample_services c' (bn_directory b) api = Inr t"
      using sample_services_convs(8) by blast
    show ?thesis
      by (simp add: kubernetes_session_def with_empty_kubeconfig_def Let_def runs_rules sample_services_convs t forward_runs that)
  qed
  let ?c = "if pf_proxy_port c = 0 then c\<lparr>pf_proxy_port := 40003\<rparr> else c"
  obtain b where b: "sv_open_bastion sample_services ?c = Some b" using sample_services_convs(7) by blast
  have "\<not> pf_acr_session ?c" "pf_heimdal ?c = None" using assms by simp_all
  then have "runs (fst (kubernetes_session sample_services ?c b resume api (Some argv)))" by (rule k)
  with b show ?thesis
    unfolding proxied_session_def Let_def sample_services_convs(5) option.case
    by (simp only: runs_rules sample_services_convs option.case if_True not_True_eq_False if_False)
qed

lemma sample_session_runs: "runs (fst (platform_session sample_services sample_profile False (Some argv)))"
proof -
  have v: "environment_value (sv_environ sample_services) ''BIVROST_SESSION'' = []"
    unfolding sample_services_convs by code_simp
  have p: "\<not> pf_acr_session sample_profile" "pf_heimdal sample_profile = None"
    by (simp_all add: sample_profile_def empty_profile_def)
  show ?thesis
    unfolding platform_session_def Let_def v sample_profile_valid option.case
    by (simp add: runs_rules sample_services_convs proxied_runs p)
qed


end
