(* ===== verification/Session_Switch.thy ===== *)
theory Session_Switch
  imports Platform_Session Catalogue
begin

section \<open>Requests to switch the session\<close>

text \<open>
  \<open>internal/session/switch.go\<close>: the request that \<^verbatim>\<open>bivrost switch\<close> sends to the owner of its session, its
  decoding there and the profile it stands for. The profile files are those of the catalogue theory.
\<close>

definition max_switch_request_bytes :: nat where "max_switch_request_bytes = 4096"

record switch_request =
  sw_environment :: string
  sw_config_path :: string
  sw_private_hosts :: "string list"
  sw_acr :: bool

datatype switch_error = NotOneTarget | SwitchEnvironment | SwitchPath | SwitchConfig config_error
  | SwitchProfile profile_error | NoRegistrySubscription
  | RequestUnreadable | RequestTooLarge | RequestNotObject | RequestTrailing

definition empty_request :: switch_request where
  "empty_request = \<lparr>sw_environment = [], sw_config_path = [], sw_private_hosts = [], sw_acr = False\<rparr>"

definition switch_fields :: "switch_request field list" where
  "switch_fields = [str_field ''Environment'' (\<lambda>x. sw_environment_update (\<lambda>_. x)),
     str_field ''ConfigPath'' (\<lambda>x. sw_config_path_update (\<lambda>_. x)),
     strs_field ''PrivateHosts'' (\<lambda>x. sw_private_hosts_update (\<lambda>_. list_of x)),
     bool_field ''ACR'' (\<lambda>x. sw_acr_update (\<lambda>_. x))]"

text \<open>The body of the request; \<open>None\<close> when reading it fails.\<close>

definition decode_switch_request :: "string option \<Rightarrow> (switch_error, switch_request) res" where
  "decode_switch_request body = (case body of None \<Rightarrow> Inl RequestUnreadable
     | Some body \<Rightarrow> (case read_limited max_switch_request_bytes body of TooLong \<Rightarrow> Inl RequestTooLarge
       | Within data \<Rightarrow> (case decode_single data (decode_struct True switch_fields empty_request) of
           NoValue _ \<Rightarrow> Inl RequestNotObject | Trailing \<Rightarrow> Inl RequestTrailing | Single r \<Rightarrow> Inr r)))"

definition load_switch_target :: "config_files \<Rightarrow> switch_request \<Rightarrow> (switch_error, profile) res" where
  "load_switch_target fs r =
     (if (sw_environment r = []) = (sw_config_path r = []) then Inl NotOneTarget
      else if sw_environment r \<noteq> [] \<and> \<not> valid_environment_name (sw_environment r) then Inl SwitchEnvironment
      else if sw_config_path r \<noteq> [] \<and> \<not> is_abs (sw_config_path r) then Inl SwitchPath
      else case load_environment fs (sw_environment r) (sw_config_path r) of Inl e \<Rightarrow> Inl (SwitchConfig e)
      | Inr c \<Rightarrow> (case with_private_hosts c (sw_private_hosts r) of Inl e \<Rightarrow> Inl (SwitchProfile e)
        | Inr c \<Rightarrow>
            let c = c\<lparr>pf_environment := environment_or_custom c, pf_acr_session := sw_acr r, pf_skip_registry_login := False\<rparr> in
            (case validate_platform c of Some e \<Rightarrow> Inl (SwitchProfile e)
             | None \<Rightarrow>
                 if sw_acr r
                 then (case validate_acr c of Some e \<Rightarrow> Inl (SwitchProfile e)
                   | None \<Rightarrow> if valid_resource_name (pf_registry_subscription c) then Inr c else Inl NoRegistrySubscription)
                 else Inr c)))"

text \<open>The request as \<open>runSwitch\<close> sends it, \<open>PrivateHosts\<close> only when there are some.\<close>

definition switch_request_json :: "switch_request \<Rightarrow> json" where
  "switch_request_json r = JObj ([(''Environment'', JStr (sw_environment r)), (''ConfigPath'', JStr (sw_config_path r))]
     @ (if sw_private_hosts r = [] then [] else [(''PrivateHosts'', JArr (map JStr (sw_private_hosts r)))])
     @ [(''ACR'', JBool (sw_acr r))])"

text \<open>
  \<open>runSwitch\<close>: the guards, the request and the answer. \<open>send\<close> is \<open>sessionRequestBody\<close>, which yields the
  status and the (limited) text of the response, or nothing; \<open>absolute\<close> is \<open>filepath.Abs\<close>.
\<close>

datatype switch_result = SwitchRefusedInRun | SwitchNotAllowed | SwitchPathUnresolved | SwitchNotSent
  | SwitchInterrupted | SwitchRejected string | SwitchAccepted

definition run_switch :: "string list \<Rightarrow> (string \<Rightarrow> string option) \<Rightarrow> (string \<Rightarrow> (nat \<times> string option) option)
    \<Rightarrow> string \<Rightarrow> string \<Rightarrow> string list \<Rightarrow> bool \<Rightarrow> switch_result" where
  "run_switch environ absolute send environment config_path private_hosts acr =
     (if inside_run environ then SwitchRefusedInRun
      else if environment_value environ ''BIVROST_SWITCH_ALLOWED'' \<noteq> ''1'' \<or> environment_value environ ''BIVROST_SESSION'' = []
      then SwitchNotAllowed
      else case (if config_path = [] then Some [] else absolute config_path) of None \<Rightarrow> SwitchPathUnresolved
      | Some path \<Rightarrow>
          (case send (json_text (switch_request_json
              \<lparr>sw_environment = environment, sw_config_path = path, sw_private_hosts = private_hosts, sw_acr = acr\<rparr>)) of
             None \<Rightarrow> SwitchNotSent
           | Some (status, None) \<Rightarrow> SwitchInterrupted
           | Some (status, Some body) \<Rightarrow>
               if status = 202 then SwitchAccepted
               else SwitchRejected (if trim_space body = [] then ''session switch was rejected'' else trim_space body)))"

subsection \<open>Properties\<close>

lemma find_switch_field:
  "find_field switch_fields ''Environment'' = Some (snd (str_field ''Environment'' (\<lambda>x. sw_environment_update (\<lambda>_. x))))"
  "find_field switch_fields ''ConfigPath'' = Some (snd (str_field ''ConfigPath'' (\<lambda>x. sw_config_path_update (\<lambda>_. x))))"
  "find_field switch_fields ''PrivateHosts'' = Some (snd (strs_field ''PrivateHosts'' (\<lambda>x. sw_private_hosts_update (\<lambda>_. list_of x))))"
  "find_field switch_fields ''ACR'' = Some (snd (bool_field ''ACR'' (\<lambda>x. sw_acr_update (\<lambda>_. x))))"
  by (simp_all add: find_field_def switch_fields_def str_field_def strs_field_def bool_field_def)

text \<open>
  The owner of a session decodes exactly the request that \<open>runSwitch\<close> sent, when the text of the
  request is within the limit of 4096 bytes; a longer one is refused.
\<close>

theorem switch_request_roundtrip:
  assumes "utf8 (sw_environment r)" "utf8 (sw_config_path r)" "list_all utf8 (sw_private_hosts r)"
  shows "decode_switch_request (Some (json_text (switch_request_json r)))
    = (if length (json_text (switch_request_json r)) \<le> max_switch_request_bytes then Inr r else Inl RequestTooLarge)"
proof -
  have keys: "utf8 ''Environment''" "utf8 ''ConfigPath''" "utf8 ''PrivateHosts''" "utf8 ''ACR''"
    by (simp_all add: utf8_ascii is_ascii_def)
  have "list_all wf_json (map JStr (sw_private_hosts r))" using assms(3) by (simp add: list_all_iff)
  then have wf: "wf_json (switch_request_json r)"
    using assms keys by (simp add: switch_request_json_def)
  have d: "decode_next (json_text (switch_request_json r)) = Some (switch_request_json r, [])"
    using decode_next_text [OF wf, of "[]"] by (simp add: ends_value_def)
  have "decode_struct True switch_fields empty_request (switch_request_json r) = Inr r"
    by (cases r) (simp add: decode_struct_def switch_request_json_def find_switch_field str_field_def strs_field_def
        bool_field_def empty_request_def
        str_items_strings list_of_def)
  then show ?thesis
    using d by (simp add: decode_switch_request_def read_limited_cases decode_single_def skip_ws_def)
qed

definition sample_switch :: switch_request where
  "sample_switch = \<lparr>sw_environment = ''dev'', sw_config_path = [], sw_private_hosts = [''a.demo.internal''], sw_acr = True\<rparr>"

theorem switch_request_roundtrip_witness:
  "decode_switch_request (Some (json_text (switch_request_json sample_switch))) = Inr sample_switch"
proof -
  have "utf8 (sw_environment sample_switch)" "utf8 (sw_config_path sample_switch)" "list_all utf8 (sw_private_hosts sample_switch)"
    by (simp_all add: sample_switch_def utf8_ascii is_ascii_def)
  note r = switch_request_roundtrip [OF this]
  have "length (json_text (switch_request_json sample_switch)) \<le> max_switch_request_bytes"
    using length_json_text [of "switch_request_json sample_switch"]
    by (simp add: switch_request_json_def sample_switch_def max_switch_request_bytes_def)
  then show ?thesis by (simp add: r)
qed

end
