(* ===== verification/Json_Wf.thy ===== *)
theory Json_Wf
  imports Kubeconfig
begin

section \<open>Well-formed JSON through the rewriting\<close>

text \<open>
  What the kubeconfig's rewriting yields can be written out and read back: the values taken from a
  well-formed document are well-formed, and so are the objects built from them.
\<close>

definition wf_object :: "object \<Rightarrow> bool" where
  "wf_object m \<longleftrightarrow> list_all (\<lambda>(k, v). utf8 k \<and> wf_json v) m"

named_theorems wf_rules

lemma wf_update [wf_rules]: "wf_object m \<Longrightarrow> utf8 k \<Longrightarrow> wf_json v \<Longrightarrow> wf_object (AList.update k v m)"
  unfolding wf_object_def by (induction m) auto

lemma wf_delete [wf_rules]: "wf_object m \<Longrightarrow> wf_object (AList.delete k m)"
  unfolding wf_object_def by (auto simp: list_all_iff AList.delete_eq)

lemma wf_marshal [wf_rules]: "wf_object m \<Longrightarrow> wf_json (marshal_object m)"
  by (auto simp: wf_object_def marshal_object_def list_all_iff)

lemma wf_as_object: "list_all (\<lambda>(k, v). utf8 k \<and> wf_json v) ms \<Longrightarrow> wf_object (as_object ms)"
proof -
  have "wf_object m \<Longrightarrow> list_all (\<lambda>(k, v). utf8 k \<and> wf_json v) ms \<Longrightarrow> wf_object (foldl (\<lambda>m (k, v). AList.update k v m) m ms)" for m
    by (induction ms arbitrary: m) (auto intro: wf_update)
  moreover have "wf_object []" by (simp add: wf_object_def)
  ultimately show "list_all (\<lambda>(k, v). utf8 k \<and> wf_json v) ms \<Longrightarrow> ?thesis" by (simp add: as_object_def)
qed

lemma wf_raw_object: "raw_object (Some v) = Some (Some m) \<Longrightarrow> wf_json v \<Longrightarrow> wf_object m"
  using wf_as_object by (auto simp: raw_object_def list_all_iff split: json.splits)

lemma wf_member: "map_of m k = Some v \<Longrightarrow> wf_object m \<Longrightarrow> wf_json v"
  by (auto simp: wf_object_def list_all_iff dest: map_of_SomeD)

lemma wf_raw_member: "raw_object (map_of m k) = Some (Some b) \<Longrightarrow> wf_object m \<Longrightarrow> wf_object b"
  using wf_member [of m k] wf_raw_object by (cases "map_of m k") auto

lemma wf_named_entries:
  "named_entries name field matched entries = Inr (Some (outer, b)) \<Longrightarrow> list_all wf_json entries
    \<Longrightarrow> (\<And>o' b'. matched = Some (o', b') \<Longrightarrow> wf_object o' \<and> wf_object b') \<Longrightarrow> wf_object outer \<and> wf_object b"
proof (induction name field matched entries rule: named_entries.induct)
  case (1 name field matched)
  then show ?case by simp
next
  case (2 name field matched entry entries)
  note prem = 2(3)
  obtain raw where raw: "raw_object (Some entry) = Some raw"
    using prem by (auto split: option.splits)
  define o' where "o' = (case raw of None \<Rightarrow> [] | Some m \<Rightarrow> m)"
  have w: "wf_object o'" using raw 2(4) wf_raw_object by (auto simp: o'_def wf_object_def split: option.splits)
  show ?case
  proof (cases "raw_string (map_of o' ''name'') = Some name")
    case False
    then have "named_entries name field matched entries = Inr (Some (outer, b))"
      using prem raw by (auto simp: Let_def o'_def)
    then show ?thesis using 2(1) [OF raw o'_def] False 2(4,5) by auto
  next
    case True
    then have m: "matched = None" using prem raw by (cases matched) (auto simp: Let_def o'_def)
    obtain b' where b': "raw_object (map_of o' field) = Some (Some b')"
      using prem raw True m by (auto simp: Let_def o'_def split: option.splits)
    have "named_entries name field (Some (o', b')) entries = Inr (Some (outer, b))"
      using prem raw True m b' by (auto simp: Let_def o'_def)
    then show ?thesis using 2(2) [OF raw o'_def] True m b' 2(4) w wf_raw_member [OF b' w] by auto
  qed
qed

lemma wf_named_object:
  assumes "named_kube_object (map_of d section_name) name field = Inr (outer, b)" "wf_object d"
  shows "wf_object outer \<and> wf_object b"
proof -
  obtain entries where "map_of d section_name = Some (JArr entries)" "named_entries name field None entries = Inr (Some (outer, b))"
    using assms(1) by (auto simp: named_kube_object_def ebind_Inr_iff split: option.splits json.splits)
  moreover from this have "list_all wf_json entries" using wf_member assms(2) by fastforce
  ultimately show ?thesis using wf_named_entries by fastforce
qed

lemma wf_single_section [wf_rules]:
  "wf_object outer \<Longrightarrow> wf_object b \<Longrightarrow> utf8 field \<Longrightarrow> wf_json (single_named_section outer field b)"
  by (simp add: single_named_section_def wf_rules)

lemma utf8_host: "valid_remote_dns_name host \<Longrightarrow> utf8 host"
  by (intro utf8_ascii) (auto simp: valid_remote_dns_name_def intro: valid_dns_name_ascii)

lemma digit_ascii: "is_digit c \<Longrightarrow> is_ascii c"
  by (auto simp: class_byte is_ascii_def byte_def less_eq_char_def less_char_def)

lemma wf_rewrite_cluster:
  assumes "rewrite_cluster cluster host local_port = Inr cl" "wf_object cluster" "valid_remote_dns_name host" "1 \<le> local_port"
  shows "wf_object cl"
proof -
  have u: "utf8 ''tls-server-name''" "utf8 ''server''" "utf8 (''https://127.0.0.1:'' @ itoa local_port)"
    using assms(4) nat_text_digits [of "nat local_port"]
    by (auto intro!: utf8_ascii simp: itoa_def list_all_iff digit_ascii) (simp_all add: is_ascii_def)
  then show ?thesis
    using assms utf8_host
    by (auto simp: rewrite_cluster_def name_tls_server_def Let_def ebind_Inr_iff join_host_port_def
        split: option.splits if_splits intro!: wf_rules)
qed

lemma wf_transform:
  assumes "transform_kubeconfig input local_port = Inr (doc, host, port)" "parse_json input = Some source" "wf_json source"
  shows "wf_json doc"
proof -
  from assms(1) obtain d current co c lo cluster uo user server cl cn un where
    s: "raw_object (parse_json input) = Some (Some d)" "1 \<le> local_port"
    and c: "named_or ActiveContextInvalid (map_of d ''contexts'') current ''context'' = Inr (co, c)"
    and l: "named_or ActiveClusterInvalid (map_of d ''clusters'') cn ''cluster'' = Inr (lo, cluster)"
    and u: "named_or ActiveUserInvalid (map_of d ''users'') un ''user'' = Inr (uo, user)"
    and v: "kube_api_target server = Inr (host, port)" "rewrite_cluster cluster host local_port = Inr cl"
    and doc: "doc = marshal_object (AList.update ''users'' (single_named_section uo ''user'' user)
       (AList.update ''clusters'' (single_named_section lo ''cluster'' cl)
       (AList.update ''contexts'' (single_named_section co ''context'' c) d)))"
    by (rule transform_kubeconfig_steps) blast
  have d: "wf_object d" using s(1) assms(2,3) wf_raw_object by simp
  have w: "wf_object co" "wf_object c" "wf_object lo" "wf_object cluster" "wf_object uo" "wf_object user"
    using c l u wf_named_object [OF _ d] by (auto simp: named_or_def split: sum.splits)
  have "wf_object cl" using wf_rewrite_cluster [OF v(2) w(4) _ s(2)] kube_api_target_sound [OF v(1)] by blast
  moreover have "utf8 ''users''" "utf8 ''user''" "utf8 ''clusters''" "utf8 ''cluster''" "utf8 ''contexts''" "utf8 ''context''"
    by (auto intro!: utf8_ascii simp: is_ascii_def)
  ultimately show ?thesis using w d by (auto simp: doc intro!: wf_rules)
qed

end
