(* ===== verification/Publication.thy ===== *)
theory Publication
  imports Json_Wf
begin

section \<open>Published sessions\<close>

text \<open>
  The first half of \<open>internal/session/publication.go\<close>: the kubeconfig that a session publishes for other
  local clients, the gateway its cluster names as a proxy, and the steps of a publication. What the
  environment and the file system answer is in the records \<open>publication_env\<close> and \<open>publish_env\<close>.
\<close>

datatype publication_error = PubInvalid | PubSection named_error | PubExec kube_error | PubEndpoint | PubTlsName | PubAuthority
  | PubAuthorityFile | PubTlsOff | PubPlugin | PubNoKubelogin | PubKubeloginPath
  | PubNoInput | PubNoCapability | PubNoIdentifier | PubNoTransport | PubNoFile | PubNotWritten | PubNotRenamed

subsection \<open>The published kubeconfig\<close>

text \<open>Where \<open>exec.LookPath\<close> finds kubelogin, \<open>filepath.Abs\<close>, and two variables of the owner's environment.\<close>

record publication_env =
  pv_look_path :: "string option"
  pv_absolute :: "string \<Rightarrow> string option"
  pv_path :: string
  pv_azure_config_dir :: string

text \<open>The string of a raw member, empty when it is none.\<close>

definition raw_text :: "json option \<Rightarrow> string" where
  "raw_text v = (case raw_string v of None \<Rightarrow> [] | Some s \<Rightarrow> s)"

definition pub_named :: "json option \<Rightarrow> string \<Rightarrow> string \<Rightarrow> (publication_error, object \<times> object) res" where
  "pub_named section_json name field =
     (case named_kube_object section_json name field of Inl e \<Rightarrow> Inl (PubSection e) | Inr r \<Rightarrow> Inr r)"

definition environment_entry :: "string \<Rightarrow> string \<Rightarrow> json" where
  "environment_entry name v = JObj [(''name'', JStr name), (''value'', JStr v)]"

definition plugin_environment :: "publication_env \<Rightarrow> json" where
  "plugin_environment env = JArr ([environment_entry ''PATH'' (pv_path env)]
     @ (if pv_azure_config_dir env = [] then [] else [environment_entry ''AZURE_CONFIG_DIR'' (pv_azure_config_dir env)]))"

definition publication_user :: "publication_env \<Rightarrow> object \<Rightarrow> (publication_error, object) res" where
  "publication_user env user = (case raw_object (map_of user ''exec'') of
     Some (Some plugin) \<Rightarrow> (case pv_look_path env of None \<Rightarrow> Inl PubNoKubelogin
       | Some found \<Rightarrow> (case pv_absolute env found of None \<Rightarrow> Inl PubKubeloginPath
         | Some executable \<Rightarrow> Inr (AList.update ''exec'' (marshal_object (AList.update ''env'' (plugin_environment env)
             (AList.update ''command'' (JStr executable) plugin))) user)))
   | _ \<Rightarrow> Inl PubPlugin)"

text \<open>The checks of the active cluster, which yield it without the TLS switch, and the host of its server.\<close>

definition publication_cluster :: "object \<Rightarrow> (publication_error, object \<times> string) res" where
  "publication_cluster cluster = (case url_parse (raw_text (map_of cluster ''server'')) of None \<Rightarrow> Inl PubEndpoint
     | Some u \<Rightarrow>
         if u_scheme u \<noteq> ''https'' \<or> hostname u \<noteq> ''127.0.0.1'' \<or> url_port u = [] \<or> u_user u \<noteq> None
            \<or> u_raw_query u \<noteq> [] \<or> u_fragment u \<noteq> [] then Inl PubEndpoint
         else if (case raw_string (map_of cluster ''tls-server-name'') of None \<Rightarrow> True | Some n \<Rightarrow> \<not> valid_remote_dns_name n)
         then Inl PubTlsName
         else if raw_text (map_of cluster ''certificate-authority-data'') = [] then Inl PubAuthority
         else if map_of cluster ''certificate-authority'' \<noteq> None then Inl PubAuthorityFile
         else if map_of cluster ''insecure-skip-tls-verify'' \<noteq> None
            \<and> raw_bool (map_of cluster ''insecure-skip-tls-verify'') \<noteq> Some False then Inl PubTlsOff
         else Inr (AList.delete ''insecure-skip-tls-verify'' cluster, u_host u))"

definition publication_label :: "string \<Rightarrow> string \<Rightarrow> string" where
  "publication_label environment ident = ''bivrost/'' @ environment @ ''/'' @ ident"

text \<open>The document with its active context, cluster and user under the new label, and the marker.\<close>

definition publication_document :: "object \<Rightarrow> object \<times> object \<Rightarrow> object \<times> object \<Rightarrow> object \<times> object \<Rightarrow> string \<Rightarrow> string \<Rightarrow> string \<Rightarrow> json" where
  "publication_document d context_entry cluster_entry user_entry lbl target proxy =
     marshal_object (AList.update ''bivrost-publication'' (JNum ''1'')
       (AList.update ''users'' (single_named_section (AList.update ''name'' (JStr lbl) (fst user_entry)) ''user'' (snd user_entry))
       (AList.update ''clusters'' (single_named_section (AList.update ''name'' (JStr lbl) (fst cluster_entry)) ''cluster''
          (AList.update ''proxy-url'' (JStr proxy) (AList.update ''server'' (JStr (''https://'' @ target)) (snd cluster_entry))))
       (AList.update ''contexts'' (single_named_section (AList.update ''name'' (JStr lbl) (fst context_entry)) ''context''
          (AList.update ''user'' (JStr lbl) (AList.update ''cluster'' (JStr lbl) (snd context_entry))))
       (AList.update ''current-context'' (JStr lbl) d)))))"

definition publication_kubeconfig ::
  "publication_env \<Rightarrow> string \<Rightarrow> string \<Rightarrow> string \<Rightarrow> string \<Rightarrow> string \<Rightarrow> (publication_error, json \<times> string) res" where
  "publication_kubeconfig env input environment ident target proxy =
     (case raw_object (parse_json input) of None \<Rightarrow> Inl PubInvalid
      | Some document \<Rightarrow>
          let d = (case document of None \<Rightarrow> [] | Some d \<Rightarrow> d) in
          ebind (pub_named (map_of d ''contexts'') (raw_text (map_of d ''current-context'')) ''context'') (\<lambda>context_entry.
          ebind (pub_named (map_of d ''clusters'') (raw_text (map_of (snd context_entry) ''cluster'')) ''cluster'') (\<lambda>cluster_entry.
          ebind (pub_named (map_of d ''users'') (raw_text (map_of (snd context_entry) ''user'')) ''user'') (\<lambda>user_entry.
          case validate_azure_cli_exec (snd user_entry) of Some e \<Rightarrow> Inl (PubExec e)
          | None \<Rightarrow>
              ebind (publication_cluster (snd cluster_entry)) (\<lambda>(cluster, host).
              ebind (publication_user env (snd user_entry)) (\<lambda>user.
              Inr (publication_document d context_entry (fst cluster_entry, cluster) (fst user_entry, user)
                (publication_label environment ident) target proxy, host)))))))"

subsection \<open>The gateway\<close>

record publication =
  pb_path :: string
  pb_target :: string
  pb_upstream :: string
  pb_authorization :: string
  pb_closed :: bool
  pb_connections :: "nat list"

record gateway_request =
  gr_origin :: string
  gr_proxy_authorization :: string
  gr_method :: string
  gr_url_path :: string
  gr_host :: string
  gr_url_host :: string

datatype admission = Status nat | DialUpstream string

text \<open>\<open>ServeHTTP\<close> up to the dial; the constant-time comparison is an equality.\<close>

definition admit :: "publication \<Rightarrow> gateway_request \<Rightarrow> admission" where
  "admit p r =
     (if gr_origin r \<noteq> [] \<or> gr_proxy_authorization r \<noteq> pb_authorization p then Status 403
      else if pb_closed p then Status 410
      else if gr_method r = ''GET'' \<and> gr_url_path r = ''/health'' then Status 204
      else if gr_method r \<noteq> ''CONNECT'' \<or> gr_host r \<noteq> pb_target p \<or> gr_url_host r \<noteq> pb_target p then Status 403
      else DialUpstream (pb_upstream p))"

text \<open>After the dial and the hijack, both ends of the tunnel are registered, unless the publication was closed meanwhile.\<close>

definition join_tunnel :: "publication \<Rightarrow> nat \<Rightarrow> nat \<Rightarrow> publication \<times> bool" where
  "join_tunnel p client upstream = (if pb_closed p then (p, False)
     else (p\<lparr>pb_connections := client # upstream # pb_connections p\<rparr>, True))"

definition leave_tunnel :: "publication \<Rightarrow> nat \<Rightarrow> nat \<Rightarrow> publication" where
  "leave_tunnel p client upstream = p\<lparr>pb_connections := filter (\<lambda>c. c \<noteq> client \<and> c \<noteq> upstream) (pb_connections p)\<rparr>"

datatype publication_event = OpenGateway int | CloseListener | CloseGateway | CreateFile string | WriteFile string json
  | RenameFile string string | DeleteFile string | CloseConnection nat

text \<open>\<open>close\<close>: every registered connection, the server, and the file if there is one.\<close>

definition close_publication :: "publication \<Rightarrow> publication_event list \<times> publication" where
  "close_publication p = (map CloseConnection (pb_connections p) @ [CloseGateway]
     @ (if pb_path p = [] then [] else [DeleteFile (pb_path p)]), p\<lparr>pb_closed := True\<rparr>)"

subsection \<open>Publishing\<close>

text \<open>
  The input, the two random values in hex, the port of the listener, the temporary file, and whether
  securing, writing and closing it and its renaming succeed.
\<close>

record publish_env =
  pu_input :: "string option"
  pu_token :: "string option"
  pu_identifier :: "string option"
  pu_listen :: "int option"
  pu_kube :: publication_env
  pu_temporary :: "string option"
  pu_written :: bool
  pu_renamed :: bool

definition gateway_host :: "int \<Rightarrow> string" where
  "gateway_host port = join_host_port ''127.0.0.1'' (itoa port)"

text \<open>\<open>url.URL.String\<close> of the gateway with the capability as its password, which consists of hexadecimal digits.\<close>

definition gateway_url :: "string \<Rightarrow> int \<Rightarrow> string" where
  "gateway_url token port = ''http://bivrost:'' @ token @ ''@'' @ gateway_host port"

definition gateway_authorization :: "string \<Rightarrow> string" where
  "gateway_authorization token = ''Basic '' @ base64 (''bivrost:'' @ token)"

definition gateway_target :: "string \<Rightarrow> string" where
  "gateway_target ident = ''bivrost-'' @ ident @ ''.invalid:443''"

definition new_publication :: "string \<Rightarrow> string \<Rightarrow> string \<Rightarrow> publication" where
  "new_publication token ident upstream = \<lparr>pb_path = [], pb_target = gateway_target ident, pb_upstream = upstream,
     pb_authorization = gateway_authorization token, pb_closed = False, pb_connections = []\<rparr>"

definition final_path :: "string \<Rightarrow> string" where
  "final_path path = trim_suffix path ''.tmp'' @ ''.json''"

text \<open>The file of a publication whose gateway is open; on a failure the gateway is closed again.\<close>

definition write_publication :: "publish_env \<Rightarrow> json \<Rightarrow> publication \<Rightarrow> publication_event list \<times> (publication_error, publication) res" where
  "write_publication env data p =
     (case pu_temporary env of None \<Rightarrow> (fst (close_publication p), Inl PubNoFile)
      | Some path \<Rightarrow>
          let p = p\<lparr>pb_path := path\<rparr>; closing = fst (close_publication p) in
          if \<not> pu_written env then (CreateFile path # closing, Inl PubNotWritten)
          else if \<not> pu_renamed env then (CreateFile path # WriteFile path data # closing, Inl PubNotRenamed)
          else ([CreateFile path, WriteFile path data, RenameFile path (final_path path)], Inr (p\<lparr>pb_path := final_path path\<rparr>)))"

definition open_publication :: "publish_env \<Rightarrow> string \<Rightarrow> publication_event list \<times> (publication_error, publication) res" where
  "open_publication env environment =
     (case pu_input env of None \<Rightarrow> ([], Inl PubNoInput)
      | Some input \<Rightarrow>
          if length input > max_kubeconfig_json_size then ([], Inl PubNoInput)
          else case pu_token env of None \<Rightarrow> ([], Inl PubNoCapability)
          | Some token \<Rightarrow> (case pu_identifier env of None \<Rightarrow> ([], Inl PubNoIdentifier)
            | Some ident \<Rightarrow> (case pu_listen env of None \<Rightarrow> ([], Inl PubNoTransport)
              | Some port \<Rightarrow>
                  (case publication_kubeconfig (pu_kube env) input environment ident (gateway_target ident) (gateway_url token port) of
                     Inl e \<Rightarrow> ([OpenGateway port, CloseListener], Inl e)
                   | Inr (data, upstream) \<Rightarrow>
                       apfst ((#) (OpenGateway port)) (write_publication env data (new_publication token ident upstream))))))"

subsection \<open>What is published\<close>

lemma kube_view_steps:
  assumes "kube_view document = Some (current, c, cluster, user)"
  obtains d co lo uo cluster_name user_name where
    "raw_object (Some document) = Some (Some d)" "raw_string (map_of d ''current-context'') = Some current"
    "named_kube_object (map_of d ''contexts'') current ''context'' = Inr (co, c)"
    "raw_string (map_of c ''cluster'') = Some cluster_name" "raw_string (map_of c ''user'') = Some user_name"
    "named_kube_object (map_of d ''clusters'') cluster_name ''cluster'' = Inr (lo, cluster)"
    "named_kube_object (map_of d ''users'') user_name ''user'' = Inr (uo, user)"
  using assms by (auto simp: kube_view_def split: option.splits sum.splits)

lemma published_view:
  assumes "kube_view document = Some (current, c, cluster, user)" "wf_json document"
    and "validate_azure_cli_exec user = None"
    and "publication_cluster cluster = Inr (cl, host)" "publication_user env user = Inr u"
    and "distinct (map fst cl)" "distinct (map fst u)"
  shows "\<exists>pub c' cluster' user'. publication_kubeconfig env (json_text document) environment ident target proxy = Inr (pub, host)
    \<and> kube_view pub = Some (publication_label environment ident, c', cluster', user')
    \<and> map_of cluster' = (map_of cl)(''server'' \<mapsto> JStr (''https://'' @ target), ''proxy-url'' \<mapsto> JStr proxy)
    \<and> map_of user' = map_of u
    \<and> sole pub ''contexts'' \<and> sole pub ''clusters'' \<and> sole pub ''users''"
proof -
  from assms(1) obtain d co lo uo cn un where
    d: "raw_object (Some document) = Some (Some d)" "raw_string (map_of d ''current-context'') = Some current"
    and c: "named_kube_object (map_of d ''contexts'') current ''context'' = Inr (co, c)"
    and n: "raw_string (map_of c ''cluster'') = Some cn" "raw_string (map_of c ''user'') = Some un"
    and l: "named_kube_object (map_of d ''clusters'') cn ''cluster'' = Inr (lo, cluster)"
    and us: "named_kube_object (map_of d ''users'') un ''user'' = Inr (uo, user)"
    by (rule kube_view_steps) blast
  let ?lbl = "publication_label environment ident"
  let ?pub = "publication_document d (co, c) (lo, cl) (uo, u) ?lbl target proxy"
  have k: "publication_kubeconfig env (json_text document) environment ident target proxy = Inr (?pub, host)"
    using d c n l us assms(3-5)
    by (simp add: publication_kubeconfig_def parse_json_text [OF assms(2)] pub_named_def raw_text_def)
  note C = named_kube_object_sound [OF c] and L = named_kube_object_sound [OF l] and U = named_kube_object_sound [OF us]
  have D: "distinct (map fst d)" using d(1) raw_object_distinct by blast
  have "\<exists>c' cluster' user'. kube_view ?pub = Some (?lbl, c', cluster', user')
    \<and> map_of c' = map_of (AList.update ''user'' (JStr ?lbl) (AList.update ''cluster'' (JStr ?lbl) c))
    \<and> map_of cluster' = map_of (AList.update ''proxy-url'' (JStr proxy) (AList.update ''server'' (JStr (''https://'' @ target)) cl))
    \<and> map_of user' = map_of u
    \<and> sole ?pub ''contexts'' \<and> sole ?pub ''clusters'' \<and> sole ?pub ''users''"
    unfolding publication_document_def fst_conv snd_conv
    using C L U D assms(6,7)
    by (intro kube_view_rewritten [where d = "AList.update ''bivrost-publication'' (JNum ''1'') (AList.update ''current-context'' (JStr ?lbl) d)"
        and co = "AList.update ''name'' (JStr ?lbl) co" and lo = "AList.update ''name'' (JStr ?lbl) lo"
        and uo = "AList.update ''name'' (JStr ?lbl) uo" and cluster_name = ?lbl and user_name = ?lbl])
      (simp_all add: object_map fun_eq_iff)
  with k show ?thesis by (auto simp: object_map)
qed

lemma exec_plugin:
  assumes "validate_azure_cli_exec user = None"
  obtains plugin where "raw_object (map_of user ''exec'') = Some (Some plugin)"
  using assms by (auto simp: validate_azure_cli_exec_def decode_struct_def split: if_splits option.splits json.splits)

lemma loopback_cluster_publishable:
  assumes "map_of cluster = loopback_cluster source host local_port" "1 \<le> local_port"
    and "map_of cluster ''tls-server-name'' = Some (JStr n)" "valid_remote_dns_name n"
    and "map_of cluster ''certificate-authority-data'' = Some (JStr ca)" "ca \<noteq> []"
  shows "publication_cluster cluster = Inr (AList.delete ''insecure-skip-tls-verify'' cluster, ''127.0.0.1:'' @ itoa local_port)"
proof -
  let ?u = "empty_url\<lparr>u_scheme := ''https'', u_user := None, u_host := ''127.0.0.1'' @ CHR '':'' # itoa local_port\<rparr>"
  have p: "list_all plain_url_byte ''127.0.0.1''" "list_all is_digit (itoa local_port)"
    using assms(2) nat_text_digits by (simp_all add: plain_url_byte_def alpha_numeric_class class_byte byte_def itoa_def)
  have u: "url_parse (''https://127.0.0.1:'' @ itoa local_port) = Some ?u"
    using url_parse_host_port [of "''https''" "''127.0.0.1''" "itoa local_port"] p by simp
  have h: "hostname ?u = ''127.0.0.1''" "url_port ?u = itoa local_port" using p by (auto intro!: plain_host_port)
  have m: "map_of cluster ''server'' = Some (JStr (''https://127.0.0.1:'' @ itoa local_port))"
    "map_of cluster ''certificate-authority'' = None" "map_of cluster ''insecure-skip-tls-verify'' = None"
    by (simp_all add: assms(1) loopback_cluster_def)
  have "itoa local_port \<noteq> []" using assms(2) nat_text_nonempty by (simp add: itoa_def)
  then show ?thesis
    unfolding publication_cluster_def raw_text_def m(1) raw_simps option.case u
    using h m assms(3-6) by (simp add: empty_url_def)
qed

text \<open>
  The kubeconfig of a session can be published: whatever the session's rewriting produced passes every
  check of the publication, the gateway's upstream is the session's loopback port, and the published
  document resolves, under its own label, to the session's cluster with only the server and the proxy
  replaced (the certificate authority and the TLS name are the session's) and to the session's user with
  only kubelogin's path and environment replaced.
\<close>

theorem session_kubeconfig_publishable:
  assumes "transform_kubeconfig (json_text source) local_port = Inr (doc, host, port)" "wf_json source"
    and "pv_look_path env = Some found" "pv_absolute env found = Some executable"
  shows "\<exists>pub current c cluster user c' cluster' user' plugin.
      publication_kubeconfig env (json_text doc) environment ident target proxy = Inr (pub, ''127.0.0.1:'' @ itoa local_port)
    \<and> kube_view doc = Some (current, c, cluster, user)
    \<and> kube_view pub = Some (publication_label environment ident, c', cluster', user')
    \<and> sole pub ''contexts'' \<and> sole pub ''clusters'' \<and> sole pub ''users''
    \<and> map_of cluster' = (map_of cluster)(''server'' \<mapsto> JStr (''https://'' @ target), ''proxy-url'' \<mapsto> JStr proxy)
    \<and> raw_object (map_of user ''exec'') = Some (Some plugin)
    \<and> map_of user' = (map_of user)(''exec'' \<mapsto> marshal_object (AList.update ''env'' (plugin_environment env)
        (AList.update ''command'' (JStr executable) plugin)))"
proof -
  from transformed_view [OF assms(1)] obtain current c cluster src user n ca where
    v: "kube_view doc = Some (current, c, cluster, user)" "validate_azure_cli_exec user = None"
      "map_of cluster = loopback_cluster src host local_port"
      "map_of cluster ''tls-server-name'' = Some (JStr n)" "valid_remote_dns_name n"
      "map_of cluster ''certificate-authority-data'' = Some (JStr ca)" "ca \<noteq> []"
    by blast
  have wf: "wf_json doc" using wf_transform [OF assms(1) parse_json_text] assms(2) by blast
  have "1 \<le> local_port" using assms(1) by (auto simp: transform_kubeconfig_def split: if_splits)
  note cl = loopback_cluster_publishable [OF v(3) this v(4-7)]
  obtain plugin where plugin: "raw_object (map_of user ''exec'') = Some (Some plugin)" using exec_plugin [OF v(2)] .
  let ?u = "AList.update ''exec'' (marshal_object (AList.update ''env'' (plugin_environment env)
      (AList.update ''command'' (JStr executable) plugin))) user"
  have u: "publication_user env user = Inr ?u" using plugin assms(3,4) by (simp add: publication_user_def)
  from v(1) obtain d lo uo cn un where
    "named_kube_object (map_of d ''clusters'') cn ''cluster'' = Inr (lo, cluster)"
    "named_kube_object (map_of d ''users'') un ''user'' = Inr (uo, user)"
    by (rule kube_view_steps) blast
  then have dist: "distinct (map fst cluster)" "distinct (map fst user)" using named_kube_object_sound by blast+
  have ins: "map_of (AList.delete ''insecure-skip-tls-verify'' cluster) = map_of cluster"
    by (auto simp: delete_conv' v(3) loopback_cluster_def fun_eq_iff)
  have dists: "distinct (map fst (AList.delete ''insecure-skip-tls-verify'' cluster))" "distinct (map fst ?u)"
    using dist by (simp_all only: distinct_delete distinct_update)
  from published_view [OF v(1) wf v(2) cl u dists, of environment ident target proxy]
  obtain pub c' cluster' user' where
    "publication_kubeconfig env (json_text doc) environment ident target proxy = Inr (pub, ''127.0.0.1:'' @ itoa local_port)"
    "kube_view pub = Some (publication_label environment ident, c', cluster', user')"
    "map_of cluster' = (map_of cluster)(''server'' \<mapsto> JStr (''https://'' @ target), ''proxy-url'' \<mapsto> JStr proxy)"
    "map_of user' = map_of ?u" "sole pub ''contexts''" "sole pub ''clusters''" "sole pub ''users''"
    unfolding ins by blast
  then show ?thesis using v(1) plugin unfolding update_conv' by blast
qed

definition sample_publication_env :: publication_env where
  "sample_publication_env = \<lparr>pv_look_path = Some ''/usr/bin/kubelogin'', pv_absolute = Some, pv_path = ''/usr/bin'', pv_azure_config_dir = []\<rparr>"

theorem session_kubeconfig_publishable_witness:
  "\<exists>doc pub. transform_kubeconfig (json_text sample_kubeconfig) 4321 = Inr (doc, ''demo.hcp.westeurope.azmk8s.io'', ''443'')
    \<and> publication_kubeconfig sample_publication_env (json_text doc) ''dev'' ''0a'' ''bivrost-0a.invalid:443'' ''http://x:1''
      = Inr (pub, ''127.0.0.1:'' @ itoa 4321)"
proof -
  obtain doc where t: "transform_kubeconfig (json_text sample_kubeconfig) 4321 = Inr (doc, ''demo.hcp.westeurope.azmk8s.io'', ''443'')"
    using sample_transform by blast
  have "pv_look_path sample_publication_env = Some ''/usr/bin/kubelogin''"
    "pv_absolute sample_publication_env ''/usr/bin/kubelogin'' = Some ''/usr/bin/kubelogin''"
    by (simp_all add: sample_publication_env_def)
  from session_kubeconfig_publishable [OF t sample_kubeconfig_wf this] t show ?thesis by blast
qed

end
