(* ===== verification/Publication_Cleanup.thy ===== *)
theory Publication_Cleanup
  imports Publication
begin

section \<open>Stale publications\<close>

text \<open>
  The second half of \<open>internal/session/publication.go\<close>: the private runtime directories, the publications
  found in one, and which of them are removed. A directory's entries, the answers to the probes and the
  outcome of a removal are the record \<open>cleanup_env\<close>. The probes run concurrently and independently of each
  other, so their order does not matter.
\<close>

subsection \<open>The runtime directory\<close>

text \<open>What creating and inspecting a directory yields: its permission bits, or that it is unusable.\<close>

datatype made_directory = MkdirFailed | NotADirectory | Directory nat

datatype runtime_error = HomeUnknown | BaseRelative | DirectoryNotCreated | DirectoryNotPrivate

record runtime_env =
  rt_xdg_runtime_dir :: string
  rt_xdg_state_home :: string
  rt_home :: "string option"
  rt_windows :: bool
  rt_make :: "string \<Rightarrow> made_directory"

definition private_directory :: "runtime_env \<Rightarrow> string \<Rightarrow> nat \<Rightarrow> runtime_error err" where
  "private_directory env dir forbidden = (case rt_make env dir of
     MkdirFailed \<Rightarrow> Some DirectoryNotCreated
   | NotADirectory \<Rightarrow> Some DirectoryNotPrivate
   | Directory mode \<Rightarrow> if \<not> rt_windows env \<and> Bit_Operations.and mode forbidden \<noteq> 0 then Some DirectoryNotPrivate else None)"

definition runtime_base :: "runtime_env \<Rightarrow> (runtime_error, string) res" where
  "runtime_base env = (if rt_xdg_runtime_dir env \<noteq> [] then Inr (rt_xdg_runtime_dir env)
     else if rt_xdg_state_home env \<noteq> [] then Inr (rt_xdg_state_home env)
     else case rt_home env of None \<Rightarrow> Inl HomeUnknown | Some home \<Rightarrow> Inr (path_join [home, ''.local'', ''state'']))"

text \<open>The parent may be readable for others (mask 0022), the directory itself for nobody else (0077).\<close>

definition runtime_directory :: "runtime_env \<Rightarrow> string \<Rightarrow> (runtime_error, string) res" where
  "runtime_directory env name = ebind (runtime_base env) (\<lambda>base.
     if \<not> is_abs base then Inl BaseRelative
     else case private_directory env (path_join [base, ''bivrost'']) 18 of Some e \<Rightarrow> Inl e
     | None \<Rightarrow> (case private_directory env (path_join [base, ''bivrost'', name]) 63 of Some e \<Rightarrow> Inl e
       | None \<Rightarrow> Inr (path_join [base, ''bivrost'', name])))"

definition publication_root :: "runtime_env \<Rightarrow> (runtime_error, string) res" where
  "publication_root env = runtime_directory env ''published''"

subsection \<open>Recognising a publication\<close>

text \<open>
  The marker and the proxies of the clusters. A slice that is decoded again keeps what its elements
  were, so an element starts from its predecessor at the same place.
\<close>

record published =
  pd_marker :: int
  pd_proxies :: "string list"

definition proxy_fields :: "string field list" where
  "proxy_fields = [str_field ''proxy-url'' (\<lambda>s _. s)]"

definition cluster_fields :: "string field list" where
  "cluster_fields = [(''cluster'', \<lambda>r v. decode_struct False proxy_fields r v)]"

fun decode_clusters :: "string list \<Rightarrow> json list \<Rightarrow> (decode_error, string list) res" where
  "decode_clusters earlier [] = Inr []"
| "decode_clusters earlier (v # vs) =
     ebind (decode_struct False cluster_fields (case earlier of [] \<Rightarrow> [] | e # _ \<Rightarrow> e) v)
       (\<lambda>p. ebind (decode_clusters (tl earlier) vs) (\<lambda>ps. Inr (p # ps)))"

definition published_fields :: "published field list" where
  "published_fields = [int_field ''bivrost-publication'' (\<lambda>n. pd_marker_update (\<lambda>_. n)),
     (''clusters'', \<lambda>r v. case v of JNull \<Rightarrow> Inr (r\<lparr>pd_proxies := []\<rparr>)
        | JArr vs \<Rightarrow> ebind (decode_clusters (pd_proxies r) vs) (\<lambda>ps. Inr (r\<lparr>pd_proxies := ps\<rparr>))
        | _ \<Rightarrow> Inl (FieldType ''clusters''))]"

record publication_probe =
  pp_path :: string
  pp_host :: string
  pp_authorization :: string

definition probe_of :: "string \<Rightarrow> string \<Rightarrow> publication_probe option" where
  "probe_of path data = (case parse_json data of None \<Rightarrow> None
     | Some v \<Rightarrow> (case decode_struct False published_fields \<lparr>pd_marker = 0, pd_proxies = []\<rparr> v of Inl _ \<Rightarrow> None
       | Inr doc \<Rightarrow>
           if pd_marker doc \<noteq> 1 \<or> length (pd_proxies doc) \<noteq> 1 then None
           else (case url_parse (hd (pd_proxies doc)) of None \<Rightarrow> None
             | Some u \<Rightarrow>
                 if u_scheme u \<noteq> ''http'' \<or> hostname u \<noteq> ''127.0.0.1'' \<or> url_port u = [] then None
                 else (case u_user u of
                   Some (name, Some password) \<Rightarrow>
                     if name \<noteq> ''bivrost'' \<or> length password \<noteq> 64 then None
                     else Some \<lparr>pp_path = path, pp_host = u_host u, pp_authorization = gateway_authorization password\<rparr>
                 | _ \<Rightarrow> None))))"

subsection \<open>Cleaning a directory\<close>

text \<open>A directory entry: its name, type, age in nanoseconds and size, and what reading it yields.\<close>

record directory_item =
  di_name :: string
  di_regular :: bool
  di_info :: "(int \<times> nat) option"
  di_contents :: "string option"

text \<open>The answer to a probe: a status, a failed dial that timed out or not, another failure, or no request.\<close>

datatype probe_answer = ProbeStatus nat | DialFailed bool | OtherFailure | NoRequest

datatype remove_result = RemovedNow | AlreadyGone | RemoveDenied

record cleanup_env =
  ce_items :: "directory_item list option"
  ce_answer :: "publication_probe \<Rightarrow> probe_answer"
  ce_remove :: "string \<Rightarrow> remove_result"
  ce_done :: bool

datatype cleanup_error = NotInspected | NotRemoved | CleanupCancelled

definition stale_temporary :: int where "stale_temporary = 60 * 1000000000"

definition publication_owner_gone :: "cleanup_env \<Rightarrow> publication_probe \<Rightarrow> bool" where
  "publication_owner_gone env probe = (case ce_answer env probe of
     ProbeStatus status \<Rightarrow> status = 403 \<or> status = 410
   | DialFailed timeout \<Rightarrow> \<not> timeout \<and> \<not> ce_done env
   | _ \<Rightarrow> False)"

text \<open>What an entry is: nothing to touch, a temporary file without an owner, or a publication to probe.\<close>

datatype found = Leave | StaleTemporary string | Probe publication_probe

definition inspect_item :: "string \<Rightarrow> directory_item \<Rightarrow> found" where
  "inspect_item root item =
     (if \<not> has_prefix (di_name item) ''bivrost-'' \<or> \<not> di_regular item then Leave
      else case di_info item of None \<Rightarrow> Leave
      | Some (age, len) \<Rightarrow>
          let path = path_join [root, di_name item] in
          if has_suffix (di_name item) ''.tmp'' then (if age > stale_temporary then StaleTemporary path else Leave)
          else if \<not> has_suffix (di_name item) ''.json'' \<or> len > max_kubeconfig_json_size then Leave
          else case di_contents item of None \<Rightarrow> Leave
          | Some data \<Rightarrow> (case probe_of path data of None \<Rightarrow> Leave | Some probe \<Rightarrow> Probe probe))"

text \<open>The removed paths in order, and the probes or the error.\<close>

fun scan_items :: "cleanup_env \<Rightarrow> string \<Rightarrow> directory_item list \<Rightarrow> string list \<times> (cleanup_error, publication_probe list) res" where
  "scan_items env root [] = ([], Inr [])"
| "scan_items env root (item # items) = (case inspect_item root item of
     Leave \<Rightarrow> scan_items env root items
   | Probe probe \<Rightarrow> (case scan_items env root items of
       (removed, Inl e) \<Rightarrow> (removed, Inl e) | (removed, Inr probes) \<Rightarrow> (removed, Inr (probe # probes)))
   | StaleTemporary path \<Rightarrow>
       if ce_remove env path = RemoveDenied then ([], Inl NotRemoved)
       else apfst (\<lambda>removed. if ce_remove env path = RemovedNow then path # removed else removed) (scan_items env root items))"

fun remove_gone :: "cleanup_env \<Rightarrow> publication_probe list \<Rightarrow> string list \<times> cleanup_error err" where
  "remove_gone env [] = ([], if ce_done env then Some CleanupCancelled else None)"
| "remove_gone env (probe # probes) =
     (if \<not> publication_owner_gone env probe then remove_gone env probes
      else if ce_remove env (pp_path probe) = RemoveDenied then ([], Some NotRemoved)
      else apfst (\<lambda>removed. if ce_remove env (pp_path probe) = RemovedNow then pp_path probe # removed else removed)
        (remove_gone env probes))"

definition clean_publication_directory :: "cleanup_env \<Rightarrow> string \<Rightarrow> string list \<times> cleanup_error err" where
  "clean_publication_directory env root = (case ce_items env of None \<Rightarrow> ([], Some NotInspected)
     | Some items \<Rightarrow> (case scan_items env root items of
         (removed, Inl e) \<Rightarrow> (removed, Some e)
       | (removed, Inr probes) \<Rightarrow> (let (removed', err) = remove_gone env probes in (removed @ removed', err))))"

subsection \<open>What is removed\<close>

lemma scan_items_removed:
  "path \<in> set (fst (scan_items env root items)) \<Longrightarrow> \<exists>item \<in> set items. inspect_item root item = StaleTemporary path"
proof (induction items)
  case (Cons item items)
  then show ?case
    by (cases "scan_items env root items") (auto split: found.splits sum.splits if_splits)
qed simp

lemma scan_items_probes:
  "snd (scan_items env root items) = Inr probes \<Longrightarrow> probe \<in> set probes \<Longrightarrow> \<exists>item \<in> set items. inspect_item root item = Probe probe"
proof (induction items arbitrary: probes)
  case (Cons item items)
  then show ?case
    by (cases "scan_items env root items") (auto split: found.splits sum.splits if_splits)
qed simp

lemma remove_gone_removed:
  "path \<in> set (fst (remove_gone env probes)) \<Longrightarrow> \<exists>probe \<in> set probes. pp_path probe = path \<and> publication_owner_gone env probe"
proof (induction probes)
  case (Cons probe probes)
  then show ?case
    by (cases "remove_gone env probes") (auto split: if_splits)
qed simp

lemma probe_of_path: "probe_of path data = Some probe \<Longrightarrow> pp_path probe = path"
  by (auto simp: probe_of_def split: if_splits option.splits sum.splits)

lemma inspected_probe:
  "inspect_item root item = Probe probe \<Longrightarrow> has_prefix (di_name item) ''bivrost-'' \<and> di_regular item
    \<and> has_suffix (di_name item) ''.json'' \<and> pp_path probe = path_join [root, di_name item]
    \<and> (\<exists>data. di_contents item = Some data \<and> probe_of (path_join [root, di_name item]) data = Some probe)"
  by (auto simp: inspect_item_def Let_def dest: probe_of_path split: if_splits option.splits)

lemma inspected_stale:
  "inspect_item root item = StaleTemporary path \<Longrightarrow> has_prefix (di_name item) ''bivrost-'' \<and> di_regular item
    \<and> has_suffix (di_name item) ''.tmp'' \<and> path = path_join [root, di_name item]
    \<and> (\<exists>age len. di_info item = Some (age, len) \<and> age > stale_temporary)"
  by (auto simp: inspect_item_def Let_def split: if_splits option.splits)


subsection \<open>A published file is recognised\<close>

text \<open>No name differs from the given one in its case only.\<close>

definition no_variant :: "string \<Rightarrow> object \<Rightarrow> bool" where
  "no_variant name m \<longleftrightarrow> (\<forall>k \<in> fst ` set m. equal_fold name k \<longrightarrow> k = name)"

lemma decode_one_field:
  assumes "distinct (map fst ms)" "no_variant name ms" "map_of ms name = Some v" "f r v = Inr r'"
  shows "decode_fields False [(name, f)] r ms = Inr r'"
proof -
  have skip: "decode_fields False [(name, f)] r xs = Inr r" if "name \<notin> fst ` set xs" "no_variant name xs" for xs r
    using that by (induction xs) (auto simp: find_field_def no_variant_def)
  show ?thesis
    using assms
  proof (induction ms)
    case (Cons m ms)
    obtain k w where m: "m = (k, w)" by (cases m)
    show ?case
    proof (cases "k = name")
      case True
      then show ?thesis using Cons.prems skip [of ms r'] by (auto simp: m find_field_def no_variant_def)
    next
      case False
      then have "find_field [(name, f)] k = None" using Cons.prems(2) by (auto simp: m find_field_def no_variant_def)
      moreover have "no_variant name ms" using Cons.prems(2) by (auto simp: no_variant_def)
      ultimately show ?thesis using Cons False by (auto simp: m)
    qed
  qed simp
qed

lemma no_variant_update:
  "no_variant name m \<Longrightarrow> k = name \<or> \<not> equal_fold name k \<Longrightarrow> no_variant name (AList.update k v m)"
  by (auto simp: no_variant_def dom_update image_iff)

lemma decode_marshalled:
  assumes "distinct (map fst m)" "no_variant name m" "map_of m name = Some v" "f r v = Inr r'"
  shows "decode_struct False [(name, f)] r (marshal_object m) = Inr r'"
  using assms decode_one_field [of "sort_key fst m" name v f r r']
  by (simp add: decode_struct_def marshal_object_def map_of_sort_key distinct_sort_key no_variant_def)

lemma decode_published:
  assumes "distinct (map fst ms)" "no_variant ''bivrost-publication'' ms" "no_variant ''clusters'' ms"
    and "decode_struct False cluster_fields [] e = Inr proxy"
    and "\<And>v. map_of ms ''bivrost-publication'' = Some v \<Longrightarrow> v = JNum ''1''"
    and "\<And>v. map_of ms ''clusters'' = Some v \<Longrightarrow> v = JArr [e] \<and> pd_proxies r = []"
  shows "decode_fields False published_fields r ms = Inr (r\<lparr>
      pd_marker := (if map_of ms ''bivrost-publication'' = None then pd_marker r else 1),
      pd_proxies := (if map_of ms ''clusters'' = None then pd_proxies r else [proxy])\<rparr>)"
  using assms
proof (induction ms arbitrary: r)
  case (Cons m ms)
  obtain k v where m: "m = (k, v)" by (cases m)
  have one: "int_literal ''1'' = Some 1"
    by (simp add: int_literal_def nat_of_text_def trim_prefix_def is_digit_def digit_val_def byte_def less_eq_char_def Let_def)
  note tail = Cons.prems(1-4)
  consider (marker) "k = ''bivrost-publication''" | (clusters) "k = ''clusters''"
    | (other) "k \<noteq> ''bivrost-publication''" "k \<noteq> ''clusters''" by blast
  then show ?case
  proof cases
    case marker
    then have "find_field published_fields k = Some (snd (int_field ''bivrost-publication'' (\<lambda>n. pd_marker_update (\<lambda>_. n))))"
      by (simp add: find_field_def published_fields_def int_field_def)
    moreover have "v = JNum ''1''" using Cons.prems(5) [of v] marker by (simp add: m)
    moreover have "map_of ms ''bivrost-publication'' = None" using Cons.prems(1) marker by (simp add: m map_of_eq_None_iff)
    moreover have "decode_fields False published_fields (r\<lparr>pd_marker := 1\<rparr>) ms = Inr (r\<lparr>pd_marker := 1,
        pd_proxies := (if map_of ms ''clusters'' = None then pd_proxies r else [proxy])\<rparr>)"
      using Cons.prems marker calculation(3) by (subst Cons.IH) (auto simp: m no_variant_def)
    ultimately show ?thesis using marker by (simp add: m int_field_def one)
  next
    case clusters
    then have "find_field published_fields k = Some (\<lambda>r v. case v of JNull \<Rightarrow> Inr (r\<lparr>pd_proxies := []\<rparr>)
        | JArr vs \<Rightarrow> ebind (decode_clusters (pd_proxies r) vs) (\<lambda>ps. Inr (r\<lparr>pd_proxies := ps\<rparr>))
        | _ \<Rightarrow> Inl (FieldType ''clusters''))"
      by (simp add: find_field_def published_fields_def int_field_def)
    moreover have "v = JArr [e]" "pd_proxies r = []" using Cons.prems(6) [of v] clusters by (simp_all add: m)
    moreover have "map_of ms ''clusters'' = None" using Cons.prems(1) clusters by (simp add: m map_of_eq_None_iff)
    moreover have "decode_fields False published_fields (r\<lparr>pd_proxies := [proxy]\<rparr>) ms = Inr (r\<lparr>
        pd_marker := (if map_of ms ''bivrost-publication'' = None then pd_marker r else 1), pd_proxies := [proxy]\<rparr>)"
      using Cons.prems clusters calculation(4) by (subst Cons.IH) (auto simp: m no_variant_def)
    ultimately show ?thesis using clusters Cons.prems(4) by (simp add: m)
  next
    case other
    have "find_field published_fields k = None"
      using Cons.prems(2,3) other by (auto simp: m find_field_def published_fields_def int_field_def no_variant_def)
    moreover have "decode_fields False published_fields r ms = Inr (r\<lparr>
        pd_marker := (if map_of ms ''bivrost-publication'' = None then pd_marker r else 1),
        pd_proxies := (if map_of ms ''clusters'' = None then pd_proxies r else [proxy])\<rparr>)"
      using Cons.prems other by (intro Cons.IH) (auto simp: m no_variant_def)
    ultimately show ?thesis using other by (simp add: m)
  qed
qed simp

text \<open>The sections of the document that is published, and what of it must not be mistaken for another member.\<close>

definition plain_members :: "object \<Rightarrow> object \<Rightarrow> object \<Rightarrow> bool" where
  "plain_members d entry cluster \<longleftrightarrow> distinct (map fst d) \<and> distinct (map fst entry) \<and> distinct (map fst cluster)
     \<and> no_variant ''bivrost-publication'' d \<and> no_variant ''clusters'' d \<and> no_variant ''cluster'' entry \<and> no_variant ''proxy-url'' cluster"

lemma not_variants:
  "\<not> equal_fold ''clusters'' ''contexts''" "\<not> equal_fold ''clusters'' ''users''" "\<not> equal_fold ''clusters'' ''current-context''"
  "\<not> equal_fold ''clusters'' ''bivrost-publication''" "\<not> equal_fold ''bivrost-publication'' ''contexts''"
  "\<not> equal_fold ''bivrost-publication'' ''users''" "\<not> equal_fold ''bivrost-publication'' ''current-context''"
  "\<not> equal_fold ''bivrost-publication'' ''clusters''" "\<not> equal_fold ''cluster'' ''name''" "\<not> equal_fold ''proxy-url'' ''server''"
  by code_simp+

lemma decode_publication_document:
  assumes "plain_members d lo cluster"
  shows "decode_struct False published_fields \<lparr>pd_marker = 0, pd_proxies = []\<rparr>
      (publication_document d (co, c) (lo, cluster) (uo, user) lbl target proxy) = Inr \<lparr>pd_marker = 1, pd_proxies = [proxy]\<rparr>"
proof -
  let ?cl = "AList.update ''proxy-url'' (JStr proxy) (AList.update ''server'' (JStr (''https://'' @ target)) cluster)"
  have "decode_struct False proxy_fields [] (marshal_object ?cl) = Inr proxy"
    unfolding proxy_fields_def str_field_def using assms not_variants
    by (intro decode_marshalled) (auto simp: plain_members_def object_map intro!: no_variant_update)
  then have e: "decode_struct False cluster_fields []
      (marshal_object (AList.update ''cluster'' (marshal_object ?cl) (AList.update ''name'' (JStr lbl) lo))) = Inr proxy"
    unfolding cluster_fields_def using assms not_variants
    by (intro decode_marshalled) (auto simp: plain_members_def object_map intro!: no_variant_update)
  let ?d = "AList.update ''bivrost-publication'' (JNum ''1'')
      (AList.update ''users'' (single_named_section (AList.update ''name'' (JStr lbl) uo) ''user'' user)
      (AList.update ''clusters'' (single_named_section (AList.update ''name'' (JStr lbl) lo) ''cluster'' ?cl)
      (AList.update ''contexts'' (single_named_section (AList.update ''name'' (JStr lbl) co) ''context''
          (AList.update ''user'' (JStr lbl) (AList.update ''cluster'' (JStr lbl) c)))
      (AList.update ''current-context'' (JStr lbl) d))))"
  have "distinct (map fst ?d)" using assms by (simp add: plain_members_def object_map)
  moreover have "no_variant ''bivrost-publication'' ?d" "no_variant ''clusters'' ?d"
    using assms not_variants by (auto simp: plain_members_def intro!: no_variant_update)
  ultimately have "decode_fields False published_fields \<lparr>pd_marker = 0, pd_proxies = []\<rparr> (sort_key fst ?d)
      = Inr \<lparr>pd_marker = 1, pd_proxies = [proxy]\<rparr>"
    using decode_published [OF _ _ _ e, of "sort_key fst ?d" "\<lparr>pd_marker = 0, pd_proxies = []\<rparr>"]
    by (simp add: distinct_sort_key map_of_sort_key object_map single_named_section_def no_variant_def)
  then show ?thesis by (simp add: decode_struct_def publication_document_def marshal_object_def)
qed

lemma utf8_names:
  "utf8 ''bivrost-publication''" "utf8 ''users''" "utf8 ''user''" "utf8 ''clusters''" "utf8 ''cluster''" "utf8 ''contexts''"
  "utf8 ''context''" "utf8 ''current-context''" "utf8 ''name''" "utf8 ''proxy-url''" "utf8 ''server''"
  by (auto intro!: utf8_ascii simp: is_ascii_def)

lemma wf_publication_document:
  assumes "list_all wf_object [d, co, c, lo, cluster, uo, user]" "utf8 lbl" "utf8 (''https://'' @ target)" "utf8 proxy"
  shows "wf_json (publication_document d (co, c) (lo, cluster) (uo, user) lbl target proxy)"
proof -
  have "rmatch number_pattern ''1''" by code_simp
  then have "wf_json (JNum ''1'')" by (simp add: number_byte_def is_digit_def less_eq_char_def)
  then show ?thesis
    using assms utf8_names by (auto simp: publication_document_def intro!: wf_rules)
qed

lemma gateway_url_parsed:
  assumes "list_all plain_url_byte token" "1 \<le> port"
  shows "url_parse (gateway_url token port)
    = Some (empty_url\<lparr>u_scheme := ''http'', u_user := Some (''bivrost'', Some token), u_host := gateway_host port\<rparr>)"
    and "hostname (empty_url\<lparr>u_scheme := ''http'', u_user := Some (''bivrost'', Some token), u_host := gateway_host port\<rparr>) = ''127.0.0.1''"
    and "url_port (empty_url\<lparr>u_scheme := ''http'', u_user := Some (''bivrost'', Some token), u_host := gateway_host port\<rparr>) \<noteq> []"
proof -
  have p: "list_all plain_url_byte ''127.0.0.1''" "list_all plain_url_byte ''bivrost''" "list_all is_digit (itoa port)" "itoa port \<noteq> []"
    using assms(2) nat_text_digits nat_text_nonempty
    by (simp_all add: plain_url_byte_def alpha_numeric_class class_byte byte_def itoa_def)
  have g: "gateway_host port = ''127.0.0.1'' @ CHR '':'' # itoa port" by (simp add: gateway_host_def join_host_port_def)
  show "url_parse (gateway_url token port)
    = Some (empty_url\<lparr>u_scheme := ''http'', u_user := Some (''bivrost'', Some token), u_host := gateway_host port\<rparr>)"
    using url_parse_user_host_port [of "''http''" "''127.0.0.1''" "itoa port" "''bivrost''" token] p assms(1)
    by (simp add: gateway_url_def g)
  let ?u = "empty_url\<lparr>u_scheme := ''http'', u_user := Some (''bivrost'', Some token), u_host := gateway_host port\<rparr>"
  have "u_host ?u = ''127.0.0.1'' @ CHR '':'' # itoa port" by (simp add: g)
  from plain_host_port [OF p(1) p(3) this] p(4) show "hostname ?u = ''127.0.0.1''" "url_port ?u \<noteq> []" by simp_all
qed

definition health_request :: "publication_probe \<Rightarrow> gateway_request" where
  "health_request probe = \<lparr>gr_origin = [], gr_proxy_authorization = pp_authorization probe, gr_method = ''GET'',
     gr_url_path = ''/health'', gr_host = pp_host probe, gr_url_host = []\<rparr>"

text \<open>
  Whatever a session publishes, a later cleaning reads back from the file: it recognises it, probes
  the gateway's own address with the gateway's own capability, and so a gateway that answers the probe
  is taken for gone exactly when it was closed.
\<close>

theorem publication_recognised:
  assumes "plain_members d lo cluster" "list_all wf_object [d, co, c, lo, cluster, uo, user]"
    and "list_all is_ascii environment" "list_all plain_url_byte ident" "list_all plain_url_byte token" "length token = 64" "1 \<le> port"
    and "data = publication_document d (co, c) (lo, cluster) (uo, user) (publication_label environment ident)
      (gateway_target ident) (gateway_url token port)"
    and "p = (new_publication token ident upstream)\<lparr>pb_closed := closed\<rparr>"
  shows "\<exists>probe. probe_of path (json_text data) = Some probe \<and> pp_path probe = path \<and> pp_host probe = gateway_host port
    \<and> (\<forall>env. (\<exists>status. admit p (health_request probe) = Status status \<and> ce_answer env probe = ProbeStatus status)
      \<longrightarrow> (publication_owner_gone env probe \<longleftrightarrow> closed))"
proof -
  have a: "list_all is_ascii s" if "list_all plain_url_byte s" for s
    using that by (auto simp: list_all_iff plain_url_byte_def alpha_numeric_class class_byte byte_def is_ascii_def less_char_def)
  have "list_all is_ascii (itoa port)" using assms(7) nat_text_digits by (auto simp: itoa_def list_all_iff digit_ascii)
  then have "utf8 (gateway_url token port)" "utf8 (''https://'' @ gateway_target ident)"
    using a [OF assms(5)] a [OF assms(4)]
    by (auto intro!: utf8_ascii simp: gateway_url_def gateway_host_def join_host_port_def gateway_target_def) (simp_all add: is_ascii_def)
  moreover have "utf8 (publication_label environment ident)"
    using a [OF assms(4)] assms(3) by (auto intro!: utf8_ascii simp: publication_label_def) (simp_all add: is_ascii_def)
  ultimately have "wf_json data" unfolding assms(8) using assms(2) by (intro wf_publication_document)
  then have parsed: "parse_json (json_text data) = Some data" by (rule parse_json_text)
  let ?probe = "\<lparr>pp_path = path, pp_host = gateway_host port, pp_authorization = gateway_authorization token\<rparr>"
  have "decode_struct False published_fields \<lparr>pd_marker = 0, pd_proxies = []\<rparr> data
      = Inr \<lparr>pd_marker = 1, pd_proxies = [gateway_url token port]\<rparr>"
    unfolding assms(8) using assms(1) by (rule decode_publication_document)
  then have "probe_of path (json_text data) = Some ?probe"
    using gateway_url_parsed [OF assms(5,7)] assms(6) by (simp add: probe_of_def parsed empty_url_def)
  moreover have "admit p (health_request ?probe) = Status (if closed then 410 else 204)"
    by (simp add: assms(9) admit_def health_request_def new_publication_def)
  ultimately show ?thesis by (auto simp: publication_owner_gone_def)
qed

theorem publication_recognised_witness:
  "\<exists>probe. probe_of ''/r/bivrost-1.json'' (json_text (publication_document [] ([], []) ([], []) ([], []) (publication_label ''dev'' ''0a'')
      (gateway_target ''0a'') (gateway_url (replicate 64 CHR ''a'') 40001))) = Some probe \<and> pp_host probe = gateway_host 40001"
proof -
  have a: "plain_members [] [] []" "list_all wf_object [[], [], [], [], [], [], []]"
    by (simp_all add: plain_members_def no_variant_def wf_object_def)
  have b: "list_all is_ascii ''dev''" "list_all plain_url_byte ''0a''" "list_all plain_url_byte (replicate 64 CHR ''a'')"
    "length (replicate 64 CHR ''a'') = 64" "(1::int) \<le> 40001"
    by (simp_all add: is_ascii_def plain_url_byte_def alpha_numeric_class class_byte byte_def list_all_iff)
  show ?thesis
    using publication_recognised [OF a b refl refl, where path = "''/r/bivrost-1.json''" and upstream = "[]" and closed = False] by blast
qed

definition sample_cleanup :: cleanup_env where
  "sample_cleanup = \<lparr>ce_items = Some [\<lparr>di_name = ''bivrost-1.tmp'', di_regular = True, di_info = Some (70 * 1000000000, 0),
     di_contents = None\<rparr>], ce_answer = (\<lambda>_. NoRequest), ce_remove = (\<lambda>_. RemovedNow), ce_done = False\<rparr>"

lemma sample_cleaned: "path_join [''/r'', ''bivrost-1.tmp''] \<in> set (fst (clean_publication_directory sample_cleanup ''/r''))"
proof -
  have "has_prefix ''bivrost-1.tmp'' ''bivrost-''" "has_suffix ''bivrost-1.tmp'' ''.tmp''" by code_simp+
  then show ?thesis
    by (simp add: clean_publication_directory_def sample_cleanup_def inspect_item_def stale_temporary_def)
qed


end
