(* ===== verification/Podman_Session.thy ===== *)
theory Podman_Session
  imports Platform_Session Json_Object Shell_Texts
begin

section \<open>A Podman session and the script that hands it to a shell\<close>

text \<open>
  From \<open>internal/session/podman_session.go\<close> what a Podman session puts into an environment and how its
  supervisor's first line is read, and from \<open>internal/session/activation.go\<close> the script that a Unix shell
  sources or PowerShell reads after the registry was enabled.
\<close>

record podman_session =
  ps_configuration :: string
  ps_wrapper_directory :: string
  ps_host :: string
  ps_identity :: string

definition podman_variables :: "string list" where
  "podman_variables = [''CONTAINER_HOST'', ''CONTAINER_CONNECTION'', ''CONTAINER_SSHKEY'', ''CONTAINERS_CONF_OVERRIDE'']"

text \<open>\<open>podmanSession.environment\<close>; without an environment (\<open>nil\<close>) the search path is left out.\<close>

definition podman_environment :: "podman_session \<Rightarrow> string list option \<Rightarrow> string list" where
  "podman_environment s env =
     (let old = (case env of None \<Rightarrow> [] | Some e \<Rightarrow> e);
          result = filter (\<lambda>entry. to_upper (entry_name entry) \<notin> set podman_variables) old
            @ [''CONTAINERS_CONF_OVERRIDE='' @ ps_configuration s];
          result = (if ps_wrapper_directory s = [] then result
            else let result = replace_environment result ''BIVROST_PODMAN_BIN'' (ps_wrapper_directory s) in
              if env = None then result
              else replace_environment result ''PATH'' (ps_wrapper_directory s @ '':'' @ environment_value old ''PATH''))
      in result @ (if ps_host s = [] then [] else [''CONTAINER_HOST='' @ ps_host s, ''CONTAINER_SSHKEY='' @ ps_identity s]))"

text \<open>The supervisor's line: the path of the API socket, if the line has the expected form.\<close>

definition socket_pattern :: rx where
  "socket_pattern = Seq (text_rx ''/run/'') (Seq (opt (Seq (text_rx ''user/'') (Seq (plus (Cls is_digit)) (text_rx ''/''))))
     (Seq (text_rx ''bivrost-session.'') (Seq (rep 12 (Cls ascii_alpha_numeric)) (text_rx ''/api.sock''))))"

definition supervisor_socket :: "string \<Rightarrow> string option" where
  "supervisor_socket line =
     (let path = trim_suffix (trim_prefix line ''bivrost-podman-session '') [CHR 0x0A] in
      if has_prefix line ''bivrost-podman-session '' \<and> has_suffix line [CHR 0x0A] \<and> rmatch socket_pattern path then Some path else None)"

text \<open>The command that logs the session's Podman in to the registry.\<close>

definition podman_login_arguments :: "podman_session \<Rightarrow> profile \<Rightarrow> string list" where
  "podman_login_arguments s c = (if ps_host s = [] then [''--remote=false''] else [])
     @ [''login'', pf_registry c @ ''.azurecr.io'', ''--username'', ''00000000-0000-0000-0000-000000000000'', ''--password-stdin'']"

subsection \<open>The activation script\<close>

definition power_shell :: "string \<Rightarrow> bool" where
  "power_shell shell \<longleftrightarrow> contains_str (to_lower (path_base shell)) ''pwsh'' \<or> has_prefix (to_lower (path_base shell)) ''powershell''"

definition activation_shell :: "string \<Rightarrow> bool" where
  "activation_shell shell \<longleftrightarrow> to_lower (path_base shell) \<in> {''bash'', ''zsh'', ''pwsh'', ''pwsh.exe'', ''powershell'', ''powershell.exe''}"

definition activation_keys :: "podman_session \<Rightarrow> string list" where
  "activation_keys s = [''CONTAINER_HOST'', ''CONTAINER_CONNECTION'', ''CONTAINER_SSHKEY'', ''CONTAINERS_CONF_OVERRIDE'']
     @ (if ps_wrapper_directory s = [] then [] else [''BIVROST_PODMAN_BIN''])"

definition activation_values :: "podman_session \<Rightarrow> (string \<times> string) list" where
  "activation_values s = [(''CONTAINERS_CONF_OVERRIDE'', ps_configuration s)]
     @ (if ps_wrapper_directory s = [] then [] else [(''BIVROST_PODMAN_BIN'', ps_wrapper_directory s)])
     @ (if ps_host s = [] then [] else [(''CONTAINER_HOST'', ps_host s), (''CONTAINER_SSHKEY'', ps_identity s)])"

text \<open>A single quote inside single quotes: the quote is closed, a quoted quote follows, and it opens again.\<close>

definition quote_mark :: char where "quote_mark = CHR 0x27"

definition quoted_mark :: string where "quoted_mark = [CHR 0x27, CHR 0x22, CHR 0x27, CHR 0x22, CHR 0x27]"

definition shell_quote :: "string \<Rightarrow> string" where
  "shell_quote v = [quote_mark] @ replace_byte quote_mark quoted_mark v @ [quote_mark]"

definition activation_line :: "(string \<times> string) list \<Rightarrow> string \<Rightarrow> string" where
  "activation_line vs key = (case map_of vs key of
     Some v \<Rightarrow> ''export '' @ key @ ''='' @ shell_quote v @ [CHR 0x0A]
   | None \<Rightarrow> ''unset '' @ key @ [CHR 0x0A])"

definition activation_script :: "string \<Rightarrow> podman_session \<Rightarrow> string" where
  "activation_script shell s =
     (if power_shell shell then json_text (marshal_object (map (\<lambda>(k, v). (k, JStr v)) (activation_values s)))
      else concat (map (activation_line (activation_values s)) (activation_keys s))
        @ (if ps_wrapper_directory s = [] then [] else unix_podman_path_init))"

subsection \<open>What a shell does with it\<close>

text \<open>
  The part of the POSIX shell language that the script needs: a word of single-quoted and
  double-quoted pieces up to the end of the line, where a double-quoted piece has none of the
  characters that mean something inside it, and lines that export or unset a variable.
\<close>

fun quoted_word :: "char option \<Rightarrow> string \<Rightarrow> (string \<times> string) option" where
  "quoted_word m [] = None"
| "quoted_word None (c # s) = (if c = CHR 0x0A then Some ([], s)
     else if c = CHR 0x27 \<or> c = CHR 0x22 then quoted_word (Some c) s else None)"
| "quoted_word (Some q) (c # s) = (if c = q then quoted_word None s
     else if q = CHR 0x22 \<and> c \<in> {CHR ''$'', CHR 0x60, CHR 0x5C, CHR ''!''} then None
     else map_option (apfst ((#) c)) (quoted_word (Some q) s))"

lemma quoted_word_text:
  "quoted_word (Some CHR 0x27) (replace_byte quote_mark quoted_mark v @ CHR 0x27 # CHR 0x0A # rest) = Some (v, rest)"
  by (induction v) (auto simp: replace_byte_def quote_mark_def quoted_mark_def)

lemma shell_quote_word: "quoted_word None (shell_quote v @ CHR 0x0A # rest) = Some (v, rest)"
  using quoted_word_text [of v rest] by (simp add: shell_quote_def quote_mark_def)

datatype shell_step = Export string string | Unset string

definition variable_name :: "string \<Rightarrow> bool" where
  "variable_name k \<longleftrightarrow> k \<noteq> [] \<and> list_all (\<lambda>c. is_upper c \<or> c = CHR ''_'') k"

definition read_line :: "string \<Rightarrow> (shell_step \<times> string) option" where
  "read_line s =
     (if has_prefix s ''export ''
      then (case cut CHR ''='' (drop 7 s) of (name, rest, found) \<Rightarrow>
        if found \<and> variable_name name then map_option (apfst (Export name)) (quoted_word None rest) else None)
      else if has_prefix s ''unset ''
      then (case cut CHR 0x0A (drop 6 s) of (name, rest, found) \<Rightarrow>
        if found \<and> variable_name name then Some (Unset name, rest) else None)
      else None)"

fun read_lines :: "nat \<Rightarrow> string \<Rightarrow> (shell_step list \<times> string) option" where
  "read_lines 0 s = Some ([], s)"
| "read_lines (Suc n) s = (case read_line s of None \<Rightarrow> None
     | Some (step, rest) \<Rightarrow> map_option (apfst ((#) step)) (read_lines n rest))"

lemma variable_name_no: "variable_name k \<Longrightarrow> CHR ''='' \<notin> set k \<and> CHR 0x0A \<notin> set k"
  by (auto simp: variable_name_def list_all_iff class_byte byte_def)

lemma read_activation_line:
  assumes "variable_name key"
  shows "read_line (activation_line vs key @ rest)
    = Some (case map_of vs key of Some v \<Rightarrow> Export key v | None \<Rightarrow> Unset key, rest)"
proof (cases "map_of vs key")
  case None
  have "cut CHR 0x0A (key @ CHR 0x0A # rest) = (key, rest, True)"
    using variable_name_no [OF assms] by (intro cut_append) auto
  then show ?thesis using None assms by (simp add: activation_line_def read_line_def)
next
  case (Some v)
  have "cut CHR ''='' (key @ CHR ''='' # shell_quote v @ CHR 0x0A # rest) = (key, shell_quote v @ CHR 0x0A # rest, True)"
    using variable_name_no [OF assms] by (intro cut_append) auto
  then show ?thesis using Some assms shell_quote_word [of v rest] by (simp add: activation_line_def read_line_def)
qed

lemma read_activation_lines:
  "list_all variable_name keys \<Longrightarrow> read_lines (length keys) (concat (map (activation_line vs) keys) @ rest)
    = Some (map (\<lambda>key. case map_of vs key of Some v \<Rightarrow> Export key v | None \<Rightarrow> Unset key) keys, rest)"
  by (induction keys) (simp_all add: read_activation_line)

text \<open>
  A Unix shell that sources the activation script sets exactly the variables of the Podman session to
  exactly their values, whatever characters these contain, and unsets the rest; nothing of a value is
  ever read as a command.
\<close>

theorem activation_script_exports:
  assumes "\<not> power_shell shell"
  shows "read_lines (length (activation_keys s)) (activation_script shell s)
    = Some (map (\<lambda>key. case map_of (activation_values s) key of Some v \<Rightarrow> Export key v | None \<Rightarrow> Unset key) (activation_keys s),
        if ps_wrapper_directory s = [] then [] else unix_podman_path_init)"
proof -
  have "list_all variable_name (activation_keys s)"
    by (simp add: activation_keys_def variable_name_def class_byte byte_def)
  from read_activation_lines [OF this] show ?thesis using assms by (simp add: activation_script_def)
qed

theorem activation_script_exports_witness:
  "read_lines 4 (activation_script ''/bin/bash'' \<lparr>ps_configuration = [CHR 0x27, CHR '';'', CHR 0x0A], ps_wrapper_directory = [],
      ps_host = [], ps_identity = []\<rparr>)
    = Some ([Unset ''CONTAINER_HOST'', Unset ''CONTAINER_CONNECTION'', Unset ''CONTAINER_SSHKEY'',
        Export ''CONTAINERS_CONF_OVERRIDE'' [CHR 0x27, CHR '';'', CHR 0x0A]], [])"
proof -
  let ?s = "\<lparr>ps_configuration = [CHR 0x27, CHR '';'', CHR 0x0A], ps_wrapper_directory = [], ps_host = [], ps_identity = []\<rparr>"
  have "\<not> power_shell ''/bin/bash''" by code_simp
  from activation_script_exports [OF this, of ?s] show ?thesis by (simp add: activation_keys_def activation_values_def eval_nat_numeral)
qed

end
