(* ===== verification/Activation.thy ===== *)
theory Activation
  imports Session_Switch Publication_Cleanup Podman_Session
begin

section \<open>The controller of a session\<close>

text \<open>
  \<open>internal/session/activation.go\<close> with the locked parts of \<open>publication.go\<close>: the owner of a session answers
  requests of its shell to enable the registry, to switch, to publish and to withdraw, each under one
  mutex, while the session may end at any time. Every definition here is one locked section; publishing
  and switching consist of two, and the system at the end interleaves them freely. A locked section
  reads the state of the context once, at its start.
\<close>

record controller =
  ct_ended :: bool
  ct_config :: profile
  ct_local_private_hosts :: "string list"
  ct_shell :: string
  ct_directory :: string
  ct_podman :: "podman_session option"
  ct_podman_closed :: bool
  ct_podman_done :: bool
  ct_pending :: "profile option"
  ct_publication :: "publication option"
  ct_requested :: bool
  ct_withdrawals :: "64 word"
  ct_kubeconfig :: string
  ct_unavailable :: bool

datatype control_event = ClaimRegistry | ReleaseRegistry | PodmanStarted podman_session | PodmanClosed podman_session
  | ScriptWritten string | ScriptRemoved | ControlFileRemoved | PublicationSteps "publication_event list"

definition new_controller :: "profile \<Rightarrow> string list \<Rightarrow> string \<Rightarrow> string \<Rightarrow> string \<Rightarrow> bool \<Rightarrow> bool \<Rightarrow> controller" where
  "new_controller c local_hosts directory shell kubeconfig resume_publication unavailable = \<lparr>ct_ended = False, ct_config = c,
     ct_local_private_hosts = local_hosts, ct_shell = shell,
     ct_directory = directory, ct_podman = None, ct_podman_closed = False, ct_podman_done = False, ct_pending = None,
     ct_publication = None, ct_requested = resume_publication, ct_withdrawals = 0, ct_kubeconfig = kubeconfig,
     ct_unavailable = unavailable\<rparr>"

definition script_path :: "controller \<Rightarrow> string" where
  "script_path c = path_join [ct_directory c, if power_shell (ct_shell c) then ''acr-environment.json'' else ''acr-environment.sh'']"

subsection \<open>Enabling the registry\<close>

datatype activation_error = SessionEnded | ActivationProfile profile_error | NoSubscription | RegistryClaimed
  | PodmanNotStarted | RegistryUnreachable | LoginFailed | ScriptNotWritten

text \<open>The outcomes of the claim on the registry, Podman, the check, the login and writing the script.\<close>

record enable_env =
  en_claim :: bool
  en_start :: "podman_session option"
  en_check :: bool
  en_login :: bool
  en_write :: bool

definition podman_accepted :: "enable_env \<Rightarrow> controller \<Rightarrow> podman_session \<Rightarrow> control_event list \<times> activation_error err" where
  "podman_accepted env c s =
     (if \<not> en_check env then ([], Some RegistryUnreachable)
      else if \<not> pf_skip_registry_login (ct_config c) \<and> \<not> en_login env then ([], Some LoginFailed)
      else if activation_shell (ct_shell c)
      then (if en_write env then ([ScriptWritten (activation_script (ct_shell c) s)], None) else ([], Some ScriptNotWritten))
      else ([], None))"

definition enable :: "enable_env \<Rightarrow> controller \<Rightarrow> control_event list \<times> controller \<times> activation_error err" where
  "enable env c =
     (if ct_ended c then ([], c, Some SessionEnded)
      else if ct_podman c \<noteq> None then ([], c, None)
      else case validate_acr (ct_config c) of Some e \<Rightarrow> ([], c, Some (ActivationProfile e))
      | None \<Rightarrow>
          if \<not> pf_skip_registry_login (ct_config c) \<and> \<not> valid_resource_name (pf_registry_subscription (ct_config c))
          then ([], c, Some NoSubscription)
          else if \<not> en_claim env then ([], c, Some RegistryClaimed)
          else case en_start env of None \<Rightarrow> ([ClaimRegistry, ReleaseRegistry], c, Some PodmanNotStarted)
          | Some s \<Rightarrow> (case podman_accepted env c s of
              (events, Some e) \<Rightarrow> ([ClaimRegistry, PodmanStarted s] @ events @ [PodmanClosed s, ReleaseRegistry], c, Some e)
            | (events, None) \<Rightarrow> ([ClaimRegistry, PodmanStarted s] @ events, c\<lparr>ct_podman := Some s\<rparr>, None)))"

subsection \<open>Publishing\<close>

datatype publish_error = EndedOrSwitching | NoKubernetesTarget | Withdrawn | NotPublished publication_error

text \<open>\<open>publicationStateLocked\<close>: an existing path, or nothing when publishing may proceed.\<close>

definition publication_state :: "controller \<Rightarrow> (publish_error, string) res" where
  "publication_state c =
     (if ct_ended c \<or> ct_pending c \<noteq> None then Inl EndedOrSwitching
      else case ct_publication c of Some p \<Rightarrow> Inr (pb_path p)
      | None \<Rightarrow> if ct_unavailable c \<or> pf_aks (ct_config c) = None \<or> ct_kubeconfig c = [] then Inl NoKubernetesTarget else Inr [])"

text \<open>The second locked part of \<open>publish\<close>, with the count of withdrawals that the first part saw.\<close>

definition finish_publish :: "publish_env \<Rightarrow> 64 word \<Rightarrow> controller \<Rightarrow> control_event list \<times> controller \<times> (publish_error, string) res" where
  "finish_publish env seen c = (case publication_state c of Inl e \<Rightarrow> ([], c, Inl e)
     | Inr path \<Rightarrow>
         if path \<noteq> [] then ([], c, Inr path)
         else if ct_withdrawals c \<noteq> seen then ([], c, Inl Withdrawn)
         else (case open_publication env (pf_environment (ct_config c)) of
           (steps, Inl e) \<Rightarrow> ([PublicationSteps steps], c, Inl (NotPublished e))
         | (steps, Inr p) \<Rightarrow> ([PublicationSteps steps], c\<lparr>ct_publication := Some p, ct_requested := True\<rparr>, Inr (pb_path p))))"

definition unpublish :: "controller \<Rightarrow> control_event list \<times> controller" where
  "unpublish c =
     (let c' = c\<lparr>ct_requested := False, ct_withdrawals := ct_withdrawals c + 1\<rparr> in
      case ct_publication c of None \<Rightarrow> ([], c')
      | Some p \<Rightarrow> ([PublicationSteps (fst (close_publication p))], c'\<lparr>ct_publication := None\<rparr>))"

subsection \<open>Switching\<close>

text \<open>The check before and after the target is loaded: no status means that the switch may go on.\<close>

definition switch_status :: "controller \<Rightarrow> nat option" where
  "switch_status c = (if ct_ended c then Some 410 else if ct_pending c \<noteq> None then Some 409 else None)"

definition accept_switch :: "profile \<Rightarrow> controller \<Rightarrow> controller \<times> nat" where
  "accept_switch target c = (case switch_status c of Some status \<Rightarrow> (c, status)
     | None \<Rightarrow> (c\<lparr>ct_pending := Some target\<rparr>, 202))"

subsection \<open>Status and end\<close>

record session_status =
  ss_config :: profile
  ss_local_private_hosts :: "string list"
  ss_profile_environment :: string
  ss_enabled :: bool
  ss_login_refreshed :: bool
  ss_machine :: bool
  ss_environment :: "(string \<times> string) list"
  ss_kubeconfig :: string
  ss_unavailable :: bool

definition session_status :: "controller \<Rightarrow> session_status option" where
  "session_status c =
     (let base = \<lparr>ss_config = ct_config c, ss_local_private_hosts = ct_local_private_hosts c,
        ss_profile_environment = pf_environment (ct_config c), ss_enabled = False, ss_login_refreshed = False, ss_machine = False,
        ss_environment = [], ss_kubeconfig = ct_kubeconfig c, ss_unavailable = ct_unavailable c\<rparr> in
      if ct_ended c then None
      else case ct_podman c of None \<Rightarrow> Some base
      | Some s \<Rightarrow>
          if ct_podman_done c then None
          else Some (base\<lparr>ss_enabled := True, ss_login_refreshed := \<not> pf_skip_registry_login (ct_config c),
            ss_machine := ps_host s \<noteq> [], ss_environment := map (\<lambda>entry. (entry_name entry, fst (snd (cut CHR ''='' entry)))) (podman_environment s None)\<rparr>))"

text \<open>The locked part of \<open>close\<close>; the context was cancelled and the server closed before.\<close>

definition close_controller :: "controller \<Rightarrow> control_event list \<times> controller" where
  "close_controller c =
     (let closing = (case ct_publication c of None \<Rightarrow> [] | Some p \<Rightarrow> [PublicationSteps (fst (close_publication p))]);
          stopping = (case ct_podman c of None \<Rightarrow> [] | Some s \<Rightarrow> [PodmanClosed s]) in
      (closing @ stopping @ [ScriptRemoved, ControlFileRemoved],
       c\<lparr>ct_publication := map_option (snd \<circ> close_publication) (ct_publication c), ct_podman_closed := True\<rparr>))"

subsection \<open>Requests\<close>

record control_request =
  cr_method :: string
  cr_path :: string
  cr_origin :: string
  cr_authorization :: string

definition control_paths :: "string list" where
  "control_paths = [''/enable'', ''/status'', ''/switch'', ''/publish'', ''/unpublish'', ''/publication-path'']"

definition control_accepts :: "string \<Rightarrow> control_request \<Rightarrow> bool" where
  "control_accepts token r \<longleftrightarrow> cr_method r = ''POST'' \<and> cr_path r \<in> set control_paths \<and> cr_origin r = []
     \<and> cr_authorization r = ''Bearer '' @ token"

text \<open>The statuses of the requests that take one locked section, as the shell sees them.\<close>

definition enable_status :: "activation_error err \<Rightarrow> nat" where
  "enable_status e = (if e = None then 200 else 409)"

definition publish_status :: "(publish_error, string) res \<Rightarrow> nat" where
  "publish_status r = (case r of Inl _ \<Rightarrow> 409 | Inr _ \<Rightarrow> 200)"

definition publication_path :: "controller \<Rightarrow> nat \<times> string" where
  "publication_path c = (if ct_ended c then (410, []) else case ct_publication c of None \<Rightarrow> (409, []) | Some p \<Rightarrow> (200, pb_path p))"

subsection \<open>The client's side\<close>

text \<open>
  \<open>sessionRequestBody\<close> up to the request: the guards and the capability file, whose address must be on the
  loopback interface. The result is the URL and the value of the authorization header.
\<close>

datatype request_error = InsideRun | NoSession | ControlUnreadable | ControlInvalid | ControlNotLocal

record control_file =
  cf_address :: string
  cf_token :: string

definition control_fields :: "control_file field list" where
  "control_fields = [str_field ''Address'' (\<lambda>x. cf_address_update (\<lambda>_. x)), str_field ''Token'' (\<lambda>x. cf_token_update (\<lambda>_. x))]"

definition session_request :: "string list \<Rightarrow> (string \<Rightarrow> string option) \<Rightarrow> string \<Rightarrow> (request_error, string \<times> string) res" where
  "session_request environ read_file endpoint =
     (let path = environment_value environ ''BIVROST_CONTROL_FILE'' in
      if inside_run environ then Inl InsideRun
      else if environment_value environ ''BIVROST_SESSION'' = [] \<or> path = [] then Inl NoSession
      else case read_file path of None \<Rightarrow> Inl ControlUnreadable
      | Some data \<Rightarrow> (case parse_json data of None \<Rightarrow> Inl ControlInvalid
        | Some v \<Rightarrow> (case decode_struct False control_fields \<lparr>cf_address = [], cf_token = []\<rparr> v of Inl _ \<Rightarrow> Inl ControlInvalid
          | Inr control \<Rightarrow>
              if length (cf_token control) \<noteq> 64 then Inl ControlInvalid
              else (case split_host_port (cf_address control) of
                Inr (host, _) \<Rightarrow> if host = ''127.0.0.1''
                  then Inr (''http://'' @ cf_address control @ endpoint, ''Bearer '' @ cf_token control) else Inl ControlNotLocal
              | Inl _ \<Rightarrow> Inl ControlNotLocal))))"

text \<open>
  The environment that \<open>listen\<close> gives to the shell; \<open>ready\<close> tells whether the listener, the capability and
  its file could be made, \<open>executable\<close> is the program's own path.
\<close>

definition listen_environment :: "bool \<Rightarrow> string option \<Rightarrow> controller \<Rightarrow> string list \<Rightarrow> string list option" where
  "listen_environment ready executable c env =
     (if \<not> activation_shell (ct_shell c) then Some env
      else if \<not> ready then None
      else case executable of None \<Rightarrow> None
      | Some exe \<Rightarrow> Some (replace_environment (replace_environment (replace_environment env
          ''BIVROST_CONTROL_FILE'' (path_join [ct_directory c, ''acr-control.json'']))
          ''BIVROST_ACR_ENV_FILE'' (script_path c)) ''BIVROST_EXECUTABLE'' exe))"

end
