(* ===== verification/Control_System.thy ===== *)
theory Control_System
  imports Activation
begin

section \<open>The controller under concurrent requests\<close>

text \<open>
  The locked sections of the controller interleaved: any number of requests may be between the two
  sections of a publish or a switch, and the session may end between any two sections. The system is
  compared with a specification that knows no counter and no sections: a publish that was begun is in
  force until it is finished or all publishes are withdrawn. The log collects what was done to the
  registry claim and to Podman.
\<close>

record control_system =
  cs_controller :: controller
  cs_publishing :: "64 word list"
  cs_switching :: "profile list"
  cs_withdrawn :: nat
  cs_cancelled :: bool
  cs_closed :: bool
  cs_log :: "control_event list"

definition started_system :: "profile \<Rightarrow> string list \<Rightarrow> string \<Rightarrow> string \<Rightarrow> string \<Rightarrow> bool \<Rightarrow> bool \<Rightarrow> control_system" where
  "started_system c local_hosts directory shell kubeconfig resume_publication unavailable =
     \<lparr>cs_controller = new_controller c local_hosts directory shell kubeconfig resume_publication unavailable, cs_publishing = [],
        cs_switching = [], cs_withdrawn = 0, cs_cancelled = False, cs_closed = False, cs_log = []\<rparr>"

inductive control_next :: "control_system \<Rightarrow> control_system \<Rightarrow> bool" where
  enabling: "enable env (cs_controller s) = (events, c, err) \<Longrightarrow>
     control_next s (s\<lparr>cs_controller := c, cs_log := cs_log s @ events\<rparr>)"
| begin_publish: "publication_state (cs_controller s) = Inr [] \<Longrightarrow>
     control_next s (s\<lparr>cs_publishing := ct_withdrawals (cs_controller s) # cs_publishing s\<rparr>)"
| end_publish: "seen \<in> set (cs_publishing s) \<Longrightarrow> finish_publish env seen (cs_controller s) = (events, c, r) \<Longrightarrow>
     control_next s (s\<lparr>cs_controller := c, cs_publishing := remove1 seen (cs_publishing s), cs_log := cs_log s @ events\<rparr>)"
| abandon_publish: "seen \<in> set (cs_publishing s) \<Longrightarrow> control_next s (s\<lparr>cs_publishing := remove1 seen (cs_publishing s)\<rparr>)"
| unpublishing: "\<not> ct_ended (cs_controller s) \<Longrightarrow> unpublish (cs_controller s) = (events, c) \<Longrightarrow>
     control_next s (s\<lparr>cs_controller := c, cs_withdrawn := Suc (cs_withdrawn s), cs_log := cs_log s @ events\<rparr>)"
| begin_switch: "switch_status (cs_controller s) = None \<Longrightarrow> load_switch_target fs request = Inr target \<Longrightarrow>
     control_next s (s\<lparr>cs_switching := target # cs_switching s\<rparr>)"
| end_switch: "target \<in> set (cs_switching s) \<Longrightarrow> accept_switch target (cs_controller s) = (c, status) \<Longrightarrow>
     control_next s (s\<lparr>cs_controller := c, cs_switching := remove1 target (cs_switching s)\<rparr>)"
| podman_ends: "control_next s (s\<lparr>cs_controller := (cs_controller s)\<lparr>ct_podman_done := True\<rparr>\<rparr>)"
| ending: "control_next s (s\<lparr>cs_controller := (cs_controller s)\<lparr>ct_ended := True\<rparr>\<rparr>)"
| cancelling: "control_next s (s\<lparr>cs_controller := (cs_controller s)\<lparr>ct_ended := True\<rparr>, cs_cancelled := True\<rparr>)"
| closing: "cs_cancelled s \<Longrightarrow> \<not> cs_closed s \<Longrightarrow> close_controller (cs_controller s) = (events, c) \<Longrightarrow>
     control_next s (s\<lparr>cs_controller := c, cs_closed := True, cs_log := cs_log s @ events\<rparr>)"

inductive control_reachable :: "control_system \<Rightarrow> bool" where
  start: "control_reachable (started_system c local_hosts directory shell kubeconfig resume_publication unavailable)"
| step: "control_reachable s \<Longrightarrow> control_next s s' \<Longrightarrow> control_reachable s'"

subsection \<open>The specification\<close>

record session_view =
  vw_live :: bool
  vw_pending :: "profile option"
  vw_shared :: bool
  vw_wanted :: bool
  vw_registry :: bool
  vw_requests :: nat

inductive view_step :: "session_view \<Rightarrow> session_view \<Rightarrow> bool" where
  accept: "vw_live v \<Longrightarrow> vw_pending v = None \<Longrightarrow> view_step v (v\<lparr>vw_pending := Some target\<rparr>)"
| request: "vw_live v \<Longrightarrow> vw_pending v = None \<Longrightarrow> \<not> vw_shared v \<Longrightarrow> view_step v (v\<lparr>vw_requests := Suc (vw_requests v)\<rparr>)"
| give_up: "vw_requests v = Suc n \<Longrightarrow> view_step v (v\<lparr>vw_requests := n\<rparr>)"
| share: "vw_live v \<Longrightarrow> vw_pending v = None \<Longrightarrow> \<not> vw_shared v \<Longrightarrow> vw_requests v = Suc n \<Longrightarrow>
     view_step v (v\<lparr>vw_shared := True, vw_wanted := True, vw_requests := n\<rparr>)"
| withdraw: "vw_live v \<Longrightarrow> view_step v (v\<lparr>vw_shared := False, vw_wanted := False, vw_requests := 0\<rparr>)"
| open_registry: "vw_live v \<Longrightarrow> \<not> vw_registry v \<Longrightarrow> view_step v (v\<lparr>vw_registry := True\<rparr>)"
| session_end: "view_step v (v\<lparr>vw_live := False\<rparr>)"
| release: "\<not> vw_live v \<Longrightarrow> view_step v (v\<lparr>vw_shared := False, vw_registry := False\<rparr>)"

definition is_shared :: "controller \<Rightarrow> bool" where
  "is_shared c \<longleftrightarrow> (case ct_publication c of None \<Rightarrow> False | Some p \<Rightarrow> \<not> pb_closed p)"

definition view :: "control_system \<Rightarrow> session_view" where
  "view s = (let c = cs_controller s in
     \<lparr>vw_live = \<not> ct_ended c, vw_pending = ct_pending c, vw_shared = is_shared c, vw_wanted = ct_requested c,
      vw_registry = (ct_podman c \<noteq> None \<and> \<not> ct_podman_closed c),
      vw_requests = length (filter (\<lambda>seen. seen = ct_withdrawals c) (cs_publishing s))\<rparr>)"

subsection \<open>The registry in the log\<close>

text \<open>The Podman sessions that were started and not closed, and whether the registry is claimed.\<close>

fun podman_left :: "control_event list \<Rightarrow> podman_session list \<Rightarrow> podman_session list" where
  "podman_left [] started = started"
| "podman_left (PodmanStarted p # es) started = podman_left es (p # started)"
| "podman_left (PodmanClosed p # es) started = podman_left es (remove1 p started)"
| "podman_left (_ # es) started = podman_left es started"

fun claim_left :: "control_event list \<Rightarrow> bool \<Rightarrow> bool" where
  "claim_left [] held = held"
| "claim_left (ClaimRegistry # es) held = claim_left es True"
| "claim_left (ReleaseRegistry # es) held = claim_left es False"
| "claim_left (_ # es) held = claim_left es held"

lemma podman_left_append: "podman_left (es @ es') started = podman_left es' (podman_left es started)"
  by (induction es started rule: podman_left.induct) simp_all

lemma claim_left_append: "claim_left (es @ es') held = claim_left es' (claim_left es held)"
  by (induction es held rule: claim_left.induct) simp_all

definition registry_open :: "controller \<Rightarrow> podman_session list" where
  "registry_open c = (case ct_podman c of None \<Rightarrow> [] | Some s \<Rightarrow> if ct_podman_closed c then [] else [s])"

subsection \<open>Invariants\<close>

definition control_inv :: "control_system \<Rightarrow> bool" where
  "control_inv s \<longleftrightarrow> (let c = cs_controller s in
     (cs_cancelled s \<longrightarrow> ct_ended c) \<and> (cs_closed s \<longrightarrow> cs_cancelled s) \<and> ct_podman_closed c = cs_closed s
     \<and> (\<forall>p. ct_publication c = Some p \<longrightarrow> pb_path p \<noteq> [] \<and> pb_closed p = cs_closed s)
     \<and> podman_left (cs_log s) [] = registry_open c \<and> claim_left (cs_log s) False = (ct_podman c \<noteq> None)
     \<and> ct_withdrawals c = of_nat (cs_withdrawn s)
     \<and> (cs_withdrawn s < 2 ^ 64 \<longrightarrow> (\<forall>seen \<in> set (cs_publishing s). unat seen \<le> cs_withdrawn s)))"

lemma publication_opened:
  assumes "open_publication env environment = (steps, Inr p)"
  shows "pb_path p \<noteq> [] \<and> \<not> pb_closed p"
  using assms
  by (auto simp: open_publication_def write_publication_def new_publication_def final_path_def Let_def apfst_def
      split: option.splits if_splits sum.splits prod.splits)

lemma podman_accepted_quiet:
  "podman_accepted env c p = (events, err) \<Longrightarrow> podman_left events open = open \<and> claim_left events held = held"
  by (auto simp: podman_accepted_def split: if_splits)

lemma enable_cases:
  assumes "enable env c = (events, c', err)"
  shows "(c' = c \<and> podman_left events open = open \<and> claim_left events (ct_podman c \<noteq> None) = (ct_podman c \<noteq> None))
    \<or> (\<exists>p. \<not> ct_ended c \<and> ct_podman c = None \<and> c' = c\<lparr>ct_podman := Some p\<rparr>
        \<and> podman_left events open = p # open \<and> claim_left events False)"
  using assms podman_accepted_quiet
  by (fastforce simp: enable_def podman_left_append claim_left_append split: if_splits option.splits prod.splits)

lemma finish_publish_cases:
  assumes "finish_publish env seen c = (events, c', r)"
  shows "(c' = c \<or> (\<exists>p. publication_state c = Inr [] \<and> ct_withdrawals c = seen \<and> pb_path p \<noteq> [] \<and> \<not> pb_closed p
      \<and> c' = c\<lparr>ct_publication := Some p, ct_requested := True\<rparr>))
    \<and> podman_left events open = open \<and> claim_left events held = held"
  using assms publication_opened
  by (fastforce simp: finish_publish_def split: if_splits option.splits sum.splits prod.splits)

lemma publication_state_none:
  "publication_state c = Inr [] \<Longrightarrow> (\<And>p. ct_publication c = Some p \<Longrightarrow> pb_path p \<noteq> [])
    \<Longrightarrow> \<not> ct_ended c \<and> ct_pending c = None \<and> ct_publication c = None"
  by (auto simp: publication_state_def split: if_splits option.splits)

lemma unpublish_cases:
  assumes "unpublish c = (events, c')"
  shows "c' = c\<lparr>ct_requested := False, ct_withdrawals := ct_withdrawals c + 1, ct_publication := None\<rparr>
    \<and> podman_left events open = open \<and> claim_left events held = held"
  using assms by (cases c) (auto simp: unpublish_def Let_def split: option.splits)

lemma accept_switch_cases:
  assumes "accept_switch target c = (c', status)"
  shows "c' = c \<or> (\<not> ct_ended c \<and> ct_pending c = None \<and> c' = c\<lparr>ct_pending := Some target\<rparr>)"
  using assms by (auto simp: accept_switch_def switch_status_def split: if_splits option.splits)

lemma close_controller_cases:
  assumes "close_controller c = (events, c')" "podman_left log [] = registry_open c"
  shows "c' = c\<lparr>ct_publication := map_option (\<lambda>p. p\<lparr>pb_closed := True\<rparr>) (ct_publication c), ct_podman_closed := True\<rparr>
    \<and> (\<not> ct_podman_closed c \<longrightarrow> podman_left (log @ events) [] = []) \<and> claim_left events held = held"
  using assms
  by (auto simp: close_controller_def close_publication_def registry_open_def podman_left_append Let_def comp_def
      split: option.splits)

lemma control_inv_step: "control_next s s' \<Longrightarrow> control_inv s \<Longrightarrow> control_inv s'"
proof (induction rule: control_next.induct)
  case (enabling env s events c err)
  from enable_cases [OF enabling(1), of "podman_left (cs_log s) []"] enabling(2)
  show ?case by (auto simp: control_inv_def Let_def podman_left_append claim_left_append registry_open_def)
next
  case (begin_publish s)
  then show ?case by (auto simp: control_inv_def Let_def unsigned_of_nat take_bit_nat_eq_self)
next
  case (end_publish seen s env events c r)
  from finish_publish_cases [OF end_publish(2), of "podman_left (cs_log s) []" "claim_left (cs_log s) False"] end_publish(3)
    publication_state_none [of "cs_controller s"]
  show ?case
    by (auto simp: control_inv_def Let_def podman_left_append claim_left_append registry_open_def dest: set_remove1_subset [THEN subsetD])
next
  case (abandon_publish seen s)
  then show ?case by (auto simp: control_inv_def Let_def dest: set_remove1_subset [THEN subsetD])
next
  case (unpublishing s events c)
  from unpublish_cases [OF unpublishing(2), of "podman_left (cs_log s) []" "claim_left (cs_log s) False"] unpublishing(3)
  show ?case
    by (auto simp: control_inv_def Let_def podman_left_append claim_left_append registry_open_def split: option.splits)
next
  case (begin_switch s fs request target)
  then show ?case by (simp add: control_inv_def Let_def)
next
  case (end_switch target s c status)
  from accept_switch_cases [OF end_switch(2)] end_switch(3)
  show ?case by (auto simp: control_inv_def Let_def registry_open_def split: option.splits)
next
  case (podman_ends s)
  then show ?case by (simp add: control_inv_def Let_def registry_open_def split: option.split)
next
  case (ending s)
  then show ?case by (simp add: control_inv_def Let_def registry_open_def split: option.split)
next
  case (cancelling s)
  then show ?case by (simp add: control_inv_def Let_def registry_open_def split: option.split)
next
  case (closing s events c)
  from closing(4) have "podman_left (cs_log s) [] = registry_open (cs_controller s)" by (simp add: control_inv_def Let_def)
  from close_controller_cases [OF closing(3) this, of "claim_left (cs_log s) False"] closing
  show ?case by (auto simp: control_inv_def Let_def claim_left_append registry_open_def split: option.splits)
qed

lemma control_reachable_inv: "control_reachable s \<Longrightarrow> control_inv s"
proof (induction rule: control_reachable.induct)
  case (start c local_hosts directory shell kubeconfig resume_publication unavailable)
  show ?case by (simp add: control_inv_def started_system_def new_controller_def registry_open_def Let_def)
next
  case (step s s')
  then show ?case using control_inv_step by blast
qed

subsection \<open>The specification is met\<close>

lemma count_remove1:
  "seen \<in> set xs \<Longrightarrow> length (filter (\<lambda>w. w = v) xs)
    = (if seen = v then Suc (length (filter (\<lambda>w. w = v) (remove1 seen xs))) else length (filter (\<lambda>w. w = v) (remove1 seen xs)))"
  by (induction xs) auto

text \<open>After a withdrawal no publish that was begun earlier is in force, unless the counter wrapped around.\<close>

lemma withdrawn_count:
  assumes "\<forall>seen \<in> set xs. unat seen \<le> n" "Suc n < 2 ^ 64" "w = (of_nat n :: 64 word)"
  shows "filter (\<lambda>seen. seen = w + 1) xs = []"
proof -
  have "w + 1 = of_nat (Suc n)" using assms(3) by simp
  then have "unat (w + 1) = Suc n" using assms(2) by (simp only: unsigned_of_nat) (simp add: take_bit_nat_eq_self)
  then show ?thesis using assms(1) by (fastforce simp: filter_empty_conv)
qed

lemma view_eqI: "view s' = v \<Longrightarrow> view_step (view s) v \<Longrightarrow> view_step (view s) (view s')" by simp

lemma control_step_refines:
  "control_next s s' \<Longrightarrow> control_inv s \<Longrightarrow> cs_withdrawn s' < 2 ^ 64 \<Longrightarrow> view s' = view s \<or> view_step (view s) (view s')"
proof (induction rule: control_next.induct)
  case (enabling env s events c err)
  from enable_cases [OF enabling(1)] consider (same) "c = cs_controller s"
    | (opened) p where "\<not> ct_ended (cs_controller s)" "ct_podman (cs_controller s) = None" "c = (cs_controller s)\<lparr>ct_podman := Some p\<rparr>"
    by blast
  then show ?case
  proof cases
    case same
    then show ?thesis by (simp add: view_def)
  next
    case opened
    have "\<not> ct_podman_closed (cs_controller s)" using enabling(2) opened(1) by (auto simp: control_inv_def Let_def)
    then have "view (s\<lparr>cs_controller := c, cs_log := cs_log s @ events\<rparr>) = (view s)\<lparr>vw_registry := True\<rparr>"
      using opened by (simp add: view_def Let_def is_shared_def)
    moreover have "vw_live (view s)" "\<not> vw_registry (view s)" using opened by (simp_all add: view_def Let_def)
    ultimately show ?thesis using open_registry by metis
  qed
next
  case (begin_publish s)
  have "\<not> ct_ended (cs_controller s) \<and> ct_pending (cs_controller s) = None \<and> ct_publication (cs_controller s) = None"
    using begin_publish(2) by (intro publication_state_none [OF begin_publish(1)]) (auto simp: control_inv_def Let_def)
  then have "view (s\<lparr>cs_publishing := ct_withdrawals (cs_controller s) # cs_publishing s\<rparr>)
      = (view s)\<lparr>vw_requests := Suc (vw_requests (view s))\<rparr>" "vw_live (view s)" "vw_pending (view s) = None" "\<not> vw_shared (view s)"
    by (simp_all add: view_def Let_def is_shared_def)
  then show ?case using request by metis
next
  case (end_publish seen s env events c r)
  let ?s = "s\<lparr>cs_controller := c, cs_publishing := remove1 seen (cs_publishing s), cs_log := cs_log s @ events\<rparr>"
  note cnt = count_remove1 [OF end_publish(1), of "ct_withdrawals (cs_controller s)"]
  from finish_publish_cases [OF end_publish(2)] consider (same) "c = cs_controller s"
    | (shared) p where "publication_state (cs_controller s) = Inr []" "ct_withdrawals (cs_controller s) = seen" "\<not> pb_closed p"
      "c = (cs_controller s)\<lparr>ct_publication := Some p, ct_requested := True\<rparr>" by blast
  then show ?case
  proof cases
    case same
    show ?thesis
    proof (cases "seen = ct_withdrawals (cs_controller s)")
      case True
      then have "vw_requests (view s) = Suc (vw_requests (view ?s))" "view ?s = (view s)\<lparr>vw_requests := vw_requests (view ?s)\<rparr>"
        using same cnt by (simp_all add: view_def Let_def)
      then show ?thesis using give_up by metis
    next
      case False
      then show ?thesis using same cnt by (simp add: view_def Let_def)
    qed
  next
    case shared
    have "\<not> ct_ended (cs_controller s) \<and> ct_pending (cs_controller s) = None \<and> ct_publication (cs_controller s) = None"
      using end_publish(3) by (intro publication_state_none [OF shared(1)]) (auto simp: control_inv_def Let_def)
    then have "vw_live (view s)" "vw_pending (view s) = None" "\<not> vw_shared (view s)"
      "vw_requests (view s) = Suc (vw_requests (view ?s))"
      "view ?s = (view s)\<lparr>vw_shared := True, vw_wanted := True, vw_requests := vw_requests (view ?s)\<rparr>"
      using shared cnt by (simp_all add: view_def Let_def is_shared_def)
    then show ?thesis using share by metis
  qed
next
  case (abandon_publish seen s)
  let ?s = "s\<lparr>cs_publishing := remove1 seen (cs_publishing s)\<rparr>"
  note cnt = count_remove1 [OF abandon_publish(1), of "ct_withdrawals (cs_controller s)"]
  show ?case
  proof (cases "seen = ct_withdrawals (cs_controller s)")
    case True
    then have "vw_requests (view s) = Suc (vw_requests (view ?s))" "view ?s = (view s)\<lparr>vw_requests := vw_requests (view ?s)\<rparr>"
      using cnt by (simp_all add: view_def Let_def)
    then show ?thesis using give_up by metis
  next
    case False
    then show ?thesis using cnt by (simp add: view_def Let_def)
  qed
next
  case (unpublishing s events c)
  have c: "c = (cs_controller s)\<lparr>ct_requested := False, ct_withdrawals := ct_withdrawals (cs_controller s) + 1, ct_publication := None\<rparr>"
    using unpublish_cases [OF unpublishing(2)] by blast
  have "filter (\<lambda>seen. seen = ct_withdrawals (cs_controller s) + 1) (cs_publishing s) = []"
    using unpublishing(3,4) by (intro withdrawn_count [of _ "cs_withdrawn s"]) (simp_all add: control_inv_def Let_def)
  then have "view (s\<lparr>cs_controller := c, cs_withdrawn := Suc (cs_withdrawn s), cs_log := cs_log s @ events\<rparr>)
      = (view s)\<lparr>vw_shared := False, vw_wanted := False, vw_requests := 0\<rparr>" "vw_live (view s)"
    using unpublishing(1) by (simp_all add: view_def Let_def is_shared_def c)
  then show ?case using withdraw by metis
next
  case (begin_switch s fs request target)
  then show ?case by (simp add: view_def)
next
  case (end_switch target s c status)
  from accept_switch_cases [OF end_switch(2)] show ?case
  proof (elim disjE conjE)
    assume "c = cs_controller s"
    then show ?thesis by (simp add: view_def)
  next
    assume a: "\<not> ct_ended (cs_controller s)" "ct_pending (cs_controller s) = None" "c = (cs_controller s)\<lparr>ct_pending := Some target\<rparr>"
    then have "view (s\<lparr>cs_controller := c, cs_switching := remove1 target (cs_switching s)\<rparr>) = (view s)\<lparr>vw_pending := Some target\<rparr>"
      "vw_live (view s)" "vw_pending (view s) = None"
      by (simp_all add: view_def Let_def is_shared_def)
    then show ?thesis using accept by metis
  qed
next
  case (podman_ends s)
  show ?case by (simp add: view_def Let_def is_shared_def)
next
  case (ending s)
  have "view (s\<lparr>cs_controller := (cs_controller s)\<lparr>ct_ended := True\<rparr>\<rparr>) = (view s)\<lparr>vw_live := False\<rparr>"
    by (simp add: view_def Let_def is_shared_def)
  then show ?case using session_end by metis
next
  case (cancelling s)
  have "view (s\<lparr>cs_controller := (cs_controller s)\<lparr>ct_ended := True\<rparr>, cs_cancelled := True\<rparr>) = (view s)\<lparr>vw_live := False\<rparr>"
    by (simp add: view_def Let_def is_shared_def)
  then show ?case using session_end by metis
next
  case (closing s events c)
  have "podman_left (cs_log s) [] = registry_open (cs_controller s)" "ct_ended (cs_controller s)"
    using closing(1,4) by (simp_all add: control_inv_def Let_def)
  then have "view (s\<lparr>cs_controller := c, cs_closed := True, cs_log := cs_log s @ events\<rparr>) = (view s)\<lparr>vw_shared := False, vw_registry := False\<rparr>"
    "\<not> vw_live (view s)"
    using close_controller_cases [OF closing(3)] by (auto simp: view_def Let_def is_shared_def split: option.split)
  then show ?case using release by metis
qed

text \<open>
  C16. Under any interleaving of requests, of their two-part publishes and switches and of the session's end,
  the controller behaves like its specification: at most one target is ever accepted and never
  replaced, a session is shared only by a publish that was begun after the last withdrawal, the
  registry is opened only in a live session, and an ended session never comes back. The counter of
  withdrawals that the code compares is enough for this as long as it has not wrapped around.
\<close>

theorem control_refines:
  assumes "control_reachable s" "control_next s s'" "cs_withdrawn s' < 2 ^ 64"
  shows "view s' = view s \<or> view_step (view s) (view s')"
  using control_step_refines [OF assms(2) control_reachable_inv [OF assms(1)] assms(3)] .

definition sample_system :: control_system where
  "sample_system = started_system sample_profile [] ''/s/b'' ''/bin/bash'' ''/s/b/kubeconfig'' False False"

lemma sample_begin:
  "control_next sample_system (sample_system\<lparr>cs_publishing := [0]\<rparr>)"
  using begin_publish [of sample_system]
  by (simp add: sample_system_def started_system_def new_controller_def publication_state_def sample_profile_def)

theorem control_refines_witness:
  "view_step (view sample_system) (view (sample_system\<lparr>cs_publishing := [0]\<rparr>))"
proof -
  have "control_reachable sample_system" unfolding sample_system_def by (rule control_reachable.start)
  moreover have "cs_withdrawn (sample_system\<lparr>cs_publishing := [0]\<rparr>) < 2 ^ 64"
    by (simp add: sample_system_def started_system_def)
  ultimately have "view (sample_system\<lparr>cs_publishing := [0]\<rparr>) = view sample_system
      \<or> view_step (view sample_system) (view (sample_system\<lparr>cs_publishing := [0]\<rparr>))"
    using control_refines [OF _ sample_begin] by blast
  moreover have "view (sample_system\<lparr>cs_publishing := [0]\<rparr>) \<noteq> view sample_system"
    by (simp add: view_def sample_system_def started_system_def new_controller_def Let_def)
  ultimately show ?thesis by blast
qed

text \<open>
  C17. In every reachable state at most one Podman session is open, only while the registry is claimed for
  this session, and it is the one that the controller knows; every failed activation has closed what
  it started and given the claim back. Once the controller is closed, no Podman session is open and
  nothing is shared.
\<close>

theorem control_registry_safe:
  assumes "control_reachable s"
  shows "podman_left (cs_log s) [] = registry_open (cs_controller s)
    \<and> (claim_left (cs_log s) False \<longleftrightarrow> ct_podman (cs_controller s) \<noteq> None)
    \<and> length (podman_left (cs_log s) []) \<le> 1
    \<and> (podman_left (cs_log s) [] \<noteq> [] \<longrightarrow> claim_left (cs_log s) False)
    \<and> (cs_closed s \<longrightarrow> podman_left (cs_log s) [] = [] \<and> \<not> is_shared (cs_controller s))"
  using control_reachable_inv [OF assms]
  by (auto simp: control_inv_def Let_def registry_open_def is_shared_def split: option.splits)

theorem control_registry_safe_witness:
  "length (podman_left (cs_log sample_system) []) \<le> 1"
proof -
  have "control_reachable sample_system" unfolding sample_system_def by (rule control_reachable.start)
  from control_registry_safe [OF this] show ?thesis by blast
qed

subsection \<open>A session that ends is cleaned up\<close>

lemma control_reachable_steps: "control_next\<^sup>*\<^sup>* s t \<Longrightarrow> control_reachable s \<Longrightarrow> control_reachable t"
  by (induction rule: rtranclp_induct) (auto intro: control_reachable.step)

lemma closed_stays: "control_next s s' \<Longrightarrow> cs_closed s \<Longrightarrow> cs_closed s'"
  by (induction rule: control_next.induct) simp_all

lemma closed_stays_steps: "control_next\<^sup>*\<^sup>* s t \<Longrightarrow> cs_closed s \<Longrightarrow> cs_closed t"
  by (induction rule: rtranclp_induct) (auto intro: closed_stays)

lemma control_can_close:
  assumes "\<not> cs_closed s"
  shows "\<exists>s'. control_next\<^sup>*\<^sup>* s s' \<and> cs_closed s'"
proof -
  let ?s = "s\<lparr>cs_controller := (cs_controller s)\<lparr>ct_ended := True\<rparr>, cs_cancelled := True\<rparr>"
  obtain events c where c: "close_controller (cs_controller ?s) = (events, c)" by (cases "close_controller (cs_controller ?s)")
  have "control_next s ?s" by (rule cancelling)
  moreover have "control_next ?s (?s\<lparr>cs_controller := c, cs_closed := True, cs_log := cs_log ?s @ events\<rparr>)"
    using assms by (intro closing [OF _ _ c]) simp_all
  ultimately show ?thesis by (intro exI [of _ "?s\<lparr>cs_controller := c, cs_closed := True, cs_log := cs_log ?s @ events\<rparr>"]) (auto intro: rtranclp.rtrancl_into_rtrancl)
qed



end
