(* ===== verification/Bastion_Session.thy ===== *)
theory Bastion_Session
  imports Platform_Session
begin

section \<open>The Bastion tunnel and its SSH certificate\<close>

text \<open>
  \<open>internal/session/session.go\<close> and \<open>ssh_certificate.go\<close>: opening the tunnel with its temporary directory and
  credentials, waiting for the Azure CLI to write a short-lived certificate, and the management shell.
  Processes, files and timers are outcomes of the environment; the trace lists what is left behind.
\<close>

subsection \<open>Known reasons for a sign-in\<close>

definition interaction_reasons :: "(string list \<times> string) list" where
  "interaction_reasons = [
    ([''AADSTS50076'', ''AADSTS50079'', ''AADSTS50074'', ''AADSTS50078'', ''AADSTS50158''],
     ''multi-factor authentication or a Conditional Access step-up is required''),
    ([''AADSTS53000'', ''AADSTS53001'', ''AADSTS53002'', ''AADSTS53003''],
     ''a Conditional Access device or app requirement was not met''),
    ([''AADSTS65001''], ''consent for Azure Linux VM sign-in is required''),
    ([''AADSTS700082'', ''AADSTS70043'', ''AADSTS50173'', ''AADSTS50133'', ''AADSTS50132''],
     ''the Azure CLI sign-in has expired or must be renewed'')]"

definition connectivity_markers :: "string list" where
  "connectivity_markers = [''Failed to establish a new connection'', ''Max retries exceeded'', ''ConnectionError'',
     ''Name or service not known'', ''nodename nor servname'', ''getaddrinfo failed'']"

definition no_browser_warning :: string where
  "no_browser_warning = ''Found no browser in current environment''"

definition contains_marker :: "string \<Rightarrow> string list \<Rightarrow> bool" where
  "contains_marker data markers \<longleftrightarrow> list_ex (contains_str data) markers"

definition interaction_reason :: "string \<Rightarrow> string" where
  "interaction_reason warnings = (case find (\<lambda>(codes, _). contains_marker warnings codes) interaction_reasons of
     Some (_, reason) \<Rightarrow> reason | None \<Rightarrow> ''Azure requires fresh interactive sign-in'')"

subsection \<open>Waiting for the certificate\<close>

datatype certificate_error = CertCancelled | CertRefused string | SignInIncomplete | CertUnreachable | CertFailed
  | SignInTimedOut | CertTimedOut | NoBrowser
  | NoInteractiveSetting | BrowserRulesInvalid | CertNoCommand | CertNotRouted | CertNoWarningsFile | CertNotStarted

text \<open>\<open>readPrefix\<close>: at most 64 KiB of the warnings.\<close>

definition warnings_prefix :: "string \<Rightarrow> string" where
  "warnings_prefix contents = take (64 * 1024) contents"

definition ssh_certificate_error :: "string \<Rightarrow> certificate_error" where
  "ssh_certificate_error warnings = (if contains_marker warnings connectivity_markers then CertUnreachable else CertFailed)"

text \<open>
  What the waiting loop sees: the Azure CLI ended (successfully or not, with the context cancelled or
  not), the deadline passed, or a tick of the poll. The browser request file and the warnings are those
  of that moment.
\<close>

datatype certificate_event = CliEnded bool bool bool string | DeadlinePassed | Poll bool string

datatype certificate_action = StopCli | AwaitSignIn string

fun certificate_loop ::
  "bool \<Rightarrow> bool \<Rightarrow> certificate_event list \<Rightarrow> (certificate_action list \<times> certificate_error err) option" where
  "certificate_loop interactive signing [] = None"
| "certificate_loop interactive signing (CliEnded ok cancelled requested warnings # _) = Some ([],
     if ok then None
     else if cancelled then Some CertCancelled
     else if signing \<or> requested
     then (if \<not> interactive then Some (CertRefused (interaction_reason (warnings_prefix warnings))) else Some SignInIncomplete)
     else Some (ssh_certificate_error (warnings_prefix warnings)))"
| "certificate_loop interactive signing (DeadlinePassed # _) =
     Some ([StopCli], Some (if signing then SignInTimedOut else CertTimedOut))"
| "certificate_loop interactive signing (Poll requested warnings # events) =
     (if signing
      then (if contains_str (warnings_prefix warnings) no_browser_warning then Some ([StopCli], Some NoBrowser)
        else certificate_loop interactive signing events)
      else if \<not> requested then certificate_loop interactive signing events
      else if \<not> interactive then Some ([StopCli], Some (CertRefused (interaction_reason (warnings_prefix warnings))))
      else map_option (apfst ((#) (AwaitSignIn (interaction_reason (warnings_prefix warnings)))))
        (certificate_loop interactive True events))"

record certificate_env =
  cn_interactive :: "bool option"
  cn_rules :: bool
  cn_command :: bool
  cn_routed :: bool
  cn_warnings_file :: bool
  cn_started :: bool
  cn_events :: "certificate_event list"

text \<open>The mode in which the browser of the Azure CLI is routed back, and what happened until the result.\<close>

datatype certificate_step = RouteBrowser bool | CreateWarnings | StartCli "string list" | Waiting "certificate_action list" | RemoveWarnings

definition certificate_arguments :: "profile \<Rightarrow> string \<Rightarrow> string \<Rightarrow> int \<Rightarrow> string list" where
  "certificate_arguments c ssh_config directory port = [''ssh'', ''config'', ''--ip'', ''127.0.0.1'', ''--port'', itoa port,
     ''--file'', ssh_config, ''--keys-destination-folder'', directory, ''--subscription'', pf_subscription c]"

definition prepare_ssh_certificate ::
  "certificate_env \<Rightarrow> profile \<Rightarrow> string \<Rightarrow> string \<Rightarrow> int \<Rightarrow> (certificate_step list \<times> certificate_error err) option" where
  "prepare_ssh_certificate env c ssh_config directory port =
     (case cn_interactive env of None \<Rightarrow> Some ([], Some NoInteractiveSetting)
      | Some interactive \<Rightarrow>
          if \<not> cn_rules env then Some ([], Some BrowserRulesInvalid)
          else if \<not> cn_command env then Some ([], Some CertNoCommand)
          else if \<not> cn_routed env then Some ([RouteBrowser interactive], Some CertNotRouted)
          else if \<not> cn_warnings_file env then Some ([RouteBrowser interactive], Some CertNoWarningsFile)
          else let start = [RouteBrowser interactive, CreateWarnings, StartCli (certificate_arguments c ssh_config directory port)] in
            if \<not> cn_started env then Some (start @ [RemoveWarnings], Some CertNotStarted)
            else map_option (\<lambda>(actions, err). (start @ [Waiting actions, RemoveWarnings], err))
              (certificate_loop interactive False (cn_events env)))"

subsection \<open>Opening the tunnel\<close>

datatype bastion_error = BastionProfile profile_error | ToolMissing string | NoConfigDirectory | NoStateDirectory
  | NoSessionDirectory | NoPort | CertificateFailed certificate_error | SshConfigNotWritten | NoTunnelCommand
  | TunnelNotStarted | TunnelCancelled | TunnelExplained | TunnelNotReady wait_error

text \<open>Whether the tunnel had ended when waiting for its port failed decides whose explanation is reported.\<close>

record bastion_env =
  be_look_path :: "string \<Rightarrow> bool"
  be_config_dir :: "string option"
  be_state_made :: bool
  be_directory :: "string option"
  be_port :: "int option"
  be_certificate :: certificate_env
  be_config_written :: bool
  be_command :: bool
  be_started :: bool
  be_wait :: "wait_error err"
  be_cancelled :: bool
  be_tunnel_ended :: bool

datatype bastion_step = MakeDirectory string | Certificate "certificate_step list" | WriteSshConfig string
  | StartTunnel "string list" | StopTunnel | RemoveDirectory string

text \<open>\<open>bastionSession.close\<close>: the tunnel if it was started, and the directory if it was made.\<close>

definition close_bastion :: "bool \<Rightarrow> string \<Rightarrow> bastion_step list" where
  "close_bastion started directory = (if started then [StopTunnel] else []) @ [RemoveDirectory directory]"

definition connect_tunnel :: "bastion_env \<Rightarrow> profile \<Rightarrow> bastion \<Rightarrow> bastion_step list \<times> (bastion_error, bastion) res" where
  "connect_tunnel env c b =
     (let closing = (\<lambda>started. close_bastion started (bn_directory b)); arguments = bastion_tunnel_arguments c (bn_port b) in
      if \<not> be_command env then (closing False, Inl NoTunnelCommand)
      else if \<not> be_started env then (StartTunnel arguments # closing False, Inl TunnelNotStarted)
      else case be_wait env of None \<Rightarrow> ([StartTunnel arguments], Inr b)
      | Some e \<Rightarrow> (StartTunnel arguments # closing True,
          Inl (if be_cancelled env then TunnelCancelled else if be_tunnel_ended env then TunnelExplained else TunnelNotReady e)))"

definition open_bastion :: "bastion_env \<Rightarrow> profile \<Rightarrow> (bastion_step list \<times> (bastion_error, bastion) res) option" where
  "open_bastion env c =
     (case validate_connection c of Some e \<Rightarrow> Some ([], Inl (BastionProfile e))
      | None \<Rightarrow>
          if \<not> be_look_path env ''az'' then Some ([], Inl (ToolMissing ''az''))
          else if \<not> be_look_path env ''ssh'' then Some ([], Inl (ToolMissing ''ssh''))
          else case be_config_dir env of None \<Rightarrow> Some ([], Inl NoConfigDirectory)
          | Some config_dir \<Rightarrow>
              let state_root = path_join [config_dir, ''bivrost''] in
              if \<not> be_state_made env then Some ([], Inl NoStateDirectory)
              else case be_directory env of None \<Rightarrow> Some ([], Inl NoSessionDirectory)
              | Some directory \<Rightarrow> map_option (apfst ((#) (MakeDirectory directory)))
                  (case be_port env of None \<Rightarrow> Some (close_bastion False directory, Inl NoPort)
                   | Some port \<Rightarrow>
                       let b = \<lparr>bn_port = port, bn_state_root = state_root, bn_directory = directory,
                             bn_ssh_config = path_join [directory, ''ssh_config'']\<rparr> in
                       if pf_ssh_user c = []
                       then (case prepare_ssh_certificate (be_certificate env) c (bn_ssh_config b) directory port of
                           None \<Rightarrow> None
                         | Some (steps, Some e) \<Rightarrow> Some (Certificate steps # close_bastion False directory, Inl (CertificateFailed e))
                         | Some (steps, None) \<Rightarrow> Some (apfst ((#) (Certificate steps)) (connect_tunnel env c b)))
                       else if \<not> be_config_written env
                       then Some (WriteSshConfig (bn_ssh_config b) # close_bastion False directory, Inl SshConfigNotWritten)
                       else Some (apfst ((#) (WriteSshConfig (bn_ssh_config b))) (connect_tunnel env c b))))"

subsection \<open>The management shell\<close>

datatype shell_end = ShellDone bool | TunnelDone | ContextDoneFirst

datatype ssh_error = SshBastion bastion_error | InteractiveNotStarted | InteractiveFailed | BastionLostInShell | InteractiveCancelled

definition interactive_ssh ::
  "bastion_env \<Rightarrow> profile \<Rightarrow> bool \<Rightarrow> shell_end \<Rightarrow> (bastion_step list \<times> string list \<times> ssh_error err) option" where
  "interactive_ssh env c started outcome = map_option (\<lambda>(steps, r). case r of
       Inl e \<Rightarrow> (steps, [], Some (SshBastion e))
     | Inr b \<Rightarrow>
         (steps @ close_bastion True (bn_directory b),
          interactive_ssh_arguments c (bn_ssh_config b) (bn_state_root b) (bn_port b),
          if \<not> started then Some InteractiveNotStarted
          else case outcome of ShellDone ok \<Rightarrow> if ok then None else Some InteractiveFailed
            | TunnelDone \<Rightarrow> Some BastionLostInShell | ContextDoneFirst \<Rightarrow> Some InteractiveCancelled))
     (open_bastion env c)"

subsection \<open>Nothing is left behind\<close>

lemma certificate_loop_actions:
  "certificate_loop interactive signing events = Some (actions, err) \<Longrightarrow>
    (\<not> interactive \<longrightarrow> (\<forall>reason. AwaitSignIn reason \<notin> set actions))
    \<and> length (filter (\<lambda>a. \<exists>reason. a = AwaitSignIn reason) actions) \<le> (if signing then 0 else 1)
    \<and> (err = None \<longrightarrow> StopCli \<notin> set actions)"
proof (induction interactive signing events arbitrary: actions rule: certificate_loop.induct)
  case (4 interactive signing requested warnings events)
  then show ?case
    by (cases signing; cases requested; cases interactive) (fastforce split: if_splits)+
qed (auto split: if_splits)

lemma connect_tunnel_steps:
  assumes "connect_tunnel env c b = (steps, r)"
  shows "(\<forall>e. r = Inl e \<longrightarrow> last steps = RemoveDirectory (bn_directory b) \<and> steps \<noteq> []
      \<and> (be_started env \<longrightarrow> (\<forall>a. StartTunnel a \<in> set steps \<longrightarrow> StopTunnel \<in> set steps)))
    \<and> (\<forall>b'. r = Inr b' \<longrightarrow> b' = b \<and> be_wait env = None \<and> steps = [StartTunnel (bastion_tunnel_arguments c (bn_port b))])
    \<and> (\<forall>d. MakeDirectory d \<notin> set steps) \<and> (\<forall>s. Certificate s \<notin> set steps)"
  using assms by (auto simp: connect_tunnel_def close_bastion_def Let_def split: if_splits option.splits)

definition left_clean :: "bastion_env \<Rightarrow> bastion_step list \<Rightarrow> bool" where
  "left_clean env steps \<longleftrightarrow> (\<forall>d. MakeDirectory d \<in> set steps \<longrightarrow> last steps = RemoveDirectory d)
     \<and> (be_started env \<longrightarrow> (\<forall>a. StartTunnel a \<in> set steps \<longrightarrow> StopTunnel \<in> set steps))"

definition quiet_certificate :: "bastion_env \<Rightarrow> bastion_step list \<Rightarrow> bool" where
  "quiet_certificate env steps \<longleftrightarrow> (\<forall>cs actions reason. Certificate cs \<in> set steps \<longrightarrow> Waiting actions \<in> set cs
     \<longrightarrow> AwaitSignIn reason \<in> set actions \<longrightarrow> cn_interactive (be_certificate env) = Some True)"

lemma certificate_quiet:
  assumes "prepare_ssh_certificate env c ssh_config directory port = Some (steps, err)"
    and "Waiting actions \<in> set steps" "AwaitSignIn reason \<in> set actions"
  shows "cn_interactive env = Some True"
proof -
  obtain interactive where i: "cn_interactive env = Some interactive"
    using assms by (auto simp: prepare_ssh_certificate_def split: option.splits)
  obtain err' where "certificate_loop interactive False (cn_events env) = Some (actions, err')"
    using assms(1,2) i by (auto simp: prepare_ssh_certificate_def Let_def split: if_splits)
  from certificate_loop_actions [OF this] i assms(3) show ?thesis by auto
qed

text \<open>The tunnel once its directory was made.\<close>

lemma opened_tunnel:
  assumes "open_bastion env c = Some (steps, r)"
  shows "(\<exists>e. steps = [] \<and> r = Inl e) \<or> (\<exists>directory rest. steps = MakeDirectory directory # rest \<and> validate_connection c = None
    \<and> (\<forall>d. MakeDirectory d \<notin> set rest) \<and> quiet_certificate env rest
    \<and> (\<forall>e. r = Inl e \<longrightarrow> rest \<noteq> [] \<and> last rest = RemoveDirectory directory
        \<and> (be_started env \<longrightarrow> (\<forall>a. StartTunnel a \<in> set rest \<longrightarrow> StopTunnel \<in> set rest)))
    \<and> (\<forall>b. r = Inr b \<longrightarrow> bn_directory b = directory \<and> be_wait env = None \<and> rest \<noteq> []
        \<and> last rest = StartTunnel (bastion_tunnel_arguments c (bn_port b)) \<and> StopTunnel \<notin> set rest \<and> RemoveDirectory directory \<notin> set rest))"
proof (cases "steps = []")
  case True
  then show ?thesis using assms
    by (auto simp: open_bastion_def close_bastion_def Let_def split: if_splits option.splits)
next
  case False
  then obtain config_dir directory where o: "validate_connection c = None" "be_config_dir env = Some config_dir"
    "be_directory env = Some directory"
    using assms by (auto simp: open_bastion_def Let_def split: if_splits option.splits)
  define b where "b port = \<lparr>bn_port = port, bn_state_root = path_join [config_dir, ''bivrost''], bn_directory = directory,
      bn_ssh_config = path_join [directory, ''ssh_config'']\<rparr>" for port
  have bs: "bn_directory (b port) = directory" "bn_port (b port) = port" for port by (simp_all add: b_def)
  show ?thesis
  proof (cases "be_port env")
    case None
    then show ?thesis using assms o False
      by (auto simp: open_bastion_def close_bastion_def quiet_certificate_def Let_def split: if_splits)
  next
    case (Some port)
    obtain ts tr where t: "connect_tunnel env c (b port) = (ts, tr)" by (cases "connect_tunnel env c (b port)")
    note T = connect_tunnel_steps [OF t, unfolded bs]
    show ?thesis
    proof (cases "pf_ssh_user c = []")
      case True
      then obtain cs ce where cert: "prepare_ssh_certificate (be_certificate env) c (bn_ssh_config (b port)) directory port = Some (cs, ce)"
        using assms o Some False by (auto simp: open_bastion_def b_def Let_def split: if_splits option.splits)
      have q: "Waiting actions \<in> set cs \<Longrightarrow> AwaitSignIn reason \<in> set actions \<Longrightarrow> cn_interactive (be_certificate env) = Some True"
        for actions reason using certificate_quiet [OF cert] .
      show ?thesis
      proof (cases ce)
        case None
        then have "steps = MakeDirectory directory # Certificate cs # ts \<and> r = tr"
          using assms o Some True cert t False by (auto simp: open_bastion_def b_def Let_def split: if_splits)
        then show ?thesis using T q o bs by (auto simp: quiet_certificate_def)
      next
        case (Some e)
        then have "steps = MakeDirectory directory # Certificate cs # close_bastion False directory \<and> r = Inl (CertificateFailed e)"
          using assms o \<open>be_port env = Some port\<close> True cert False by (auto simp: open_bastion_def b_def Let_def split: if_splits)
        then show ?thesis using q o by (auto simp: quiet_certificate_def close_bastion_def)
      qed
    next
      case user: False
      show ?thesis
      proof (cases "be_config_written env")
        case True
        then have "steps = MakeDirectory directory # WriteSshConfig (bn_ssh_config (b port)) # ts \<and> r = tr"
          using assms o Some user t False by (auto simp: open_bastion_def b_def Let_def split: if_splits)
        then show ?thesis using T o bs by (auto simp: quiet_certificate_def)
      next
        case written: False
        then have "steps = MakeDirectory directory # WriteSshConfig (bn_ssh_config (b port)) # close_bastion False directory
            \<and> r = Inl SshConfigNotWritten"
          using assms o Some user False by (auto simp: open_bastion_def b_def Let_def split: if_splits)
        then show ?thesis using o by (auto simp: quiet_certificate_def close_bastion_def)
      qed
    qed
  qed
qed

text \<open>
  C39. Opening the Bastion tunnel leaves nothing behind when it fails: whatever it had made, the last step
  removes the temporary directory and a started tunnel was stopped. When it succeeds, the profile's
  connection is valid, the tunnel it names answers, and neither was touched. The Azure CLI's sign-in is
  waited for only when the user's settings allow interaction.
\<close>

theorem open_bastion_leaves_nothing:
  assumes "open_bastion env c = Some (steps, r)"
  shows "(is_ok r \<or> left_clean env steps) \<and> quiet_certificate env steps
    \<and> (\<forall>b. r = Inr b \<longrightarrow> validate_connection c = None \<and> be_wait env = None
        \<and> last steps = StartTunnel (bastion_tunnel_arguments c (bn_port b))
        \<and> StopTunnel \<notin> set steps \<and> RemoveDirectory (bn_directory b) \<notin> set steps)"
  using opened_tunnel [OF assms]
proof (elim disjE exE conjE)
  fix e assume "steps = []" "r = Inl e"
  then show ?thesis by (auto simp: left_clean_def quiet_certificate_def)
next
  fix directory rest
  assume rest: "steps = MakeDirectory directory # rest" "validate_connection c = None" "\<forall>d. MakeDirectory d \<notin> set rest"
      "quiet_certificate env rest"
    and r: "\<forall>e. r = Inl e \<longrightarrow> rest \<noteq> [] \<and> last rest = RemoveDirectory directory
        \<and> (be_started env \<longrightarrow> (\<forall>a. StartTunnel a \<in> set rest \<longrightarrow> StopTunnel \<in> set rest))"
      "\<forall>b. r = Inr b \<longrightarrow> bn_directory b = directory \<and> be_wait env = None \<and> rest \<noteq> []
        \<and> last rest = StartTunnel (bastion_tunnel_arguments c (bn_port b)) \<and> StopTunnel \<notin> set rest \<and> RemoveDirectory directory \<notin> set rest"
  have q: "quiet_certificate env steps" using rest(1,4) by (auto simp: quiet_certificate_def)
  show ?thesis
  proof (cases r)
    case (Inl e)
    then show ?thesis using rest r(1) q by (auto simp: left_clean_def)
  next
    case (Inr b)
    then show ?thesis using rest r(2) q by auto
  qed
qed

definition sample_bastion_env :: bastion_env where
  "sample_bastion_env = \<lparr>be_look_path = (\<lambda>_. True), be_config_dir = Some ''/home/u/.config'', be_state_made = True,
     be_directory = Some ''/home/u/.config/bivrost/session-1'', be_port = Some 40001,
     be_certificate = \<lparr>cn_interactive = Some False, cn_rules = True, cn_command = True, cn_routed = True,
       cn_warnings_file = True, cn_started = True, cn_events = [Poll False [], Poll True ''AADSTS50076'']\<rparr>,
     be_config_written = True, be_command = True, be_started = True, be_wait = None, be_cancelled = False,
     be_tunnel_ended = False\<rparr>"

lemma sample_refused:
  "\<exists>steps reason. open_bastion sample_bastion_env sample_profile = Some (steps, Inl (CertificateFailed (CertRefused reason)))"
proof -
  have "validate_connection sample_profile = None" by code_simp
  moreover have "pf_ssh_user sample_profile = []" by (simp add: sample_profile_def empty_profile_def)
  ultimately show ?thesis
    by (simp add: open_bastion_def sample_bastion_env_def prepare_ssh_certificate_def Let_def)
qed

theorem open_bastion_leaves_nothing_witness:
  "\<exists>steps r. open_bastion sample_bastion_env sample_profile = Some (steps, r) \<and> left_clean sample_bastion_env steps"
proof -
  obtain steps reason where s: "open_bastion sample_bastion_env sample_profile = Some (steps, Inl (CertificateFailed (CertRefused reason)))"
    using sample_refused by blast
  from open_bastion_leaves_nothing [OF s] s show ?thesis by auto
qed

end
