(* ===== verification/Auth_Browser.thy ===== *)
theory Auth_Browser
  imports Url_Parse Settings Process_Environment Runes
begin

section \<open>Sign-in pages of the Azure CLI\<close>

text \<open>
  \<open>internal/authbrowser/authbrowser.go\<close>: the environment that sends the browser requests of an Azure CLI
  process back to the program, and what one such request does. The operating system decides the
  separator of path lists and whether names of variables are compared without case; starting a browser
  is an outcome of the environment.
\<close>

definition browser_variable :: string where "browser_variable = ''BROWSER''"
definition mode_variable :: string where "mode_variable = ''BIVROST_AUTH_BROWSER''"
definition signal_variable :: string where "signal_variable = ''BIVROST_AUTH_SIGNAL''"
definition mode_refuse :: string where "mode_refuse = ''refuse''"
definition mode_interactive :: string where "mode_interactive = ''interactive''"

definition list_separator :: "bool \<Rightarrow> char" where
  "list_separator windows = (if windows then CHR '';'' else CHR '':'')"

text \<open>Texts without control characters.\<close>

definition plain_text :: "string \<Rightarrow> bool" where
  "plain_text v \<longleftrightarrow> v \<noteq> [] \<and> list_all (\<lambda>r. \<not> (r < 32 \<or> r = 127)) (runes v)"

definition valid_address :: "string \<Rightarrow> bool" where
  "valid_address address \<longleftrightarrow> plain_text address \<and> (case url_parse address of None \<Rightarrow> False
     | Some u \<Rightarrow> (u_scheme u = ''https'' \<or> u_scheme u = ''http'') \<and> u_host u \<noteq> [])"

definition auth_active :: "string \<Rightarrow> string list \<Rightarrow> bool" where
  "auth_active mode args \<longleftrightarrow> mode \<noteq> [] \<and> length args = 1 \<and> (has_prefix (hd args) ''https://'' \<or> has_prefix (hd args) ''http://'')"

subsection \<open>Routing\<close>

definition same_name :: "bool \<Rightarrow> string \<Rightarrow> string \<Rightarrow> bool" where
  "same_name windows k name \<longleftrightarrow> k = name \<or> windows \<and> equal_fold k name"

fun lookup_last :: "bool \<Rightarrow> string list \<Rightarrow> string \<Rightarrow> string \<Rightarrow> string" where
  "lookup_last windows [] name found = found"
| "lookup_last windows (entry # env) name found = (case cut CHR ''='' entry of (k, v, _) \<Rightarrow>
     lookup_last windows env name (if same_name windows k name then v else found))"

definition lookup_variable :: "bool \<Rightarrow> string list \<Rightarrow> string \<Rightarrow> string" where
  "lookup_variable windows env name = lookup_last windows env name []"

definition without_variables :: "bool \<Rightarrow> string list \<Rightarrow> string list \<Rightarrow> string list" where
  "without_variables windows names env = filter (\<lambda>entry. \<not> list_ex (same_name windows (entry_name entry)) names) env"

definition routing_variables :: "string list" where
  "routing_variables = [browser_variable, mode_variable, signal_variable]"

text \<open>The entries of the user's browser list that stay behind the program's own.\<close>

definition kept_browsers :: "bool \<Rightarrow> string \<Rightarrow> string \<Rightarrow> string list" where
  "kept_browsers windows executable previous =
     filter (\<lambda>b. b \<noteq> [] \<and> b \<noteq> executable \<and> \<not> contains_str b ''microsoft-edge'') (split_on (list_separator windows) previous)"

text \<open>
  \<open>route\<close>: \<open>executable\<close> is \<open>os.Executable\<close>, \<open>own_browser\<close> the program's own \<open>BROWSER\<close>, which counts when the
  command was already routed.
\<close>

datatype route_error = ExecutableUnknown | ExecutableUnusable

definition route_browser ::
  "bool \<Rightarrow> string option \<Rightarrow> string \<Rightarrow> string \<Rightarrow> string \<Rightarrow> string list \<Rightarrow> (route_error, string list) res" where
  "route_browser windows executable own_browser mode signal env = (case executable of None \<Rightarrow> Inl ExecutableUnknown
     | Some exe \<Rightarrow>
         if list_separator windows \<in> set exe \<or> CHR ''%'' \<in> set exe \<or> \<not> plain_text exe then Inl ExecutableUnusable
         else let previous = (if lookup_variable windows env mode_variable \<noteq> [] then own_browser
                 else lookup_variable windows env browser_variable);
               browsers = exe # (if mode = mode_interactive then kept_browsers windows exe previous else [])
           in Inr (without_variables windows routing_variables env
             @ [browser_variable @ ''='' @ join [list_separator windows] browsers, mode_variable @ ''='' @ mode]
             @ (if signal = [] then [] else [signal_variable @ ''='' @ signal])))"

text \<open>The environment of the browser itself: the user's entries, without the routing.\<close>

definition user_environment :: "bool \<Rightarrow> string \<Rightarrow> string list \<Rightarrow> string list" where
  "user_environment windows executable env =
     (let browsers = filter (\<lambda>b. b \<noteq> [] \<and> b \<noteq> executable) (split_on (list_separator windows) (lookup_variable windows env browser_variable));
          rest = without_variables windows routing_variables env
      in if browsers = [] then rest else rest @ [browser_variable @ ''='' @ join [list_separator windows] browsers])"

subsection \<open>The sign-in's target\<close>

definition query_unescape :: "string \<Rightarrow> string option" where
  "query_unescape s = unescape EncodeOther (map (\<lambda>c. if c = CHR ''+'' then CHR '' '' else c) s)"

text \<open>\<open>url.Values.Get\<close> after \<open>ParseQuery\<close>, which drops the pairs it cannot decode.\<close>

fun query_get :: "string list \<Rightarrow> string \<Rightarrow> string" where
  "query_get [] name = []"
| "query_get (pair # pairs) name =
     (if CHR '';'' \<in> set pair \<or> pair = [] then query_get pairs name
      else case cut CHR ''='' pair of (k, v, _) \<Rightarrow> (case (query_unescape k, query_unescape v) of
        (Some k, Some v) \<Rightarrow> if k = name then v else query_get pairs name
      | _ \<Rightarrow> query_get pairs name))"

definition account_domain_of :: "string \<Rightarrow> string" where
  "account_domain_of hint = (if CHR ''@'' \<notin> set hint then [] else rev (takeWhile (\<lambda>c. c \<noteq> CHR ''@'') (rev hint)))"

definition sign_in_target :: "string \<Rightarrow> string \<times> string" where
  "sign_in_target address = (case url_parse address of None \<Rightarrow> ([], [])
     | Some u \<Rightarrow>
         let tenant = fst (cut CHR ''/'' (trim_prefix (u_path u) ''/'')) in
         (if to_lower tenant \<in> {''common'', ''organizations'', ''consumers'', ''adfs''} then [] else tenant,
          account_domain_of (query_get (split_on CHR ''&'' (u_raw_query u)) ''login_hint'')))"

subsection \<open>One request\<close>

text \<open>The browser for a tenant and a domain, whether the program of a browser is found and starts.\<close>

record request_env =
  rq_mode :: string
  rq_signal :: string
  rq_select :: "string \<Rightarrow> string \<Rightarrow> (settings_error, authentication_browser option) res"
  rq_found :: "string \<Rightarrow> string option"
  rq_starts :: "string \<Rightarrow> string list \<Rightarrow> bool"
  rq_terminal :: bool

datatype request_action = SignalFile string | StartBrowser string "string list" | Refused | CouldNotOpen
  | NoTerminal | ShowAddress string | Opened

text \<open>The exit status: 0 keeps Python's module from trying another browser.\<close>

definition start_browser :: "request_env \<Rightarrow> authentication_browser \<Rightarrow> string \<Rightarrow> request_action list \<times> bool" where
  "start_browser env browser address = (case browser_command browser address of (program, args) \<Rightarrow>
     (case rq_found env program of None \<Rightarrow> ([], False)
      | Some path \<Rightarrow> if rq_starts env path args then ([StartBrowser path args], True) else ([], False)))"

definition manual_sign_in :: "request_env \<Rightarrow> string \<Rightarrow> request_action list" where
  "manual_sign_in env address = CouldNotOpen # (if rq_terminal env then [ShowAddress address] else [NoTerminal])"

definition handle_request :: "request_env \<Rightarrow> string list \<Rightarrow> request_action list \<times> nat" where
  "handle_request env args =
     (let address = (if length args = 1 \<and> valid_address (hd args) then hd args else []);
          signal = (if rq_signal env = [] then [] else [SignalFile (rq_signal env)]);
          (actions, status) =
            (if rq_mode env \<noteq> mode_interactive then ([], 0)
             else if address = [] then ([Refused], 0)
             else case rq_select env (fst (sign_in_target address)) (snd (sign_in_target address)) of
               Inl _ \<Rightarrow> (manual_sign_in env address, 0)
             | Inr None \<Rightarrow> ([], 1)
             | Inr (Some browser) \<Rightarrow> (case start_browser env browser address of
                 (started, ok) \<Rightarrow> (started @ (if ok then [Opened] else manual_sign_in env address), 0)))
      in (signal @ actions, status))"

subsection \<open>Properties\<close>

lemma lookup_append_last:
  "CHR ''='' \<notin> set name \<Longrightarrow> \<forall>e \<in> set rest. \<not> same_name windows (entry_name e) name \<Longrightarrow>
    lookup_last windows (env @ (name @ ''='' @ v) # rest) name found = v"
proof (induction env arbitrary: found)
  case Nil
  have skip: "lookup_last windows rest name found = found" for found
    using Nil(2) by (induction rest arbitrary: found) (auto simp: entry_name_def split: prod.splits)
  show ?case using Nil(1) skip cut_append [of "CHR ''=''" name v] by (simp add: same_name_def)
next
  case (Cons e env)
  then show ?case by (auto split: prod.split)
qed

text \<open>
  C40. A browser is started only for a request in interactive mode with exactly one argument that is a valid
  web address, and only the one that the user's rules select for it, with its own arguments; the
  address is shown nowhere but on the user's terminal, and only in the same case. In every other case
  nothing is opened, and Python's own browsers are tried only when no browser is configured.
\<close>

theorem auth_request_safe:
  assumes "handle_request env args = (actions, status)"
  shows "(\<forall>path arguments. StartBrowser path arguments \<in> set actions \<longrightarrow> rq_mode env = mode_interactive
      \<and> (\<exists>address b. args = [address] \<and> valid_address address
          \<and> rq_select env (fst (sign_in_target address)) (snd (sign_in_target address)) = Inr (Some b)
          \<and> rq_found env (fst (browser_command b address)) = Some path \<and> arguments = snd (browser_command b address)))
    \<and> (\<forall>address. ShowAddress address \<in> set actions \<longrightarrow> rq_mode env = mode_interactive \<and> rq_terminal env
      \<and> args = [address] \<and> valid_address address \<and> (\<forall>path arguments. StartBrowser path arguments \<notin> set actions))
    \<and> (status \<noteq> 0 \<longrightarrow> (\<exists>address. args = [address] \<and> valid_address address
      \<and> rq_select env (fst (sign_in_target address)) (snd (sign_in_target address)) = Inr None))"
proof -
  define address where "address = (if length args = 1 \<and> valid_address (hd args) then hd args else [])"
  define signal where "signal = (if rq_signal env = [] then [] else [SignalFile (rq_signal env)])"
  have quiet: "StartBrowser path arguments \<notin> set signal" "ShowAddress a \<notin> set signal" for path arguments a
    by (auto simp: signal_def)
  have some: "args = [address] \<and> valid_address address" if "address \<noteq> []"
    using that by (cases args) (auto simp: address_def split: if_splits)
  have r: "handle_request env args = (let (actions, status) =
        (if rq_mode env \<noteq> mode_interactive then ([], 0)
         else if address = [] then ([Refused], 0)
         else case rq_select env (fst (sign_in_target address)) (snd (sign_in_target address)) of
               Inl _ \<Rightarrow> (manual_sign_in env address, 0)
             | Inr None \<Rightarrow> ([], 1)
             | Inr (Some browser) \<Rightarrow> (case start_browser env browser address of
                 (started, ok) \<Rightarrow> (started @ (if ok then [Opened] else manual_sign_in env address), 0)))
        in (signal @ actions, status))"
    unfolding handle_request_def address_def signal_def by (simp only: Let_def)
  show ?thesis
  proof (cases "rq_mode env \<noteq> mode_interactive \<or> address = []")
    case True
    then have "actions = signal \<or> actions = signal @ [Refused]" "status = 0"
      using assms r by (auto split: if_splits)
    then show ?thesis using quiet by auto
  next
    case False
    then have a: "args = [address]" "valid_address address" "rq_mode env = mode_interactive" "address \<noteq> []" using some by auto
    show ?thesis
    proof (cases "rq_select env (fst (sign_in_target address)) (snd (sign_in_target address))")
      case (Inl e)
      then show ?thesis using r assms quiet a by (auto simp: manual_sign_in_def split: if_splits)
    next
      case (Inr b)
      show ?thesis
      proof (cases b)
        case None
        then show ?thesis using r assms quiet a Inr by auto
      next
        case (Some browser)
        then show ?thesis using r assms quiet a Inr
          by (auto simp: manual_sign_in_def start_browser_def split: prod.splits option.splits if_splits)
      qed
    qed
  qed
qed

lemma kept_browsers_plain: "b \<in> set (kept_browsers windows exe previous) \<Longrightarrow> list_separator windows \<notin> set b \<and> b \<noteq> exe \<and> b \<noteq> []"
  using split_on_no_sep by (fastforce simp: kept_browsers_def)

lemma same_name_constants:
  "\<not> same_name windows mode_variable browser_variable" "\<not> same_name windows signal_variable browser_variable"
  "\<not> same_name windows signal_variable mode_variable" "same_name windows n n"
proof -
  have "\<not> equal_fold mode_variable browser_variable" "\<not> equal_fold signal_variable browser_variable"
    "\<not> equal_fold signal_variable mode_variable" by code_simp+
  then show "\<not> same_name windows mode_variable browser_variable" "\<not> same_name windows signal_variable browser_variable"
    "\<not> same_name windows signal_variable mode_variable" "same_name windows n n"
    by (auto simp: same_name_def browser_variable_def mode_variable_def signal_variable_def)
qed

lemma entry_names:
  "entry_name (browser_variable @ CHR ''='' # v) = browser_variable" "entry_name (mode_variable @ CHR ''='' # v) = mode_variable"
  "entry_name (signal_variable @ CHR ''='' # v) = signal_variable"
  using cut_append [of "CHR ''=''" browser_variable v] cut_append [of "CHR ''=''" mode_variable v]
    cut_append [of "CHR ''=''" signal_variable v]
  by (simp_all add: entry_name_def browser_variable_def mode_variable_def signal_variable_def)

lemma without_variables_idem: "without_variables windows names (without_variables windows names env) = without_variables windows names env"
  by (simp add: without_variables_def)

text \<open>
  Routing an Azure CLI process for interactive sign-in puts the program itself first in the browser list
  and behind it, in their order, the user's own entries that are not the program and do not name
  Microsoft Edge; the environment that a browser started by the program gets is the routed one with exactly
  these entries and none of the routing.
\<close>

theorem browser_routing_undone:
  assumes "route_browser windows (Some exe) own_browser mode_interactive signal env = Inr routed"
  shows "\<exists>kept. kept = kept_browsers windows exe
        (if lookup_variable windows env mode_variable \<noteq> [] then own_browser else lookup_variable windows env browser_variable)
    \<and> split_on (list_separator windows) (lookup_variable windows routed browser_variable) = exe # kept
    \<and> lookup_variable windows routed mode_variable = mode_interactive
    \<and> user_environment windows exe routed = without_variables windows routing_variables env
        @ (if kept = [] then [] else [browser_variable @ ''='' @ join [list_separator windows] kept])"
proof -
  let ?sep = "list_separator windows"
  define kept where "kept = kept_browsers windows exe
        (if lookup_variable windows env mode_variable \<noteq> [] then own_browser else lookup_variable windows env browser_variable)"
  let ?base = "without_variables windows routing_variables env"
  let ?tail = "if signal = [] then [] else [signal_variable @ ''='' @ signal]"
  have exe: "?sep \<notin> set exe" and routed: "routed = ?base @ (browser_variable @ ''='' @ join [?sep] (exe # kept))
      # (mode_variable @ ''='' @ mode_interactive) # ?tail"
    using assms by (auto simp: route_browser_def kept_def Let_def split: if_splits)
  have eq: "CHR ''='' \<notin> set browser_variable" "CHR ''='' \<notin> set mode_variable"
    by (simp_all add: browser_variable_def mode_variable_def)
  have browser: "lookup_variable windows routed browser_variable = join [?sep] (exe # kept)"
    unfolding lookup_variable_def routed using same_name_constants entry_names
    by (intro lookup_append_last [OF eq(1)]) auto
  have mode: "lookup_variable windows routed mode_variable = mode_interactive"
    unfolding lookup_variable_def routed using same_name_constants entry_names
      lookup_append_last [OF eq(2), of ?tail windows "?base @ [browser_variable @ ''='' @ join [?sep] (exe # kept)]" mode_interactive "[]"]
    by (auto split: if_splits)
  have parts: "\<forall>x \<in> set (exe # kept). ?sep \<notin> set x" using exe kept_browsers_plain by (auto simp: kept_def)
  then have split: "split_on ?sep (join [?sep] (exe # kept)) = exe # kept" by (intro split_on_join) auto
  have "filter (\<lambda>b. b \<noteq> [] \<and> b \<noteq> exe) (exe # kept) = kept"
    using kept_browsers_plain by (auto simp: kept_def intro!: filter_True)
  moreover have "without_variables windows routing_variables routed = ?base"
  proof -
    have "without_variables windows routing_variables (xs @ ys) = without_variables windows routing_variables xs
        @ without_variables windows routing_variables ys" for xs ys by (simp add: without_variables_def)
    moreover have "without_variables windows routing_variables ((browser_variable @ ''='' @ join [?sep] (exe # kept))
      # (mode_variable @ ''='' @ mode_interactive) # ?tail) = []"
      using same_name_constants(4) by (simp add: without_variables_def entry_names routing_variables_def)
    ultimately show ?thesis by (simp add: routed without_variables_idem del: append.simps)
  qed
  ultimately have "user_environment windows exe routed = ?base
      @ (if kept = [] then [] else [browser_variable @ ''='' @ join [?sep] kept])"
    by (simp add: user_environment_def browser split Let_def)
  then show ?thesis using browser mode split kept_def by auto
qed

definition sample_request :: request_env where
  "sample_request = \<lparr>rq_mode = ''interactive'', rq_signal = [], rq_select = (\<lambda>_ _. Inr None), rq_found = (\<lambda>_. None),
     rq_starts = (\<lambda>_ _. False), rq_terminal = True\<rparr>"

lemma sample_request_declined: "handle_request sample_request [''https://login.microsoftonline.com''] = ([], 1)"
proof -
  have "valid_address ''https://login.microsoftonline.com''" by code_simp
  then show ?thesis by (simp add: handle_request_def sample_request_def mode_interactive_def)
qed

theorem auth_request_safe_witness:
  "\<exists>address. [''https://login.microsoftonline.com''] = [address] \<and> valid_address address"
  using auth_request_safe [OF sample_request_declined] by auto

theorem browser_routing_undone_witness:
  "\<exists>routed. route_browser False (Some ''/usr/bin/bivrost'') [] mode_interactive [] [''BROWSER=firefox'', ''HOME=/root''] = Inr routed
    \<and> lookup_variable False routed mode_variable = mode_interactive"
proof -
  have "plain_text ''/usr/bin/bivrost''" by code_simp
  then obtain routed where "route_browser False (Some ''/usr/bin/bivrost'') [] mode_interactive [] [''BROWSER=firefox'', ''HOME=/root''] = Inr routed"
    by (simp add: route_browser_def list_separator_def Let_def)
  from this browser_routing_undone [OF this] show ?thesis by blast
qed

end
