(* ===== verification/Podman_Wrapper.thy ===== *)
theory Podman_Wrapper
  imports Paths Json_Object
begin

section \<open>The temporary Podman wrapper\<close>

text \<open>
  \<open>internal/podman\<close>: a session puts a copy of the program, named \<open>podman\<close>, in front of the search path.
  Started under that name it runs the user's Podman with the same arguments, except that a build gets
  \<open>--http-proxy=false\<close> in front of the user's own options. Here are the installation of the copy with
  the path of the real executable beside it, its run, and its removal when the session ends. The
  operating system's answers are arguments; a file is identified by a number, as \<open>os.SameFile\<close> compares it.
\<close>

subsection \<open>Paths\<close>

text \<open>\<open>filepath.Dir\<close>.\<close>

definition path_dir :: "string \<Rightarrow> string" where
  "path_dir p = clean_path (case cut_last CHR ''/'' p of Some (d, _) \<Rightarrow> d @ ''/'' | None \<Rightarrow> [])"

definition plain_element :: "string \<Rightarrow> bool" where
  "plain_element e \<longleftrightarrow> e \<noteq> [] \<and> e \<noteq> ''.'' \<and> e \<noteq> ''..'' \<and> CHR ''/'' \<notin> set e"

lemma push_plain: "plain_element e \<Longrightarrow> push_element r st e = e # st"
  by (simp add: push_element_def plain_element_def)

lemma push_plains: "list_all plain_element es \<Longrightarrow> foldl (push_element r) st es = rev es @ st"
  by (induction es arbitrary: st) (simp_all add: push_plain)

lemma push_empty: "push_element r st [] = st"
  by (simp add: push_element_def)

lemma push_rooted_plain:
  assumes "list_all plain_element st" "CHR ''/'' \<notin> set e"
  shows "list_all plain_element (push_element True st e)"
  using assms by (auto simp: push_element_def plain_element_def split: list.splits)

lemma rooted_stack_plain:
  assumes "list_all plain_element st" "\<forall>e\<in>set es. CHR ''/'' \<notin> set e"
  shows "list_all plain_element (foldl (push_element True) st es)"
  using assms
proof (induction es arbitrary: st)
  case (Cons e es)
  then show ?case using push_rooted_plain [of st e] by simp
qed simp

text \<open>A clean absolute path is the slash and its elements.\<close>

lemma clean_absolute:
  assumes "is_abs p"
  obtains es where "clean_path p = CHR ''/'' # join ''/'' es" "list_all plain_element es"
proof -
  let ?st = "foldl (push_element True) [] (split_on CHR ''/'' p)"
  have "list_all plain_element ?st" by (rule rooted_stack_plain) (simp_all add: split_on_no_sep)
  then show ?thesis using assms that [of "rev ?st"] by (simp add: clean_path_def is_abs_def list_all_iff)
qed

lemma clean_elements:
  assumes "list_all plain_element es" "es \<noteq> []"
  shows "clean_path (CHR ''/'' # join ''/'' es) = CHR ''/'' # join ''/'' es"
    and "clean_path ((CHR ''/'' # join ''/'' es) @ ''/'') = CHR ''/'' # join ''/'' es"
proof -
  have split: "split_on CHR ''/'' (join ''/'' es) = es"
    using assms by (intro split_on_join) (auto simp: list_all_iff plain_element_def)
  show "clean_path (CHR ''/'' # join ''/'' es) = CHR ''/'' # join ''/'' es"
    using assms by (simp add: clean_path_def split push_empty push_plains)
  show "clean_path ((CHR ''/'' # join ''/'' es) @ ''/'') = CHR ''/'' # join ''/'' es"
    using assms split_on_concat [of "CHR ''/''" "join ''/'' es" "[]"]
    by (simp add: clean_path_def split push_empty push_plains)
qed

text \<open>An element below a clean absolute directory, and back.\<close>

definition clean_directory :: "string \<Rightarrow> bool" where
  "clean_directory d \<longleftrightarrow> (\<exists>es. d = CHR ''/'' # join ''/'' es \<and> es \<noteq> [] \<and> list_all plain_element es)"

lemma join_below:
  assumes "clean_directory d" "plain_element e"
  shows "path_join [d, e] = d @ CHR ''/'' # e" and "path_dir (d @ CHR ''/'' # e) = d"
proof -
  obtain es where d: "d = CHR ''/'' # join ''/'' es" "es \<noteq> []" "list_all plain_element es"
    using assms(1) by (auto simp: clean_directory_def)
  have "d @ CHR ''/'' # e = CHR ''/'' # join ''/'' (es @ [e])"
    using d join_append [of es "[e]" "''/''"] by simp
  moreover have "clean_path (CHR ''/'' # join ''/'' (es @ [e])) = CHR ''/'' # join ''/'' (es @ [e])"
    using d assms(2) by (intro clean_elements(1)) simp_all
  ultimately show "path_join [d, e] = d @ CHR ''/'' # e"
    using d by (simp add: path_join_def)
  have "CHR ''/'' \<notin> set e" using assms(2) by (simp add: plain_element_def)
  then show "path_dir (d @ CHR ''/'' # e) = d"
    using cut_last_append [of "CHR ''/''" e d] clean_elements(2) [OF d(3,2)] by (simp add: path_dir_def d(1))
qed

lemma join_below_directory:
  assumes "is_abs d" "plain_element e"
  shows "clean_directory (path_join [d, e])"
proof -
  let ?st = "foldl (push_element True) [] (split_on CHR ''/'' d)"
  have "list_all plain_element ?st" by (rule rooted_stack_plain) (simp_all add: split_on_no_sep)
  moreover have "split_on CHR ''/'' (d @ ''/'' @ e) = split_on CHR ''/'' d @ [e]"
    using split_on_snoc [of "CHR ''/''" e d] assms(2) by (simp add: plain_element_def)
  moreover have "d \<noteq> []" "has_prefix (d @ CHR ''/'' # e) ''/''" using assms(1) by (cases d; auto simp: is_abs_def)+
  ultimately show ?thesis
    using assms(2) unfolding clean_directory_def
    by (intro exI [of _ "rev ?st @ [e]"]) (simp add: path_join_def clean_path_def push_plain list_all_iff)
qed

subsection \<open>Arguments\<close>

definition switch_flags :: "string list" where
  "switch_flags = [''--remote'', ''-r'', ''--syslog'', ''--transient-store'']"

definition value_flags :: "string list" where
  "value_flags = [''--cdi-spec-dir'', ''--cgroup-manager'', ''--config'', ''--conmon'', ''--connection'', ''-c'', ''--events-backend'',
     ''--hooks-dir'', ''--identity'', ''--imagestore'', ''--log-level'', ''--module'', ''--network-cmd-path'', ''--network-config-dir'',
     ''--out'', ''--root'', ''--runroot'', ''--runtime'', ''--runtime-flag'', ''--ssh'', ''--storage-driver'', ''--storage-opt'',
     ''--tls-ca'', ''--tls-cert'', ''--tls-key'', ''--tmpdir'', ''--url'', ''--volumepath'']"

text \<open>The index of the build command, \<open>podmanBuildCommand\<close>; \<open>None\<close> is -1. The flag tells whether a group was seen.\<close>

fun podman_build_command :: "bool \<Rightarrow> string list \<Rightarrow> nat option" where
  "podman_build_command seen [] = None"
| "podman_build_command seen (arg # args) =
     (if arg = ''build'' then Some 0
      else if (arg = ''image'' \<or> arg = ''buildx'') \<and> \<not> seen then map_option Suc (podman_build_command True args)
      else if \<not> has_prefix arg ''-'' \<or> arg = ''--'' then None
      else let name = fst (cut CHR ''='' arg); has_value = snd (snd (cut CHR ''='' arg)) in
        if name \<in> set switch_flags then map_option Suc (podman_build_command seen args)
        else if name \<in> set value_flags then
          (if has_value then map_option Suc (podman_build_command seen args)
           else (case args of [] \<Rightarrow> None | _ # rest \<Rightarrow> map_option (Suc \<circ> Suc) (podman_build_command seen rest)))
        else if has_prefix arg ''-c'' \<and> \<not> has_prefix arg ''--'' \<and> length arg > 2 then map_option Suc (podman_build_command seen args)
        else None)"

definition podman_wrapper_args :: "string list \<Rightarrow> string list" where
  "podman_wrapper_args args = (case podman_build_command False args of None \<Rightarrow> args
     | Some i \<Rightarrow> take (i + 1) args @ [''--http-proxy=false''] @ drop (i + 1) args)"

text \<open>
  The same as a grammar: what may stand in front of \<open>build\<close> on a Podman command line. A global option is one
  word, or an option that takes a value followed by any word; at most one group word stands among them.
\<close>

inductive podman_global :: "string list \<Rightarrow> bool" where
  switch: "fst (cut CHR ''='' w) \<in> set switch_flags \<Longrightarrow> podman_global [w]"
| attached: "k \<in> set value_flags \<Longrightarrow> podman_global [k @ CHR ''='' # v]"
| apart: "k \<in> set value_flags \<Longrightarrow> podman_global [k, v]"
| short: "fst (cut CHR ''='' (''-c'' @ v)) \<notin> set value_flags \<Longrightarrow> v \<noteq> [] \<Longrightarrow> podman_global [''-c'' @ v]"

inductive build_prefix :: "bool \<Rightarrow> string list \<Rightarrow> bool" where
  none: "build_prefix seen []"
| global: "podman_global ws \<Longrightarrow> build_prefix seen pre \<Longrightarrow> build_prefix seen (ws @ pre)"
| group: "w \<in> {''image'', ''buildx''} \<Longrightarrow> build_prefix True pre \<Longrightarrow> build_prefix False (w # pre)"

lemma flags_dashed:
  assumes "k \<in> set switch_flags \<union> set value_flags"
  shows "has_prefix k ''-'' \<and> k \<noteq> ''--'' \<and> CHR ''='' \<notin> set k"
  using assms by (auto simp: switch_flags_def value_flags_def)

lemma dashed_word:
  assumes "fst (cut CHR ''='' w) \<in> set switch_flags \<union> set value_flags"
  shows "has_prefix w ''-'' \<and> w \<noteq> ''--'' \<and> w \<noteq> ''build'' \<and> w \<noteq> ''image'' \<and> w \<noteq> ''buildx''"
proof -
  have "has_prefix w ''-''"
    using flags_dashed [OF assms] by (cases w) (auto simp: split: prod.splits if_splits)
  moreover have "w \<noteq> ''--''" using assms by (auto simp: switch_flags_def value_flags_def)
  ultimately show ?thesis by auto
qed

lemma flag_lists_apart: "k \<in> set value_flags \<Longrightarrow> k \<notin> set switch_flags"
  by (auto simp: switch_flags_def value_flags_def)

lemma plus_Suc: "(+) (Suc 0) = Suc" "(+) (Suc (Suc 0)) = Suc \<circ> Suc"
  by (simp_all add: fun_eq_iff)

lemma podman_global_step:
  assumes "podman_global ws"
  shows "podman_build_command seen (ws @ rest) = map_option ((+) (length ws)) (podman_build_command seen rest)"
  using assms
proof cases
  case (switch w)
  then show ?thesis using dashed_word [of w] by (simp add: Let_def plus_Suc)
next
  case (attached k v)
  have c: "cut CHR ''='' (k @ CHR ''='' # v) = (k, v, True)"
    using flags_dashed [of k] attached by (intro cut_append) simp
  show ?thesis
    using attached c dashed_word [of "k @ CHR ''='' # v"] flag_lists_apart [of k] by (simp add: Let_def plus_Suc)
next
  case (apart k v)
  have c: "cut CHR ''='' k = (k, [], False)"
    using flags_dashed [of k] apart by (simp add: cut_absent)
  show ?thesis
    using apart c dashed_word [of k] flag_lists_apart [of k] by (simp add: Let_def plus_Suc)
next
  case (short v)
  then obtain x xs where v: "v = x # xs" by (cases v) auto
  show ?thesis
  proof (cases "fst (cut CHR ''='' (''-c'' @ v)) \<in> set switch_flags")
    case True
    then show ?thesis using short dashed_word [of "''-c'' @ v"] by (simp add: Let_def plus_Suc)
  next
    case False
    then show ?thesis using short v by (simp add: Let_def plus_Suc)
  qed
qed

lemma build_prefix_found:
  "build_prefix seen pre \<Longrightarrow> podman_build_command seen (pre @ ''build'' # rest) = Some (length pre)"
proof (induction rule: build_prefix.induct)
  case (global ws seen pre)
  then show ?case by (simp add: podman_global_step)
qed auto

lemma podman_option_step:
  assumes found: "podman_build_command seen (arg # args) = Some i"
    and opt: "arg \<noteq> ''build''" "\<not> ((arg = ''image'' \<or> arg = ''buildx'') \<and> \<not> seen)"
  obtains (step) ws rest j where "podman_global ws" "arg # args = ws @ rest" "podman_build_command seen rest = Some j" "i = length ws + j"
proof -
  let ?name = "fst (cut CHR ''='' arg)" and ?has = "snd (snd (cut CHR ''='' arg))"
  have one: thesis if "podman_global [arg]" "podman_build_command seen args = Some j" "i = Suc j" for j
    using step [of "[arg]" args j] that by simp
  have dash: "has_prefix arg ''-''" "arg \<noteq> ''--''" using found opt by (auto split: if_splits)
  consider (switch) "?name \<in> set switch_flags"
    | (attached) "?name \<in> set value_flags" "?has" "?name \<notin> set switch_flags"
    | (apart) "?name \<in> set value_flags" "\<not> ?has" "?name \<notin> set switch_flags"
    | (short) "?name \<notin> set value_flags" "?name \<notin> set switch_flags" by blast
  then show thesis
  proof cases
    case switch
    then show thesis using found opt dash podman_global.switch [OF switch] one by (auto simp: Let_def)
  next
    case attached
    then obtain v where "cut CHR ''='' arg = (?name, v, True)" by (cases "cut CHR ''='' arg") auto
    then have "podman_global [arg]" using cut_found podman_global.attached [OF attached(1), of v] by metis
    then show thesis using found opt dash attached one by (auto simp: Let_def)
  next
    case apart
    then obtain v where "cut CHR ''='' arg = (?name, v, False)" by (cases "cut CHR ''='' arg") auto
    then have n: "?name = arg" using cut_not_found by metis
    obtain w rest where a: "args = w # rest" using found opt dash apart by (cases args) (auto simp: Let_def)
    obtain j where "podman_build_command seen rest = Some j" "i = Suc (Suc j)"
      using found opt dash apart a by (auto simp: Let_def)
    then show thesis using podman_global.apart [OF apart(1), of w] a n step [of "[arg, w]" rest j] by simp
  next
    case short
    have c: "has_prefix arg ''-c''" "\<not> has_prefix arg ''--''" "length arg > 2"
      using found opt dash short by (auto simp: Let_def split: if_splits)
    then obtain v where v: "arg = ''-c'' @ v" "v \<noteq> []" by (cases arg; cases "tl arg") auto
    have "podman_global [arg]" using podman_global.short [of v] short v by simp
    then show thesis using found opt dash short c one by (auto simp: Let_def)
  qed
qed

lemma found_build_prefix:
  "podman_build_command seen args = Some i \<Longrightarrow>
    \<exists>pre rest. build_prefix seen pre \<and> args = pre @ ''build'' # rest \<and> i = length pre"
proof (induction "length args" arbitrary: seen args i rule: less_induct)
  case less
  then obtain arg more where args: "args = arg # more" by (cases args) auto
  consider (build) "arg = ''build''" | (group) "arg \<noteq> ''build''" "arg = ''image'' \<or> arg = ''buildx''" "\<not> seen"
    | (opt) "arg \<noteq> ''build''" "\<not> ((arg = ''image'' \<or> arg = ''buildx'') \<and> \<not> seen)" by blast
  then show ?case
  proof cases
    case build
    then show ?thesis using less.prems args
      by (intro exI [of _ "[]"] exI [of _ more]) (auto intro: build_prefix.none)
  next
    case group
    then obtain j where j: "podman_build_command True more = Some j" "i = Suc j"
      using less.prems args by (auto split: if_splits)
    then obtain pre rest where "build_prefix True pre" "more = pre @ ''build'' # rest" "j = length pre"
      using less.hyps [of more True j] args by auto
    then show ?thesis using group args j
      by (intro exI [of _ "arg # pre"] exI [of _ rest]) (auto intro: build_prefix.group)
  next
    case opt
    obtain ws rest j where w: "podman_global ws" "args = ws @ rest" "podman_build_command seen rest = Some j" "i = length ws + j"
      using podman_option_step [OF less.prems [unfolded args] opt] args by metis
    moreover have "ws \<noteq> []" using w(1) by cases auto
    ultimately obtain pre more' where "build_prefix seen pre" "rest = pre @ ''build'' # more'" "j = length pre"
      using less.hyps [of rest seen j] by auto
    then show ?thesis using w build_prefix.global [OF w(1), of seen pre]
      by (intro exI [of _ "ws @ pre"] exI [of _ more']) auto
  qed
qed

text \<open>C23. The wrapper changes a Podman command line exactly when it is a build: when \<open>build\<close> stands behind global options
  and at most one group word, with every option that takes a separate value followed by it. Then, and only then,
  \<open>--http-proxy=false\<close> is inserted, right behind \<open>build\<close> and in front of everything the user wrote after it, so that a later
  choice of the user still counts; every other command line is passed on as it is.\<close>

proposition podman_wrapper_args_exact:
  "podman_wrapper_args args = result \<longleftrightarrow>
     (if \<exists>pre rest. build_prefix False pre \<and> args = pre @ ''build'' # rest
      then \<exists>pre rest. build_prefix False pre \<and> args = pre @ ''build'' # rest
        \<and> result = pre @ [''build'', ''--http-proxy=false''] @ rest
      else result = args)"
proof (cases "podman_build_command False args")
  case None
  have "\<not> (\<exists>pre rest. build_prefix False pre \<and> args = pre @ ''build'' # rest)"
    using None build_prefix_found by fastforce
  then show ?thesis using None by (auto simp: podman_wrapper_args_def)
next
  case (Some i)
  then obtain pre rest where p: "build_prefix False pre" "args = pre @ ''build'' # rest" "i = length pre"
    using found_build_prefix by blast
  have unique: "pre' = pre \<and> rest' = rest" if "build_prefix False pre'" "args = pre' @ ''build'' # rest'" for pre' rest'
    using build_prefix_found [OF that(1), of rest'] that(2) Some p by auto
  have r: "podman_wrapper_args args = pre @ [''build'', ''--http-proxy=false''] @ rest"
    using Some p by (simp add: podman_wrapper_args_def)
  have ex: "\<exists>pre rest. build_prefix False pre \<and> args = pre @ ''build'' # rest" using p by blast
  show ?thesis
  proof
    assume "podman_wrapper_args args = result"
    then show "if \<exists>pre rest. build_prefix False pre \<and> args = pre @ ''build'' # rest
      then \<exists>pre rest. build_prefix False pre \<and> args = pre @ ''build'' # rest
        \<and> result = pre @ [''build'', ''--http-proxy=false''] @ rest else result = args"
      using r p ex by auto
  next
    assume "if \<exists>pre rest. build_prefix False pre \<and> args = pre @ ''build'' # rest
      then \<exists>pre rest. build_prefix False pre \<and> args = pre @ ''build'' # rest
        \<and> result = pre @ [''build'', ''--http-proxy=false''] @ rest else result = args"
    then obtain pre' rest' where "build_prefix False pre'" "args = pre' @ ''build'' # rest'"
      "result = pre' @ [''build'', ''--http-proxy=false''] @ rest'" using ex by metis
    then show "podman_wrapper_args args = result" using unique r by simp
  qed
qed

subsection \<open>Installing the wrapper\<close>

definition wrapper_metadata :: string where "wrapper_metadata = ''bivrost-podman.json''"

datatype wrapper_error = PodmanNotFound | HostError | PodmanIsBivrost | NoSelf | BadConfiguration | BadExecutable

record wrapper_host =
  wh_look_path :: "string option"
  wh_absolute :: "string \<Rightarrow> string option"
  wh_executable :: "string option"
  wh_stat :: "string \<Rightarrow> nat option"
  wh_mkdir :: bool
  wh_open_source :: bool
  wh_create :: bool
  wh_copied :: bool
  wh_closed :: bool
  wh_written :: bool

text \<open>What happened in the file system; a file is a copy of the program or has been written with a text.\<close>

datatype wrapper_content = CopyOf string | Text string

datatype wrapper_op = MadeDirectory string | MadeFile string wrapper_content | RemovedAll string

text \<open>\<open>PrepareWrapper\<close> on Unix. Once the directory exists, every error removes it again.\<close>

definition wrapper_json :: "string \<Rightarrow> json" where
  "wrapper_json real = JObj [(''executable'', JStr real)]"

definition fill_wrapper :: "wrapper_host \<Rightarrow> string \<Rightarrow> string \<Rightarrow> string \<Rightarrow> wrapper_op list \<times> (wrapper_error, string) res" where
  "fill_wrapper h bin source real =
     (if \<not> wh_open_source h then ([], Inl HostError)
      else if \<not> wh_create h then ([], Inl HostError)
      else let copy = [MadeFile (path_join [bin, ''podman'']) (CopyOf source)] in
        if \<not> wh_copied h then (copy, Inl HostError)
        else if \<not> wh_closed h then (copy, Inl HostError)
        else if \<not> wh_written h then (copy, Inl HostError)
        else (copy @ [MadeFile (path_join [bin, wrapper_metadata]) (Text (json_text (wrapper_json real)))], Inr bin))"

definition prepare_wrapper :: "wrapper_host \<Rightarrow> string \<Rightarrow> wrapper_op list \<times> (wrapper_error, string) res" where
  "prepare_wrapper h directory =
     (case wh_look_path h of None \<Rightarrow> ([], Inl PodmanNotFound)
      | Some found \<Rightarrow> (case wh_absolute h found of None \<Rightarrow> ([], Inl HostError)
      | Some real \<Rightarrow> (case wh_executable h of None \<Rightarrow> ([], Inl HostError)
      | Some source \<Rightarrow> (case wh_stat h source of None \<Rightarrow> ([], Inl HostError)
      | Some source_id \<Rightarrow> (case wh_stat h real of None \<Rightarrow> ([], Inl HostError)
      | Some real_id \<Rightarrow>
          if source_id = real_id then ([], Inl PodmanIsBivrost)
          else let bin = path_join [directory, ''bin''] in
            if \<not> wh_mkdir h then ([], Inl HostError)
            else case fill_wrapper h bin source real of (ops, result) \<Rightarrow>
              (MadeDirectory bin # ops @ (if is_ok result then [] else [RemovedAll bin]), result))))))"

text \<open>What the operations make of a file system.\<close>

fun wrapper_effect :: "(string \<Rightarrow> wrapper_content option) \<Rightarrow> wrapper_op \<Rightarrow> (string \<Rightarrow> wrapper_content option)" where
  "wrapper_effect fs (MadeDirectory d) = fs"
| "wrapper_effect fs (MadeFile p c) = fs(p \<mapsto> c)"
| "wrapper_effect fs (RemovedAll d) = (\<lambda>p. if p = d \<or> has_prefix p (d @ ''/'') then None else fs p)"

definition wrapper_files :: "wrapper_op list \<Rightarrow> string \<Rightarrow> wrapper_content option" where
  "wrapper_files ops = foldl wrapper_effect Map.empty ops"

definition wrapper_text :: "wrapper_op list \<Rightarrow> string \<Rightarrow> string option" where
  "wrapper_text ops p = (case wrapper_files ops p of Some (Text t) \<Rightarrow> Some t | _ \<Rightarrow> None)"

subsection \<open>Running as the wrapper\<close>

definition wrapper_fields :: "string field list" where
  "wrapper_fields = [str_field ''executable'' (\<lambda>s _. s)]"

definition wrapper_exit :: int where "wrapper_exit = 125"

text \<open>\<open>RunWrapper\<close> up to the replacement of the process: the executable and its arguments.\<close>

definition run_wrapper ::
  "string option \<Rightarrow> (string \<Rightarrow> string option) \<Rightarrow> (string \<Rightarrow> nat option) \<Rightarrow> string list \<Rightarrow> (wrapper_error, string \<times> string list) res" where
  "run_wrapper executable read_file stat args =
     (case executable of None \<Rightarrow> Inl NoSelf
      | Some self \<Rightarrow> (case read_file (path_join [path_dir self, wrapper_metadata]) of None \<Rightarrow> Inl BadConfiguration
      | Some data \<Rightarrow> (case parse_json data of None \<Rightarrow> Inl BadConfiguration
      | Some v \<Rightarrow> (case decode_struct False wrapper_fields [] v of Inl _ \<Rightarrow> Inl BadConfiguration
      | Inr target \<Rightarrow>
          if \<not> is_abs target \<or> target = self then Inl BadConfiguration
          else (case (stat self, stat target) of
              (Some s, Some t) \<Rightarrow> if s = t then Inl BadExecutable else Inr (target, podman_wrapper_args args)
            | _ \<Rightarrow> Inl BadExecutable)))))"

text \<open>\<open>executeWrappedPodman\<close> on Unix: the process is replaced (\<open>None\<close>) or the wrapper ends with its status.\<close>

definition wrapper_status :: "(wrapper_error, string \<times> string list) res \<Rightarrow> (string \<Rightarrow> string list \<Rightarrow> bool) \<Rightarrow> int option" where
  "wrapper_status r exec = (case r of Inl _ \<Rightarrow> Some wrapper_exit
     | Inr (target, args) \<Rightarrow> if exec target (target # args) then None else Some wrapper_exit)"

subsection \<open>Removing the wrapper\<close>

text \<open>\<open>removeWrapperWithRetry\<close>: the answer of the last attempt and the number of pauses.\<close>

fun remove_with_retry :: "nat \<Rightarrow> (nat \<Rightarrow> 'e option) \<Rightarrow> 'e option \<Rightarrow> nat \<Rightarrow> 'e option \<times> nat" where
  "remove_with_retry attempt remove err 0 = (err, 0)"
| "remove_with_retry attempt remove err (Suc left) =
     (case remove attempt of None \<Rightarrow> (None, 0)
      | Some e \<Rightarrow> (case remove_with_retry (Suc attempt) remove (Some e) left of (r, pauses) \<Rightarrow>
          (r, if left > 0 then Suc pauses else pauses)))"

definition cleanup_attempts :: "bool \<Rightarrow> nat" where
  "cleanup_attempts windows = (if windows then 21 else 1)"

definition cleanup_wrapper :: "bool \<Rightarrow> (nat \<Rightarrow> 'e option) \<Rightarrow> bool \<times> nat" where
  "cleanup_wrapper windows remove = (case remove_with_retry 0 remove None (cleanup_attempts windows) of
     (r, pauses) \<Rightarrow> (r \<noteq> None, pauses))"

lemma remove_with_retry_again:
  assumes "remove n = Some e"
  shows "fst (remove_with_retry n remove err (Suc left)) = fst (remove_with_retry (Suc n) remove (Some e) left)"
    and "snd (remove_with_retry n remove err (Suc left))
      = (if left > 0 then Suc (snd (remove_with_retry (Suc n) remove (Some e) left)) else snd (remove_with_retry (Suc n) remove (Some e) left))"
  using assms by (simp_all split: prod.split)

lemma remove_with_retry_result:
  "fst (remove_with_retry n remove err left) =
     (if left = 0 then err else if \<exists>i<left. remove (n + i) = None then None else remove (n + left - 1))"
proof (induction left arbitrary: n err)
  case 0
  show ?case by simp
next
  case (Suc left)
  have ex: "(\<exists>i<Suc left. remove (n + i) = None) \<longleftrightarrow> remove n = None \<or> (\<exists>i<left. remove (Suc n + i) = None)"
    unfolding Ex_less_Suc2 by simp
  show ?case
  proof (cases "remove n")
    case None
    then show ?thesis unfolding ex by simp
  next
    case (Some e)
    show ?thesis
      unfolding ex remove_with_retry_again(1) [where remove = remove and n = n and e = e, OF Some] Suc.IH using Some by (cases left) auto
  qed
qed

lemma remove_with_retry_pauses: "snd (remove_with_retry n remove err left) \<le> left - 1"
proof (induction left arbitrary: n err)
  case 0
  show ?case by simp
next
  case (Suc left)
  show ?case
  proof (cases "remove n")
    case (Some e)
    show ?thesis
      unfolding remove_with_retry_again(2) [where remove = remove and n = n and e = e, OF Some] using Suc.IH [of "Suc n" "Some e"] by (cases left) simp_all
  qed simp
qed

text \<open>Removal of the wrapper is tried at most 21 times, with a pause between two attempts only; it is reported as failed
  exactly when every attempt failed, one on Unix and 21 on Windows, where a running executable stays locked for a while.\<close>

lemma cleanup_wrapper_bounded:
  "fst (cleanup_wrapper windows remove) \<longleftrightarrow> (\<forall>i<cleanup_attempts windows. remove i \<noteq> None)"
  "snd (cleanup_wrapper windows remove) \<le> 20"
proof -
  obtain r k where rk: "remove_with_retry 0 remove None (cleanup_attempts windows) = (r, k)"
    by (cases "remove_with_retry 0 remove None (cleanup_attempts windows)")
  have n: "cleanup_attempts windows > 0" "cleanup_attempts windows \<le> 21" by (simp_all add: cleanup_attempts_def)
  have r: "r = (if \<exists>i<cleanup_attempts windows. remove i = None then None else remove (cleanup_attempts windows - 1))"
    using remove_with_retry_result [of 0 remove None "cleanup_attempts windows"] rk n by (simp only: fst_conv add_0) simp
  have "k \<le> cleanup_attempts windows - 1"
    using remove_with_retry_pauses [of 0 remove None "cleanup_attempts windows"] rk by simp
  then show "snd (cleanup_wrapper windows remove) \<le> 20" using rk n by (simp add: cleanup_wrapper_def)
  show "fst (cleanup_wrapper windows remove) \<longleftrightarrow> (\<forall>i<cleanup_attempts windows. remove i \<noteq> None)"
  proof (cases "\<exists>i<cleanup_attempts windows. remove i = None")
    case True
    then show ?thesis using rk r by (auto simp: cleanup_wrapper_def)
  next
    case False
    then have "remove (cleanup_attempts windows - 1) \<noteq> None" using n by simp
    then show ?thesis using False rk r by (auto simp: cleanup_wrapper_def)
  qed
qed

subsection \<open>Installed and run\<close>

lemma plain_names: "plain_element ''bin''" "plain_element ''podman''" "plain_element wrapper_metadata"
  by (simp_all add: plain_element_def wrapper_metadata_def)

lemma wrapper_json_read:
  assumes "utf8 real"
  shows "\<exists>v. parse_json (json_text (wrapper_json real)) = Some v \<and> decode_struct False wrapper_fields [] v = Inr real"
proof -
  have "wf_json (wrapper_json real)" using assms using utf8_ascii [of "''executable''"] by (simp add: wrapper_json_def is_ascii_def byte_lit)
  then have "parse_json (json_text (wrapper_json real)) = Some (wrapper_json real)" by (rule parse_json_text)
  moreover have "decode_struct False wrapper_fields [] (wrapper_json real) = Inr real"
    by (simp add: wrapper_json_def wrapper_fields_def decode_struct_def find_field_def str_field_def)
  ultimately show ?thesis by blast
qed

lemma prepared_wrapper_found:
  assumes "prepare_wrapper h directory = (ops, Inr bin)"
  obtains found real source s t where "wh_look_path h = Some found" "wh_absolute h found = Some real" "wh_executable h = Some source"
    "wh_stat h source = Some s" "wh_stat h real = Some t" "s \<noteq> t" "bin = path_join [directory, ''bin'']"
    "ops = [MadeDirectory bin, MadeFile (path_join [bin, ''podman'']) (CopyOf source),
      MadeFile (path_join [bin, wrapper_metadata]) (Text (json_text (wrapper_json real)))]"
  using assms
  by (auto simp: prepare_wrapper_def fill_wrapper_def Let_def split: option.splits if_splits)

lemma wrapper_effect_removed:
  "wrapper_files (ops @ [RemovedAll d]) p = (if p = d \<or> has_prefix p (d @ ''/'') then None else wrapper_files ops p)"
  by (simp add: wrapper_files_def)

text \<open>A preparation that fails leaves no file behind.\<close>

lemma failed_wrapper_leaves_nothing:
  assumes "prepare_wrapper h directory = (ops, Inl e)" "is_abs directory"
  shows "wrapper_files ops p = None"
proof -
  let ?bin = "path_join [directory, ''bin'']"
  have clean: "clean_directory ?bin" by (rule join_below_directory [OF assms(2) plain_names(1)])
  have below: "has_prefix (path_join [?bin, x]) (?bin @ ''/'')" if "plain_element x" for x
    using join_below(1) [OF clean that] by (simp add: has_prefix_iff)
  consider "ops = []" | made where "ops = MadeDirectory ?bin # made @ [RemovedAll ?bin]"
      "\<forall>w\<in>set made. \<exists>source. w = MadeFile (path_join [?bin, ''podman'']) (CopyOf source)"
    using assms(1) by (auto simp: prepare_wrapper_def fill_wrapper_def Let_def split: option.splits if_splits)
  then show ?thesis
  proof cases
    case 1
    then show ?thesis by (simp add: wrapper_files_def)
  next
    case (2 made)
    have "foldl wrapper_effect fs made p = None" if "fs p = None" "p \<noteq> path_join [?bin, ''podman'']" for fs
      using 2(2) that by (induction made arbitrary: fs) auto
    then have "p \<noteq> path_join [?bin, ''podman''] \<Longrightarrow> wrapper_files (MadeDirectory ?bin # made) p = None"
      by (simp add: wrapper_files_def)
    then show ?thesis
      using 2(1) below [OF plain_names(2)] wrapper_effect_removed [of "MadeDirectory ?bin # made" ?bin p] by auto
  qed
qed

lemma prepared_wrapper_parts:
  assumes "prepare_wrapper h directory = (ops, Inr bin)" "is_abs directory"
    and "wh_look_path h = Some found" "wh_absolute h found = Some real" "is_abs real" "utf8 real"
    and "stat (path_join [bin, ''podman'']) = Some s" "stat real = Some t" "s \<noteq> t"
  shows "run_wrapper (Some (path_join [bin, ''podman''])) (wrapper_text ops) stat args = Inr (real, podman_wrapper_args args)"
    and "path_dir (path_join [bin, ''podman'']) = bin"
proof -
  obtain source where bin: "bin = path_join [directory, ''bin'']"
    and ops: "ops = [MadeDirectory bin, MadeFile (path_join [bin, ''podman'']) (CopyOf source),
      MadeFile (path_join [bin, wrapper_metadata]) (Text (json_text (wrapper_json real)))]"
    using prepared_wrapper_found [OF assms(1)] assms(3,4) by (metis option.inject)
  have clean: "clean_directory bin" using join_below_directory [OF assms(2) plain_names(1)] bin by simp
  show dir: "path_dir (path_join [bin, ''podman'']) = bin"
    using join_below [OF clean plain_names(2)] by simp
  have stored: "wrapper_text ops (path_join [bin, wrapper_metadata]) = Some (json_text (wrapper_json real))"
    by (simp add: wrapper_text_def wrapper_files_def ops)
  have self: "real \<noteq> path_join [bin, ''podman'']" using assms(7-9) by auto
  obtain v where "parse_json (json_text (wrapper_json real)) = Some v" "decode_struct False wrapper_fields [] v = Inr real"
    using wrapper_json_read [OF assms(6)] by blast
  then show "run_wrapper (Some (path_join [bin, ''podman''])) (wrapper_text ops) stat args = Inr (real, podman_wrapper_args args)"
    using assms(5,7-9) self by (simp add: run_wrapper_def dir stored)
qed

text \<open>A wrapper that was installed does its work. When preparing it succeeds below an absolute directory, and the copy is later
  started from where it was put, finds the files as they were left and sees the same file identities (a copy is a file of its own),
  it runs the Podman that was found before the search path was changed, as an absolute path and never itself, with the arguments as
  the wrapper passes them on.\<close>

proposition prepared_wrapper_runs:
  assumes "prepare_wrapper h directory = (ops, Inr bin)" "is_abs directory"
    and "wh_look_path h = Some found" "wh_absolute h found = Some real" "is_abs real" "utf8 real"
    and "stat (path_join [bin, ''podman'']) = Some s" "stat real = Some t" "s \<noteq> t"
  shows "run_wrapper (Some (path_join [bin, ''podman''])) (wrapper_text ops) stat args = Inr (real, podman_wrapper_args args)
    \<and> path_dir (path_join [bin, ''podman'']) = bin"
  using prepared_wrapper_parts [OF assms] by blast

definition sample_wrapper_host :: wrapper_host where
  "sample_wrapper_host = \<lparr>wh_look_path = Some ''/usr/bin/podman'', wh_absolute = Some, wh_executable = Some ''/opt/bivrost'',
     wh_stat = (\<lambda>p. if p = ''/opt/bivrost'' then Some 1 else if p = ''/usr/bin/podman'' then Some 2 else None), wh_mkdir = True,
     wh_open_source = True, wh_create = True, wh_copied = True, wh_closed = True, wh_written = True\<rparr>"

lemma sample_wrapper: "\<exists>ops bin. prepare_wrapper sample_wrapper_host ''/tmp/s'' = (ops, Inr bin)"
  by (simp add: prepare_wrapper_def fill_wrapper_def sample_wrapper_host_def Let_def)

lemma prepared_wrapper_runs_witness:
  "\<exists>ops bin. run_wrapper (Some (path_join [bin, ''podman''])) (wrapper_text ops)
      (\<lambda>p. if p = ''/usr/bin/podman'' then Some 2 else Some 3) [''build'', ''.'']
    = Inr (''/usr/bin/podman'', [''build'', ''--http-proxy=false'', ''.''])"
proof -
  obtain ops bin where p: "prepare_wrapper sample_wrapper_host ''/tmp/s'' = (ops, Inr bin)" using sample_wrapper by blast
  have bin: "bin = path_join [''/tmp/s'', ''bin'']" using prepared_wrapper_found [OF p] by metis
  have other: "path_join [bin, ''podman''] \<noteq> ''/usr/bin/podman''"
    by (simp add: bin path_join_def clean_path_def push_element_def)
  have "run_wrapper (Some (path_join [bin, ''podman''])) (wrapper_text ops)
      (\<lambda>p. if p = ''/usr/bin/podman'' then Some 2 else Some 3) [''build'', ''.'']
    = Inr (''/usr/bin/podman'', podman_wrapper_args [''build'', ''.''])"
    by (rule prepared_wrapper_runs [THEN conjunct1, OF p, of "''/usr/bin/podman''" _ _ 3 2])
      (use other in \<open>simp_all add: sample_wrapper_host_def is_abs_def utf8_ascii is_ascii_def byte_lit char_le_byte\<close>)
  moreover have "podman_wrapper_args [''build'', ''.''] = [''build'', ''--http-proxy=false'', ''.'']"
    by (simp add: podman_wrapper_args_def)
  ultimately show ?thesis by auto
qed

end
