(* ===== verification/Podman.thy ===== *)
theory Podman
  imports Podman_Session Url_Parse
begin

section \<open>The local Podman engine\<close>

text \<open>
  \<open>internal/session/podman.go\<close>: which Podman a session uses, found by asking the command line client,
  and the SSH forward that gives a local Podman Machine the session's proxy. What the client prints
  is an argument; the outputs are decoded here.
\<close>

definition podman_name_pattern :: rx where
  "podman_name_pattern = Seq (Cls ascii_alpha_numeric)
     (rep_range 0 127 (Cls (\<lambda>c. ascii_alpha_numeric c \<or> c \<in> set ''_.-'')))"

definition podman_user_pattern :: rx where
  "podman_user_pattern = Seq (Cls (\<lambda>c. is_lower c \<or> is_upper c \<or> c = CHR ''_''))
     (rep_range 0 63 (Cls (\<lambda>c. ascii_alpha_numeric c \<or> c \<in> set ''_-'')))"

record podman_connection =
  pc_name :: string
  pc_uri :: string
  pc_identity :: string
  pc_default :: bool

record podman_machine =
  pm_connection_name :: string
  pm_connection_user :: string
  pm_name :: string
  pm_state :: string
  pm_rootful :: bool
  pm_identity_path :: string
  pm_port :: int
  pm_remote_username :: string

datatype podman_error =
    ContainerHostSet | PodmanUnavailable | PodmanModeUnknown | ConnectionsUnreadable | SelectOneConnection
  | NotLocalMachine | MachinePassword | MachinesUnreadable | NoMatchingMachine | MachineApiUnavailable
  | BridgeDirectoryUnknown | BridgeDirectoryNotMade | BridgeNotPrepared | BridgeNotStarted | BridgeFailed

subsection \<open>What the client prints\<close>

definition connection_fields :: "podman_connection field list" where
  "connection_fields = [str_field ''Name'' (\<lambda>s. pc_name_update (\<lambda>_. s)), str_field ''URI'' (\<lambda>s. pc_uri_update (\<lambda>_. s)),
     str_field ''Identity'' (\<lambda>s. pc_identity_update (\<lambda>_. s)), bool_field ''Default'' (\<lambda>b. pc_default_update (\<lambda>_. b))]"

definition ssh_config_fields :: "podman_machine field list" where
  "ssh_config_fields = [str_field ''IdentityPath'' (\<lambda>s. pm_identity_path_update (\<lambda>_. s)),
     int_field ''Port'' (\<lambda>i. pm_port_update (\<lambda>_. i)), str_field ''RemoteUsername'' (\<lambda>s. pm_remote_username_update (\<lambda>_. s))]"

definition machine_fields :: "podman_machine field list" where
  "machine_fields = [str_field ''Name'' (\<lambda>s. pm_name_update (\<lambda>_. s)), str_field ''State'' (\<lambda>s. pm_state_update (\<lambda>_. s)),
     bool_field ''Rootful'' (\<lambda>b. pm_rootful_update (\<lambda>_. b)), (''SSHConfig'', \<lambda>m v. decode_struct False ssh_config_fields m v)]"

definition no_connection :: podman_connection where
  "no_connection = \<lparr>pc_name = [], pc_uri = [], pc_identity = [], pc_default = False\<rparr>"

definition no_machine :: podman_machine where
  "no_machine = \<lparr>pm_connection_name = [], pm_connection_user = [], pm_name = [], pm_state = [], pm_rootful = False,
     pm_identity_path = [], pm_port = 0, pm_remote_username = []\<rparr>"

text \<open>\<open>json.Unmarshal\<close> into a slice of structs; \<open>null\<close> is the empty slice.\<close>

fun decode_items :: "'r field list \<Rightarrow> 'r \<Rightarrow> json list \<Rightarrow> 'r list option" where
  "decode_items fs zero [] = Some []"
| "decode_items fs zero (v # vs) = (case decode_struct False fs zero v of Inl _ \<Rightarrow> None
     | Inr r \<Rightarrow> map_option ((#) r) (decode_items fs zero vs))"

definition unmarshal_list :: "'r field list \<Rightarrow> 'r \<Rightarrow> string \<Rightarrow> 'r list option" where
  "unmarshal_list fs zero data = (case parse_json data of
     Some (JArr vs) \<Rightarrow> decode_items fs zero vs | Some JNull \<Rightarrow> Some [] | _ \<Rightarrow> None)"

subsection \<open>Selecting a machine\<close>

definition select_podman_connection :: "podman_connection list \<Rightarrow> string \<Rightarrow> (podman_error, podman_connection) res" where
  "select_podman_connection connections name =
     (case filter (\<lambda>c. (name \<noteq> [] \<and> pc_name c = name) \<or> (name = [] \<and> pc_default c)) connections of
        [c] \<Rightarrow> Inr c | _ \<Rightarrow> Inl SelectOneConnection)"

definition machine_matches :: "podman_connection \<Rightarrow> url \<Rightarrow> string \<Rightarrow> podman_machine \<Rightarrow> bool" where
  "machine_matches c u user m \<longleftrightarrow>
     (let user_matches = (user = pm_remote_username m \<or> (user = ''root'' \<and> u_path u = ''/run/podman/podman.sock'')) in
      pm_state m = ''running'' \<and> rmatch podman_name_pattern (pm_name m) \<and> user_matches
      \<and> rmatch podman_user_pattern (pm_remote_username m) \<and> pm_port m > 0 \<and> pm_port m \<le> 65535 \<and> url_port u = itoa (pm_port m)
      \<and> (u_path u = ''/run/podman/podman.sock'' \<or> has_prefix (u_path u) ''/run/user/'' \<and> has_suffix (u_path u) ''/podman/podman.sock'')
      \<and> is_abs (pm_identity_path m) \<and> clean_path (pc_identity c) = clean_path (pm_identity_path m))"

definition match_podman_machine :: "podman_connection \<Rightarrow> podman_machine list \<Rightarrow> (podman_error, podman_machine) res" where
  "match_podman_machine c machines = (case url_parse (pc_uri c) of None \<Rightarrow> Inl NotLocalMachine
     | Some u \<Rightarrow> (case u_user u of None \<Rightarrow> Inl NotLocalMachine
     | Some (user, password) \<Rightarrow>
         if u_scheme u \<noteq> ''ssh'' \<or> hostname u \<notin> {''127.0.0.1'', ''localhost'', ''::1''} then Inl NotLocalMachine
         else if password \<noteq> None then Inl MachinePassword
         else (case find (machine_matches c u user) machines of None \<Rightarrow> Inl NoMatchingMachine
           | Some m \<Rightarrow> Inr (m\<lparr>pm_connection_name := pc_name c, pm_connection_user := user\<rparr>))))"

text \<open>\<open>inspectPodman\<close>: \<open>Inr None\<close> is the native engine. \<open>podman\<close> runs the client, \<open>None\<close> being a failure.\<close>

type_synonym podman_client = "string list \<Rightarrow> string option"

definition remote_format :: string where "remote_format = ''{{.Host.ServiceIsRemote}}''"

fun inspected_machines :: "podman_client \<Rightarrow> podman_machine list \<Rightarrow> podman_machine list" where
  "inspected_machines podman [] = []"
| "inspected_machines podman (n # names) =
     (if \<not> rmatch podman_name_pattern (pm_name n) then inspected_machines podman names
      else (case podman [''machine'', ''inspect'', pm_name n] of None \<Rightarrow> []
          | Some output \<Rightarrow> (case unmarshal_list machine_fields no_machine output of None \<Rightarrow> [] | Some ms \<Rightarrow> ms))
        @ inspected_machines podman names)"

definition inspect_machine :: "podman_client \<Rightarrow> string \<Rightarrow> (podman_error, podman_machine) res" where
  "inspect_machine podman wanted =
     (case Option.bind (podman [''system'', ''connection'', ''list'', ''--format'', ''json'']) (unmarshal_list connection_fields no_connection) of
        None \<Rightarrow> Inl ConnectionsUnreadable
      | Some connections \<Rightarrow> ebind (select_podman_connection connections wanted) (\<lambda>selected.
          case Option.bind (podman [''machine'', ''list'', ''--format'', ''json''])
              (unmarshal_list [str_field ''Name'' (\<lambda>s. pm_name_update (\<lambda>_. s))] no_machine) of
            None \<Rightarrow> Inl MachinesUnreadable
          | Some names \<Rightarrow> ebind (match_podman_machine selected (inspected_machines podman names)) (\<lambda>machine.
              case podman [''--connection'', pm_connection_name machine, ''info'', ''--format'', remote_format] of
                None \<Rightarrow> Inl MachineApiUnavailable
              | Some output \<Rightarrow> if trim_space output = ''true'' then Inr machine else Inl MachineApiUnavailable)))"

definition inspect_podman :: "bool \<Rightarrow> (string \<Rightarrow> string) \<Rightarrow> podman_client \<Rightarrow> (podman_error, podman_machine option) res" where
  "inspect_podman linux getenv podman =
     (let wanted = getenv ''CONTAINER_CONNECTION''; machine = ebind (inspect_machine podman wanted) (\<lambda>m. Inr (Some m)) in
      if getenv ''CONTAINER_HOST'' \<noteq> [] then Inl ContainerHostSet
      else if linux \<and> wanted = [] then
        (case podman [''--remote=false'', ''info'', ''--format'', remote_format] of None \<Rightarrow> Inl PodmanUnavailable
         | Some output \<Rightarrow>
             if trim_space output = ''false'' then Inr None
             else if trim_space output = ''true'' then machine else Inl PodmanModeUnknown)
      else machine)"

subsection \<open>The bridge to a machine\<close>

definition proxy_bridge_id :: "podman_machine \<Rightarrow> string" where
  "proxy_bridge_id m = sha256_hex (json_text (JObj [(''Name'', JStr (pm_name m)), (''Port'', JNum (itoa (pm_port m))),
     (''User'', JStr (pm_remote_username m)), (''Identity'', JStr (clean_path (pm_identity_path m)))]))"

text \<open>
  \<open>strconv.Quote\<close>. Which runes above 255 are printable is a table of Go's \<open>unicode\<close> package and an argument.
\<close>

definition printable_rune :: "(nat \<Rightarrow> bool) \<Rightarrow> nat \<Rightarrow> bool" where
  "printable_rune wide r \<longleftrightarrow> (if r \<le> 255 then (32 \<le> r \<and> r < 127) \<or> (161 \<le> r \<and> r \<noteq> 173) else wide r)"

definition hex_rune :: "nat \<Rightarrow> nat \<Rightarrow> string" where
  "hex_rune digits r = map (\<lambda>i. hex_digit (r div 16 ^ (digits - 1 - i) mod 16)) [0..<digits]"

definition quote_rune :: "(nat \<Rightarrow> bool) \<Rightarrow> nat \<Rightarrow> string" where
  "quote_rune wide r =
     (if r = 34 \<or> r = 92 then [CHR 0x5C, char_of r]
      else if printable_rune wide r then encode_rune r
      else case map_of (zip [7, 8, 12, 10, 13, 9, 11] ''abfnrtv'') r of
        Some e \<Rightarrow> [CHR 0x5C, e]
      | None \<Rightarrow> if r < 32 \<or> r = 127 then CHR 0x5C # CHR ''x'' # hex_rune 2 r
          else if r < 65536 then CHR 0x5C # CHR ''u'' # hex_rune 4 r else CHR 0x5C # CHR ''U'' # hex_rune 8 r)"

function quote_body :: "(nat \<Rightarrow> bool) \<Rightarrow> string \<Rightarrow> string" where
  "quote_body wide s = (case s of [] \<Rightarrow> [] | c # _ \<Rightarrow>
     (case decode_rune s of (r, w) \<Rightarrow>
       (if w = 1 \<and> r = rune_error then CHR 0x5C # CHR ''x'' # hex_rune 2 (byte c) else quote_rune wide r)
       @ quote_body wide (drop w s)))"
  by pat_completeness auto
termination
  by (relation "measure (\<lambda>(wide, s). length s)") (auto dest: decode_rune_width')

declare quote_body.simps [simp del]

definition go_quote :: "(nat \<Rightarrow> bool) \<Rightarrow> string \<Rightarrow> string" where
  "go_quote wide s = [CHR 0x22] @ quote_body wide s @ [CHR 0x22]"

definition bridge_ready_line :: string where
  "bridge_ready_line = ''bivrost-podman-ready'' @ [CHR 0x0A]"

definition bridge_command :: string where
  "bridge_command = ''printf '' @ [CHR 0x27] @ ''bivrost-podman-ready'' @ [CHR 0x5C, CHR ''n'', CHR 0x27] @ ''; cat''"

definition podman_bridge_arguments :: "(nat \<Rightarrow> bool) \<Rightarrow> podman_machine \<Rightarrow> int \<Rightarrow> string \<Rightarrow> string list" where
  "podman_bridge_arguments wide m port known_hosts =
     [''-F'', ''/dev/null'', ''-T'', ''-i'', pm_identity_path m,
      ''-p'', itoa (pm_port m), ''-o'', ''IdentitiesOnly=yes'', ''-o'', ''BatchMode=yes'',
      ''-o'', ''StrictHostKeyChecking=accept-new'', ''-o'', ''UserKnownHostsFile='' @ go_quote wide known_hosts,
      ''-o'', ''HostKeyAlias=bivrost-podman-'' @ pm_name m, ''-o'', ''ExitOnForwardFailure=yes'',
      ''-o'', ''ForwardAgent=no'', ''-o'', ''ServerAliveInterval=15'', ''-o'', ''ServerAliveCountMax=3'',
      ''-R'', ''127.0.0.1:'' @ itoa port @ '':127.0.0.1:'' @ itoa port,
      pm_remote_username m @ ''@127.0.0.1'', bridge_command]"

text \<open>
  \<open>startPodmanProxyBridge\<close>. What the system answers: the user's configuration directory, whether it could be
  made, the two pipes, the start, and what came first of the process's output, the end of the context
  and 15 seconds. The client's standard input keeps the remote \<open>cat\<close>, and so the forward, alive.
\<close>

datatype bridge_event = BridgeOutput string | BridgeCancelled | BridgeTimeout

record bridge_system =
  by_config_dir :: "string option"
  by_made_directory :: bool
  by_stdin :: bool
  by_stdout :: bool
  by_started :: "string list \<Rightarrow> bool"
  by_event :: bridge_event

datatype bridge_op = InputOpened | InputClosed | SshStarted "string list" | SshStopped

text \<open>One line of at most \<open>n\<close> bytes, with its newline when it was read.\<close>

definition limited_line :: "nat \<Rightarrow> string \<Rightarrow> string" where
  "limited_line n output = (case cut CHR 0x0A (take n output) of (line, _, found) \<Rightarrow> if found then line @ [CHR 0x0A] else line)"

definition bridge_ready :: "bridge_event \<Rightarrow> bool" where
  "bridge_ready e = (case e of BridgeOutput output \<Rightarrow> limited_line 128 output = bridge_ready_line | _ \<Rightarrow> False)"

definition start_podman_bridge ::
  "bridge_system \<Rightarrow> (nat \<Rightarrow> bool) \<Rightarrow> (podman_error, podman_machine option) res \<Rightarrow> profile
    \<Rightarrow> bridge_op list \<times> (podman_error, podman_machine option) res" where
  "start_podman_bridge sys wide inspected c =
     (case inspected of Inl e \<Rightarrow> ([], Inl e)
      | Inr None \<Rightarrow> ([], Inr None)
      | Inr (Some machine) \<Rightarrow> (case by_config_dir sys of None \<Rightarrow> ([], Inl BridgeDirectoryUnknown)
      | Some root \<Rightarrow>
          if \<not> by_made_directory sys then ([], Inl BridgeDirectoryNotMade)
          else let known_hosts = path_join [path_join [root, ''bivrost''], ''podman_known_hosts''];
                   args = podman_bridge_arguments wide machine (pf_proxy_port c) known_hosts in
            if \<not> by_stdin sys then ([], Inl BridgeNotPrepared)
            else if \<not> by_stdout sys then ([InputOpened, InputClosed], Inl BridgeNotPrepared)
            else if \<not> by_started sys args then ([InputOpened, InputClosed], Inl BridgeNotStarted)
            else if bridge_ready (by_event sys) then ([InputOpened, SshStarted args], Inr (Some machine))
            else ([InputOpened, SshStarted args, InputClosed, SshStopped], Inl BridgeFailed)))"

definition bridge_running :: "bridge_op list \<Rightarrow> bool" where
  "bridge_running ops = (\<exists>args. SshStarted args \<in> set ops \<and> SshStopped \<notin> set ops)"

definition bridge_input_open :: "bridge_op list \<Rightarrow> bool" where
  "bridge_input_open ops = (InputOpened \<in> set ops \<and> InputClosed \<notin> set ops)"

subsection \<open>The machine that is found\<close>

lemma select_podman_connection_member:
  "select_podman_connection connections name = Inr c \<Longrightarrow>
    c \<in> set connections \<and> (if name = [] then pc_default c else pc_name c = name)
    \<and> (\<forall>d\<in>set connections. (if name = [] then pc_default d else pc_name d = name) \<longrightarrow> d = c)"
proof -
  assume sel: "select_podman_connection connections name = Inr c"
  have f: "filter (\<lambda>c. (name \<noteq> [] \<and> pc_name c = name) \<or> (name = [] \<and> pc_default c)) connections = [c]"
    using sel by (auto simp: select_podman_connection_def split: list.splits)
  then have "set (filter (\<lambda>c. (name \<noteq> [] \<and> pc_name c = name) \<or> (name = [] \<and> pc_default c)) connections) = {c}" by simp
  then show ?thesis by (auto simp: set_eq_iff split: if_splits)
qed

text \<open>What the program demands of a machine before it starts ssh towards it.\<close>

definition local_machine :: "podman_connection \<Rightarrow> podman_machine \<Rightarrow> bool" where
  "local_machine c m \<longleftrightarrow> (\<exists>u user. url_parse (pc_uri c) = Some u \<and> u_scheme u = ''ssh'' \<and> u_user u = Some (user, None)
     \<and> hostname u \<in> {''127.0.0.1'', ''localhost'', ''::1''} \<and> url_port u = itoa (pm_port m)
     \<and> pm_connection_name m = pc_name c \<and> pm_connection_user m = user \<and> (user = pm_remote_username m \<or> user = ''root''))
     \<and> pm_state m = ''running'' \<and> rmatch podman_name_pattern (pm_name m) \<and> rmatch podman_user_pattern (pm_remote_username m)
     \<and> 0 < pm_port m \<and> pm_port m \<le> 65535 \<and> is_abs (pm_identity_path m)
     \<and> clean_path (pc_identity c) = clean_path (pm_identity_path m)"

lemma match_podman_machine_local:
  assumes "match_podman_machine c machines = Inr m"
  shows "local_machine c m"
proof -
  obtain u user m' where m: "url_parse (pc_uri c) = Some u" "u_user u = Some (user, None)" "u_scheme u = ''ssh''"
    "hostname u \<in> {''127.0.0.1'', ''localhost'', ''::1''}" "find (machine_matches c u user) machines = Some m'"
    "m = m'\<lparr>pm_connection_name := pc_name c, pm_connection_user := user\<rparr>"
    using assms by (auto simp: match_podman_machine_def split: option.splits if_splits)
  then have "machine_matches c u user m'" by (auto simp: find_Some_iff)
  then show ?thesis using m by (auto simp: local_machine_def machine_matches_def Let_def)
qed

lemma inspect_machine_local:
  assumes "inspect_machine podman wanted = Inr m"
  obtains c where "local_machine c m" "wanted \<noteq> [] \<Longrightarrow> pm_connection_name m = wanted" "wanted = [] \<Longrightarrow> pc_default c"
    "\<exists>output. podman [''--connection'', pm_connection_name m, ''info'', ''--format'', remote_format] = Some output \<and> trim_space output = ''true''"
proof -
  obtain connections c names where c: "select_podman_connection connections wanted = Inr c"
    "match_podman_machine c (inspected_machines podman names) = Inr m"
    "\<exists>output. podman [''--connection'', pm_connection_name m, ''info'', ''--format'', remote_format] = Some output \<and> trim_space output = ''true''"
    using assms by (auto simp: inspect_machine_def ebind_Inr_iff split: option.splits if_splits)
  have l: "local_machine c m" by (rule match_podman_machine_local [OF c(2)])
  then have "pm_connection_name m = pc_name c" by (auto simp: local_machine_def)
  then show thesis using that [OF l] select_podman_connection_member [OF c(1)] c(3) by (auto split: if_splits)
qed

lemma inspect_podman_machine:
  assumes "inspect_podman linux getenv podman = Inr (Some m)"
  shows "getenv ''CONTAINER_HOST'' = []" "inspect_machine podman (getenv ''CONTAINER_CONNECTION'') = Inr m"
  using assms by (auto simp: inspect_podman_def Let_def ebind_Inr_iff split: option.splits if_splits)

text \<open>A word that ssh takes as it is: no option, no separator and no second address.\<close>

definition ssh_word :: "string \<Rightarrow> bool" where
  "ssh_word s \<longleftrightarrow> s \<noteq> [] \<and> \<not> has_prefix s ''-'' \<and>
     list_all (\<lambda>ch. ascii_alpha_numeric ch \<or> ch \<in> set ''_.-'') s"

lemma ssh_word_first:
  assumes "ascii_alpha_numeric c \<or> c = CHR ''_''" "\<forall>ch\<in>set t. ascii_alpha_numeric ch \<or> ch \<in> set ''_.-''"
  shows "ssh_word (c # t)"
proof -
  have "\<not> ascii_alpha_numeric CHR ''-''" by code_simp
  then have "c \<noteq> CHR ''-''" using assms(1) by auto
  then show ?thesis using assms by (auto simp: ssh_word_def list_all_iff)
qed

lemma podman_name_word: "rmatch podman_name_pattern s \<Longrightarrow> ssh_word s"
  unfolding rmatch_lang podman_name_pattern_def lang_Seq_Cls
  by (auto simp: lang_rep_range_Cls list_all_iff intro!: ssh_word_first)

lemma podman_user_word: "rmatch podman_user_pattern s \<Longrightarrow> ssh_word s"
  unfolding rmatch_lang podman_user_pattern_def lang_Seq_Cls
  by (auto simp: lang_rep_range_Cls list_all_iff ascii_alpha_numeric_def is_lower_def is_upper_def is_digit_def intro!: ssh_word_first)

lemma podman_machine_parts:
  assumes "inspect_podman linux getenv podman = Inr (Some m)"
  shows "getenv ''CONTAINER_HOST'' = []"
    and "\<exists>c. local_machine c m \<and> (if getenv ''CONTAINER_CONNECTION'' = [] then pc_default c else pm_connection_name m = getenv ''CONTAINER_CONNECTION'')"
    and "\<exists>output. podman [''--connection'', pm_connection_name m, ''info'', ''--format'', remote_format] = Some output \<and> trim_space output = ''true''"
    and "ssh_word (pm_name m) \<and> ssh_word (pm_remote_username m) \<and> is_abs (pm_identity_path m)"
proof -
  show "getenv ''CONTAINER_HOST'' = []" using inspect_podman_machine [OF assms] by simp
  obtain c where c: "local_machine c m" "getenv ''CONTAINER_CONNECTION'' \<noteq> [] \<Longrightarrow> pm_connection_name m = getenv ''CONTAINER_CONNECTION''"
    "getenv ''CONTAINER_CONNECTION'' = [] \<Longrightarrow> pc_default c"
    and answer: "\<exists>output. podman [''--connection'', pm_connection_name m, ''info'', ''--format'', remote_format] = Some output \<and> trim_space output = ''true''"
    using inspect_machine_local [OF inspect_podman_machine(2) [OF assms]] by metis
  show "\<exists>c. local_machine c m \<and> (if getenv ''CONTAINER_CONNECTION'' = [] then pc_default c else pm_connection_name m = getenv ''CONTAINER_CONNECTION'')"
    using c by auto
  show "\<exists>output. podman [''--connection'', pm_connection_name m, ''info'', ''--format'', remote_format] = Some output \<and> trim_space output = ''true''"
    by (rule answer)
  show "ssh_word (pm_name m) \<and> ssh_word (pm_remote_username m) \<and> is_abs (pm_identity_path m)"
    using c(1) podman_name_word podman_user_word by (simp add: local_machine_def)
qed


definition sample_uri :: string where
  "sample_uri = ''ssh://core@127.0.0.1:22/run/podman/podman.sock''"

definition sample_client :: podman_client where
  "sample_client args =
     (if args = [''system'', ''connection'', ''list'', ''--format'', ''json'']
      then Some (json_text (JArr [JObj [(''Name'', JStr ''dev''), (''URI'', JStr sample_uri), (''Identity'', JStr ''/home/u/key''), (''Default'', JBool True)]]))
      else if args = [''machine'', ''list'', ''--format'', ''json''] then Some (json_text (JArr [JObj [(''Name'', JStr ''dev'')]]))
      else if args = [''machine'', ''inspect'', ''dev'']
      then Some (json_text (JArr [JObj [(''Name'', JStr ''dev''), (''State'', JStr ''running''),
        (''SSHConfig'', JObj [(''IdentityPath'', JStr ''/home/u/key''), (''Port'', JNum ''22''), (''RemoteUsername'', JStr ''core'')])]]))
      else Some ''true'')"

definition sample_machine :: podman_machine where
  "sample_machine = \<lparr>pm_connection_name = ''dev'', pm_connection_user = ''core'', pm_name = ''dev'', pm_state = ''running'',
     pm_rootful = False, pm_identity_path = ''/home/u/key'', pm_port = 22, pm_remote_username = ''core''\<rparr>"

lemma sample_uri_parsed: "url_parse sample_uri = Some \<lparr>u_scheme = ''ssh'', u_opaque = [], u_user = Some (''core'', None),
    u_host = ''127.0.0.1:22'', u_path = ''/run/podman/podman.sock'', u_force_query = False, u_raw_query = [], u_fragment = []\<rparr>"
  unfolding sample_uri_def by code_simp

lemma sample_text:
  "utf8 ''Name'' \<and> utf8 ''URI'' \<and> utf8 ''Identity'' \<and> utf8 ''Default'' \<and> utf8 ''State'' \<and> utf8 ''SSHConfig'' \<and> utf8 ''IdentityPath''
    \<and> utf8 ''Port'' \<and> utf8 ''RemoteUsername'' \<and> utf8 ''dev'' \<and> utf8 ''running'' \<and> utf8 ''/home/u/key'' \<and> utf8 ''core'' \<and> utf8 sample_uri"
  by (intro conjI utf8_ascii) (simp_all add: is_ascii_def byte_lit char_le_byte sample_uri_def str_simps)

lemma unmarshal_list_text: "wf_json (JArr vs) \<Longrightarrow> unmarshal_list fs zero (json_text (JArr vs)) = decode_items fs zero vs"
  by (simp only: unmarshal_list_def parse_json_text option.case json.case)

lemmas decode_simps = decode_struct_def find_field_def str_field_def bool_field_def int_field_def

lemma sample_wf:
  "wf_json (JArr [JObj [(''Name'', JStr ''dev''), (''URI'', JStr sample_uri),
      (''Identity'', JStr ''/home/u/key''), (''Default'', JBool True)]])"
  "wf_json (JArr [JObj [(''Name'', JStr ''dev'')]])"
  using sample_text by simp_all

lemma sample_machine_wf:
  "wf_json (JArr [JObj [(''Name'', JStr ''dev''), (''State'', JStr ''running''),
        (''SSHConfig'', JObj [(''IdentityPath'', JStr ''/home/u/key''), (''Port'', JNum ''22''), (''RemoteUsername'', JStr ''core'')])]])"
proof -
  have "rmatch number_pattern ''22'' \<and> list_all number_byte ''22''" by code_simp
  then show ?thesis using sample_text by simp
qed

lemma sample_inspected: "inspect_podman False (\<lambda>_. []) sample_client = Inr (Some sample_machine)"
proof -
  let ?c = "\<lparr>pc_name = ''dev'', pc_uri = sample_uri, pc_identity = ''/home/u/key'', pc_default = True\<rparr>"
    and ?m = "sample_machine\<lparr>pm_connection_name := [], pm_connection_user := []\<rparr>"
  have n: "int_literal ''22'' = Some 22"
    by (simp add: int_literal_def nat_of_text_def trim_prefix_def is_digit_def digit_val_def byte_def less_eq_char_def Let_def)
  have cs: "unmarshal_list connection_fields no_connection (json_text (JArr [JObj [(''Name'', JStr ''dev''), (''URI'', JStr sample_uri),
      (''Identity'', JStr ''/home/u/key''), (''Default'', JBool True)]])) = Some [?c]"
    unfolding unmarshal_list_text [OF sample_wf(1)] by (simp add: connection_fields_def no_connection_def decode_simps)
  have names: "unmarshal_list [str_field ''Name'' (\<lambda>s. pm_name_update (\<lambda>_. s))] no_machine (json_text (JArr [JObj [(''Name'', JStr ''dev'')]]))
    = Some [no_machine\<lparr>pm_name := ''dev''\<rparr>]"
    unfolding unmarshal_list_text [OF sample_wf(2)] by (simp add: decode_simps)
  have ms: "unmarshal_list machine_fields no_machine (json_text (JArr [JObj [(''Name'', JStr ''dev''), (''State'', JStr ''running''),
        (''SSHConfig'', JObj [(''IdentityPath'', JStr ''/home/u/key''), (''Port'', JNum ''22''), (''RemoteUsername'', JStr ''core'')])]]))
    = Some [?m]"
    unfolding unmarshal_list_text [OF sample_machine_wf]
    using n by (simp add: machine_fields_def ssh_config_fields_def no_machine_def sample_machine_def decode_simps)
  have name: "rmatch podman_name_pattern ''dev''" "rmatch podman_user_pattern ''core''" by code_simp+
  have inspected: "inspected_machines sample_client [no_machine\<lparr>pm_name := ''dev''\<rparr>] = [?m]"
    using name ms by (simp add: sample_client_def)
  have "machine_matches ?c \<lparr>u_scheme = ''ssh'', u_opaque = [], u_user = Some (''core'', None),
    u_host = ''127.0.0.1:22'', u_path = ''/run/podman/podman.sock'', u_force_query = False, u_raw_query = [], u_fragment = []\<rparr> ''core'' ?m"
    using name by (simp add: machine_matches_def sample_machine_def is_abs_def) code_simp
  moreover have "hostname \<lparr>u_scheme = ''ssh'', u_opaque = [], u_user = Some (''core'', None),
    u_host = ''127.0.0.1:22'', u_path = ''/run/podman/podman.sock'', u_force_query = False, u_raw_query = [], u_fragment = []\<rparr> = ''127.0.0.1''"
    by code_simp
  ultimately have "match_podman_machine ?c [?m] = Inr sample_machine"
    by (simp add: match_podman_machine_def sample_uri_parsed) (simp add: sample_machine_def)
  moreover have "select_podman_connection [?c] [] = Inr ?c" by (simp add: select_podman_connection_def)
  moreover have "trim_space ''true'' = ''true''" by code_simp
  ultimately have "inspect_machine sample_client [] = Inr sample_machine"
    using cs names inspected by (simp add: inspect_machine_def sample_client_def)
  then show ?thesis by (simp add: inspect_podman_def Let_def)
qed


subsection \<open>The bridge starts or leaves nothing\<close>

text \<open>The bridge to a Podman Machine is either up or gone. Starting it ends with a bridge exactly when one ssh process stays behind
  with its input open, and then it is the process with the bridge's arguments whose first line was the agreed one; every error leaves
  neither the process nor the input, and a native engine needs no process at all.\<close>

proposition podman_bridge_up_or_gone:
  assumes "start_podman_bridge sys wide inspected c = (ops, r)"
  shows "bridge_running ops \<longleftrightarrow> (\<exists>m. r = Inr (Some m))" and "bridge_input_open ops \<longleftrightarrow> (\<exists>m. r = Inr (Some m))"
    and "r = Inr (Some m) \<Longrightarrow> inspected = Inr (Some m) \<and> (\<exists>output known_hosts. by_event sys = BridgeOutput output
      \<and> limited_line 128 output = bridge_ready_line
      \<and> ops = [InputOpened, SshStarted (podman_bridge_arguments wide m (pf_proxy_port c) known_hosts)])"
    and "inspected = Inr None \<Longrightarrow> ops = [] \<and> r = Inr None"
  using assms
  by (auto simp: start_podman_bridge_def bridge_running_def bridge_input_open_def bridge_ready_def Let_def
      split: sum.splits option.splits if_splits bridge_event.splits)

definition sample_bridge_system :: bridge_system where
  "sample_bridge_system = \<lparr>by_config_dir = Some ''/home/u/.config'', by_made_directory = True, by_stdin = True, by_stdout = True,
     by_started = (\<lambda>_. True), by_event = BridgeTimeout\<rparr>"

lemma sample_bridge:
  "\<exists>ops. start_podman_bridge sample_bridge_system (\<lambda>_. False) (Inr (Some sample_machine)) empty_profile = (ops, Inl BridgeFailed)"
  by (simp add: start_podman_bridge_def sample_bridge_system_def bridge_ready_def Let_def)

lemma podman_bridge_up_or_gone_witness:
  "\<exists>ops. start_podman_bridge sample_bridge_system (\<lambda>_. False) (Inr (Some sample_machine)) empty_profile = (ops, Inl BridgeFailed)
    \<and> \<not> bridge_running ops"
proof -
  obtain ops where ops: "start_podman_bridge sample_bridge_system (\<lambda>_. False) (Inr (Some sample_machine)) empty_profile = (ops, Inl BridgeFailed)"
    using sample_bridge by blast
  show ?thesis using podman_bridge_up_or_gone(1) [OF ops] ops by auto
qed

end
