(* ===== verification/Session_Proxy.thy ===== *)
theory Session_Proxy
  imports Podman Router
begin

section \<open>The proxy process of a session\<close>

text \<open>
  \<open>internal/session/proxy.go\<close>: the local listener in front of a router of \<open>internal/proxy\<close>, the replacement of its
  routes while it runs, the health answer by which other commands recognise it, and the standalone
  \<open>acr proxy\<close> command. The listener, the HTTP client and what ends first are answers of the system.
\<close>

datatype proxy_error =
    ProxyProfile profile_error | UpstreamUrl | UpstreamPort | NoLocalPort | ProxyPortOccupied | UpstreamLoop
  | RoutesProfile profile_error | RoutesMoved | ProxyUrlInvalid | ProxyNotStarted | ProxyMismatch | ProxyBridgeMissing
  | ProxyPodman podman_error | BridgeDisconnected | ServeFailed

subsection \<open>The upstream proxy\<close>

definition upstream_proxy :: "(string \<Rightarrow> string) \<Rightarrow> (proxy_error, url option) res" where
  "upstream_proxy getenv =
     (let raw = getenv ''BIVROST_UPSTREAM_PROXY'';
          raw = (if raw = [] then getenv ''BIVROST_ACR_UPSTREAM_PROXY'' else raw) in
      if raw = [] then Inr None
      else case url_parse raw of None \<Rightarrow> Inl UpstreamUrl
      | Some u \<Rightarrow>
          if u_scheme u \<noteq> ''http'' \<or> hostname u = [] \<or> (u_path u \<noteq> [] \<and> u_path u \<noteq> ''/'') \<or> u_raw_query u \<noteq> [] \<or> u_fragment u \<noteq> []
          then Inl UpstreamUrl
          else if url_port u \<noteq> []
            \<and> (case nat_of_text (url_port u) of None \<Rightarrow> True | Some n \<Rightarrow> n < 1 \<or> n > 65535) then Inl UpstreamPort
          else Inr (Some u))"

subsection \<open>The running proxy\<close>

text \<open>The bridge carries a flag that tells whether its process has ended.\<close>

record running_proxy =
  rp_upstream :: "url option"
  rp_bridge :: "(podman_machine \<times> bool) option"
  rp_config :: profile
  rp_router :: router

definition routes_of :: "profile \<Rightarrow> url option \<Rightarrow> router_config" where
  "routes_of c upstream = \<lparr>cfg_registry = pf_registry c, cfg_private_hosts = pf_private_hosts c,
     cfg_socks_address = loopback (pf_socks_port c), cfg_direct_proxy = upstream\<rparr>"

text \<open>\<open>replaceRoutes\<close>: the new proxy and the connections that closing the previous routes closes.\<close>

definition replace_routes :: "running_proxy \<Rightarrow> profile \<Rightarrow> (proxy_error, running_proxy \<times> conn set) res" where
  "replace_routes p c = (case validate_private_hosts c of Some e \<Rightarrow> Inl (RoutesProfile e)
     | None \<Rightarrow>
         if pf_registry c \<noteq> pf_registry (rp_config p) \<or> pf_proxy_port c \<noteq> pf_proxy_port (rp_config p)
           \<or> pf_socks_port c \<noteq> pf_socks_port (rp_config p) then Inl RoutesMoved
         else Inr (p\<lparr>rp_router := new_router (routes_of c (rp_upstream p)), rp_config := c\<rparr>, snd (close_router (rp_router p))))"

definition set_podman_bridge :: "running_proxy \<Rightarrow> podman_machine \<Rightarrow> running_proxy" where
  "set_podman_bridge p m = p\<lparr>rp_bridge := Some (m, False)\<rparr>"

definition podman_bridge_id :: "running_proxy \<Rightarrow> string" where
  "podman_bridge_id p = (case rp_bridge p of None \<Rightarrow> []
     | Some (m, ended) \<Rightarrow> if ended then [] else proxy_bridge_id m)"

text \<open>\<open>startProxy\<close>. \<open>listen\<close> gives the port that listening on a port, or on port 0, ends up with.\<close>

datatype listener_op = ListenerOpened int | ListenerClosed int

definition points_back :: "url option \<Rightarrow> int \<Rightarrow> bool" where
  "points_back upstream port = (case upstream of None \<Rightarrow> False
     | Some u \<Rightarrow> hostname u \<in> {''localhost'', ''127.0.0.1'', ''::1''} \<and> url_port u = itoa port)"

definition start_proxy :: "(string \<Rightarrow> string) \<Rightarrow> (int \<Rightarrow> int option) \<Rightarrow> profile \<Rightarrow> listener_op list \<times> (proxy_error, running_proxy) res" where
  "start_proxy getenv listen c =
     (case validate_proxy c of Some e \<Rightarrow> ([], Inl (ProxyProfile e)) | None \<Rightarrow>
      case validate_private_hosts c of Some e \<Rightarrow> ([], Inl (ProxyProfile e)) | None \<Rightarrow>
      case upstream_proxy getenv of Inl e \<Rightarrow> ([], Inl e)
      | Inr upstream \<Rightarrow> (case listen (pf_proxy_port c) of
          None \<Rightarrow> ([], Inl (if pf_proxy_port c = 0 then NoLocalPort else ProxyPortOccupied))
        | Some port \<Rightarrow>
            let c = c\<lparr>pf_proxy_port := port\<rparr> in
            if points_back upstream port then ([ListenerOpened port, ListenerClosed port], Inl UpstreamLoop)
            else ([ListenerOpened port], Inr \<lparr>rp_upstream = upstream, rp_bridge = None, rp_config = c,
              rp_router = new_router (routes_of c upstream)\<rparr>)))"

subsection \<open>The health answer\<close>

text \<open>The handler answers the health request itself and gives everything else to the router.\<close>

record health_response =
  ha_status :: nat
  ha_body :: string
  ha_bridge :: string

definition is_health_request :: "string \<Rightarrow> string \<Rightarrow> bool \<Rightarrow> bool" where
  "is_health_request verb path absolute \<longleftrightarrow> verb = ''GET'' \<and> path = ''/bivrost/health'' \<and> \<not> absolute"

definition health_answer :: "running_proxy \<Rightarrow> bool \<Rightarrow> health_response" where
  "health_answer p ctx_done = \<lparr>ha_status = 200, ha_body = proxy_id (rp_config p),
     ha_bridge = (if \<not> ctx_done \<and> podman_bridge_id p \<noteq> [] then podman_bridge_id p else [])\<rparr>"

datatype handled = Health health_response | Served router "transport option" serve_result

definition handle_proxy_request :: "running_proxy \<Rightarrow> bool \<Rightarrow> serve_env \<Rightarrow> string \<Rightarrow> bool \<Rightarrow> http_request \<Rightarrow> handled" where
  "handle_proxy_request p ctx_done env path absolute r =
     (if is_health_request (rq_method r) path absolute then Health (health_answer p ctx_done)
      else case serve_begin env r (rp_router p) of (router, dialled, result) \<Rightarrow> Served router dialled result)"

text \<open>\<open>checkProxy\<close>: the client's answer (\<open>None\<close> when there was none), and whether its body could be read.\<close>

definition check_proxy :: "profile \<Rightarrow> string \<Rightarrow> health_response option \<Rightarrow> bool \<Rightarrow> proxy_error err" where
  "check_proxy c bridge_id answer readable =
     (if url_parse (proxy_url c @ ''/bivrost/health'') = None then Some ProxyUrlInvalid
      else case answer of None \<Rightarrow> Some ProxyNotStarted
      | Some a \<Rightarrow>
          if \<not> readable \<or> ha_status a \<noteq> 200 \<or> take 256 (ha_body a) \<noteq> proxy_id c then Some ProxyMismatch
          else if bridge_id \<noteq> [] \<and> ha_bridge a \<noteq> bridge_id then Some ProxyBridgeMissing
          else None)"

definition require_proxy :: "(podman_error, podman_machine option) res \<Rightarrow> profile \<Rightarrow> health_response option \<Rightarrow> bool \<Rightarrow> proxy_error err" where
  "require_proxy inspected c answer readable = (case inspected of Inl e \<Rightarrow> Some (ProxyPodman e)
     | Inr machine \<Rightarrow> check_proxy c (case machine of None \<Rightarrow> [] | Some m \<Rightarrow> proxy_bridge_id m) answer readable)"

subsection \<open>The standalone proxy\<close>

text \<open>What ends the command first: the bridge's process, the context, or the server with an error or as closed.\<close>

datatype serve_event = BridgeEnded | ContextEnded | ServerEnded bool

datatype serve_op = Listener listener_op | Bridge bridge_op | RouterClosed

definition close_proxy :: "running_proxy \<Rightarrow> serve_op list" where
  "close_proxy p = [Listener (ListenerClosed (pf_proxy_port (rp_config p))), RouterClosed]"

definition serve_outcome :: "serve_event \<Rightarrow> proxy_error err" where
  "serve_outcome e = (case e of BridgeEnded \<Rightarrow> Some BridgeDisconnected | ContextEnded \<Rightarrow> None
     | ServerEnded server_closed \<Rightarrow> if server_closed then None else Some ServeFailed)"

definition serve_proxy ::
  "(string \<Rightarrow> string) \<Rightarrow> (int \<Rightarrow> int option) \<Rightarrow> (profile \<Rightarrow> bridge_op list \<times> (podman_error, podman_machine option) res)
    \<Rightarrow> (bool \<Rightarrow> serve_event) \<Rightarrow> profile \<Rightarrow> serve_op list \<times> proxy_error err" where
  "serve_proxy getenv listen bridge event c =
     (case start_proxy getenv listen c of (ops, Inl e) \<Rightarrow> (map Listener ops, Some e)
      | (ops, Inr p) \<Rightarrow> (case bridge c of
          (bops, Inl e) \<Rightarrow> (map Listener ops @ map Bridge bops @ close_proxy p, Some (ProxyPodman e))
        | (bops, Inr None) \<Rightarrow> (map Listener ops @ map Bridge bops @ close_proxy p, serve_outcome (event False))
        | (bops, Inr (Some m)) \<Rightarrow>
            (map Listener ops @ map Bridge bops @ [Bridge SshStopped] @ close_proxy (set_podman_bridge p m), serve_outcome (event True))))"

subsection \<open>The health address\<close>

lemma local_url_parsed:
  assumes "list_all is_digit p"
  shows "url_parse (''http'' @ CHR '':'' # ''//127.0.0.1:'' @ p @ ''/bivrost/health'')
    = Some (empty_url\<lparr>u_scheme := ''http'', u_host := ''127.0.0.1:'' @ p, u_path := ''/bivrost/health''\<rparr>)"
proof -
  let ?a = "''127.0.0.1:'' @ p"
  have p: "list_all plain_url_byte p" using assms by (auto simp: list_all_iff plain_url_byte_def alpha_numeric_class)
  have h: "list_all plain_url_byte ''127.0.0.1''" by code_simp
  have n: "c \<notin> set p" if "c \<in> {CHR ''/'', CHR ''?'', CHR ''#''}" for c
    using p plain_url_byte_not that by (fastforce simp: list_all_iff)
  have printable: "list_all (\<lambda>c. CHR 0x20 \<le> c \<and> c \<noteq> CHR 0x7F) p"
    using p plain_url_byte_printable by (simp add: list_all_iff)
  have lit: "list_all (\<lambda>c. CHR 0x20 \<le> c \<and> c \<noteq> CHR 0x7F) ''http://127.0.0.1:/bivrost/health''" by code_simp
  have cut1: "cut CHR ''#'' (''http'' @ CHR '':'' # ''//127.0.0.1:'' @ p @ ''/bivrost/health'')
      = (''http'' @ CHR '':'' # ''//127.0.0.1:'' @ p @ ''/bivrost/health'', [], False)"
    using n by (intro cut_absent) auto
  have cut2: "cut CHR ''?'' (''//127.0.0.1:'' @ p @ ''/bivrost/health'') = (''//127.0.0.1:'' @ p @ ''/bivrost/health'', [], False)"
    using n by (intro cut_absent) auto
  have cut3: "cut CHR ''/'' (''127.0.0.1:'' @ p @ ''/bivrost/health'') = (?a, ''bivrost/health'', True)"
    using n cut_append [of "CHR ''/''" ?a "''bivrost/health''"] by simp
  have auth: "parse_authority ''http'' ?a = Some (None, ?a)"
    using parse_authority_plain(1) [OF h assms, of "[]" "[]" "''http''"] by simp
  have path: "unescape EncodeOther ''/bivrost/health'' = Some ''/bivrost/health''" by code_simp
  have rest: "parse_rest (empty_url\<lparr>u_scheme := ''http'', u_raw_query := []\<rparr>) (''//127.0.0.1:'' @ p @ ''/bivrost/health'')
      = Some (empty_url\<lparr>u_scheme := ''http'', u_host := ?a, u_path := ''/bivrost/health''\<rparr>)"
    using cut3 auth path by (simp add: parse_rest_def empty_url_def)
  have suffix: "\<not> has_suffix (''//127.0.0.1:'' @ p @ ''/bivrost/health'') ''?''" by (simp add: has_suffix_def)
  have "parse_without_fragment (''http'' @ CHR '':'' # ''//127.0.0.1:'' @ p @ ''/bivrost/health'')
      = Some (empty_url\<lparr>u_scheme := ''http'', u_host := ?a, u_path := ''/bivrost/health''\<rparr>)"
    using lit printable get_scheme_http(1) [of "''//127.0.0.1:'' @ p @ ''/bivrost/health''"] suffix cut2 rest to_lower_http(1)
    by (simp add: parse_without_fragment_def to_lower_http)
  then show ?thesis using cut1 by (simp add: url_parse_def)
qed

lemma proxy_url_health: "0 \<le> pf_proxy_port c \<Longrightarrow> url_parse (proxy_url c @ ''/bivrost/health'') \<noteq> None"
  using local_url_parsed [of "nat_text (nat (pf_proxy_port c))"] nat_text_digits
  by (simp add: proxy_url_def loopback_def join_host_port_def itoa_def)

lemma check_health:
  assumes "0 \<le> pf_proxy_port c"
  shows "check_proxy c bridge_id (Some (health_answer p ctx_done)) True = None \<longleftrightarrow>
    proxy_id c = proxy_id (rp_config p) \<and> (bridge_id = [] \<or> \<not> ctx_done \<and> podman_bridge_id p = bridge_id)"
  using proxy_url_health [OF assms] length_sha256_hex
  by (auto simp: check_proxy_def health_answer_def proxy_id_def)

subsection \<open>A proxy from its start on\<close>

inductive proxy_runs :: "(string \<Rightarrow> string) \<Rightarrow> (int \<Rightarrow> int option) \<Rightarrow> profile \<Rightarrow> running_proxy \<Rightarrow> bool" for getenv listen c where
  started: "start_proxy getenv listen c = (ops, Inr p) \<Longrightarrow> proxy_runs getenv listen c p"
| replaced: "proxy_runs getenv listen c p \<Longrightarrow> replace_routes p c' = Inr (p', conns) \<Longrightarrow> proxy_runs getenv listen c p'"
| served: "proxy_runs getenv listen c p \<Longrightarrow> handle_proxy_request p ctx_done env path absolute r = Served router d result \<Longrightarrow>
     proxy_runs getenv listen c (p\<lparr>rp_router := router\<rparr>)"
| bridged: "proxy_runs getenv listen c p \<Longrightarrow> proxy_runs getenv listen c (set_podman_bridge p m)"
| bridge_ended: "proxy_runs getenv listen c p \<Longrightarrow> rp_bridge p = Some (m, e) \<Longrightarrow>
     proxy_runs getenv listen c (p\<lparr>rp_bridge := Some (m, True)\<rparr>)"

definition routes_agree :: "running_proxy \<Rightarrow> bool" where
  "routes_agree p \<longleftrightarrow> registry (rp_router p) = pf_registry (rp_config p) \<and> private_hosts (rp_router p) = pf_private_hosts (rp_config p)
     \<and> socks_address (rp_router p) = loopback (pf_socks_port (rp_config p)) \<and> direct_proxy (rp_router p) = rp_upstream p"

definition proxy_keeps :: "profile \<Rightarrow> int \<Rightarrow> running_proxy \<Rightarrow> bool" where
  "proxy_keeps c port p \<longleftrightarrow> validate_private_hosts (rp_config p) = None \<and> pf_proxy_port (rp_config p) = port
     \<and> pf_registry (rp_config p) = pf_registry c \<and> pf_socks_port (rp_config p) = pf_socks_port c
     \<and> \<not> points_back (rp_upstream p) port \<and> routes_agree p"

lemma serve_begin_routes:
  assumes "serve_begin env r p = (p', d, result)"
  shows "registry p' = registry p \<and> private_hosts p' = private_hosts p \<and> socks_address p' = socks_address p
    \<and> direct_proxy p' = direct_proxy p"
proof (cases result)
  case (Established client u ok)
  then show ?thesis using serve_begin_router(1) assms by (metis router.simps(1-4) router.update_convs(5) router.surjective)
next
  case (Refused status cs)
  then show ?thesis using serve_begin_router(2) assms by metis
next
  case (Dropped cs)
  then show ?thesis using serve_begin_router(3) assms by metis
qed

lemma proxy_runs_keeps:
  assumes "proxy_runs getenv listen c p"
  shows "\<exists>port. listen (pf_proxy_port c) = Some port \<and> proxy_keeps c port p"
  using assms
proof induction
  case (started ops p)
  then show ?case
    by (auto simp: start_proxy_def Let_def proxy_keeps_def routes_agree_def routes_of_def new_router_def validate_private_hosts_def
        split: option.splits sum.splits if_splits)
next
  case (replaced p c' p' conns)
  then show ?case
    by (auto simp: replace_routes_def proxy_keeps_def routes_agree_def routes_of_def new_router_def split: option.splits if_splits)
next
  case (served p ctx_done env path absolute r router d result)
  then obtain res where "serve_begin env r (rp_router p) = (router, d, res)"
    by (auto simp: handle_proxy_request_def split: if_splits prod.splits)
  from serve_begin_routes [OF this] served.IH show ?case
    by (simp add: proxy_keeps_def routes_agree_def)
next
  case (bridged p m)
  then show ?case by (simp add: proxy_keeps_def routes_agree_def set_podman_bridge_def)
next
  case (bridge_ended p m e)
  then show ?case by (simp add: proxy_keeps_def routes_agree_def)
qed

lemma running_proxy_parts:
  assumes "proxy_runs getenv listen c p"
  shows "\<exists>port. listen (pf_proxy_port c) = Some port \<and> proxy_url (rp_config p) = ''http://'' @ loopback port
      \<and> \<not> points_back (rp_upstream p) port"
    and "pf_registry (rp_config p) = pf_registry c \<and> pf_socks_port (rp_config p) = pf_socks_port c"
    and "validate_private_hosts (rp_config p) = None \<and> routes_agree p"
  using proxy_runs_keeps [OF assms] by (auto simp: proxy_keeps_def proxy_url_def)


text \<open>The health answer identifies a proxy. A command that looks for the proxy of its profile accepts the answer of a running proxy
  exactly when both have the same identity, which the profile's registry, SOCKS port and private hosts make up, and, if the command
  needs the forward of a Podman Machine, when the proxy's context has not ended and its live bridge is the one to that machine.\<close>

proposition health_identifies_proxy:
  assumes "0 \<le> pf_proxy_port c'"
  shows "require_proxy (Inr machine) c' (Some (health_answer p ctx_done)) True = None \<longleftrightarrow>
    proxy_id c' = proxy_id (rp_config p) \<and>
    (case machine of None \<Rightarrow> True | Some m \<Rightarrow> \<not> ctx_done \<and> podman_bridge_id p = proxy_bridge_id m)"
proof -
  have "proxy_bridge_id m \<noteq> []" for m
    using length_sha256_hex by (metis list.size(3) proxy_bridge_id_def zero_neq_numeral)
  then show ?thesis using check_health [OF assms] by (simp add: require_proxy_def split: option.split)
qed

definition sample_start :: running_proxy where
  "sample_start = \<lparr>rp_upstream = None, rp_bridge = None, rp_config = empty_profile\<lparr>pf_proxy_port := 18080\<rparr>,
     rp_router = new_router (routes_of (empty_profile\<lparr>pf_proxy_port := 18080\<rparr>) None)\<rparr>"

lemma sample_started:
  "start_proxy (\<lambda>_. []) (\<lambda>_. Some 18080) empty_profile = ([ListenerOpened 18080], Inr sample_start)"
  by (simp add: start_proxy_def empty_profile_def validate_proxy_def validate_private_hosts_def valid_port_def upstream_proxy_def
      points_back_def sample_start_def Let_def)


lemma health_identifies_proxy_witness:
  "require_proxy (Inr None) (empty_profile\<lparr>pf_proxy_port := 18080\<rparr>) (Some (health_answer sample_start False)) True = None"
  by (subst health_identifies_proxy) (simp_all add: sample_start_def)

subsection \<open>Replacing routes while requests run\<close>

text \<open>
  A request takes the router it finds and keeps it, while \<open>replaceRoutes\<close> installs the next one and then closes the previous. So there are
  generations of routers: every request works on one of them, the newest is installed last, and the indices of replaced
  ones that are still to be closed are kept in a set.
\<close>

record routed_proxy =
  rx_proxy :: running_proxy
  rx_generations :: "proxy_system list"
  rx_closing :: "nat set"

definition fresh_system :: "router \<Rightarrow> proxy_system" where
  "fresh_system r = \<lparr>rt = r, open_conns = {}, tunnels = {}, used = {}\<rparr>"

inductive routed_reachable :: "running_proxy \<Rightarrow> routed_proxy \<Rightarrow> bool" for p where
  started: "routed_reachable p \<lparr>rx_proxy = p, rx_generations = [fresh_system (rp_router p)], rx_closing = {}\<rparr>"
| request: "routed_reachable p s \<Longrightarrow> i < length (rx_generations s) \<Longrightarrow> proxy_step (rx_generations s ! i) t \<Longrightarrow>
     routed_reachable p (s\<lparr>rx_generations := (rx_generations s)[i := t]\<rparr>)"
| installed: "routed_reachable p s \<Longrightarrow> replace_routes (rx_proxy s) c = Inr (p', conns) \<Longrightarrow>
     routed_reachable p (s\<lparr>rx_proxy := p', rx_generations := rx_generations s @ [fresh_system (rp_router p')],
       rx_closing := insert (length (rx_generations s) - 1) (rx_closing s)\<rparr>)"
| closed_previous: "routed_reachable p s \<Longrightarrow> i \<in> rx_closing s \<Longrightarrow> close_router (rt (rx_generations s ! i)) = (r, conns) \<Longrightarrow>
     routed_reachable p (s\<lparr>rx_generations := (rx_generations s)[i := (rx_generations s ! i)\<lparr>rt := r,
       open_conns := open_conns (rx_generations s ! i) - conns\<rparr>], rx_closing := rx_closing s - {i}\<rparr>)"

lemma proxy_step_closed: "proxy_step s t \<Longrightarrow> closed (rt s) \<Longrightarrow> closed (rt t)"
proof (induction rule: proxy_step.induct)
  case (serve env r s p' d client u ok)
  then show ?case using serve_begin_router(1) by metis
next
  case (refuse env r s p' d status cs)
  then show ?case using serve_begin_router(2) by fastforce
next
  case (drop_conns env r s p' d cs)
  then show ?case using serve_begin_router(3) by fastforce
next
  case (finish client u s p' cs)
  then show ?case by (auto simp: serve_end_def untrack_def)
next
  case (close s p' cs)
  then show ?case by (auto simp: close_router_def)
qed

lemma fresh_system_inv: "\<not> closed r \<Longrightarrow> connections r = {} \<Longrightarrow> proxy_inv (fresh_system r)"
  by (simp add: proxy_inv_def fresh_system_def sockets_apart_def)

definition routed_inv :: "routed_proxy \<Rightarrow> bool" where
  "routed_inv s \<longleftrightarrow> rx_generations s \<noteq> [] \<and> (\<forall>g\<in>set (rx_generations s). proxy_inv g)
     \<and> rx_closing s \<subseteq> {..<length (rx_generations s) - 1}
     \<and> (\<forall>i<length (rx_generations s) - 1. i \<notin> rx_closing s \<longrightarrow> closed (rt (rx_generations s ! i)))"

lemma routed_inv_update:
  assumes "routed_inv s" "i < length (rx_generations s)" "proxy_inv t" "closed (rt (rx_generations s ! i)) \<longrightarrow> closed (rt t)"
    and "C = rx_closing s \<or> C = rx_closing s - {i} \<and> closed (rt t)"
  shows "routed_inv (s\<lparr>rx_generations := (rx_generations s)[i := t], rx_closing := C\<rparr>)"
  using assms by (auto simp: routed_inv_def nth_list_update dest!: set_update_subset_insert [THEN subsetD])

lemma routed_reachable_inv:
  assumes "routed_reachable p s" "\<not> closed (rp_router p)" "connections (rp_router p) = {}"
  shows "routed_inv s"
  using assms(1)
proof induction
  case started
  then show ?case using fresh_system_inv assms(2,3) by (simp add: routed_inv_def)
next
  case (request s i t)
  have "proxy_inv (rx_generations s ! i)" using request by (simp add: routed_inv_def)
  then have "proxy_inv t" using proxy_step_inv [OF request(3)] by blast
  then show ?case
    using routed_inv_update [OF request.IH request(2), of t "rx_closing s"] proxy_step_closed [OF request(3)] by simp
next
  case (installed s c p' conns)
  then have "\<not> closed (rp_router p') \<and> connections (rp_router p') = {}"
    by (auto simp: replace_routes_def new_router_def split: option.splits if_splits)
  then have "proxy_inv (fresh_system (rp_router p'))" by (simp add: fresh_system_inv)
  then show ?case using installed.IH
    by (auto simp: routed_inv_def nth_append less_Suc_eq)
next
  case (closed_previous s i r conns)
  let ?g = "rx_generations s ! i"
  have i: "i < length (rx_generations s)" using closed_previous by (auto simp: routed_inv_def)
  have "proxy_step ?g (?g\<lparr>rt := r, open_conns := open_conns ?g - conns\<rparr>)" by (rule proxy_step.close [OF closed_previous(3)])
  moreover have "proxy_inv ?g" using closed_previous.IH i by (simp add: routed_inv_def)
  ultimately have "proxy_inv (?g\<lparr>rt := r, open_conns := open_conns ?g - conns\<rparr>)" using proxy_step_inv by blast
  moreover have "closed r" using closed_previous(3) by (auto simp: close_router_def)
  ultimately show ?case
    using routed_inv_update [OF closed_previous.IH i, of "?g\<lparr>rt := r, open_conns := open_conns ?g - conns\<rparr>"] by simp
qed

lemma replaced_routes_parts:
  assumes "start_proxy getenv listen c = (ops, Inr p)" "routed_reachable p s"
    and "i < length (rx_generations s) - 1" "i \<notin> rx_closing s"
  shows "open_conns (rx_generations s ! i) = {} \<and> connections (rt (rx_generations s ! i)) = {}"
    and "proxy_step (rx_generations s ! i) t \<Longrightarrow> open_conns t = {}"
proof -
  have "\<not> closed (rp_router p)" "connections (rp_router p) = {}"
    using assms(1) by (auto simp: start_proxy_def new_router_def Let_def split: option.splits sum.splits if_splits)
  then have "routed_inv s" by (rule routed_reachable_inv [OF assms(2)])
  then have g: "proxy_inv (rx_generations s ! i)" "closed (rt (rx_generations s ! i))"
    using assms(3,4) by (simp_all add: routed_inv_def)
  then show "open_conns (rx_generations s ! i) = {} \<and> connections (rt (rx_generations s ! i)) = {}" by (simp add: proxy_inv_def)
  assume step: "proxy_step (rx_generations s ! i) t"
  then show "open_conns t = {}" using proxy_step_inv [OF step g(1)] proxy_step_closed [OF step g(2)] by (simp add: proxy_inv_def)
qed


definition sample_replaced :: "routed_proxy" where
  "sample_replaced = \<lparr>rx_proxy = sample_start, rx_generations =
     [(fresh_system (rp_router sample_start))\<lparr>rt := fst (close_router (rp_router sample_start))\<rparr>, fresh_system (rp_router sample_start)],
     rx_closing = {}\<rparr>"

lemma sample_replaced_reachable: "routed_reachable sample_start sample_replaced"
proof -
  have r: "replace_routes sample_start (rp_config sample_start) = Inr (sample_start, {})"
    by (simp add: replace_routes_def sample_start_def validate_private_hosts_def empty_profile_def close_router_def new_router_def)
  have i: "routed_reachable sample_start \<lparr>rx_proxy = sample_start,
      rx_generations = [fresh_system (rp_router sample_start), fresh_system (rp_router sample_start)], rx_closing = {0}\<rparr>"
    using routed_reachable.installed [OF routed_reachable.started, of sample_start "rp_config sample_start" sample_start "{}"] r by simp
  have c: "close_router (rp_router sample_start) = (fst (close_router (rp_router sample_start)), {})"
    by (simp add: close_router_def sample_start_def new_router_def)
  show ?thesis
    using routed_reachable.closed_previous [OF i, of 0 "fst (close_router (rp_router sample_start))" "{}"] c
    by (simp add: sample_replaced_def fresh_system_def)
qed


subsection \<open>The standalone proxy leaves nothing\<close>

definition left_listening :: "serve_op list \<Rightarrow> bool" where
  "left_listening ops \<longleftrightarrow> (\<exists>port. Listener (ListenerOpened port) \<in> set ops \<and> Listener (ListenerClosed port) \<notin> set ops)"

definition left_bridged :: "serve_op list \<Rightarrow> bool" where
  "left_bridged ops \<longleftrightarrow> (\<exists>args. Bridge (SshStarted args) \<in> set ops) \<and> Bridge SshStopped \<notin> set ops"

lemma bridge_failed_stopped:
  assumes "start_podman_bridge sys wide inspected c = (ops, r)" "r = Inl e \<or> r = Inr None"
  shows "(\<exists>args. SshStarted args \<in> set ops) \<longrightarrow> SshStopped \<in> set ops"
  using assms by (auto simp: start_podman_bridge_def Let_def split: sum.splits option.splits if_splits)

lemma serve_proxy_shape:
  assumes "serve_proxy getenv listen (start_podman_bridge sys wide inspected) event c = (ops, r)"
  obtains (nostart) e sops where "start_proxy getenv listen c = (sops, Inl e)" "ops = map Listener sops" "r = Some e"
      "sops = [] \<or> (\<exists>port. sops = [ListenerOpened port, ListenerClosed port])"
    | (nobridge) p e bops where "snd (start_proxy getenv listen c) = Inr p" "start_podman_bridge sys wide inspected c = (bops, Inl e)"
      "ops = Listener (ListenerOpened (pf_proxy_port (rp_config p))) # map Bridge bops @ close_proxy p" "r = Some (ProxyPodman e)"
    | (native) p bops where "snd (start_proxy getenv listen c) = Inr p" "start_podman_bridge sys wide inspected c = (bops, Inr None)"
      "ops = Listener (ListenerOpened (pf_proxy_port (rp_config p))) # map Bridge bops @ close_proxy p" "r = serve_outcome (event False)"
    | (machine) p m bops where "snd (start_proxy getenv listen c) = Inr p" "start_podman_bridge sys wide inspected c = (bops, Inr (Some m))"
      "ops = Listener (ListenerOpened (pf_proxy_port (rp_config p))) # map Bridge bops @ Bridge SshStopped # close_proxy p"
      "r = serve_outcome (event True)"
proof -
  obtain sops sr where start: "start_proxy getenv listen c = (sops, sr)" by (cases "start_proxy getenv listen c")
  obtain bops br where bridge: "start_podman_bridge sys wide inspected c = (bops, br)"
    by (cases "start_podman_bridge sys wide inspected c")
  note run = assms [unfolded serve_proxy_def start bridge]
  show thesis
  proof (cases sr)
    case (Inl e)
    then have "sops = [] \<or> (\<exists>port. sops = [ListenerOpened port, ListenerClosed port])"
      using start by (auto simp: start_proxy_def Let_def split: option.splits sum.splits if_splits)
    then show ?thesis using nostart [of sops e] start run Inl by simp
  next
    case (Inr p)
    then have s: "sops = [ListenerOpened (pf_proxy_port (rp_config p))]"
      using start by (auto simp: start_proxy_def Let_def split: option.splits sum.splits if_splits)
    show ?thesis
    proof (cases br)
      case (Inl e)
      then show ?thesis using nobridge [of p bops e] start bridge run Inr s by simp
    next
      case b: (Inr x)
      then show ?thesis
        using native [of p bops] machine [of p bops] start bridge run Inr s
        by (cases x) (simp_all add: close_proxy_def set_podman_bridge_def)
    qed
  qed
qed

text \<open>The standalone proxy leaves nothing behind: however \<open>acr proxy\<close> ends, with an error before or after listening, a bridge that could not
  start, a bridge that disconnected, the end of its context or of its server, the listener it opened is closed and no ssh process of
  a bridge is left running. It ends without an error exactly when its context ended or its server was closed.\<close>

proposition serve_proxy_leaves_nothing:
  assumes "serve_proxy getenv listen (start_podman_bridge sys wide inspected) event c = (ops, r)"
  shows "\<not> left_listening ops \<and> \<not> left_bridged ops \<and> (r = None \<longleftrightarrow> (\<exists>p machine. snd (start_proxy getenv listen c) = Inr p
    \<and> snd (start_podman_bridge sys wide inspected c) = Inr machine \<and> event (machine \<noteq> None) \<in> {ContextEnded, ServerEnded True}))"
  using assms
proof (cases rule: serve_proxy_shape)
  case (nostart e sops)
  then show ?thesis
    by (auto simp: left_listening_def left_bridged_def)
next
  case (nobridge p e bops)
  then show ?thesis
    using bridge_failed_stopped [OF nobridge(2)] by (auto simp: left_listening_def left_bridged_def close_proxy_def)
next
  case (native p bops)
  then show ?thesis
    using bridge_failed_stopped [OF native(2)]
    by (auto simp: left_listening_def left_bridged_def close_proxy_def serve_outcome_def split: serve_event.splits if_splits)
next
  case (machine p m bops)
  then show ?thesis
    by (auto simp: left_listening_def left_bridged_def close_proxy_def serve_outcome_def split: serve_event.splits if_splits)
qed

lemma sample_serve:
  "serve_proxy (\<lambda>_. []) (\<lambda>_. Some 18080) (start_podman_bridge sample_bridge_system (\<lambda>_. False) (Inr None)) (\<lambda>_. ContextEnded) empty_profile
    = ([Listener (ListenerOpened 18080), Listener (ListenerClosed 18080), RouterClosed], None)"
  by (simp add: serve_proxy_def sample_started start_podman_bridge_def close_proxy_def serve_outcome_def) (simp add: sample_start_def)

lemma serve_proxy_leaves_nothing_witness:
  "\<not> left_listening [Listener (ListenerOpened 18080), Listener (ListenerClosed 18080), RouterClosed]"
  using serve_proxy_leaves_nothing [OF sample_serve] by (rule conjunct1)

end
