(* ===== verification/Registry_Login.thy ===== *)
theory Registry_Login
  imports Session_Proxy Auth_Browser
begin

section \<open>Registry checks and login\<close>

text \<open>
  \<open>internal/session/registry.go\<close> and \<open>podman_login.go\<close>: the check that the registry answers through the proxy, the
  login of the local Podman with a token of the Azure CLI, and the standalone \<open>acr doctor\<close>. Every command and
  request the code makes is a step of a trace, with its arguments, environment and standard input; what
  they answer is given by the system.
\<close>

datatype login_error =
    RegistrySubscriptionUnset | LoginPodman podman_error | LoginProxy proxy_error | RegistryUnreachable | RegistryStatus nat
  | AzureUnavailable route_error | TokenFailed | TokenMissing | PodmanLoginFailed | ToolMissing string | LoginProfile profile_error

datatype login_step =
    InspectedPodman | AskedHealth string | AskedRegistry string string
  | RanAzure "string list" "string list" | RanPodman "string list" "string list" string

text \<open>\<open>inspectPodman\<close> may answer differently each time it is asked; its calls are numbered.\<close>

record login_system =
  ln_environ :: "string list"
  ln_executable :: "string option"
  ln_look_path :: "string \<Rightarrow> bool"
  ln_inspect :: "nat \<Rightarrow> (podman_error, podman_machine option) res"
  ln_health :: "health_response option"
  ln_readable :: bool
  ln_registry :: "nat option"
  ln_token :: "string list \<Rightarrow> string list \<Rightarrow> string option"
  ln_podman :: "string list \<Rightarrow> string list \<Rightarrow> string \<Rightarrow> bool"

type_synonym login_result = "login_step list \<times> login_error err"

text \<open>Steps in sequence: an error ends them.\<close>

definition and_then :: "login_result \<Rightarrow> login_result \<Rightarrow> login_result" where
  "and_then a b = (case a of (steps, Some e) \<Rightarrow> (steps, Some e) | (steps, None) \<Rightarrow> (steps @ fst b, snd b))"

lemma and_then_simps [simp]:
  "and_then (steps, Some e) b = (steps, Some e)" "and_then (steps, None) (steps', r) = (steps @ steps', r)"
  by (simp_all add: and_then_def)

definition registry_url :: "profile \<Rightarrow> string" where
  "registry_url c = ''https://'' @ pf_registry c @ ''.azurecr.io/v2/''"

definition registry_check :: "login_system \<Rightarrow> profile \<Rightarrow> login_result" where
  "registry_check sys c = ([AskedRegistry (registry_url c) (proxy_url c)],
     (case ln_registry sys of None \<Rightarrow> Some RegistryUnreachable
      | Some status \<Rightarrow> if status \<noteq> 200 \<and> status \<noteq> 401 then Some (RegistryStatus status) else None))"

definition require_podman :: "login_system \<Rightarrow> nat \<Rightarrow> login_result" where
  "require_podman sys n = ([InspectedPodman], (case ln_inspect sys n of Inl e \<Rightarrow> Some (LoginPodman e) | Inr _ \<Rightarrow> None))"

text \<open>\<open>requireProxy\<close> inspects Podman again before it asks for the health answer.\<close>

definition require_login_proxy :: "login_system \<Rightarrow> nat \<Rightarrow> profile \<Rightarrow> login_result" where
  "require_login_proxy sys n c =
     ((case ln_inspect sys n of Inl e \<Rightarrow> [InspectedPodman] | Inr _ \<Rightarrow> [InspectedPodman, AskedHealth (proxy_url c @ ''/bivrost/health'')]),
      map_option LoginProxy (require_proxy (ln_inspect sys n) c (ln_health sys) (ln_readable sys)))"

definition acr_token_arguments :: "profile \<Rightarrow> string list" where
  "acr_token_arguments c = [''acr'', ''login'', ''--name'', pf_registry c, ''--subscription'', pf_registry_subscription c,
     ''--expose-token'', ''--output'', ''json'', ''--only-show-errors'']"

text \<open>\<open>azure.Command\<close>: the environment that it prepares so that a browser sign-in is refused.\<close>

definition azure_command :: "login_system \<Rightarrow> (route_error, string list) res" where
  "azure_command sys = route_browser False (ln_executable sys) (lookup_variable False (ln_environ sys) browser_variable)
     mode_refuse [] (ln_environ sys)"

definition access_token :: "string \<Rightarrow> string option" where
  "access_token output = (case parse_json output of None \<Rightarrow> None
     | Some v \<Rightarrow> (case decode_struct False [str_field ''accessToken'' (\<lambda>s _. s)] [] v of Inl _ \<Rightarrow> None
         | Inr token \<Rightarrow> if token = [] then None else Some token))"

text \<open>
  \<open>loginRegistryWithCommand\<close> with the arguments and the environment of the Podman command. As in the code, the
  environment that \<open>azure.Command\<close> prepared is replaced by that of the proxy.
\<close>

definition login_registry :: "login_system \<Rightarrow> profile \<Rightarrow> string list \<Rightarrow> string list \<Rightarrow> login_result" where
  "login_registry sys c podman_args podman_env =
     (case azure_command sys of Inl e \<Rightarrow> ([], Some (AzureUnavailable e))
      | Inr _ \<Rightarrow>
          let env = proxy_environment (ln_environ sys) (proxy_url c); args = acr_token_arguments c in
          (case ln_token sys args env of None \<Rightarrow> ([RanAzure args env], Some TokenFailed)
           | Some output \<Rightarrow> (case access_token output of None \<Rightarrow> ([RanAzure args env], Some TokenMissing)
           | Some token \<Rightarrow>
               ([RanAzure args env, RanPodman podman_args podman_env (token @ [CHR 0x0A])],
                if ln_podman sys podman_args podman_env (token @ [CHR 0x0A]) then None else Some PodmanLoginFailed))))"

definition registry_login_arguments :: "profile \<Rightarrow> podman_machine option \<Rightarrow> string list" where
  "registry_login_arguments c machine =
     (case machine of None \<Rightarrow> [''--remote=false''] | Some m \<Rightarrow> [''--connection'', pm_connection_name m])
     @ [''login'', pf_registry c @ ''.azurecr.io'', ''--username'', ''00000000-0000-0000-0000-000000000000'', ''--password-stdin'']"

text \<open>\<open>acrLogin\<close>, and the login of a session's own Podman.\<close>

definition acr_login :: "login_system \<Rightarrow> profile \<Rightarrow> login_result" where
  "acr_login sys c =
     (if \<not> valid_resource_name (pf_registry_subscription c) then ([], Some RegistrySubscriptionUnset)
      else and_then (require_podman sys 0) (and_then (require_login_proxy sys 1 c) (and_then (registry_check sys c)
        (case ln_inspect sys 2 of Inl e \<Rightarrow> ([InspectedPodman], Some (LoginPodman e))
         | Inr machine \<Rightarrow> and_then ([InspectedPodman], None)
             (login_registry sys c (registry_login_arguments c machine) (proxy_environment (ln_environ sys) (proxy_url c)))))))"

definition login_podman_session :: "login_system \<Rightarrow> profile \<Rightarrow> podman_session \<Rightarrow> login_result" where
  "login_podman_session sys c s = login_registry sys c (podman_login_arguments s c)
     (podman_environment s (Some (proxy_environment (ln_environ sys) (proxy_url c))))"

text \<open>\<open>doctor\<close>, the checks of \<open>acr doctor\<close>.\<close>

fun require_tools :: "login_system \<Rightarrow> string list \<Rightarrow> login_result" where
  "require_tools sys [] = ([], None)"
| "require_tools sys (tool # tools) = (if ln_look_path sys tool then require_tools sys tools else ([], Some (ToolMissing tool)))"

definition acr_doctor :: "login_system \<Rightarrow> profile \<Rightarrow> login_result" where
  "acr_doctor sys c = and_then (require_tools sys [''az'', ''ssh'', ''podman'']) (and_then ([], map_option LoginProfile (validate_connection c))
     (if \<not> valid_resource_name (pf_registry_subscription c) then ([], Some RegistrySubscriptionUnset)
      else and_then (require_podman sys 0) (and_then (require_login_proxy sys 1 c) (registry_check sys c))))"

subsection \<open>Where the token goes\<close>

lemma and_then_steps: "set (fst (and_then a b)) \<subseteq> set (fst a) \<union> set (fst b)"
  by (cases a; cases "snd a") (auto simp: and_then_def split: prod.splits)

definition token_step :: "login_step \<Rightarrow> bool" where
  "token_step s \<longleftrightarrow> (\<exists>args env input. s = RanAzure args env \<or> s = RanPodman args env input)"

lemma login_registry_steps:
  "login_registry sys c podman_args podman_env = (steps, r) \<Longrightarrow>
     steps = [] \<and> r \<noteq> None \<or> (\<exists>env. env = proxy_environment (ln_environ sys) (proxy_url c) \<and>
       (steps = [RanAzure (acr_token_arguments c) env] \<and> r \<noteq> None \<or>
        (\<exists>output token. ln_token sys (acr_token_arguments c) env = Some output \<and> access_token output = Some token
          \<and> steps = [RanAzure (acr_token_arguments c) env, RanPodman podman_args podman_env (token @ [CHR 0x0A])]
          \<and> (r = None \<longleftrightarrow> ln_podman sys podman_args podman_env (token @ [CHR 0x0A])))))"
  by (auto simp: login_registry_def Let_def split: sum.splits option.splits if_splits)

text \<open>The steps before a token may be asked for.\<close>

definition login_checks :: "profile \<Rightarrow> login_step list" where
  "login_checks c = [InspectedPodman, InspectedPodman, AskedHealth (proxy_url c @ ''/bivrost/health''),
     AskedRegistry (registry_url c) (proxy_url c), InspectedPodman]"

definition login_ready :: "login_system \<Rightarrow> profile \<Rightarrow> podman_machine option \<Rightarrow> bool" where
  "login_ready sys c machine \<longleftrightarrow> valid_resource_name (pf_registry_subscription c)
     \<and> require_proxy (ln_inspect sys 1) c (ln_health sys) (ln_readable sys) = None
     \<and> ln_registry sys \<in> {Some 200, Some 401} \<and> ln_inspect sys 2 = Inr machine"

lemma require_proxy_inspected: "require_proxy inspected c a readable = None \<Longrightarrow> \<exists>m. inspected = Inr m"
  by (cases inspected) (auto simp: require_proxy_def)

lemma and_then_assoc: "and_then (and_then a b) d = and_then a (and_then b d)"
  by (cases a; cases b; cases "snd a"; cases "snd b") (auto simp: and_then_def split: prod.split)

lemma no_token_and_then:
  "list_all (\<lambda>s. \<not> token_step s) (fst a) \<Longrightarrow> list_all (\<lambda>s. \<not> token_step s) (fst b) \<Longrightarrow> list_all (\<lambda>s. \<not> token_step s) (fst (and_then a b))"
  using and_then_steps [of a b] by (fastforce simp: list_all_iff)

lemma and_then_None: "snd (and_then a b) = None \<longleftrightarrow> snd a = None \<and> snd b = None"
  by (cases a; cases "snd a") (auto simp: and_then_def split: prod.split)

lemma and_then_fst: "snd a = None \<Longrightarrow> fst (and_then a b) = fst a @ fst b"
  by (cases a) (auto simp: and_then_def)

text \<open>What comes before the last inspection.\<close>

definition login_front :: "login_system \<Rightarrow> profile \<Rightarrow> login_result" where
  "login_front sys c = and_then (require_podman sys 0) (and_then (require_login_proxy sys 1 c) (registry_check sys c))"

lemma login_front_no_token: "list_all (\<lambda>s. \<not> token_step s) (fst (login_front sys c))"
  unfolding login_front_def
  by (intro no_token_and_then) (auto simp: require_podman_def require_login_proxy_def registry_check_def token_step_def split: sum.split)

lemma login_front_passed:
  assumes "snd (login_front sys c) = None"
  shows "fst (login_front sys c) @ [InspectedPodman] = login_checks c"
    and "require_proxy (ln_inspect sys 1) c (ln_health sys) (ln_readable sys) = None" and "ln_registry sys \<in> {Some 200, Some 401}"
proof -
  have n: "snd (require_podman sys 0) = None" "snd (require_login_proxy sys 1 c) = None" "snd (registry_check sys c) = None"
    using assms by (simp_all add: login_front_def and_then_None)
  then show proxy: "require_proxy (ln_inspect sys 1) c (ln_health sys) (ln_readable sys) = None"
    by (simp add: require_login_proxy_def)
  show "ln_registry sys \<in> {Some 200, Some 401}" using n(3) by (auto simp: registry_check_def split: option.splits if_splits)
  obtain m where "ln_inspect sys 1 = Inr m" using require_proxy_inspected [OF proxy] by blast
  then show "fst (login_front sys c) @ [InspectedPodman] = login_checks c"
    using n by (simp add: login_front_def and_then_fst and_then_None) (simp add: require_podman_def require_login_proxy_def registry_check_def login_checks_def)
qed

lemma acr_login_front:
  "acr_login sys c = (if \<not> valid_resource_name (pf_registry_subscription c) then ([], Some RegistrySubscriptionUnset)
    else and_then (login_front sys c) (case ln_inspect sys 2 of Inl e \<Rightarrow> ([InspectedPodman], Some (LoginPodman e))
       | Inr machine \<Rightarrow> and_then ([InspectedPodman], None)
           (login_registry sys c (registry_login_arguments c machine) (proxy_environment (ln_environ sys) (proxy_url c)))))"
  by (simp only: acr_login_def login_front_def and_then_assoc)

lemma acr_login_shape:
  assumes "acr_login sys c = (steps, r)"
  obtains (early) "r \<noteq> None" "list_all (\<lambda>s. \<not> token_step s) steps"
  | (passed) machine rest where "login_ready sys c machine" "steps = login_checks c @ rest"
      "login_registry sys c (registry_login_arguments c machine) (proxy_environment (ln_environ sys) (proxy_url c)) = (rest, r)"
proof -
  obtain fs fr where front: "login_front sys c = (fs, fr)" by fastforce
  have quiet: "list_all (\<lambda>s. \<not> token_step s) fs" using login_front_no_token [of sys c] by (simp add: front)
  consider (invalid) "\<not> valid_resource_name (pf_registry_subscription c)" | (failed) e where "fr = Some e"
    | (lost) e where "fr = None" "ln_inspect sys 2 = Inl e"
    | (going) machine where "valid_resource_name (pf_registry_subscription c)" "fr = None" "ln_inspect sys 2 = Inr machine"
    by (cases fr; cases "ln_inspect sys 2") auto
  then show thesis
  proof cases
    case invalid
    then show ?thesis using assms by (intro early) (auto simp: acr_login_front)
  next
    case failed
    then show ?thesis using assms quiet by (intro early) (auto simp: acr_login_front front split: if_splits)
  next
    case lost
    then show ?thesis using assms quiet by (intro early) (auto simp: acr_login_front front token_step_def split: if_splits)
  next
    case going
    obtain rest r' where run: "login_registry sys c (registry_login_arguments c machine)
        (proxy_environment (ln_environ sys) (proxy_url c)) = (rest, r')" by fastforce
    have "login_ready sys c machine" "fs @ [InspectedPodman] = login_checks c"
      using login_front_passed [of sys c] going by (simp_all add: front login_ready_def)
    then show ?thesis using assms going run by (intro passed [of machine rest]) (auto simp: acr_login_front front)
  qed
qed

text \<open>C15. A registry token is asked for only behind a proxy that was recognised, and goes to Podman's standard input only. Every
  step of a registry login that runs the Azure CLI or Podman comes after Podman was inspected, the local proxy was recognised as the profile's and the
  registry answered through it; the token command comes first and takes the proxy's environment; the token itself, with a line feed,
  is the standard input of one Podman login whose arguments and environment do not depend on it; and the login succeeds
  exactly when that command does.\<close>

proposition acr_token_confined:
  assumes "acr_login sys c = (steps, r)" "s \<in> set steps" "token_step s"
  shows "\<exists>machine env. login_ready sys c machine \<and> env = proxy_environment (ln_environ sys) (proxy_url c) \<and>
    (steps = login_checks c @ [RanAzure (acr_token_arguments c) env] \<and> r \<noteq> None \<or>
     (\<exists>output token. ln_token sys (acr_token_arguments c) env = Some output \<and> access_token output = Some token \<and>
        steps = login_checks c @ [RanAzure (acr_token_arguments c) env, RanPodman (registry_login_arguments c machine) env (token @ [CHR 0x0A])] \<and>
        (r = None \<longleftrightarrow> ln_podman sys (registry_login_arguments c machine) env (token @ [CHR 0x0A]))))"
  using assms(1)
proof (cases rule: acr_login_shape)
  case early
  then show ?thesis using assms(2,3) by (auto simp: list_all_iff)
next
  case (passed machine rest)
  have "rest \<noteq> []" using assms(2,3) passed(2) by (auto simp: login_checks_def token_step_def)
  then show ?thesis using login_registry_steps [OF passed(3)] passed(1,2) by auto
qed

subsection \<open>The browser of the token command\<close>

lemma lookup_last_filter:
  "(\<And>e. e \<in> set env \<Longrightarrow> same_name windows (entry_name e) name \<Longrightarrow> keep e) \<Longrightarrow>
    lookup_last windows (filter keep env) name found = lookup_last windows env name found"
proof (induction env arbitrary: found)
  case (Cons e env)
  show ?case
  proof (cases "keep e")
    case True
    then show ?thesis using Cons by (simp split: prod.split)
  next
    case False
    then have "\<not> same_name windows (entry_name e) name" using Cons.prems by auto
    then show ?thesis using False Cons by (auto simp: entry_name_def split: prod.split)
  qed
qed simp

lemma lookup_last_append: "lookup_last windows (env @ env') name found = lookup_last windows env' name (lookup_last windows env name found)"
  by (induction env arbitrary: found) (auto split: prod.split)

lemma proxy_environment_lookup:
  assumes "name \<in> {browser_variable, mode_variable}"
  shows "lookup_variable False (proxy_environment env proxy) name = lookup_variable False env name"
proof -
  have up: "to_upper browser_variable = ''BROWSER''" "to_upper mode_variable = ''BIVROST_AUTH_BROWSER''" by code_simp+
  have cuts: "cut CHR ''='' (''HTTPS_PROXY='' @ proxy) = (''HTTPS_PROXY'', proxy, True)"
    "cut CHR ''='' (''HTTP_PROXY='' @ proxy) = (''HTTP_PROXY'', proxy, True)"
    "cut CHR ''='' ''NO_PROXY=127.0.0.1,localhost'' = (''NO_PROXY'', ''127.0.0.1,localhost'', True)"
    using cut_append [of "CHR ''=''" "''HTTPS_PROXY''" proxy] cut_append [of "CHR ''=''" "''HTTP_PROXY''" proxy] by simp_all
  have "lookup_last False (without_names [''HTTP_PROXY'', ''HTTPS_PROXY'', ''ALL_PROXY'', ''NO_PROXY''] env) name []
    = lookup_last False env name []"
    unfolding without_names_def by (rule lookup_last_filter) (use assms up in \<open>auto simp: same_name_def\<close>)
  then show ?thesis
    using assms cuts by (auto simp: lookup_variable_def proxy_environment_def lookup_last_append same_name_def browser_variable_def mode_variable_def)
qed

lemma token_command_parts:
  assumes "acr_login sys c = (steps, r)" "RanAzure args env \<in> set steps" "azure_command sys = Inr routed"
  shows "lookup_variable False routed mode_variable = mode_refuse"
    and "lookup_variable False env browser_variable = lookup_variable False (ln_environ sys) browser_variable"
    and "lookup_variable False env mode_variable = lookup_variable False (ln_environ sys) mode_variable"
proof -
  obtain exe where "routed = without_variables False routing_variables (ln_environ sys)
      @ [browser_variable @ ''='' @ join [list_separator False] [exe], mode_variable @ ''='' @ mode_refuse]"
    using assms(3)
    by (auto simp: azure_command_def route_browser_def Let_def mode_refuse_def mode_interactive_def split: option.splits if_splits)
  then show "lookup_variable False routed mode_variable = mode_refuse"
    using lookup_append_last [of mode_variable "[]" False "without_variables False routing_variables (ln_environ sys)
      @ [browser_variable @ ''='' @ exe]" mode_refuse]
    by (simp add: lookup_variable_def mode_variable_def)
  have env: "env = proxy_environment (ln_environ sys) (proxy_url c)"
    using assms(1)
  proof (cases rule: acr_login_shape)
    case early
    then show ?thesis using assms(2) by (auto simp: list_all_iff token_step_def)
  next
    case (passed machine rest)
    then show ?thesis using assms(2) login_registry_steps [OF passed(3)] by (auto simp: login_checks_def)
  qed
  show "lookup_variable False env browser_variable = lookup_variable False (ln_environ sys) browser_variable"
    "lookup_variable False env mode_variable = lookup_variable False (ln_environ sys) mode_variable"
    unfolding env by (simp_all add: proxy_environment_lookup)
qed


subsection \<open>A login\<close>

definition sample_login_profile :: profile where
  "sample_login_profile = empty_profile\<lparr>pf_registry := ''demo1'', pf_registry_subscription := ''sub'', pf_proxy_port := 18080\<rparr>"

definition sample_login :: login_system where
  "sample_login = \<lparr>ln_environ = [''BROWSER=firefox''], ln_executable = Some ''/opt/bivrost'', ln_look_path = (\<lambda>_. True),
     ln_inspect = (\<lambda>_. Inr None), ln_health = Some (health_answer (sample_start\<lparr>rp_config := sample_login_profile\<rparr>) False), ln_readable = True,
     ln_registry = Some 401, ln_token = (\<lambda>_ _. None), ln_podman = (\<lambda>_ _ _. True)\<rparr>"

lemma sample_login_azure: "\<exists>routed. azure_command sample_login = Inr routed"
proof -
  have "plain_text ''/opt/bivrost''" by code_simp
  then show ?thesis by (simp add: azure_command_def route_browser_def sample_login_def list_separator_def)
qed

lemma sample_login_run:
  "acr_login sample_login sample_login_profile = (login_checks sample_login_profile
     @ [RanAzure (acr_token_arguments sample_login_profile) (proxy_environment [''BROWSER=firefox''] (proxy_url sample_login_profile))], Some TokenFailed)"
proof -
  have sub: "valid_resource_name (pf_registry_subscription sample_login_profile)"
    unfolding sample_login_profile_def by (simp add: empty_profile_def) code_simp
  have "check_proxy sample_login_profile [] (ln_health sample_login) True = None"
    using check_health [of sample_login_profile "[]" "sample_start\<lparr>rp_config := sample_login_profile\<rparr>" False]
    by (simp add: sample_login_def) (simp add: sample_login_profile_def)
  then have front: "login_front sample_login sample_login_profile = (butlast (login_checks sample_login_profile), None)"
    by (simp add: login_front_def require_podman_def require_login_proxy_def registry_check_def require_proxy_def login_checks_def)
      (simp add: sample_login_def)
  obtain routed where "azure_command sample_login = Inr routed" using sample_login_azure by blast
  then have "login_registry sample_login sample_login_profile args env =
      ([RanAzure (acr_token_arguments sample_login_profile) (proxy_environment [''BROWSER=firefox''] (proxy_url sample_login_profile))], Some TokenFailed)"
    for args env
    by (simp add: login_registry_def Let_def) (simp add: sample_login_def)
  moreover have "ln_inspect sample_login 2 = Inr None" by (simp add: sample_login_def)
  ultimately show ?thesis using sub front by (simp add: acr_login_front login_checks_def)
qed

lemma acr_token_confined_witness: "\<exists>machine. login_ready sample_login sample_login_profile machine"
  using acr_token_confined [OF sample_login_run, of "RanAzure (acr_token_arguments sample_login_profile)
    (proxy_environment [''BROWSER=firefox''] (proxy_url sample_login_profile))"]
  by (auto simp: token_step_def)


end
