(* ===== verification/Podman_Start.thy ===== *)
theory Podman_Start
  imports Podman Podman_Wrapper
begin

section \<open>Starting and ending a Podman session\<close>

text \<open>
  \<open>startPodmanSession\<close> and \<open>close\<close> of \<open>internal/session/podman_session.go\<close>: the configuration file, the wrapper
  in front of the search path and, for a Podman Machine, an API service of the session's own on the machine, kept by a
  supervisor over ssh. What the system answers is given; the heartbeat, which only writes a line every five
  seconds, is left out.
\<close>

text \<open>The program that the supervisor's shell runs on the machine; data of the Go program.\<close>

definition session_supervisor :: "int \<Rightarrow> int \<Rightarrow> string" where
  "session_supervisor port lease = shell_lines [
     ''set -eu'',
     ''[ -z '' @ [CHR 0x22] @ ''$'' @ [CHR 0x7B] @ ''CONTAINERS_CONF_OVERRIDE:-'' @ [CHR 0x7D, CHR 0x22] @ '' ] || exit 1'',
     ''umask 077'',
     ''uid=$(id -u)'',
     ''base=/run/user/$uid'',
     ''if [ '' @ [CHR 0x22] @ ''$uid'' @ [CHR 0x22] @ '' = 0 ]; then base=/run; fi'',
     ''owned=$(mktemp -d '' @ [CHR 0x22] @ ''$base/bivrost-session.XXXXXXXXXXXX'' @ [CHR 0x22] @ '')'',
     ''service='',
     ''cleanup() '' @ [CHR 0x7B],
     '' trap - EXIT HUP INT TERM'',
     '' if [ -n '' @ [CHR 0x22] @ ''$service'' @ [CHR 0x22] @ '' ]; then'',
     ''  kill '' @ [CHR 0x22] @ ''$service'' @ [CHR 0x22] @ '' 2>/dev/null || true'',
     ''  for ((attempt=0; attempt<20; attempt++)); do'',
     ''   kill -0 '' @ [CHR 0x22] @ ''$service'' @ [CHR 0x22] @ '' 2>/dev/null || break'',
     ''   sleep 0.1'',
     ''  done'',
     ''  if [ '' @ [CHR 0x22] @ ''$attempt'' @ [CHR 0x22] @ '' = 20 ]; then kill -KILL '' @ [CHR 0x22] @ ''$service'' @ [CHR 0x22] @ '' 2>/dev/null || true; fi'',
     ''  wait '' @ [CHR 0x22] @ ''$service'' @ [CHR 0x22] @ '' 2>/dev/null || true'',
     '' fi'',
     '' rm -rf -- '' @ [CHR 0x22] @ ''$owned'' @ [CHR 0x22],
     [CHR 0x7D],
     ''trap cleanup EXIT'',
     ''trap '' @ [CHR 0x27] @ ''exit 0'' @ [CHR 0x27] @ '' HUP INT TERM'',
     ''printf '' @ [CHR 0x27] @ ''[containers]'' @ [CHR 0x5C] @ ''nhttp_proxy = false'' @ [CHR 0x5C] @ ''n'' @ [CHR 0x27] @ '' > '' @ [CHR 0x22] @ ''$owned/containers.conf'' @ [CHR 0x22],
     ''env -u CONTAINER_HOST -u CONTAINER_CONNECTION -u ALL_PROXY -u all_proxy -u http_proxy -u https_proxy -u no_proxy HTTP_PROXY=http://127.0.0.1:'' @ itoa port @ '' HTTPS_PROXY=http://127.0.0.1:'' @ itoa port @ '' NO_PROXY=127.0.0.1,localhost podman --remote=false --module '' @ [CHR 0x22] @ ''$owned/containers.conf'' @ [CHR 0x22] @ '' system service --time 0 '' @ [CHR 0x22] @ ''unix://$owned/api.sock'' @ [CHR 0x22] @ '' </dev/null >/dev/null 2>&1 &'',
     ''service=$!'',
     ''for ((attempt=0; attempt<100; attempt++)); do'',
     '' if [ -S '' @ [CHR 0x22] @ ''$owned/api.sock'' @ [CHR 0x22] @ '' ]; then break; fi'',
     '' kill -0 '' @ [CHR 0x22] @ ''$service'' @ [CHR 0x22] @ '' 2>/dev/null || exit 1'',
     '' sleep 0.1'',
     ''done'',
     ''[ -S '' @ [CHR 0x22] @ ''$owned/api.sock'' @ [CHR 0x22] @ '' ] || exit 1'',
     ''printf '' @ [CHR 0x27] @ ''bivrost-podman-session %s/api.sock'' @ [CHR 0x5C] @ ''n'' @ [CHR 0x27] @ '' '' @ [CHR 0x22] @ ''$owned'' @ [CHR 0x22],
     ''while IFS= read -r -t '' @ itoa lease @ '' heartbeat; do'',
     '' [ '' @ [CHR 0x22] @ ''$heartbeat'' @ [CHR 0x22] @ '' = bivrost-heartbeat ] || exit 1'',
     '' kill -0 '' @ [CHR 0x22] @ ''$service'' @ [CHR 0x22] @ '' 2>/dev/null || exit 1'',
     ''done'']"

datatype podman_start_error =
    OverrideSet | StartInspection podman_error | ConfigurationNotWritten | StartWrapper wrapper_error
  | SupervisorDirectoryUnknown | SupervisorDirectoryNotMade | SupervisorNotPrepared | SupervisorNotStarted | SessionApiFailed

datatype start_op =
    ConfigurationFile string string | WrapperOp wrapper_op | SupervisorOp bridge_op
  | SupervisorExited | CleanedWrapper string | RemovedFile string

text \<open>\<open>st_bridge\<close> gives what the supervisor's process is answered, \<open>st_exits\<close> whether it ends by itself once its input is closed.\<close>

record start_system =
  st_override :: string
  st_inspected :: "(podman_error, podman_machine option) res"
  st_written :: bool
  st_wrapper :: wrapper_host
  st_bridge :: bridge_system
  st_api :: "podman_session \<Rightarrow> bool"
  st_exits :: bool

definition session_configuration :: "bool \<Rightarrow> string" where
  "session_configuration native = ''[containers]'' @ [CHR 0x0A] @ ''http_proxy = false'' @ [CHR 0x0A]
     @ (if native then ''[engine]'' @ [CHR 0x0A] @ ''remote = false'' @ [CHR 0x0A] else [])"

text \<open>The bridge's arguments with another user and the supervisor as the remote command.\<close>

definition supervisor_command :: "int \<Rightarrow> string" where
  "supervisor_command port = ''bash -c '' @ [CHR 0x27]
     @ replace_byte CHR 0x27 [CHR 0x27, CHR 0x22, CHR 0x27, CHR 0x22, CHR 0x27] (session_supervisor port 20) @ [CHR 0x27]"

definition supervisor_arguments :: "(nat \<Rightarrow> bool) \<Rightarrow> podman_machine \<Rightarrow> int \<Rightarrow> string \<Rightarrow> string list" where
  "supervisor_arguments wide m port known_hosts =
     (let args = podman_bridge_arguments wide m port known_hosts in
      args[length args - 2 := pm_connection_user m @ ''@127.0.0.1'', length args - 1 := supervisor_command port])"

text \<open>\<open>close\<close>, with or without a process.\<close>

definition close_podman_session :: "bool \<Rightarrow> podman_session \<Rightarrow> bool \<Rightarrow> start_op list" where
  "close_podman_session exits s process =
     (if process then [SupervisorOp InputClosed, if exits then SupervisorExited else SupervisorOp SshStopped] else [])
     @ (if ps_wrapper_directory s \<noteq> [] then [CleanedWrapper (ps_wrapper_directory s)] else [])
     @ (if ps_configuration s \<noteq> [] then [RemovedFile (ps_configuration s)] else [])"

text \<open>The endpoint of the socket in the supervisor's line, read of at most 256 bytes.\<close>

definition session_endpoint :: "podman_machine \<Rightarrow> bridge_event \<Rightarrow> string option" where
  "session_endpoint m e = (case e of
     BridgeOutput output \<Rightarrow> map_option (\<lambda>path. ''ssh://'' @ pm_connection_user m @ ''@127.0.0.1:'' @ itoa (pm_port m) @ path)
       (supervisor_socket (limited_line 256 output))
   | _ \<Rightarrow> None)"

definition start_supervisor ::
  "start_system \<Rightarrow> (nat \<Rightarrow> bool) \<Rightarrow> profile \<Rightarrow> podman_session \<Rightarrow> podman_machine \<Rightarrow> start_op list \<times> (podman_start_error, podman_session \<times> bool) res" where
  "start_supervisor sys wide c s m =
     (let by = st_bridge sys; failed = (\<lambda>s process. close_podman_session (st_exits sys) s process) in
      case by_config_dir by of None \<Rightarrow> (failed s False, Inl SupervisorDirectoryUnknown)
      | Some root \<Rightarrow>
          if \<not> by_made_directory by then (failed s False, Inl SupervisorDirectoryNotMade)
          else let args = supervisor_arguments wide m (pf_proxy_port c) (path_join [path_join [root, ''bivrost''], ''podman_known_hosts'']);
              opened = SupervisorOp InputOpened in
            if \<not> by_stdin by then (failed s False, Inl SupervisorNotPrepared)
            else if \<not> by_stdout by then ([opened, SupervisorOp InputClosed] @ failed s False, Inl SupervisorNotPrepared)
            else if \<not> by_started by args then ([opened, SupervisorOp InputClosed] @ failed s False, Inl SupervisorNotStarted)
            else (case session_endpoint m (by_event by) of
                None \<Rightarrow> ([opened, SupervisorOp (SshStarted args)] @ failed s True, Inl SessionApiFailed)
              | Some host \<Rightarrow>
                  let s = s\<lparr>ps_host := host, ps_identity := pm_identity_path m\<rparr> in
                  if st_api sys s then ([opened, SupervisorOp (SshStarted args)], Inr (s, True))
                  else ([opened, SupervisorOp (SshStarted args)] @ failed s True, Inl SessionApiFailed)))"

definition start_podman_session ::
  "start_system \<Rightarrow> (nat \<Rightarrow> bool) \<Rightarrow> profile \<Rightarrow> string \<Rightarrow> start_op list \<times> (podman_start_error, podman_session \<times> bool) res" where
  "start_podman_session sys wide c directory =
     (if st_override sys \<noteq> [] then ([], Inl OverrideSet)
      else case st_inspected sys of Inl e \<Rightarrow> ([], Inl (StartInspection e))
      | Inr machine \<Rightarrow>
          let configuration = path_join [directory, ''podman-session.conf''];
              s = \<lparr>ps_configuration = configuration, ps_wrapper_directory = [], ps_host = [], ps_identity = []\<rparr>;
              write = ConfigurationFile configuration (session_configuration (machine = None)) in
          if \<not> st_written sys then (close_podman_session (st_exits sys) s False, Inl ConfigurationNotWritten)
          else (case prepare_wrapper (st_wrapper sys) directory of
              (wops, Inl e) \<Rightarrow> (write # map WrapperOp wops @ close_podman_session (st_exits sys) s False, Inl (StartWrapper e))
            | (wops, Inr bin) \<Rightarrow>
                let s = s\<lparr>ps_wrapper_directory := bin\<rparr> in
                (case machine of None \<Rightarrow> (write # map WrapperOp wops, Inr (s, False))
                 | Some m \<Rightarrow> (case start_supervisor sys wide c s m of
                     (ops, r) \<Rightarrow> (write # map WrapperOp wops @ ops, r)))))"

subsection \<open>Started, or nothing left\<close>

definition wrapper_ops :: "start_op list \<Rightarrow> wrapper_op list" where
  "wrapper_ops ops = concat (map (\<lambda>s. case s of WrapperOp w \<Rightarrow> [w] | _ \<Rightarrow> []) ops)"

definition supervisor_running :: "start_op list \<Rightarrow> bool" where
  "supervisor_running ops \<longleftrightarrow> (\<exists>args. SupervisorOp (SshStarted args) \<in> set ops)
     \<and> SupervisorExited \<notin> set ops \<and> SupervisorOp SshStopped \<notin> set ops"

definition supervisor_input_open :: "start_op list \<Rightarrow> bool" where
  "supervisor_input_open ops \<longleftrightarrow> SupervisorOp InputOpened \<in> set ops \<and> SupervisorOp InputClosed \<notin> set ops"

definition configuration_left :: "start_op list \<Rightarrow> bool" where
  "configuration_left ops \<longleftrightarrow> (\<exists>p t. ConfigurationFile p t \<in> set ops \<and> RemovedFile p \<notin> set ops)"

definition wrapper_left :: "start_op list \<Rightarrow> bool" where
  "wrapper_left ops \<longleftrightarrow> (\<exists>p. wrapper_files (wrapper_ops ops) p \<noteq> None \<and> (\<forall>d. CleanedWrapper d \<in> set ops \<longrightarrow> \<not> has_prefix p (d @ ''/'')))"

definition nothing_left :: "start_op list \<Rightarrow> bool" where
  "nothing_left ops \<longleftrightarrow> \<not> supervisor_running ops \<and> \<not> supervisor_input_open ops \<and> \<not> configuration_left ops \<and> \<not> wrapper_left ops"

lemma wrapper_ops_simps [simp]:
  "wrapper_ops [] = []" "wrapper_ops (a @ b) = wrapper_ops a @ wrapper_ops b" "wrapper_ops (map WrapperOp ws) = ws"
  "wrapper_ops (WrapperOp w # ops) = w # wrapper_ops ops" "wrapper_ops (ConfigurationFile p t # ops) = wrapper_ops ops"
  "wrapper_ops (SupervisorOp q # ops) = wrapper_ops ops" "wrapper_ops (close_podman_session exits s process) = []"
  by (induction ws) (auto simp: wrapper_ops_def close_podman_session_def)

text \<open>The supervisor's own steps up to a point where the session is closed.\<close>

definition supervisor_prefix :: "start_op list \<Rightarrow> bool \<Rightarrow> bool" where
  "supervisor_prefix mid process \<longleftrightarrow> mid = [] \<and> \<not> process \<or> mid = [SupervisorOp InputOpened, SupervisorOp InputClosed] \<and> \<not> process
     \<or> (\<exists>args. mid = [SupervisorOp InputOpened, SupervisorOp (SshStarted args)] \<and> process)"

lemma closed_nothing_left:
  assumes "ops = ConfigurationFile (ps_configuration s) t # map WrapperOp wops @ mid @ close_podman_session exits s process"
    and "ps_configuration s \<noteq> []" "supervisor_prefix mid process"
    and "\<And>p. wrapper_files wops p \<noteq> None \<Longrightarrow> ps_wrapper_directory s \<noteq> [] \<and> has_prefix p (ps_wrapper_directory s @ ''/'')"
  shows "nothing_left ops"
proof -
  have mid: "wrapper_ops mid = []" using assms(3) by (auto simp: supervisor_prefix_def)
  have "\<not> wrapper_left ops"
  proof
    assume "wrapper_left ops"
    then obtain p where p: "wrapper_files wops p \<noteq> None" "\<forall>d. CleanedWrapper d \<in> set ops \<longrightarrow> \<not> has_prefix p (d @ ''/'')"
      by (auto simp: wrapper_left_def assms(1) mid)
    then show False using assms(4) [OF p(1)] by (auto simp: assms(1) close_podman_session_def)
  qed
  moreover have "\<not> configuration_left ops"
    using assms(2,3) by (auto simp: configuration_left_def assms(1) supervisor_prefix_def close_podman_session_def)
  moreover have "\<not> supervisor_running ops" "\<not> supervisor_input_open ops"
    using assms(3) by (auto simp: supervisor_running_def supervisor_input_open_def assms(1) supervisor_prefix_def close_podman_session_def)
  ultimately show ?thesis by (simp add: nothing_left_def)
qed

lemma start_supervisor_shape:
  assumes "start_supervisor sys wide c s m = (ops, r)"
  obtains (failed) mid s' process e where "ops = mid @ close_podman_session (st_exits sys) s' process" "r = Inl e"
      "supervisor_prefix mid process" "ps_configuration s' = ps_configuration s" "ps_wrapper_directory s' = ps_wrapper_directory s"
    | (running) mid host where "ops = mid" "supervisor_prefix mid True" "session_endpoint m (by_event (st_bridge sys)) = Some host"
      "st_api sys (s\<lparr>ps_host := host, ps_identity := pm_identity_path m\<rparr>)"
      "r = Inr (s\<lparr>ps_host := host, ps_identity := pm_identity_path m\<rparr>, True)"
proof -
  let ?by = "st_bridge sys"
  have pre: "supervisor_prefix [] False" "supervisor_prefix [SupervisorOp InputOpened, SupervisorOp InputClosed] False"
    "supervisor_prefix [SupervisorOp InputOpened, SupervisorOp (SshStarted args)] True" for args
    by (auto simp: supervisor_prefix_def)
  note run = assms [unfolded start_supervisor_def Let_def]
  show thesis
  proof (cases "by_config_dir ?by")
    case None
    then show ?thesis using run pre(1) by (intro failed [of "[]" s False]) auto
  next
    case (Some root)
    define args where "args = supervisor_arguments wide m (pf_proxy_port c) (path_join [path_join [root, ''bivrost''], ''podman_known_hosts''])"
    consider "\<not> by_made_directory ?by \<or> \<not> by_stdin ?by"
      | "by_made_directory ?by" "by_stdin ?by" "\<not> by_stdout ?by \<or> \<not> by_started ?by args"
      | "by_made_directory ?by" "by_stdin ?by" "by_stdout ?by" "by_started ?by args" by blast
    then show ?thesis
    proof cases
      case 1
      then show ?thesis using run Some pre(1)
        by (cases "by_made_directory ?by"; intro failed [of "[]" s False]) auto
    next
      case 2
      then show ?thesis using run Some pre(2)
        by (cases "by_stdout ?by"; intro failed [of "[SupervisorOp InputOpened, SupervisorOp InputClosed]" s False])
          (auto simp: args_def)
    next
      case 3
      then show ?thesis
      proof (cases "session_endpoint m (by_event ?by)")
        case None
        then show ?thesis using run Some 3 pre(3) [of args]
          by (intro failed [of "[SupervisorOp InputOpened, SupervisorOp (SshStarted args)]" s True]) (auto simp: args_def)
      next
        case host: (Some host)
        let ?s = "s\<lparr>ps_host := host, ps_identity := pm_identity_path m\<rparr>"
        show ?thesis
        proof (cases "st_api sys ?s")
          case True
          then show ?thesis using run Some 3 host pre(3) [of args]
            by (intro running [of "[SupervisorOp InputOpened, SupervisorOp (SshStarted args)]" host]) (auto simp: args_def)
        next
          case False
          then show ?thesis using run Some 3 host pre(3) [of args]
            by (intro failed [of "[SupervisorOp InputOpened, SupervisorOp (SshStarted args)]" ?s True]) (auto simp: args_def)
        qed
      qed
    qed
  qed
qed

text \<open>What a prepared wrapper put into place is below its directory, and a failed preparation left nothing.\<close>

lemma prepared_wrapper_below:
  assumes "prepare_wrapper h directory = (wops, Inr bin)" "is_abs directory" "wrapper_files wops p \<noteq> None"
  shows "bin \<noteq> [] \<and> has_prefix p (bin @ ''/'')"
proof -
  obtain real source where bin: "bin = path_join [directory, ''bin'']"
    and ops: "wops = [MadeDirectory bin, MadeFile (path_join [bin, ''podman'']) (CopyOf source),
      MadeFile (path_join [bin, wrapper_metadata]) (Text (json_text (wrapper_json real)))]"
    using prepared_wrapper_found [OF assms(1)] by metis
  have clean: "clean_directory bin" using join_below_directory [OF assms(2) plain_names(1)] bin by simp
  have "p = path_join [bin, ''podman''] \<or> p = path_join [bin, wrapper_metadata]"
    using assms(3) by (auto simp: ops wrapper_files_def split: if_splits)
  then have "\<exists>x. p = bin @ CHR ''/'' # x" using join_below(1) [OF clean] plain_names(2,3) by auto
  moreover have "bin \<noteq> []" using clean by (auto simp: clean_directory_def)
  ultimately show ?thesis by (auto simp: has_prefix_iff)
qed

lemma configuration_path: "is_abs directory \<Longrightarrow> path_join [directory, ''podman-session.conf''] \<noteq> []"
proof -
  assume "is_abs directory"
  moreover have "plain_element ''podman-session.conf''" by (simp add: plain_element_def)
  ultimately have "clean_directory (path_join [directory, ''podman-session.conf''])" by (rule join_below_directory)
  then show ?thesis by (auto simp: clean_directory_def)
qed

lemma nothing_left_unwritten:
  "nothing_left []" "nothing_left (close_podman_session exits s False)"
  by (simp_all add: nothing_left_def supervisor_running_def supervisor_input_open_def configuration_left_def wrapper_left_def
      close_podman_session_def wrapper_files_def)
    (auto simp: wrapper_ops_def)

definition whole_or_nothing :: "start_op list \<times> (podman_start_error, podman_session \<times> bool) res \<Rightarrow> bool" where
  "whole_or_nothing x \<longleftrightarrow> (case x of (ops, Inl e) \<Rightarrow> nothing_left ops
     | (ops, Inr (s, process)) \<Rightarrow> (\<forall>exits. nothing_left (ops @ close_podman_session exits s process)) \<and> (process \<longleftrightarrow> ps_host s \<noteq> []))"

lemma supervised_whole_or_nothing:
  assumes "start_supervisor sys wide c s m = (ops, r)" "ps_configuration s \<noteq> []"
    and below: "\<And>p. wrapper_files wops p \<noteq> None \<Longrightarrow> ps_wrapper_directory s \<noteq> [] \<and> has_prefix p (ps_wrapper_directory s @ ''/'')"
  shows "whole_or_nothing (ConfigurationFile (ps_configuration s) t # map WrapperOp wops @ ops, r)"
  using assms(1)
proof (cases rule: start_supervisor_shape)
  case (failed mid s' process e)
  have "nothing_left (ConfigurationFile (ps_configuration s) t # map WrapperOp wops @ ops)"
    using failed assms(2) below by (intro closed_nothing_left [of _ s' t wops mid _ process]) auto
  then show ?thesis using failed(2) by (simp add: whole_or_nothing_def)
next
  case (running mid host)
  let ?s = "s\<lparr>ps_host := host, ps_identity := pm_identity_path m\<rparr>"
  have "nothing_left ((ConfigurationFile (ps_configuration s) t # map WrapperOp wops @ ops) @ close_podman_session exits ?s True)" for exits
    using running assms(2) below by (intro closed_nothing_left [of _ ?s t wops mid exits True]) auto
  moreover have "host \<noteq> []" using running(3) by (auto simp: session_endpoint_def split: bridge_event.splits)
  ultimately show ?thesis using running(5) by (simp add: whole_or_nothing_def)
qed

lemma start_podman_session_whole:
  assumes "is_abs directory"
  shows "whole_or_nothing (start_podman_session sys wide c directory)"
proof (cases "st_override sys = [] \<and> st_written sys")
  case False
  then show ?thesis using nothing_left_unwritten
    by (auto simp: start_podman_session_def whole_or_nothing_def Let_def split: sum.split)
next
  case ready: True
  let ?conf = "path_join [directory, ''podman-session.conf'']"
  let ?s = "\<lambda>bin. \<lparr>ps_configuration = ?conf, ps_wrapper_directory = bin, ps_host = [], ps_identity = []\<rparr>"
  have conf: "?conf \<noteq> []" by (rule configuration_path [OF assms])
  show ?thesis
  proof (cases "st_inspected sys")
    case (Inl e)
    then show ?thesis using ready nothing_left_unwritten by (simp add: start_podman_session_def whole_or_nothing_def)
  next
    case inspected: (Inr machine)
    let ?t = "session_configuration (machine = None)"
    obtain wops w where wrapper: "prepare_wrapper (st_wrapper sys) directory = (wops, w)" by fastforce
    show ?thesis
    proof (cases w)
      case (Inl e)
      have none: "wrapper_files wops p = None" for p
        using failed_wrapper_leaves_nothing [OF wrapper [unfolded Inl] assms] .
      have "nothing_left (ConfigurationFile ?conf ?t # map WrapperOp wops @ close_podman_session (st_exits sys) (?s []) False)"
        using conf none by (intro closed_nothing_left [of _ "?s []" ?t wops "[]" _ False]) (auto simp: supervisor_prefix_def)
      then show ?thesis using ready inspected wrapper Inl
        by (simp add: start_podman_session_def whole_or_nothing_def Let_def)
    next
      case (Inr bin)
      have below: "ps_wrapper_directory (?s bin) \<noteq> [] \<and> has_prefix p (ps_wrapper_directory (?s bin) @ ''/'')"
        if "wrapper_files wops p \<noteq> None" for p
        using prepared_wrapper_below [OF wrapper [unfolded Inr] assms that] by simp
      show ?thesis
      proof (cases machine)
        case None
        have "nothing_left ((ConfigurationFile ?conf ?t # map WrapperOp wops) @ close_podman_session exits (?s bin) False)" for exits
          using conf below by (intro closed_nothing_left [of _ "?s bin" ?t wops "[]" exits False]) (auto simp: supervisor_prefix_def)
        then show ?thesis using ready inspected wrapper Inr None
          by (simp add: start_podman_session_def whole_or_nothing_def Let_def)
      next
        case (Some m)
        obtain ops r where run: "start_supervisor sys wide c (?s bin) m = (ops, r)" by fastforce
        have "whole_or_nothing (ConfigurationFile (ps_configuration (?s bin)) ?t # map WrapperOp wops @ ops, r)"
          by (rule supervised_whole_or_nothing [OF run]) (use conf below in auto)
        then show ?thesis using ready inspected wrapper Inr Some run by (simp add: start_podman_session_def Let_def)
      qed
    qed
  qed
qed

text \<open>C21. A Podman session starts as a whole or leaves nothing. When starting it fails at any point, after the configuration file, the wrapper
  or the supervisor's ssh process, no process is left running, no input open and neither the configuration nor a file of the wrapper
  behind that was not handed to their removal; and when it succeeds, closing the session later leaves nothing either.
  There is a process exactly when the session has an endpoint of its own on a machine.\<close>

proposition podman_session_starts_or_leaves_nothing:
  assumes "start_podman_session sys wide c directory = (ops, r)" "is_abs directory"
  shows "case r of Inl e \<Rightarrow> nothing_left ops
    | Inr (s, process) \<Rightarrow> nothing_left (ops @ close_podman_session exits s process) \<and> (process \<longleftrightarrow> ps_host s \<noteq> [])"
  using start_podman_session_whole [OF assms(2), of sys wide c] assms(1) by (auto simp: whole_or_nothing_def split: sum.splits)

definition sample_start_system :: start_system where
  "sample_start_system = \<lparr>st_override = [], st_inspected = Inr None, st_written = True, st_wrapper = sample_wrapper_host,
     st_bridge = sample_bridge_system, st_api = (\<lambda>_. True), st_exits = True\<rparr>"

lemma sample_native_session:
  "\<exists>ops s. start_podman_session sample_start_system (\<lambda>_. False) empty_profile ''/tmp/s'' = (ops, Inr (s, False))"
proof -
  obtain wops bin where "prepare_wrapper sample_wrapper_host ''/tmp/s'' = (wops, Inr bin)" using sample_wrapper by blast
  then show ?thesis by (simp add: start_podman_session_def sample_start_system_def Let_def)
qed

lemma podman_session_starts_or_leaves_nothing_witness:
  "\<exists>ops s. start_podman_session sample_start_system (\<lambda>_. False) empty_profile ''/tmp/s'' = (ops, Inr (s, False))
    \<and> nothing_left (ops @ close_podman_session True s False)"
proof -
  obtain ops s where run: "start_podman_session sample_start_system (\<lambda>_. False) empty_profile ''/tmp/s'' = (ops, Inr (s, False))"
    using sample_native_session by blast
  have "is_abs ''/tmp/s''" by (simp add: is_abs_def)
  then show ?thesis using podman_session_starts_or_leaves_nothing [OF run, of True] run by auto
qed

end
