(* ===== verification/Dispatch.thy ===== *)
theory Dispatch
  imports Cli Catalogue Platform_Session Podman Auth_Browser Diagnostics
begin

section \<open>From the command line to an operation\<close>

text \<open>
  \<open>internal/session/commands.go\<close> and \<open>connect.go\<close>, with \<open>cmd/bivrost/main.go\<close> and \<open>version.go\<close>: which operation a command line leads to and with which profile, after
  every check in between; the diagnostic log around it, the status of \<open>run\<close>, and the local Azure sign-in. The
  operations themselves are modelled by their own theories; here \<open>perform\<close> stands for them.
\<close>

text \<open>An operation, with what it is called with.\<close>

datatype action =
    PrintEnvironments | InitSettings | PrintVersion | PrintHelp string | PrintSubscriptions bool
  | PublishMetadata command | PublicationCommand string | CleanSessions | PrintSessions
  | SwitchSession command | EnableRegistry | SignIn command | DiagnoseTerraform command | DiagnosePlatform command
  | ConnectPlatform profile | RunPlatformCommand profile "string list" | OpenManagementShell profile
  | ServeProxy profile | LogInToRegistry profile | DiagnoseRegistry profile

datatype 'e dispatch_error =
    CommandLine cli_error | Configuration config_error | PrivateHosts profile_error | UserSettings settings_error
  | BadProfile profile_error | NoRegistrySubscription | NoPodman podman_error
  | UnsupportedCommand | LogNotStarted diagnostic_error | LogNotCompleted | Performing 'e

record dispatch_env =
  de_files :: config_files
  de_settings :: "file_read option"
  de_inspected :: "(podman_error, podman_machine option) res"

subsection \<open>Registry sessions\<close>

text \<open>\<open>prepareACRSession\<close>.\<close>

definition prepare_acr_session :: "dispatch_env \<Rightarrow> profile \<Rightarrow> bool \<Rightarrow> ('e dispatch_error, profile) res" where
  "prepare_acr_session env c no_login =
     (case validate_acr c of Some e \<Rightarrow> Inl (BadProfile e) | None \<Rightarrow>
      if \<not> no_login \<and> \<not> valid_resource_name (pf_registry_subscription c) then Inl NoRegistrySubscription
      else case validate_platform c of Some e \<Rightarrow> Inl (BadProfile e) | None \<Rightarrow>
      (case de_inspected env of Inl e \<Rightarrow> Inl (NoPodman e)
       | Inr _ \<Rightarrow> Inr (c\<lparr>pf_acr_session := True, pf_skip_registry_login := no_login\<rparr>)))"

text \<open>\<open>connect\<close>: the platform session of a prepared profile.\<close>

definition acr_connect :: "dispatch_env \<Rightarrow> profile \<Rightarrow> bool \<Rightarrow> ('e dispatch_error, action) res" where
  "acr_connect env c no_login = ebind (prepare_acr_session env c no_login) (\<lambda>c. Inr (ConnectPlatform c))"

subsection \<open>Dispatch\<close>

definition check :: "profile_error err \<Rightarrow> ('e dispatch_error, 'a) res \<Rightarrow> ('e dispatch_error, 'a) res" where
  "check err r = (case err of Some e \<Rightarrow> Inl (BadProfile e) | None \<Rightarrow> r)"

definition session_profile :: "command \<Rightarrow> profile \<Rightarrow> profile" where
  "session_profile command c = c\<lparr>pf_environment := (if cmd_environment command = [] then ''custom-profile'' else cmd_environment command)\<rparr>"

definition reads_settings :: "kind \<Rightarrow> bool" where
  "reads_settings k \<longleftrightarrow> k \<in> {ACRProxy, ACRConnect, ACRLogin, ACRDoctor}"

text \<open>The part of \<open>Run\<close> behind the loading of a profile.\<close>

definition dispatch_profile :: "dispatch_env \<Rightarrow> command \<Rightarrow> profile \<Rightarrow> ('e dispatch_error, action) res" where
  "dispatch_profile env command c =
     (case cmd_kind command of
        Connect \<Rightarrow> (let c = session_profile command c in check (validate_platform c)
          (if cmd_acr command then acr_connect env c (cmd_no_login command) else Inr (ConnectPlatform c)))
      | Run \<Rightarrow> (let c = session_profile command c in check (validate_platform c)
          (ebind (if cmd_acr command then prepare_acr_session env c (cmd_no_login command) else Inr c)
            (\<lambda>c. Inr (RunPlatformCommand c (cmd_argv command)))))
      | SSH \<Rightarrow> check (validate_connection c) (Inr (OpenManagementShell c))
      | ACRProxy \<Rightarrow> check (validate_acr c) (Inr (ServeProxy (with_standalone_ports c)))
      | ACRConnect \<Rightarrow> check (validate_acr c) (acr_connect env c (cmd_no_login command))
      | ACRLogin \<Rightarrow> check (validate_acr c) (Inr (LogInToRegistry (with_standalone_ports c)))
      | ACRDoctor \<Rightarrow> check (validate_acr c) (Inr (DiagnoseRegistry (with_standalone_ports c)))
      | _ \<Rightarrow> Inl UnsupportedCommand)"

definition dispatch :: "dispatch_env \<Rightarrow> command \<Rightarrow> ('e dispatch_error, action) res" where
  "dispatch env command =
     (case cmd_kind command of
        Environments \<Rightarrow> Inr PrintEnvironments
      | ConfigInit \<Rightarrow> Inr InitSettings
      | Version \<Rightarrow> Inr PrintVersion
      | Help \<Rightarrow> Inr (PrintHelp (cmd_help_topic command))
      | Subscriptions \<Rightarrow> Inr (PrintSubscriptions (cmd_refresh command))
      | HeimdalInit \<Rightarrow> Inr (PublishMetadata command)
      | SessionPublish \<Rightarrow> Inr (PublicationCommand ''publish'')
      | SessionUnpublish \<Rightarrow> Inr (PublicationCommand ''unpublish'')
      | SessionPath \<Rightarrow> Inr (PublicationCommand ''path'')
      | SessionClean \<Rightarrow> Inr CleanSessions
      | SessionList \<Rightarrow> Inr PrintSessions
      | Switch \<Rightarrow> Inr (SwitchSession command)
      | ACREnable \<Rightarrow> Inr EnableRegistry
      | Login \<Rightarrow> Inr (SignIn command)
      | TerraformDoctor \<Rightarrow> Inr (DiagnoseTerraform command)
      | Doctor \<Rightarrow> Inr (DiagnosePlatform command)
      | _ \<Rightarrow>
          (case load_environment (de_files env) (cmd_environment command) (cmd_config_path command) of
             Inl e \<Rightarrow> Inl (Configuration e)
           | Inr c \<Rightarrow> (case with_private_hosts c (cmd_private_hosts command) of
               Inl e \<Rightarrow> Inl (PrivateHosts e)
             | Inr c \<Rightarrow> (case (if reads_settings (cmd_kind command) then load_user_settings (de_settings env) else Inr default_user_settings) of
                 Inl e \<Rightarrow> Inl (UserSettings e)
               | Inr _ \<Rightarrow> dispatch_profile env command c))))"

text \<open>The notice that eligible access has to be activated first.\<close>

definition announces_pim :: "command \<Rightarrow> profile \<Rightarrow> bool" where
  "announces_pim command c \<longleftrightarrow> pf_requires_pim c \<and> cmd_kind command \<in> {Connect, SSH, ACRConnect, Run}"

text \<open>The signals that end the context (on Unix): a platform session leaves the interrupt to its shell.\<close>

definition termination_signals :: "bool \<Rightarrow> string list" where
  "termination_signals include_interrupt = [''SIGTERM'', ''SIGHUP''] @ (if include_interrupt then [''SIGINT''] else [])"

definition command_signals :: "kind \<Rightarrow> string list" where
  "command_signals k = termination_signals (k \<notin> {Connect, ACRConnect, Run})"

subsection \<open>Run\<close>

text \<open>The commands that never write a diagnostic log.\<close>

definition unlogged :: "kind \<Rightarrow> bool" where
  "unlogged k \<longleftrightarrow> k \<in> {Environments, ConfigInit, Version, Help, Subscriptions}"

definition perform_command ::
  "dispatch_env \<Rightarrow> (action \<Rightarrow> 'e dispatch_error session_error err) \<Rightarrow> command \<Rightarrow> 'e dispatch_error session_error err" where
  "perform_command env perform command = (case dispatch env command of Inl e \<Rightarrow> Some (Failure e) | Inr a \<Rightarrow> perform a)"

text \<open>The log fails to start, or fails to be completed, which is an error of its own only when there is no other.\<close>

definition logged_command ::
  "dispatch_env \<Rightarrow> (action \<Rightarrow> 'e dispatch_error session_error err) \<Rightarrow> diagnostic_error err \<Rightarrow> bool \<Rightarrow> command
    \<Rightarrow> 'e dispatch_error session_error err" where
  "logged_command env perform log_start log_completed command =
     (if unlogged (cmd_kind command) \<or> \<not> cmd_debug command then perform_command env perform command
      else case log_start of Some e \<Rightarrow> Some (Failure (LogNotStarted e))
        | None \<Rightarrow> let r = perform_command env perform command in
            if r = None \<and> \<not> log_completed then Some (Failure LogNotCompleted) else r)"

definition run_command ::
  "dispatch_env \<Rightarrow> (action \<Rightarrow> 'e dispatch_error session_error err) \<Rightarrow> diagnostic_error err \<Rightarrow> bool \<Rightarrow> string list
    \<Rightarrow> 'e dispatch_error session_error err" where
  "run_command env perform log_start log_completed args =
     (let r = (case parse_args args of Inl e \<Rightarrow> Some (Failure (CommandLine e))
        | Inr command \<Rightarrow> logged_command env perform log_start log_completed command)
      in if args \<noteq> [] \<and> hd args = ''run'' then run_failure r else r)"

text \<open>\<open>main\<close>: the same executable is the browser of an Azure CLI process, the Podman wrapper, or the program itself.\<close>

datatype role = BrowserRole "string list" | WrapperRole "string list" | ProgramRole "string list"

definition main_role :: "string \<Rightarrow> string list \<Rightarrow> role" where
  "main_role mode argv =
     (if auth_active mode (tl argv) then BrowserRole (tl argv)
      else if equal_fold (path_base (hd argv)) ''podman'' \<or> equal_fold (path_base (hd argv)) ''podman.exe'' then WrapperRole (tl argv)
      else ProgramRole (tl argv))"

text \<open>The version that is printed: a release's own, or the revision that the build information records.\<close>

definition build_version :: "string \<Rightarrow> (string \<times> string) list option \<Rightarrow> string" where
  "build_version version info =
     (if version \<noteq> ''dev'' then ''bivrost '' @ version
      else case info of None \<Rightarrow> ''bivrost dev''
      | Some settings \<Rightarrow>
          let revision = take 12 (foldl (\<lambda>r (k, v). if k = ''vcs.revision'' then v else r) [] settings);
              modified = foldl (\<lambda>m (k, v). if k = ''vcs.modified'' \<and> v = ''true'' then ''-dirty'' else m) [] settings
          in if revision = [] then ''bivrost dev'' else ''bivrost dev ('' @ revision @ modified @ '')'')"

subsection \<open>Signing in locally\<close>

text \<open>
  \<open>localAzureLogin\<close>: the rules and the settings decide about the tenant and whether the program routes the browser. The
  result tells which rule is announced, and the Azure CLI's arguments and environment.
\<close>

datatype sign_in_error = SignInRules settings_error | SignInBrowser route_error | SignInFailed

definition local_azure_login ::
  "(settings_error, browser_rule list) res \<Rightarrow> (settings_error, user_settings) res \<Rightarrow> bool \<Rightarrow> string option \<Rightarrow> string list
    \<Rightarrow> (string list \<Rightarrow> string list \<Rightarrow> bool) \<Rightarrow> command \<Rightarrow> (string option \<times> string list \<times> string list) option \<times> sign_in_error err" where
  "local_azure_login rules settings windows executable environ run command =
     (case has_authentication_browsers rules settings of Inl e \<Rightarrow> (None, Some (SignInRules e))
      | Inr configured \<Rightarrow>
          (case (if cmd_tenant command \<noteq> [] then Inr (cmd_tenant command, [])
                 else ebind rules (\<lambda>rs. Inr (default_login_tenant rs))) of
             Inl e \<Rightarrow> (None, Some (SignInRules e))
           | Inr (tenant, rule) \<Rightarrow>
               let args = login_arguments tenant (cmd_device_code command) (cmd_ssh_login command);
                   announced = (if rule = [] then None else Some rule);
                   routed = (if configured then route_browser windows executable (lookup_variable windows environ browser_variable)
                     mode_interactive [] environ else Inr environ) in
               (case routed of Inl e \<Rightarrow> (None, Some (SignInBrowser e))
                | Inr env \<Rightarrow> (Some (announced, args, env), if run args env then None else Some SignInFailed))))"

subsection \<open>What an operation is called with\<close>

lemma validate_session_fields [simp]:
  "validate_platform (c\<lparr>pf_acr_session := a, pf_skip_registry_login := b\<rparr>) = validate_platform c"
  "validate_acr (c\<lparr>pf_acr_session := a, pf_skip_registry_login := b\<rparr>) = validate_acr c"
  by (simp_all add: validate_platform_def validate_connection_def validate_acr_def validate_proxy_def validate_private_hosts_def Let_def
      cong: option.case_cong)

lemma with_private_hosts_fields:
  "with_private_hosts c hosts = Inr c' \<Longrightarrow> \<exists>hs. c' = c\<lparr>pf_private_hosts := hs\<rparr>"
  by (auto simp: with_private_hosts_def Let_def split: if_splits option.splits intro: exI [of _ "pf_private_hosts c"])

lemma check_Inr: "check err r = Inr a \<longleftrightarrow> err = None \<and> r = Inr a"
  by (simp add: check_def split: option.split)

lemma prepare_acr_session_Inr:
  "prepare_acr_session env c no_login = Inr c' \<longleftrightarrow> validate_acr c = None \<and> (no_login \<or> valid_resource_name (pf_registry_subscription c))
     \<and> validate_platform c = None \<and> (\<exists>m. de_inspected env = Inr m) \<and> c' = c\<lparr>pf_acr_session := True, pf_skip_registry_login := no_login\<rparr>"
  by (auto simp: prepare_acr_session_def split: option.splits sum.splits)

text \<open>What the profile of a session and of a registry session was checked for.\<close>

definition session_checked :: "dispatch_env \<Rightarrow> bool \<Rightarrow> bool \<Rightarrow> profile \<Rightarrow> bool" where
  "session_checked env acr no_login c \<longleftrightarrow> validate_platform c = None \<and> pf_acr_session c = acr \<and>
     (acr \<longrightarrow> validate_acr c = None \<and> (\<exists>m. de_inspected env = Inr m) \<and> pf_skip_registry_login c = no_login
       \<and> (no_login \<or> valid_resource_name (pf_registry_subscription c)))"

text \<open>The standalone commands run with fixed ports on a profile whose registry was checked.\<close>

definition standalone_checked :: "profile \<Rightarrow> bool" where
  "standalone_checked c \<longleftrightarrow> pf_proxy_port c \<noteq> 0 \<and> pf_socks_port c \<noteq> 0 \<and> (\<exists>c0. c = with_standalone_ports c0 \<and> validate_acr c0 = None)"

lemma standalone_checked_ports: "validate_acr c = None \<Longrightarrow> standalone_checked (with_standalone_ports c)"
  by (auto simp: standalone_checked_def with_standalone_ports_def standalone_proxy_port_def standalone_socks_port_def Let_def)

text \<open>An operation fits the command, and its profile was checked for what it does.\<close>

fun action_checked :: "dispatch_env \<Rightarrow> command \<Rightarrow> action \<Rightarrow> bool" where
  "action_checked env command (ConnectPlatform c) =
     (cmd_kind command \<in> {Connect, ACRConnect}
      \<and> session_checked env (cmd_kind command = ACRConnect \<or> cmd_acr command) (cmd_no_login command) c)"
| "action_checked env command (RunPlatformCommand c argv) =
     (cmd_kind command = Run \<and> argv = cmd_argv command \<and> session_checked env (cmd_acr command) (cmd_no_login command) c)"
| "action_checked env command (OpenManagementShell c) = (cmd_kind command = SSH \<and> validate_connection c = None)"
| "action_checked env command (ServeProxy c) = (cmd_kind command = ACRProxy \<and> standalone_checked c)"
| "action_checked env command (LogInToRegistry c) = (cmd_kind command = ACRLogin \<and> standalone_checked c)"
| "action_checked env command (DiagnoseRegistry c) = (cmd_kind command = ACRDoctor \<and> standalone_checked c)"
| "action_checked env command a = (cmd_kind command \<notin> {Connect, ACRConnect, Run, SSH, ACRProxy, ACRLogin, ACRDoctor})"

lemma dispatch_profile_checked:
  assumes "dispatch_profile env command c = Inr a" "\<not> pf_acr_session c"
  shows "action_checked env command a"
  using assms standalone_checked_ports
  by (cases "cmd_kind command"; cases "cmd_acr command")
    (auto simp: dispatch_profile_def Let_def check_Inr acr_connect_def ebind_Inr_iff prepare_acr_session_Inr session_checked_def session_profile_def)

lemma dispatch_loaded:
  fixes command :: command
  assumes "(dispatch env command :: ('e dispatch_error, action) res) = Inr a"
    and "cmd_kind command \<in> {Connect, ACRConnect, Run, SSH, ACRProxy, ACRLogin, ACRDoctor}"
  obtains c where "(dispatch_profile env command c :: ('e dispatch_error, action) res) = Inr a" "\<not> pf_acr_session c"
proof -
  have "\<exists>c0 c. load_environment (de_files env) (cmd_environment command) (cmd_config_path command) = Inr c0
      \<and> with_private_hosts c0 (cmd_private_hosts command) = Inr c
      \<and> (dispatch_profile env command c :: ('e dispatch_error, action) res) = Inr a"
    using assms by (cases "cmd_kind command") (auto simp: dispatch_def split: sum.splits)
  then obtain c0 c where c: "load_environment (de_files env) (cmd_environment command) (cmd_config_path command) = Inr c0"
    "with_private_hosts c0 (cmd_private_hosts command) = Inr c"
    "(dispatch_profile env command c :: ('e dispatch_error, action) res) = Inr a" by blast
  have "\<not> pf_acr_session c" using loaded_session_fields [OF c(1)] with_private_hosts_fields [OF c(2)] by auto
  then show thesis using that c(3) by blast
qed

text \<open>C12. No operation starts on an unchecked profile. Whatever command line was parsed and whatever profile was loaded, a platform session or a command
  in one is only started with a profile that passed the platform checks, and with the registry enabled exactly when the
  command asked for it; then the registry was checked, Podman could be inspected and, unless the login is skipped,
  the registry's subscription is a valid name. The management shell needs the connection checks, the standalone registry
  commands a checked registry and fixed ports, and every other operation belongs to a command of its own.\<close>

proposition dispatched_action_checked:
  assumes "(dispatch env command :: ('e dispatch_error, action) res) = Inr a"
  shows "action_checked env command a"
proof (cases "cmd_kind command \<in> {Connect, ACRConnect, Run, SSH, ACRProxy, ACRLogin, ACRDoctor}")
  case True
  then obtain c where "(dispatch_profile env command c :: ('e dispatch_error, action) res) = Inr a" "\<not> pf_acr_session c"
    by (rule dispatch_loaded [OF assms])
  then show ?thesis by (rule dispatch_profile_checked)
next
  case False
  then show ?thesis using assms by (cases "cmd_kind command") (auto simp: dispatch_def)
qed

lemma logged_command_None:
  fixes perform :: "action \<Rightarrow> 'e dispatch_error session_error err"
  assumes "logged_command env perform log_start completed command = None"
  shows "\<exists>a. (dispatch env command :: ('e dispatch_error, action) res) = Inr a \<and> perform a = None
      \<and> (cmd_debug command \<and> \<not> unlogged (cmd_kind command) \<longrightarrow> log_start = None \<and> completed)"
proof -
  have performed: "perform_command env perform command = None"
    and logged: "cmd_debug command \<and> \<not> unlogged (cmd_kind command) \<Longrightarrow> log_start = None \<and> completed"
    using assms by (simp_all add: logged_command_def Let_def split: if_splits option.splits)
  obtain a where "(dispatch env command :: ('e dispatch_error, action) res) = Inr a" "perform a = None"
    using performed by (simp add: perform_command_def split: sum.splits)
  then show ?thesis using logged by blast
qed

lemma run_failure_parts:
  fixes perform :: "action \<Rightarrow> 'e dispatch_error session_error err"
  assumes result_def: "result = run_command env perform log_start completed (''run'' # args)"
  shows "result \<noteq> Some (Failure e)"
    and "parse_args (''run'' # args) = Inl ce \<Longrightarrow> result = Some (ExitError run_failure_exit_code (Some (CommandLine ce)))"
    and "parse_args (''run'' # args) = Inr command \<Longrightarrow> (dispatch env command :: ('e dispatch_error, action) res) = Inl de \<Longrightarrow>
      log_start = None \<Longrightarrow> result = Some (ExitError run_failure_exit_code (Some de))"
    and "parse_args (''run'' # args) = Inr command \<Longrightarrow> (dispatch env command :: ('e dispatch_error, action) res) = Inr a \<Longrightarrow>
      log_start = None \<Longrightarrow> perform a = Some (ExitError status msg) \<Longrightarrow> result = Some (ExitError status msg)"
    and "parse_args (''run'' # args) = Inr command \<Longrightarrow> result = None \<Longrightarrow>
      \<exists>a. (dispatch env command :: ('e dispatch_error, action) res) = Inr a \<and> perform a = None
        \<and> (cmd_debug command \<and> \<not> unlogged (cmd_kind command) \<longrightarrow> log_start = None \<and> completed)"
proof -
  define run where "run = (case parse_args (''run'' # args) of Inl e \<Rightarrow> Some (Failure (CommandLine e :: 'e dispatch_error))
    | Inr command \<Rightarrow> logged_command env perform log_start completed command)"
  have result: "result = run_failure run" by (simp add: result_def run_command_def run_def)
  show "result \<noteq> Some (Failure e)" by (simp add: result run_failure_def split: option.split session_error.split)
  show "parse_args (''run'' # args) = Inl ce \<Longrightarrow> result = Some (ExitError run_failure_exit_code (Some (CommandLine ce)))"
    by (simp add: result run_def run_failure_def)
  show "parse_args (''run'' # args) = Inr command \<Longrightarrow> (dispatch env command :: ('e dispatch_error, action) res) = Inl de \<Longrightarrow>
      log_start = None \<Longrightarrow> result = Some (ExitError run_failure_exit_code (Some de))"
    by (simp add: result run_def run_failure_def logged_command_def perform_command_def Let_def)
  show "parse_args (''run'' # args) = Inr command \<Longrightarrow> (dispatch env command :: ('e dispatch_error, action) res) = Inr a \<Longrightarrow>
      log_start = None \<Longrightarrow> perform a = Some (ExitError status msg) \<Longrightarrow> result = Some (ExitError status msg)"
    by (simp add: result run_def run_failure_def logged_command_def perform_command_def Let_def)
  assume parsed: "parse_args (''run'' # args) = Inr command" and none: "result = None"
  then have "logged_command env perform log_start completed command = None"
    by (simp add: result run_def run_failure_def split: option.splits session_error.splits)
  then show "\<exists>a. (dispatch env command :: ('e dispatch_error, action) res) = Inr a \<and> perform a = None
      \<and> (cmd_debug command \<and> \<not> unlogged (cmd_kind command) \<longrightarrow> log_start = None \<and> completed)"
    by (rule logged_command_None) 
qed

text \<open>A failure of \<open>bivrost run\<close> can be told from the command's own status. For a command line that starts with \<open>run\<close>, every error, also one of
  the command line, the configuration or the diagnostic log, has an exit status, the agreed one unless the operation chose
  another; the command's own status is passed on unchanged, and a run without an error ends without one only when a requested log
  was completed.\<close>

proposition run_failures_have_status:
  fixes perform :: "action \<Rightarrow> 'e dispatch_error session_error err"
  assumes "result = run_command env perform log_start completed (''run'' # args)"
  shows "(\<forall>e. result \<noteq> Some (Failure e)) \<and>
    (case parse_args (''run'' # args) of
       Inl ce \<Rightarrow> result = Some (ExitError run_failure_exit_code (Some (CommandLine ce)))
     | Inr command \<Rightarrow>
         (\<forall>de. (dispatch env command :: ('e dispatch_error, action) res) = Inl de \<and> log_start = None \<longrightarrow>
            result = Some (ExitError run_failure_exit_code (Some de))) \<and>
         (\<forall>a status msg. (dispatch env command :: ('e dispatch_error, action) res) = Inr a \<and> log_start = None \<and> perform a = Some (ExitError status msg) \<longrightarrow>
            result = Some (ExitError status msg)) \<and>
         (result = None \<longrightarrow> (\<exists>a. (dispatch env command :: ('e dispatch_error, action) res) = Inr a \<and> perform a = None
            \<and> (cmd_debug command \<and> \<not> unlogged (cmd_kind command) \<longrightarrow> log_start = None \<and> completed))))"
proof (cases "parse_args (''run'' # args)")
  case (Inl ce)
  show ?thesis using run_failure_parts(1,2) [OF assms] Inl by simp
next
  case (Inr command)
  show ?thesis
    using run_failure_parts(1) [OF assms] run_failure_parts(3-5) [OF assms Inr] unfolding Inr sum.case by blast
qed

subsection \<open>A command in a session\<close>

definition small_profile :: profile where
  "small_profile = empty_profile\<lparr>pf_subscription := ''sub-1'', pf_bastion_name := ''bastion'', pf_bastion_resource_group := ''rg'',
     pf_vm_resource_id := ''/subscriptions/a-1/resourceGroups/rg/providers/Microsoft.Compute/virtualMachines/vm''\<rparr>"

definition small_json :: json where
  "small_json = JObj [(''subscription'', JStr ''sub-1''), (''bastion_name'', JStr ''bastion''), (''bastion_resource_group'', JStr ''rg''),
     (''vm_resource_id'', JStr ''/subscriptions/a-1/resourceGroups/rg/providers/Microsoft.Compute/virtualMachines/vm'')]"

definition small_env :: dispatch_env where
  "small_env = \<lparr>de_files = sample_files\<lparr>cf_read := (\<lambda>_. Contents (json_text small_json))\<rparr>, de_settings = Some Absent, de_inspected = Inr None\<rparr>"

definition small_command :: command where
  "small_command = (command_of Run)\<lparr>cmd_environment := ''dev'', cmd_argv := [''kubectl'', ''get'', ''pods'']\<rparr>"

lemma small_profile_loaded: "load_profile (Contents (json_text small_json)) = Inr small_profile"
proof -
  have wf: "wf_json small_json"
  proof -
    have "utf8 ''subscription'' \<and> utf8 ''sub-1'' \<and> utf8 ''bastion_name'' \<and> utf8 ''bastion'' \<and> utf8 ''bastion_resource_group'' \<and> utf8 ''rg''
      \<and> utf8 ''vm_resource_id'' \<and> utf8 ''/subscriptions/a-1/resourceGroups/rg/providers/Microsoft.Compute/virtualMachines/vm''"
      by (intro conjI utf8_ascii) (simp_all add: is_ascii_def less_char_def)
    then show ?thesis by (simp add: small_json_def)
  qed
  have "length (json_text small_json) \<le> text_bound small_json" by (rule length_json_text)
  also have "\<dots> \<le> 64 * 1024" by (simp add: small_json_def)
  finally have short: "take (64 * 1024) (json_text small_json) = json_text small_json" by simp
  have "decode_next (json_text small_json) = Some (small_json, [])"
    using decode_next_text [OF wf, of "[]"] by (simp add: ends_value_def)
  moreover have "decode_struct True profile_fields empty_profile small_json = Inr small_profile"
    by (simp add: small_json_def profile_fields_def decode_struct_def find_field_def str_field_def bool_field_def int_field_def strs_field_def
        ptr_field_def small_profile_def)
  ultimately show ?thesis by (simp only: load_profile_def file_read.case short decode_single_def option.case prod.case sum.case) (simp add: skip_ws_def)
qed

lemma small_dispatch:
  "(dispatch small_env small_command :: (unit dispatch_error, action) res)
    = Inr (RunPlatformCommand (small_profile\<lparr>pf_environment := ''dev''\<rparr>) [''kubectl'', ''get'', ''pods''])"
proof -
  have "valid_environment_name ''dev''" by code_simp
  then have load: "load_environment (de_files small_env) ''dev'' [] = Inr (small_profile\<lparr>pf_environment := ''dev''\<rparr>)"
    using small_profile_loaded
    by (simp add: load_environment_def resolve_path_def user_root_def small_env_def sample_files_def is_abs_def)
  have valid: "validate_platform small_profile = None" unfolding small_profile_def by code_simp
  show ?thesis
    using load valid
    by (simp add: dispatch_def small_command_def command_of_def with_private_hosts_def reads_settings_def dispatch_profile_def
        session_profile_def check_def ebind_def)
qed

lemma dispatched_action_checked_witness: "validate_platform (small_profile\<lparr>pf_environment := ''dev''\<rparr>) = None"
  using dispatched_action_checked [OF small_dispatch] by (simp add: session_checked_def)

lemma run_failures_have_status_witness:
  "run_command small_env (\<lambda>_. Some (ExitError 7 None)) None True [''run'']
    = Some (ExitError 125 (Some (CommandLine RunNeedsCommand :: unit dispatch_error)))"
proof -
  have "parse_args [''run''] = Inl RunNeedsCommand" by code_simp
  then show ?thesis using run_failures_have_status [where args = "[]" and env = small_env and log_start = None
      and perform = "\<lambda>_. Some (ExitError 7 None) :: unit dispatch_error session_error err" and completed = True, OF refl] by (simp add: run_failure_exit_code_def)
qed

end
