(* ===== verification/Doctor.thy ===== *)
theory Doctor
  imports Registry_Login Activation Podman_Wrapper Cli
begin

section \<open>The doctor\<close>

text \<open>
  \<open>internal/session/doctor.go\<close>, \<open>doctor_session.go\<close>, \<open>doctor_resources.go\<close> and \<open>pull_probe.go\<close>: the status a shell's
  doctor gets from its session, when that session counts for a profile, and the checks with their findings. A
  finding has its status and its label; the advice printed behind it is left out. Every command that a check runs is
  answered by the system.
\<close>

subsection \<open>The session's status\<close>

text \<open>A nil slice of local hosts is \<open>None\<close>; a missing variable reads as the empty string.\<close>

record doctor_session =
  ds_unavailable :: bool
  ds_kubeconfig :: string
  ds_config :: profile
  ds_local_hosts :: "string list option"
  ds_profile_environment :: string
  ds_enabled :: bool
  ds_login_refreshed :: bool
  ds_machine :: bool
  ds_environment :: "string \<Rightarrow> string"

text \<open>The fields of a profile that its JSON form leaves out, as they are after decoding it again.\<close>

definition transmitted :: "profile \<Rightarrow> profile" where
  "transmitted c = c\<lparr>pf_skip_pull_probe := False, pf_acr_session := False, pf_skip_registry_login := False, pf_prompt := None,
     pf_environment := []\<rparr>"

text \<open>What the doctor decodes from the status the controller sends.\<close>

definition received :: "session_status \<Rightarrow> doctor_session" where
  "received s = \<lparr>ds_unavailable = ss_unavailable s, ds_kubeconfig = ss_kubeconfig s, ds_config = transmitted (ss_config s),
     ds_local_hosts = Some (ss_local_private_hosts s), ds_profile_environment = ss_profile_environment s, ds_enabled = ss_enabled s,
     ds_login_refreshed = ss_login_refreshed s, ds_machine = ss_machine s,
     ds_environment = (\<lambda>k. case map_of (rev (ss_environment s)) k of None \<Rightarrow> [] | Some v \<Rightarrow> v)\<rparr>"

definition local_routes :: "doctor_session \<Rightarrow> string list" where
  "local_routes s = (case ds_local_hosts s of None \<Rightarrow> pf_private_hosts (ds_config s) | Some hs \<Rightarrow> hs)"

datatype doctor_error = StatusUnavailable | StatusInvalid | SessionProfileInvalid | DoctorSettings settings_error | NeedsTarget
  | DoctorConfig config_error | DoctorProfile profile_error | NeedsAttention

text \<open>\<open>currentDoctorSession\<close>: the HTTP status, and the decoded body unless it is malformed.\<close>

definition current_doctor_session :: "(nat \<times> doctor_session option) option \<Rightarrow> (doctor_error, doctor_session) res" where
  "current_doctor_session answer = (case answer of None \<Rightarrow> Inl StatusUnavailable
     | Some (status, body) \<Rightarrow> if status \<noteq> 200 then Inl StatusUnavailable
         else (case body of None \<Rightarrow> Inl StatusInvalid
           | Some s \<Rightarrow> if validate_platform (ds_config s) \<noteq> None then Inl SessionProfileInvalid else Inr s))"

subsection \<open>Does the session use a profile?\<close>

text \<open>\<open>json.Marshal\<close> of a profile: some fields are left out when they are empty.\<close>

definition if_set :: "bool \<Rightarrow> string \<Rightarrow> json \<Rightarrow> (string \<times> json) list" where
  "if_set b name v = (if b then [(name, v)] else [])"

definition aks_json :: "aks \<Rightarrow> json" where
  "aks_json a = JObj [(''name'', JStr (aks_name a)), (''resource_group'', JStr (aks_resource_group a)), (''subscription'', JStr (aks_subscription a))]"

definition heimdal_json :: "heimdal_source \<Rightarrow> json" where
  "heimdal_json h = JObj ([(''subscription'', JStr (hs_subscription h)), (''account'', JStr (hs_account h))]
     @ if_set (hs_container h \<noteq> []) ''container'' (JStr (hs_container h)) @ [(''environment'', JStr (hs_environment h))]
     @ if_set (hs_prefix h \<noteq> []) ''prefix'' (JStr (hs_prefix h))
     @ if_set (hs_allow_local_fallback h) ''allow_local_fallback'' (JBool True)
     @ (case hs_allowed_route_suffixes h of None \<Rightarrow> [] | Some ss \<Rightarrow> if_set (ss \<noteq> []) ''allowed_route_suffixes'' (JArr (map JStr ss))))"

definition profile_json :: "profile \<Rightarrow> json" where
  "profile_json c = JObj (if_set (pf_acr_probe_image c \<noteq> []) ''acr_probe_image'' (JStr (pf_acr_probe_image c))
     @ if_set (pf_requires_pim c) ''requires_pim'' (JBool True)
     @ (case pf_aks c of None \<Rightarrow> [] | Some a \<Rightarrow> [(''aks'', aks_json a)])
     @ if_set (pf_private_hosts c \<noteq> []) ''private_hosts'' (JArr (map JStr (pf_private_hosts c)))
     @ (case pf_heimdal c of None \<Rightarrow> [] | Some h \<Rightarrow> [(''heimdal'', heimdal_json h)])
     @ [(''registry'', JStr (pf_registry c)), (''registry_subscription'', JStr (pf_registry_subscription c)),
        (''subscription'', JStr (pf_subscription c)), (''bastion_name'', JStr (pf_bastion_name c)),
        (''bastion_resource_group'', JStr (pf_bastion_resource_group c)), (''vm_resource_id'', JStr (pf_vm_resource_id c)),
        (''proxy_port'', JNum (itoa (pf_proxy_port c))), (''socks_port'', JNum (itoa (pf_socks_port c)))]
     @ if_set (pf_max_sessions c \<noteq> 0) ''max_sessions'' (JNum (itoa (pf_max_sessions c)))
     @ if_set (pf_ssh_user c \<noteq> []) ''ssh_user'' (JStr (pf_ssh_user c))
     @ if_set (pf_identity_file c \<noteq> []) ''identity_file'' (JStr (pf_identity_file c)))"

definition session_uses_profile :: "doctor_session \<Rightarrow> profile \<Rightarrow> bool" where
  "session_uses_profile s c \<longleftrightarrow>
     list_all (\<lambda>h. h \<in> set (local_routes s)) (pf_private_hosts c) \<and>
     (let active = (ds_config s)\<lparr>pf_private_hosts := []\<rparr>; c = c\<lparr>pf_private_hosts := []\<rparr>;
          active = (if pf_proxy_port c = 0 then active\<lparr>pf_proxy_port := 0\<rparr> else active);
          active = (if pf_socks_port c = 0 then active\<lparr>pf_socks_port := 0\<rparr> else active)
      in json_text (profile_json c) = json_text (profile_json active))"

definition match_session_profile :: "doctor_session \<Rightarrow> profile \<Rightarrow> profile \<times> bool" where
  "match_session_profile s c = (if \<not> session_uses_profile s c then (c, False)
     else (c\<lparr>pf_proxy_port := pf_proxy_port (ds_config s), pf_socks_port := pf_socks_port (ds_config s)\<rparr>, True))"

subsection \<open>The checks\<close>

datatype doctor_status = Fine | NotVerified | MissingTool | ActionNeeded

type_synonym finding = "doctor_status \<times> string"

text \<open>\<open>dr_azure\<close> runs a command of the Azure CLI, \<open>dr_kubernetes\<close> a read with a kubeconfig, \<open>dr_pull\<close> a pull of an image.\<close>

record doctor_system =
  dr_getenv :: "string \<Rightarrow> string"
  dr_look_path :: "string \<Rightarrow> string option"
  dr_exists :: "string \<Rightarrow> bool"
  dr_azure :: "string list \<Rightarrow> bool"
  dr_engine :: "string option"
  dr_inspected :: "(podman_error, podman_machine option) res"
  dr_proxy :: "profile \<Rightarrow> proxy_error err"
  dr_registry :: "profile \<Rightarrow> nat option"
  dr_kubernetes :: "string \<Rightarrow> string \<Rightarrow> bool"
  dr_pull :: "string \<Rightarrow> bool"

definition container_variables :: "string list" where
  "container_variables = [''CONTAINER_HOST'', ''CONTAINER_CONNECTION'', ''CONTAINER_SSHKEY'', ''CONTAINERS_CONF_OVERRIDE'']"

definition proxy_settings :: "profile \<Rightarrow> (string \<times> string) list" where
  "proxy_settings c = [(''HTTPS_PROXY'', proxy_url c), (''NO_PROXY'', ''127.0.0.1,localhost''), (''ALL_PROXY'', [])]"

definition doctor_session_environment :: "doctor_system \<Rightarrow> profile \<Rightarrow> doctor_session \<Rightarrow> bool" where
  "doctor_session_environment sys c s =
     (let wrapper = ds_environment s ''BIVROST_PODMAN_BIN''; override = ds_environment s ''CONTAINERS_CONF_OVERRIDE'' in
      if \<not> list_all (\<lambda>k. dr_getenv sys k = ds_environment s k) container_variables then False
      else if wrapper \<noteq> [] \<and> (case dr_look_path sys ''podman'' of None \<Rightarrow> True
        | Some executable \<Rightarrow> clean_path (path_dir executable) \<noteq> clean_path wrapper \<or> dr_getenv sys ''BIVROST_PODMAN_BIN'' \<noteq> wrapper) then False
      else if override = [] then False
      else if \<not> dr_exists sys override then False
      else list_all (\<lambda>(k, want). dr_getenv sys k = want \<and> dr_getenv sys (to_lower k) \<in> {[], want}) (proxy_settings c))"

definition doctor_session_engine :: "doctor_system \<Rightarrow> doctor_session \<Rightarrow> bool" where
  "doctor_session_engine sys s = (case dr_engine sys of None \<Rightarrow> False
     | Some output \<Rightarrow> trim_space output = (if ds_machine s then ''true'' else ''false''))"

definition doctor_tools :: "profile \<Rightarrow> string list" where
  "doctor_tools c = [''az'', ''ssh''] @ (if pf_aks c = None then [] else [''kubectl'', ''kubelogin''])
     @ (if pf_registry c = [] then [] else [''podman''])"

definition available :: "doctor_system \<Rightarrow> profile \<Rightarrow> string \<Rightarrow> bool" where
  "available sys c name \<longleftrightarrow> name \<in> set (doctor_tools c) \<and> dr_look_path sys name \<noteq> None"

definition tool_finding :: "doctor_system \<Rightarrow> string \<Rightarrow> finding" where
  "tool_finding sys name = ((if dr_look_path sys name \<noteq> None then Fine
     else if name = ''kubectl'' \<or> name = ''kubelogin'' then NotVerified else MissingTool), name)"

definition azure_findings :: "doctor_system \<Rightarrow> profile \<Rightarrow> finding list" where
  "azure_findings sys c =
     (if available sys c ''az''
      then map (\<lambda>extension. (if dr_azure sys [''extension'', ''show'', ''--name'', extension, ''--output'', ''none''] then Fine else ActionNeeded,
          ''Azure extension '' @ extension)) [''bastion'', ''ssh'']
        @ [(if dr_azure sys [''account'', ''get-access-token'', ''--subscription'', pf_subscription c, ''--output'', ''none''] then Fine
            else ActionNeeded, ''Azure authentication'')]
      else [(NotVerified, ''Azure authentication and extensions'')])"

text \<open>The engine: the findings, and whether the session's Podman is ready for a pull.\<close>

definition podman_findings :: "doctor_system \<Rightarrow> profile \<Rightarrow> doctor_session option \<Rightarrow> finding list \<times> bool" where
  "podman_findings sys c session =
     (case session of
        Some s \<Rightarrow>
          if ds_enabled s
          then (let login = [(if ds_login_refreshed s then Fine else NotVerified, ''ACR authentication'')] in
            if \<not> doctor_session_environment sys c s then ((ActionNeeded, ''Podman command environment'') # login, False)
            else if \<not> available sys c ''podman'' \<or> \<not> doctor_session_engine sys s then ((ActionNeeded, ''Podman session'') # login, False)
            else ((Fine, ''Podman command environment'') # login, True))
          else ((if available sys c ''podman'' then (case dr_inspected sys of
              Inl e \<Rightarrow> [(ActionNeeded, ''Podman setup'')] | Inr None \<Rightarrow> [(Fine, ''Podman'')] | Inr (Some m) \<Rightarrow> [(Fine, ''Podman connection'')])
            else []) @ [(NotVerified, ''ACR activation'')], False)
      | None \<Rightarrow> (if available sys c ''podman'' then (case dr_inspected sys of
            Inl e \<Rightarrow> [(ActionNeeded, ''Podman setup'')]
          | Inr None \<Rightarrow> [(Fine, ''Podman''), (NotVerified, ''Podman command environment'')]
          | Inr (Some m) \<Rightarrow> [(Fine, ''Podman connection''), (NotVerified, ''Podman Machine proxy'')])
        else [], False))"

definition acr_findings :: "doctor_system \<Rightarrow> profile \<Rightarrow> doctor_session option \<Rightarrow> finding list" where
  "acr_findings sys c session =
     (if available sys c ''az'' \<and> available sys c ''ssh'' \<and> pf_registry c \<noteq> []
      then let proxied = (if session = None then with_standalone_ports c else c) in
        [(if session = None \<and> dr_proxy sys proxied \<noteq> None then NotVerified
          else if dr_registry sys proxied \<notin> {Some 200, Some 401} then NotVerified else Fine, ''ACR connectivity'')]
      else [(NotVerified, ''ACR connectivity'')])"

text \<open>\<open>doctorResourceChecks\<close> and the pull probe.\<close>

definition resource_findings :: "doctor_system \<Rightarrow> profile \<Rightarrow> doctor_session option \<Rightarrow> finding list" where
  "resource_findings sys c session =
     (if session = None then NotVerified else Fine, ''Bastion/VM transport'') #
     (if pf_aks c = None then []
      else case session of
        Some s \<Rightarrow>
          if ds_unavailable s \<or> ds_kubeconfig s = [] \<or> \<not> available sys c ''kubectl''
          then [(NotVerified, ''Kubernetes API''), (NotVerified, ''Kubernetes list nodes'')]
          else [(if dr_kubernetes sys (ds_kubeconfig s) ''/version'' then Fine else NotVerified, ''Kubernetes API''),
            (if dr_kubernetes sys (ds_kubeconfig s) ''/api/v1/nodes?limit=1'' then Fine else NotVerified, ''Kubernetes list nodes'')]
      | None \<Rightarrow> [(NotVerified, ''Kubernetes API''), (NotVerified, ''Kubernetes list nodes'')])"

definition pull_finding :: "doctor_system \<Rightarrow> profile \<Rightarrow> bool \<Rightarrow> finding" where
  "pull_finding sys c ready = (if pf_skip_pull_probe c \<or> pf_acr_probe_image c = [] \<or> \<not> ready then NotVerified
     else if dr_pull sys (pf_acr_probe_image c) then Fine else NotVerified, ''ACR image pull'')"

definition failing :: "finding \<Rightarrow> bool" where
  "failing f \<longleftrightarrow> fst f = MissingTool \<or> fst f = ActionNeeded"

definition platform_doctor :: "doctor_system \<Rightarrow> profile \<Rightarrow> doctor_session option \<Rightarrow> finding list \<times> doctor_error err" where
  "platform_doctor sys c session = (case validate_platform c of Some e \<Rightarrow> ([], Some (DoctorProfile e))
     | None \<Rightarrow>
         (case podman_findings sys c session of (podman, ready) \<Rightarrow>
           let findings = map (tool_finding sys) (doctor_tools c) @ azure_findings sys c @ podman
               @ (if pf_requires_pim c then [(NotVerified, ''PIM'')] else []) @ acr_findings sys c session
               @ resource_findings sys c session
               @ (if pf_registry c \<noteq> [] then [pull_finding sys c ready, (NotVerified, ''ACR image push'')] else [])
           in (findings, if list_ex failing findings then Some NeedsAttention else None)))"

subsection \<open>The command\<close>

definition run_doctor ::
  "doctor_system \<Rightarrow> (settings_error, user_settings) res \<Rightarrow> config_files \<Rightarrow> (nat \<times> doctor_session option) option \<Rightarrow> command
    \<Rightarrow> finding list \<times> doctor_error err" where
  "run_doctor sys settings files answer command =
     (case settings of Inl e \<Rightarrow> ([], Some (DoctorSettings e))
      | Inr _ \<Rightarrow>
          let implicit = (cmd_environment command = [] \<and> cmd_config_path command = []);
              asked = (dr_getenv sys ''BIVROST_SESSION'' \<noteq> [] \<and> dr_getenv sys ''BIVROST_CONTROL_FILE'' \<noteq> []);
              current = current_doctor_session answer;
              check = (\<lambda>c. platform_doctor sys (c\<lparr>pf_skip_pull_probe := cmd_no_pull command\<rparr>)) in
          if implicit
          then (if \<not> asked then ([], Some NeedsTarget)
            else case current of Inl e \<Rightarrow> ([], Some e) | Inr s \<Rightarrow> check (ds_config s) (Some s))
          else (case load_environment files (cmd_environment command) (cmd_config_path command) of
              Inl e \<Rightarrow> ([], Some (DoctorConfig e))
            | Inr c \<Rightarrow> (case (asked, current) of
                (True, Inr s) \<Rightarrow> (case match_session_profile s c of (c', matched) \<Rightarrow> check c' (if matched then Some s else None))
              | _ \<Rightarrow> check c None)))"

subsection \<open>Comparing profiles through their JSON\<close>

lemma map_of_if_set: "map_of (if_set b name v) k = (if b \<and> k = name then Some v else None)"
  by (simp add: if_set_def)

lemma json_text_inject: "wf_json a \<Longrightarrow> wf_json b \<Longrightarrow> json_text a = json_text b \<longleftrightarrow> a = b"
  using parse_json_text by (metis option.inject)

lemma aks_json_inject: "aks_json a = aks_json b \<longleftrightarrow> a = b"
  by (cases a; cases b) (simp add: aks_json_def)

lemma inj_JStr: "map JStr xs = map JStr ys \<longleftrightarrow> xs = ys"
  by (rule inj_map_eq_map) (simp add: inj_def)

text \<open>A nil and an empty list of suffixes look the same in JSON; decoded profiles have the former only when nothing was given.\<close>

definition plain_suffixes :: "heimdal_source option \<Rightarrow> bool" where
  "plain_suffixes h \<longleftrightarrow> (case h of None \<Rightarrow> True | Some h \<Rightarrow> hs_allowed_route_suffixes h \<noteq> Some [])"

definition members :: "json \<Rightarrow> string \<Rightarrow> json option" where
  "members v = (case v of JObj ms \<Rightarrow> map_of ms | _ \<Rightarrow> Map.empty)"

lemma heimdal_members:
  "members (heimdal_json h) ''subscription'' = Some (JStr (hs_subscription h))"
  "members (heimdal_json h) ''account'' = Some (JStr (hs_account h))"
  "members (heimdal_json h) ''container'' = (if hs_container h \<noteq> [] then Some (JStr (hs_container h)) else None)"
  "members (heimdal_json h) ''environment'' = Some (JStr (hs_environment h))"
  "members (heimdal_json h) ''prefix'' = (if hs_prefix h \<noteq> [] then Some (JStr (hs_prefix h)) else None)"
  "members (heimdal_json h) ''allow_local_fallback'' = (if hs_allow_local_fallback h then Some (JBool True) else None)"
  "members (heimdal_json h) ''allowed_route_suffixes'' = (case hs_allowed_route_suffixes h of None \<Rightarrow> None
     | Some ss \<Rightarrow> if ss \<noteq> [] then Some (JArr (map JStr ss)) else None)"
  by (simp_all add: members_def heimdal_json_def if_set_def split: option.split)

lemma heimdal_json_inject:
  assumes "heimdal_json a = heimdal_json b" "plain_suffixes (Some a)" "plain_suffixes (Some b)"
  shows "a = b"
proof -
  have m: "members (heimdal_json a) k = members (heimdal_json b) k" for k using assms(1) by simp
  have "hs_subscription a = hs_subscription b" using m [of "''subscription''"] by (simp add: heimdal_members)
  moreover have "hs_account a = hs_account b" using m [of "''account''"] by (simp add: heimdal_members)
  moreover have "hs_container a = hs_container b" using m [of "''container''"] by (simp add: heimdal_members split: if_splits)
  moreover have "hs_environment a = hs_environment b" using m [of "''environment''"] by (simp add: heimdal_members)
  moreover have "hs_prefix a = hs_prefix b" using m [of "''prefix''"] by (simp add: heimdal_members split: if_splits)
  moreover have "hs_allow_local_fallback a = hs_allow_local_fallback b"
    using m [of "''allow_local_fallback''"] by (simp add: heimdal_members split: if_splits)
  moreover have "hs_allowed_route_suffixes a = hs_allowed_route_suffixes b"
    using m [of "''allowed_route_suffixes''"] assms(2,3)
    by (auto simp: heimdal_members plain_suffixes_def inj_JStr split: if_splits option.splits)
  ultimately show ?thesis by (simp add: heimdal_source.equality)
qed

text \<open>The optional members in front, the fixed ones, and the optional ones behind.\<close>

definition member :: "string \<Rightarrow> (string \<times> json) list \<Rightarrow> json option" where
  "member k ms = map_of ms k"

lemma member_simps:
  "member k [] = None"
  "member k ((n, v) # ms) = (if n = k then Some v else member k ms)"
  "member k (if_set b n v @ ms) = (if b \<and> n = k then Some v else member k ms)"
  "member k (if_set b n v) = (if b \<and> n = k then Some v else None)"
  "member k ((case x of None \<Rightarrow> [] | Some y \<Rightarrow> [(n, f y)]) @ ms) = (if n = k then (case x of None \<Rightarrow> member k ms | Some y \<Rightarrow> Some (f y)) else member k ms)"
  by (simp_all add: member_def if_set_def split: option.split)

lemma members_JObj: "members (JObj ms) k = member k ms"
  by (simp add: members_def member_def)

lemma profile_members:
  "members (profile_json c) ''acr_probe_image'' = (if pf_acr_probe_image c \<noteq> [] then Some (JStr (pf_acr_probe_image c)) else None)"
  "members (profile_json c) ''requires_pim'' = (if pf_requires_pim c then Some (JBool True) else None)"
  "members (profile_json c) ''aks'' = map_option aks_json (pf_aks c)"
  "members (profile_json c) ''private_hosts'' = (if pf_private_hosts c \<noteq> [] then Some (JArr (map JStr (pf_private_hosts c))) else None)"
  "members (profile_json c) ''heimdal'' = map_option heimdal_json (pf_heimdal c)"
  "members (profile_json c) ''registry'' = Some (JStr (pf_registry c))"
  "members (profile_json c) ''registry_subscription'' = Some (JStr (pf_registry_subscription c))"
  "members (profile_json c) ''subscription'' = Some (JStr (pf_subscription c))"
  "members (profile_json c) ''bastion_name'' = Some (JStr (pf_bastion_name c))"
  "members (profile_json c) ''bastion_resource_group'' = Some (JStr (pf_bastion_resource_group c))"
  "members (profile_json c) ''vm_resource_id'' = Some (JStr (pf_vm_resource_id c))"
  "members (profile_json c) ''proxy_port'' = Some (JNum (itoa (pf_proxy_port c)))"
  "members (profile_json c) ''socks_port'' = Some (JNum (itoa (pf_socks_port c)))"
  "members (profile_json c) ''max_sessions'' = (if pf_max_sessions c \<noteq> 0 then Some (JNum (itoa (pf_max_sessions c))) else None)"
  "members (profile_json c) ''ssh_user'' = (if pf_ssh_user c \<noteq> [] then Some (JStr (pf_ssh_user c)) else None)"
  "members (profile_json c) ''identity_file'' = (if pf_identity_file c \<noteq> [] then Some (JStr (pf_identity_file c)) else None)"
  unfolding profile_json_def members_JObj member_simps by (simp_all add: member_simps split: option.split)

text \<open>The numbers of a validated profile are not negative.\<close>

definition plain_numbers :: "profile \<Rightarrow> bool" where
  "plain_numbers c \<longleftrightarrow> 0 \<le> pf_proxy_port c \<and> 0 \<le> pf_socks_port c \<and> 0 \<le> pf_max_sessions c"

lemma profile_json_inject:
  assumes "profile_json a = profile_json b" "plain_numbers a" "plain_numbers b" "plain_suffixes (pf_heimdal a)" "plain_suffixes (pf_heimdal b)"
  shows "transmitted a = transmitted b"
proof -
  have m: "members (profile_json a) k = members (profile_json b) k" for k using assms(1) by simp
  have "pf_acr_probe_image a = pf_acr_probe_image b" using m [of "''acr_probe_image''"] by (simp add: profile_members split: if_splits)
  moreover have "pf_requires_pim a = pf_requires_pim b" using m [of "''requires_pim''"] by (simp add: profile_members split: if_splits)
  moreover have "pf_aks a = pf_aks b"
    using m [of "''aks''"] by (cases "pf_aks a"; cases "pf_aks b") (simp_all add: profile_members aks_json_inject)
  moreover have "pf_private_hosts a = pf_private_hosts b"
    using m [of "''private_hosts''"] by (simp add: profile_members inj_JStr split: if_splits)
  moreover have "pf_heimdal a = pf_heimdal b"
    using m [of "''heimdal''"] assms(4,5) heimdal_json_inject
    by (cases "pf_heimdal a"; cases "pf_heimdal b") (simp_all add: profile_members)
  moreover have "pf_registry a = pf_registry b \<and> pf_registry_subscription a = pf_registry_subscription b \<and> pf_subscription a = pf_subscription b
    \<and> pf_bastion_name a = pf_bastion_name b \<and> pf_bastion_resource_group a = pf_bastion_resource_group b
    \<and> pf_vm_resource_id a = pf_vm_resource_id b"
    using m [of "''registry''"] m [of "''registry_subscription''"] m [of "''subscription''"] m [of "''bastion_name''"]
      m [of "''bastion_resource_group''"] m [of "''vm_resource_id''"] by (simp add: profile_members)
  moreover have "pf_proxy_port a = pf_proxy_port b" "pf_socks_port a = pf_socks_port b"
    using m [of "''proxy_port''"] m [of "''socks_port''"] assms(2,3) itoa_inject by (simp_all add: profile_members plain_numbers_def)
  moreover have "pf_max_sessions a = pf_max_sessions b"
    using m [of "''max_sessions''"] assms(2,3) itoa_inject by (auto simp: profile_members plain_numbers_def split: if_splits)
  moreover have "pf_ssh_user a = pf_ssh_user b" "pf_identity_file a = pf_identity_file b"
    using m [of "''ssh_user''"] m [of "''identity_file''"] by (simp_all add: profile_members split: if_splits)
  ultimately show ?thesis by (simp add: transmitted_def profile.equality)
qed

lemma profile_json_transmitted: "profile_json (transmitted c) = profile_json c"
  by (simp add: profile_json_def transmitted_def)

lemma validate_platform_cases:
  assumes "validate_platform c = None"
  shows "case_option None validate_heimdal (pf_heimdal c) = None" "validate_connection c = None" "validate_proxy c = None"
    "0 \<le> pf_max_sessions c"
  using assms by (auto simp: validate_platform_def split: option.splits if_splits)

lemma validated_plain:
  assumes "validate_platform c = None"
  shows "plain_numbers c" "plain_suffixes (pf_heimdal c)"
proof -
  have "valid_port (pf_proxy_port c) \<and> valid_port (pf_socks_port c)"
    using validate_platform_cases(3) [OF assms] by (simp add: validate_proxy_def Let_def split: if_splits)
  then show "plain_numbers c" using validate_platform_cases(4) [OF assms] by (auto simp: plain_numbers_def valid_port_def)
  show "plain_suffixes (pf_heimdal c)"
  proof (cases "pf_heimdal c")
    case (Some h)
    then show ?thesis using validate_platform_cases(1) [OF assms]
      by (auto simp: plain_suffixes_def validate_heimdal_def Let_def split: if_splits option.splits)
  qed (simp add: plain_suffixes_def)
qed

text \<open>What a comparison for a wanted profile looks at.\<close>

definition compared_part :: "profile \<Rightarrow> profile \<Rightarrow> profile" where
  "compared_part wanted c = transmitted (c\<lparr>pf_private_hosts := [],
     pf_proxy_port := if pf_proxy_port wanted = 0 then 0 else pf_proxy_port c,
     pf_socks_port := if pf_socks_port wanted = 0 then 0 else pf_socks_port c\<rparr>)"

lemma itoa_zero: "itoa 0 = ''0''" by code_simp

lemma wf_zero: "wf_json (JNum ''0'')" by code_simp

lemma wf_json_part:
  assumes "wf_json (profile_json c)"
  shows "wf_json (profile_json (c\<lparr>pf_private_hosts := [], pf_proxy_port := if p then 0 else pf_proxy_port c,
     pf_socks_port := if q then 0 else pf_socks_port c\<rparr>))"
  using assms wf_zero
  by (simp add: profile_json_def if_set_def itoa_zero del: wf_json.simps(1))

subsection \<open>When the doctor is content\<close>

lemma failing_pair: "failing (st, l) \<longleftrightarrow> st = MissingTool \<or> st = ActionNeeded"
  by (simp add: failing_def)

lemma failing_tool: "failing (tool_finding sys name) \<longleftrightarrow> dr_look_path sys name = None \<and> name \<notin> {''kubectl'', ''kubelogin''}"
  by (simp add: tool_finding_def failing_pair)

lemma failing_advisory:
  "\<not> list_ex failing (acr_findings sys c session)"
  "\<not> list_ex failing (resource_findings sys c session)"
  "\<not> failing (pull_finding sys c b)"
  by (simp_all add: acr_findings_def resource_findings_def pull_finding_def Let_def failing_pair split: option.split)

lemma failing_tools:
  "list_ex failing (map (tool_finding sys) (doctor_tools c)) \<longleftrightarrow>
     dr_look_path sys ''az'' = None \<or> dr_look_path sys ''ssh'' = None \<or> (pf_registry c \<noteq> [] \<and> dr_look_path sys ''podman'' = None)"
  by (simp add: doctor_tools_def failing_tool)

lemma available_az: "available sys c ''az'' \<longleftrightarrow> dr_look_path sys ''az'' \<noteq> None"
  by (simp add: available_def doctor_tools_def)

lemma available_podman: "available sys c ''podman'' \<longleftrightarrow> pf_registry c \<noteq> [] \<and> dr_look_path sys ''podman'' \<noteq> None"
  by (simp add: available_def doctor_tools_def)

definition azure_ready :: "doctor_system \<Rightarrow> profile \<Rightarrow> bool" where
  "azure_ready sys c \<longleftrightarrow> dr_azure sys [''extension'', ''show'', ''--name'', ''bastion'', ''--output'', ''none'']
     \<and> dr_azure sys [''extension'', ''show'', ''--name'', ''ssh'', ''--output'', ''none'']
     \<and> dr_azure sys [''account'', ''get-access-token'', ''--subscription'', pf_subscription c, ''--output'', ''none'']"

lemma failing_azure:
  "dr_look_path sys ''az'' \<noteq> None \<Longrightarrow> list_ex failing (azure_findings sys c) \<longleftrightarrow> \<not> azure_ready sys c"
  by (auto simp: azure_findings_def available_az azure_ready_def failing_pair)

definition engine_ready :: "doctor_system \<Rightarrow> profile \<Rightarrow> doctor_session option \<Rightarrow> bool" where
  "engine_ready sys c session \<longleftrightarrow> (case session of
       Some s \<Rightarrow> if ds_enabled s then doctor_session_environment sys c s \<and> pf_registry c \<noteq> [] \<and> doctor_session_engine sys s
         else pf_registry c = [] \<or> (\<exists>m. dr_inspected sys = Inr m)
     | None \<Rightarrow> pf_registry c = [] \<or> (\<exists>m. dr_inspected sys = Inr m))"

lemma failing_podman:
  assumes "pf_registry c = [] \<or> (\<exists>p. dr_look_path sys ''podman'' = Some p)"
  shows "list_ex failing (fst (podman_findings sys c session)) \<longleftrightarrow> \<not> engine_ready sys c session"
  using assms
  by (cases session; cases "dr_inspected sys")
    (auto simp: podman_findings_def engine_ready_def available_podman failing_pair Let_def split: option.splits)

lemma platform_doctor_result:
  "snd (platform_doctor sys c session) = None \<longleftrightarrow> validate_platform c = None
     \<and> \<not> list_ex failing (map (tool_finding sys) (doctor_tools c)) \<and> \<not> list_ex failing (azure_findings sys c)
     \<and> \<not> list_ex failing (fst (podman_findings sys c session))"
  by (cases "podman_findings sys c session") (simp add: platform_doctor_def Let_def failing_advisory failing_pair split: option.split)

text \<open>C26. The doctor is content exactly when everything a session needs was found. It succeeds if and only if the profile is valid, the Azure
  CLI, SSH and, for a registry, Podman are on the path, both extensions answer and a token can be obtained, and the engine
  is ready: in a session with the registry enabled the shell's settings are the session's and its engine answers with the
  expected kind, otherwise Podman can be inspected. Missing Kubernetes tools, an unreachable registry or cluster and a failed
  pull never fail it.\<close>

proposition doctor_passes_exactly:
  "snd (platform_doctor sys c session) = None \<longleftrightarrow> validate_platform c = None
     \<and> (\<exists>az ssh. dr_look_path sys ''az'' = Some az \<and> dr_look_path sys ''ssh'' = Some ssh)
     \<and> (pf_registry c = [] \<or> (\<exists>podman. dr_look_path sys ''podman'' = Some podman))
     \<and> azure_ready sys c \<and> engine_ready sys c session"
  using failing_azure [of sys c] failing_podman [of c sys session]
  by (auto simp: platform_doctor_result failing_tools)

subsection \<open>When a session uses a profile\<close>

lemma session_uses_profile_text:
  "session_uses_profile s c \<longleftrightarrow> set (pf_private_hosts c) \<subseteq> set (local_routes s) \<and>
     json_text (profile_json (compared_part c c)) = json_text (profile_json (compared_part c (ds_config s)))"
  by (auto simp: session_uses_profile_def Let_def compared_part_def profile_json_transmitted list_all_iff)

text \<open>C25. The doctor checks a session's connection only for the profile the session uses. A validated profile counts as the session's exactly when
  each of its private hosts is a local route of the session, and it agrees with the session's configuration in every field
  that a status carries, except for the routes and for ports that the profile leaves to the session.\<close>

proposition session_uses_profile_exact:
  assumes "validate_platform c = None" "validate_platform (ds_config s) = None"
    and "wf_json (profile_json c)" "wf_json (profile_json (ds_config s))"
  shows "session_uses_profile s c \<longleftrightarrow>
    set (pf_private_hosts c) \<subseteq> set (local_routes s) \<and> compared_part c c = compared_part c (ds_config s)"
proof -
  have "wf_json (profile_json (compared_part c c))" "wf_json (profile_json (compared_part c (ds_config s)))"
    unfolding compared_part_def profile_json_transmitted using assms(3,4) by (simp_all only: wf_json_part)
  moreover have "plain_numbers (compared_part c d)" "plain_suffixes (pf_heimdal (compared_part c d))" if "validate_platform d = None" for d
    using validated_plain [OF that] by (simp_all add: compared_part_def transmitted_def plain_numbers_def)
  moreover have "transmitted (compared_part c d) = compared_part c d" for d by (simp add: compared_part_def transmitted_def)
  ultimately show ?thesis
    using json_text_inject [of "profile_json (compared_part c c)" "profile_json (compared_part c (ds_config s))"]
      profile_json_inject [of "compared_part c c" "compared_part c (ds_config s)"] assms(1,2)
    by (auto simp: session_uses_profile_text)
qed

definition sample_doctor_session :: doctor_session where
  "sample_doctor_session = \<lparr>ds_unavailable = False, ds_kubeconfig = [], ds_config = sample_profile, ds_local_hosts = None,
     ds_profile_environment = [], ds_enabled = False, ds_login_refreshed = False, ds_machine = False, ds_environment = (\<lambda>_. [])\<rparr>"

lemma sample_profile_json: "wf_json (profile_json sample_profile)"
proof -
  have "utf8 s" if "list_all is_ascii s" for s using that by (rule utf8_ascii)
  moreover have "list_all is_ascii ''/subscriptions/a-1/resourceGroups/rg/providers/Microsoft.Compute/virtualMachines/vm''"
    by (simp add: is_ascii_def)
  moreover have "wf_json (JNum ''0'')" by code_simp
  ultimately show ?thesis
    by (simp add: profile_json_def if_set_def aks_json_def sample_profile_def empty_profile_def itoa_zero is_ascii_def del: wf_json.simps(1))
qed

lemma session_uses_profile_exact_witness: "session_uses_profile sample_doctor_session sample_profile"
  using session_uses_profile_exact [of sample_profile sample_doctor_session] sample_profile_valid sample_profile_json
  by (simp add: sample_doctor_session_def local_routes_def)

text \<open>In particular a session started from a profile counts as that profile's, whatever routes and ports it added.\<close>

lemma own_session_matches:
  assumes "set (pf_private_hosts c) \<subseteq> set (ss_local_private_hosts st)"
    and "ss_config st = c\<lparr>pf_private_hosts := hosts, pf_proxy_port := p, pf_socks_port := q\<rparr>"
    and "pf_proxy_port c = 0 \<or> p = pf_proxy_port c" "pf_socks_port c = 0 \<or> q = pf_socks_port c"
  shows "match_session_profile (received st) c = (c\<lparr>pf_proxy_port := p, pf_socks_port := q\<rparr>, True)"
proof -
  have "compared_part c c = compared_part c (ds_config (received st))"
    using assms(2-4) by (auto simp: compared_part_def transmitted_def received_def)
  then have "session_uses_profile (received st) c"
    unfolding session_uses_profile_text using assms(1) by (simp add: received_def local_routes_def)
  then show ?thesis using assms(2) by (simp add: match_session_profile_def received_def transmitted_def)
qed

end
