(* ===== verification/Terraform_Doctor.thy ===== *)
theory Terraform_Doctor
  imports Doctor Azure Heimdal_Session
begin

section \<open>The Terraform doctor\<close>

text \<open>
  \<open>internal/session/terraform_doctor.go\<close>: the checks of a Terraform backend inside or outside a session, in the order of the
  code, and the command it suggests for reconnecting. A line of the report has what its text depends on.
\<close>

datatype terraform_error = BadTarget backend_error | TerraformInsideRun | MarkersIncomplete | SessionUnavailable | SessionProxyUnavailable
  | TerraformEndpoint azure_error | ProbeStopped azure_error | BackendNeedsAttention

definition contains_exact_host :: "string list \<Rightarrow> string \<Rightarrow> bool" where
  "contains_exact_host hosts target = list_ex (\<lambda>h. h = target) hosts"

subsection \<open>The suggestion\<close>

text \<open>Either a complete command for this shell, or the option to add, with whether a session has to be left first.\<close>

datatype route_hint = SwitchWith "string list" | AddOption string bool

definition switch_hint_arguments :: "doctor_session \<Rightarrow> string \<Rightarrow> string list" where
  "switch_hint_arguments s host =
     [''bivrost'', ''switch'', ''-e'', ds_profile_environment s]
     @ concat (map (\<lambda>h. [''--private-host'', h]) (local_routes s))
     @ (if contains_exact_host (local_routes s) host then [] else [''--private-host'', host])
     @ (if ds_enabled s then [''--acr''] else [])"

definition terraform_route_hint :: "string \<Rightarrow> doctor_session option \<Rightarrow> bool \<Rightarrow> route_hint" where
  "terraform_route_hint host session switch_allowed =
     (case session of
        Some s \<Rightarrow>
          if switch_allowed \<and> valid_environment_name (ds_profile_environment s) \<and> ds_profile_environment s \<noteq> ''custom-profile''
              \<and> \<not> (ds_enabled s \<and> \<not> ds_login_refreshed s)
          then SwitchWith (switch_hint_arguments s host) else AddOption host True
      | None \<Rightarrow> AddOption host False)"

subsection \<open>The checks\<close>

datatype terraform_line =
    TargetLine terraform_backend | ConnectionLine string string | EndpointLine string
  | AmbientRoute | PrivateRoute | SessionRoute | HintLine route_hint
  | MetadataProblem string | MetadataVerified

text \<open>\<open>ts_proxy\<close> is \<open>checkProxy\<close> without a bridge; the Azure CLI's answers depend on the environment it is given.\<close>

record terraform_system =
  ts_getenv :: "string \<Rightarrow> string"
  ts_environ :: "string list"
  ts_status :: "(nat \<times> doctor_session option) option"
  ts_proxy :: "profile \<Rightarrow> proxy_error err"
  ts_cancelled :: bool
  ts_cloud :: "string list \<Rightarrow> cli_run"
  ts_probe :: "string list \<Rightarrow> cli_run"

text \<open>The session a probe goes through, if any.\<close>

definition terraform_session :: "terraform_system \<Rightarrow> (terraform_error, doctor_session option) res" where
  "terraform_session sys =
     (let session = ts_getenv sys ''BIVROST_SESSION''; control = ts_getenv sys ''BIVROST_CONTROL_FILE'' in
      if session = [] \<and> control = [] then Inr None
      else if ts_getenv sys run_marker = ''1'' then Inl TerraformInsideRun
      else if session = [] \<or> control = [] then Inl MarkersIncomplete
      else case current_doctor_session (ts_status sys) of Inl _ \<Rightarrow> Inl SessionUnavailable
        | Inr s \<Rightarrow> if ts_proxy sys (ds_config s) \<noteq> None then Inl SessionProxyUnavailable else Inr (Some s))"

definition terraform_environment :: "terraform_system \<Rightarrow> doctor_session option \<Rightarrow> string list" where
  "terraform_environment sys session = (case session of None \<Rightarrow> ts_environ sys
     | Some s \<Rightarrow> proxy_environment (ts_environ sys) (proxy_url (ds_config s)))"

definition routing_lines :: "terraform_system \<Rightarrow> doctor_session option \<Rightarrow> string \<Rightarrow> terraform_line list" where
  "routing_lines sys session host =
     (case session of None \<Rightarrow> [AmbientRoute]
      | Some s \<Rightarrow> if contains_exact_host (pf_private_hosts (ds_config s)) host then [PrivateRoute] else [SessionRoute])
     @ (if (case session of None \<Rightarrow> True | Some s \<Rightarrow> \<not> contains_exact_host (pf_private_hosts (ds_config s)) host)
        then [HintLine (terraform_route_hint host session (ts_getenv sys ''BIVROST_SWITCH_ALLOWED'' = ''1''))] else [])"

definition run_terraform_doctor :: "terraform_system \<Rightarrow> command \<Rightarrow> terraform_line list \<times> terraform_error err" where
  "run_terraform_doctor sys command =
     (let target = \<lparr>tb_subscription = cmd_subscription command, tb_account = cmd_account command, tb_container = cmd_container command\<rparr> in
      case validate_terraform_backend target of Some e \<Rightarrow> ([], Some (BadTarget e)) | None \<Rightarrow>
      case terraform_session sys of Inl e \<Rightarrow> ([], Some e) | Inr session \<Rightarrow>
      let environment = terraform_environment sys session in
      case terraform_blob_endpoint (ts_cancelled sys) (tb_account target) (ts_cloud sys environment) of
        Inl e \<Rightarrow> ([], Some (TerraformEndpoint e))
      | Inr endpoint \<Rightarrow>
          let lines = [TargetLine target]
              @ (case session of None \<Rightarrow> [] | Some s \<Rightarrow> [ConnectionLine (ds_profile_environment s) (pf_subscription (ds_config s))])
              @ [EndpointLine endpoint] @ routing_lines sys session (trim_prefix endpoint ''https://'') in
          (case probe_terraform_backend (ts_cancelled sys) target endpoint (ts_probe sys environment) of
             None \<Rightarrow> (lines @ [MetadataVerified], None)
           | Some CtxDone \<Rightarrow> (lines, Some (ProbeStopped CtxDone))
           | Some e \<Rightarrow> (lines @ [MetadataProblem (terraform_probe_guidance e)], Some BackendNeedsAttention)))"

subsection \<open>The suggested command works\<close>

lemma parse_host_options:
  "parse_flags (connection_flags Switch False) (concat (map (\<lambda>h. [''--private-host'', h]) hs) @ rest) =
     (case parse_flags (connection_flags Switch False) rest of Inl e \<Rightarrow> Inl e
      | Inr (ss, args) \<Rightarrow> Inr (map (\<lambda>h. (''private-host'', VText h)) hs @ ss, args))"
proof (induction hs)
  case Nil
  show ?case by (simp split: sum.split prod.split)
next
  case (Cons h hs)
  have "map_of (connection_flags Switch False) ''private-host'' = Some TextFlag"
    by (simp add: connection_flags_def debug_flags_def)
  then show ?case
    using parse_flags_text(2) [of "connection_flags Switch False" "''private-host''" h] Cons
    by (simp add: add_setting_def del: parse_flags.simps split: sum.split prod.split)
qed

lemma parse_acr_option:
  "parse_flags (connection_flags Switch False) (if acr then [''--acr''] else []) =
     Inr (if acr then [(''acr'', VBool True)] else [], [])"
  by (simp add: connection_flags_def debug_flags_def flag_name_def Let_def add_setting_def)

lemma parse_switch:
  assumes "valid_environment_name e" "check_private_hosts hs = None"
  shows "parse_args ([''switch'', ''-e'', e] @ concat (map (\<lambda>h. [''--private-host'', h]) hs) @ (if acr then [''--acr''] else []))
    = Inr ((command_of Switch)\<lparr>cmd_environment := e, cmd_private_hosts := hs, cmd_acr := acr\<rparr>)"
proof -
  let ?spec = "connection_flags Switch False"
  let ?ss = "(''e'', VText e) # map (\<lambda>h. (''private-host'', VText h)) hs @ (if acr then [(''acr'', VBool True)] else [])"
  let ?rest = "concat (map (\<lambda>h. [''--private-host'', h]) hs) @ (if acr then [''--acr''] else [])"
  have e: "map_of ?spec ''e'' = Some TextFlag" by (simp add: connection_flags_def debug_flags_def)
  have parsed: "parse_flags ?spec ([''-e'', e] @ ?rest) = Inr (?ss, [])"
    using parse_flags_text(1) [OF e, of e ?rest]
    by (simp add: parse_host_options parse_acr_option add_setting_def del: parse_flags.simps)
  have folds: "foldl (\<lambda>acc (n, v). case v of VText t \<Rightarrow> if n \<in> set names then t else acc | _ \<Rightarrow> acc) d (map (\<lambda>h. (''private-host'', VText h)) hs) = d"
    if "''private-host'' \<notin> set names" for names and d :: string
    using that by (intro foldl_ignored) (simp add: list_all_iff)
  have bfolds: "foldl (\<lambda>acc (n, v). case v of VBool b \<Rightarrow> if n \<in> set names then b else acc | _ \<Rightarrow> acc) d (map (\<lambda>h. (''private-host'', VText h)) hs) = d"
    for names and d :: bool
    by (intro foldl_ignored) (simp add: list_all_iff)
  have hosts: "concat (map (\<lambda>(n, v). case v of VText t \<Rightarrow> if n = ''private-host'' then [t] else [] | _ \<Rightarrow> []) (map (\<lambda>h. (''private-host'', VText h)) hs)) = hs"
    by (induction hs) simp_all
  have command: "connection_command Switch ?ss [] = (command_of Switch)\<lparr>cmd_environment := e, cmd_private_hosts := hs, cmd_acr := acr\<rparr>"
    using hosts by (simp add: connection_command_def text_of_def bool_of_def texts_of_def folds bfolds command_of_def comp_def)
  have set: "was_set [''env'', ''e''] ?ss" "\<not> was_set [''config'', ''c''] ?ss" by (auto simp: was_set_def list_ex_iff)
  have "check_connection Switch ''switch'' ?ss [] = Inr ((command_of Switch)\<lparr>cmd_environment := e, cmd_private_hosts := hs, cmd_acr := acr\<rparr>)"
    unfolding check_connection_def command Let_def using assms set by (simp add: command_of_def)
  then have "parse_connection Switch ''switch'' ([''-e'', e] @ ?rest) False = Inr ((command_of Switch)\<lparr>cmd_environment := e, cmd_private_hosts := hs, cmd_acr := acr\<rparr>)"
    unfolding parse_connection_def parsed by simp
  then show ?thesis
    by (simp add: parse_args_def parse_command_def is_help_def)
qed

text \<open>The words stay words when they are printed with blanks in between.\<close>

lemma environment_name_no_blank: "valid_environment_name e \<Longrightarrow> CHR '' '' \<notin> set e"
proof -
  have "\<not> is_lower CHR '' ''" "\<not> lower_or_digit CHR '' ''" by (simp_all add: lower_or_digit_def is_lower_def is_digit_def)
  then show "valid_environment_name e \<Longrightarrow> CHR '' '' \<notin> set e" by (auto simp: valid_environment_name_iff list_all_iff)
qed

lemma private_host_no_blank: "check_private_hosts hs = None \<Longrightarrow> h \<in> set hs \<Longrightarrow> CHR '' '' \<notin> set h"
  using remote.valid_clean [of h "CHR '' ''"] by (auto simp: check_private_hosts_iff)

definition hinted_hosts :: "doctor_session \<Rightarrow> string \<Rightarrow> string list" where
  "hinted_hosts s host = local_routes s @ (if contains_exact_host (local_routes s) host then [] else [host])"

lemma switch_hint_parses:
  assumes "valid_environment_name (ds_profile_environment s)" "check_private_hosts (hinted_hosts s host) = None"
  shows "parse_args (tl (split_on CHR '' '' (join '' '' (switch_hint_arguments s host)))) =
    Inr ((command_of Switch)\<lparr>cmd_environment := ds_profile_environment s, cmd_private_hosts := hinted_hosts s host, cmd_acr := ds_enabled s\<rparr>)"
proof -
  have words: "switch_hint_arguments s host = ''bivrost'' # [''switch'', ''-e'', ds_profile_environment s]
      @ concat (map (\<lambda>h. [''--private-host'', h]) (hinted_hosts s host)) @ (if ds_enabled s then [''--acr''] else [])"
    by (simp add: switch_hint_arguments_def hinted_hosts_def)
  have "CHR '' '' \<notin> set w" if "w \<in> set (switch_hint_arguments s host)" for w
    using that environment_name_no_blank [OF assms(1)] private_host_no_blank [OF assms(2)]
    by (auto simp: words split: if_splits)
  then have "split_on CHR '' '' (join '' '' (switch_hint_arguments s host)) = switch_hint_arguments s host"
    by (intro split_on_join) (auto simp: words)
  then show ?thesis using parse_switch [OF assms, of "ds_enabled s"] by (simp add: words)
qed

lemma doctor_hints:
  assumes "HintLine hint \<in> set (fst (run_terraform_doctor sys command))"
  obtains session endpoint run where "terraform_session sys = Inr session"
    "terraform_blob_endpoint (ts_cancelled sys) (cmd_account command) run = Inr endpoint"
    "hint = terraform_route_hint (trim_prefix endpoint ''https://'') session (ts_getenv sys ''BIVROST_SWITCH_ALLOWED'' = ''1'')"
  using assms that
  by (fastforce simp: run_terraform_doctor_def routing_lines_def Let_def split: option.splits sum.splits azure_error.splits if_splits)

text \<open>C24. The reconnection that the Terraform doctor suggests does what it says. When it prints a complete \<open>bivrost switch\<close> command, the printed words
  are read back by the command line as a switch to the session's own environment, with all of its local routes, the
  endpoint's host, and the registry when it is enabled, provided the session's local routes are ones Bivrost accepts.\<close>

proposition suggested_switch_reconnects:
  assumes "HintLine (SwitchWith words) \<in> set (fst (run_terraform_doctor sys command))"
    and "terraform_session sys = Inr (Some s)" "check_private_hosts (local_routes s) = None"
  shows "\<exists>host hosts. parse_args (tl (split_on CHR '' '' (join '' '' words))) =
      Inr ((command_of Switch)\<lparr>cmd_environment := ds_profile_environment s, cmd_private_hosts := hosts, cmd_acr := ds_enabled s\<rparr>)
    \<and> set hosts = insert host (set (local_routes s)) \<and> has_prefix host (cmd_account command @ ''.blob.'')"
proof -
  obtain session endpoint run where d: "terraform_session sys = Inr session"
    "terraform_blob_endpoint (ts_cancelled sys) (cmd_account command) run = Inr endpoint"
    "SwitchWith words = terraform_route_hint (trim_prefix endpoint ''https://'') session (ts_getenv sys ''BIVROST_SWITCH_ALLOWED'' = ''1'')"
    using doctor_hints [OF assms(1)] by metis
  define host where "host = trim_prefix endpoint ''https://''"
  obtain suffix where e: "endpoint = ''https://'' @ cmd_account command @ ''.blob.'' @ suffix" "check_private_hosts [host] = None"
    using terraform_blob_endpoint_routable [OF d(2)] by (auto simp: host_def)
  have h: "host = cmd_account command @ ''.blob.'' @ suffix"
    using trim_prefix_append [of "''https://''" "cmd_account command @ ''.blob.'' @ suffix"] by (simp add: host_def e(1))
  have w: "valid_environment_name (ds_profile_environment s)" "words = switch_hint_arguments s host"
    using d(3) assms(2) d(1) by (auto simp: terraform_route_hint_def host_def split: if_splits)
  have "check_private_hosts (hinted_hosts s host) = None"
    using assms(3) e(2) unfolding hinted_hosts_def check_private_hosts_iff by simp
  from switch_hint_parses [OF w(1) this] have "parse_args (tl (split_on CHR '' '' (join '' '' words))) =
      Inr ((command_of Switch)\<lparr>cmd_environment := ds_profile_environment s, cmd_private_hosts := hinted_hosts s host, cmd_acr := ds_enabled s\<rparr>)"
    by (simp add: w(2))
  moreover have "set (hinted_hosts s host) = insert host (set (local_routes s))"
    by (auto simp: hinted_hosts_def contains_exact_host_def list_ex_iff)
  moreover have "has_prefix host (cmd_account command @ ''.blob.'')" by (simp add: has_prefix_iff h)
  ultimately show ?thesis by blast
qed

lemma session_hint:
  assumes "validate_terraform_backend \<lparr>tb_subscription = cmd_subscription command, tb_account = cmd_account command, tb_container = cmd_container command\<rparr> = None"
    and "terraform_session sys = Inr (Some s)" "\<not> contains_exact_host (pf_private_hosts (ds_config s)) (trim_prefix endpoint ''https://'')"
    and "terraform_blob_endpoint (ts_cancelled sys) (cmd_account command) (ts_cloud sys (terraform_environment sys (Some s))) = Inr endpoint"
  shows "HintLine (terraform_route_hint (trim_prefix endpoint ''https://'') (Some s) (ts_getenv sys ''BIVROST_SWITCH_ALLOWED'' = ''1''))
    \<in> set (fst (run_terraform_doctor sys command))"
  using assms by (simp add: run_terraform_doctor_def Let_def routing_lines_def split: option.split azure_error.split)

definition sample_terraform_session :: doctor_session where
  "sample_terraform_session = \<lparr>ds_unavailable = False, ds_kubeconfig = [], ds_config = sample_profile, ds_local_hosts = Some [''db.demo.internal''],
     ds_profile_environment = ''lab'', ds_enabled = True, ds_login_refreshed = True, ds_machine = False, ds_environment = (\<lambda>_. [])\<rparr>"

definition sample_terraform_system :: terraform_system where
  "sample_terraform_system = \<lparr>ts_getenv = (\<lambda>k. if k = run_marker then [] else ''1''), ts_environ = [],
     ts_status = Some (200, Some sample_terraform_session), ts_proxy = (\<lambda>_. None), ts_cancelled = False,
     ts_cloud = (\<lambda>_. sample_cloud_run), ts_probe = (\<lambda>_. sample_cloud_run)\<rparr>"

definition sample_terraform_command :: command where
  "sample_terraform_command = (command_of TerraformDoctor)\<lparr>cmd_subscription := ''sub'', cmd_account := ''demoacct1'', cmd_container := ''heimdal''\<rparr>"

lemma sample_terraform_hint:
  "HintLine (SwitchWith [''bivrost'', ''switch'', ''-e'', ''lab'', ''--private-host'', ''db.demo.internal'',
      ''--private-host'', ''demoacct1.blob.core.windows.net'', ''--acr''])
    \<in> set (fst (run_terraform_doctor sample_terraform_system sample_terraform_command))"
  and sample_terraform_current: "terraform_session sample_terraform_system = Inr (Some sample_terraform_session)"
proof -
  have target: "validate_terraform_backend \<lparr>tb_subscription = ''sub'', tb_account = ''demoacct1'', tb_container = ''heimdal''\<rparr> = None"
    using sample_backend_valid by (simp add: sample_backend_def)
  have name: "valid_environment_name ''lab''"
    by (simp add: valid_environment_name_iff lower_or_digit_def is_lower_def is_digit_def)
  have marker: "run_marker \<noteq> ''BIVROST_SESSION''" "run_marker \<noteq> ''BIVROST_CONTROL_FILE''" "run_marker \<noteq> ''BIVROST_SWITCH_ALLOWED''"
    by (simp_all add: run_marker_def)
  show session: "terraform_session sample_terraform_system = Inr (Some sample_terraform_session)"
    using marker sample_profile_valid
    by (simp add: terraform_session_def sample_terraform_system_def current_doctor_session_def sample_terraform_session_def Let_def)
  let ?host = "''demoacct1.blob.core.windows.net''"
  have host: "trim_prefix ''https://demoacct1.blob.core.windows.net'' ''https://'' = ?host"
    using trim_prefix_append [of "''https://''" ?host] by simp
  have unrouted: "\<not> contains_exact_host (pf_private_hosts (ds_config sample_terraform_session)) ?host"
    by (simp add: contains_exact_host_def sample_terraform_session_def sample_profile_def empty_profile_def)
  have answers: "terraform_blob_endpoint (ts_cancelled sample_terraform_system) (cmd_account sample_terraform_command)
      (ts_cloud sample_terraform_system (terraform_environment sample_terraform_system (Some sample_terraform_session)))
      = Inr ''https://demoacct1.blob.core.windows.net''"
    using sample_cloud_endpoint by (simp add: sample_terraform_system_def sample_terraform_command_def)
  have "terraform_route_hint ?host (Some sample_terraform_session) (ts_getenv sample_terraform_system ''BIVROST_SWITCH_ALLOWED'' = ''1'')
      = SwitchWith [''bivrost'', ''switch'', ''-e'', ''lab'', ''--private-host'', ''db.demo.internal'', ''--private-host'', ?host, ''--acr'']"
    using name marker(3) by (simp add: terraform_route_hint_def sample_terraform_session_def sample_terraform_system_def
        switch_hint_arguments_def local_routes_def contains_exact_host_def)
  moreover have "HintLine (terraform_route_hint ?host (Some sample_terraform_session) (ts_getenv sample_terraform_system ''BIVROST_SWITCH_ALLOWED'' = ''1''))
      \<in> set (fst (run_terraform_doctor sample_terraform_system sample_terraform_command))"
    using session_hint [OF _ session _ answers] target unrouted by (simp add: host sample_terraform_command_def)
  ultimately show "HintLine (SwitchWith [''bivrost'', ''switch'', ''-e'', ''lab'', ''--private-host'', ''db.demo.internal'',
      ''--private-host'', ''demoacct1.blob.core.windows.net'', ''--acr''])
    \<in> set (fst (run_terraform_doctor sample_terraform_system sample_terraform_command))" by simp
qed

lemma suggested_switch_reconnects_witness:
  "\<exists>hosts. parse_args [''switch'', ''-e'', ''lab'', ''--private-host'', ''db.demo.internal'', ''--private-host'', ''demoacct1.blob.core.windows.net'', ''--acr'']
    = Inr ((command_of Switch)\<lparr>cmd_environment := ''lab'', cmd_private_hosts := hosts, cmd_acr := True\<rparr>)"
proof -
  have routes: "check_private_hosts (local_routes sample_terraform_session) = None"
    by (simp add: local_routes_def sample_terraform_session_def del: check_private_hosts.simps) code_simp
  show ?thesis
    using suggested_switch_reconnects [OF sample_terraform_hint sample_terraform_current routes]
    by (auto simp: sample_terraform_session_def)
qed

subsection \<open>When the backend counts as verified\<close>

lemma terraform_doctor_verified:
  "snd (run_terraform_doctor sys command) = None \<longleftrightarrow>
    (let target = \<lparr>tb_subscription = cmd_subscription command, tb_account = cmd_account command, tb_container = cmd_container command\<rparr> in
      validate_terraform_backend target = None \<and>
      (\<exists>session endpoint. terraform_session sys = Inr session
        \<and> terraform_blob_endpoint (ts_cancelled sys) (cmd_account command) (ts_cloud sys (terraform_environment sys session)) = Inr endpoint
        \<and> probe_terraform_backend (ts_cancelled sys) target endpoint (ts_probe sys (terraform_environment sys session)) = None))"
  by (auto simp: run_terraform_doctor_def Let_def split: option.splits sum.splits azure_error.splits)

end
