(* ===== verification/Tunnel.thy ===== *)
theory Tunnel
  imports Prelude
begin

section \<open>An established tunnel\<close>

text \<open>
  \<open>tunnelWithIdleTimeout\<close> of \<open>internal/proxy/proxy.go\<close>: two goroutines copy bytes, one from the client to the upstream
  connection and one back, and every transfer moves the deadline of both connections. Each is \<open>io.Copy\<close>'s loop: a read, then a
  write of what was read. Whatever the network does, and however the goroutines interleave, is a run of the step
  relation; the deadlines are set under one lock, as in the code. Times are seconds.
\<close>

datatype side = Client | Upstream

fun other :: "side \<Rightarrow> side" where
  "other Client = Upstream"
| "other Upstream = Client"

lemma other_other [simp]: "other (other d) = d"
  by (cases d) simp_all

lemma other_neq [simp]: "other d \<noteq> d" "d \<noteq> other d"
  by (cases d; simp)+

lemma side_cases: "e = d \<or> e = other d"
  by (cases e; cases d) simp_all

text \<open>A copy is in its read, in its write with whether the read has also reported the end, or over.\<close>

datatype copying = Reading | Writing string bool | Finished

datatype closing = Running | ClientClosed | BothClosed | Returned

record tunnel =
  tn_now :: nat
  tn_deadline :: "side \<Rightarrow> nat"
  tn_sent :: "side \<Rightarrow> string"
  tn_read :: "side \<Rightarrow> string"
  tn_written :: "side \<Rightarrow> string"
  tn_copy :: "side \<Rightarrow> copying"
  tn_closed :: "side \<Rightarrow> bool"
  tn_main :: closing

definition idle_timeout :: nat where "idle_timeout = 5 * 60"

definition touch :: "tunnel \<Rightarrow> tunnel" where
  "touch t = t\<lparr>tn_deadline := (\<lambda>_. tn_now t + idle_timeout)\<rparr>"

definition start_tunnel :: "nat \<Rightarrow> tunnel" where
  "start_tunnel now = touch \<lparr>tn_now = now, tn_deadline = (\<lambda>_. 0), tn_sent = (\<lambda>_. []), tn_read = (\<lambda>_. []), tn_written = (\<lambda>_. []),
     tn_copy = (\<lambda>_. Reading), tn_closed = (\<lambda>_. False), tn_main = Running\<rparr>"

text \<open>\<open>Read\<close> of an \<open>activityConn\<close> and what the copy does with its result; a read without data goes on unless it failed.\<close>

definition after_read :: "side \<Rightarrow> string \<Rightarrow> bool \<Rightarrow> tunnel \<Rightarrow> tunnel" where
  "after_read d data failed t =
     (let t = t\<lparr>tn_read := (tn_read t)(d := tn_read t d @ data),
        tn_copy := (tn_copy t)(d := if data \<noteq> [] then Writing data failed else if failed then Finished else Reading)\<rparr>
      in if data \<noteq> [] then touch t else t)"

text \<open>\<open>Write\<close> of the first \<open>n\<close> bytes; a short or failed write ends the copy, as does the end that the read has reported.\<close>

definition after_write :: "side \<Rightarrow> string \<Rightarrow> bool \<Rightarrow> nat \<Rightarrow> bool \<Rightarrow> tunnel \<Rightarrow> tunnel" where
  "after_write d data ended n failed t =
     (let t = t\<lparr>tn_written := (tn_written t)(other d := tn_written t (other d) @ take n data),
        tn_copy := (tn_copy t)(d := if failed \<or> n \<noteq> length data \<or> ended then Finished else Reading)\<rparr>
      in if n > 0 then touch t else t)"

text \<open>Bytes pass a connection while it is open and its deadline is ahead.\<close>

definition usable :: "tunnel \<Rightarrow> side \<Rightarrow> bool" where
  "usable t d \<longleftrightarrow> \<not> tn_closed t d \<and> tn_now t < tn_deadline t d"

definition pending :: "tunnel \<Rightarrow> side \<Rightarrow> string" where
  "pending t d = drop (length (tn_read t d)) (tn_sent t d)"

text \<open>The steps of the tunnel itself. A read without data has failed, and every step that fails may do so at any time.\<close>

inductive own_step :: "tunnel \<Rightarrow> tunnel \<Rightarrow> bool" where
  read_bytes: "tn_copy t d = Reading \<Longrightarrow> pending t d = data @ rest \<Longrightarrow> data = [] \<and> failed \<or> data \<noteq> [] \<and> usable t d \<Longrightarrow>
     own_step t (after_read d data failed t)"
| write_bytes: "tn_copy t d = Writing data ended \<Longrightarrow> n \<le> length data \<Longrightarrow> n = 0 \<or> usable t (other d) \<Longrightarrow> n = length data \<or> failed \<Longrightarrow>
     own_step t (after_write d data ended n failed t)"
| close_client: "tn_main t = Running \<Longrightarrow> tn_copy t d = Finished \<Longrightarrow>
     own_step t (t\<lparr>tn_closed := (tn_closed t)(Client := True), tn_main := ClientClosed\<rparr>)"
| close_upstream: "tn_main t = ClientClosed \<Longrightarrow>
     own_step t (t\<lparr>tn_closed := (tn_closed t)(Upstream := True), tn_main := BothClosed\<rparr>)"
| return: "tn_main t = BothClosed \<Longrightarrow> tn_copy t Client = Finished \<Longrightarrow> tn_copy t Upstream = Finished \<Longrightarrow>
     own_step t (t\<lparr>tn_main := Returned\<rparr>)"

text \<open>Meanwhile time passes and the peers send.\<close>

inductive tunnel_step :: "tunnel \<Rightarrow> tunnel \<Rightarrow> bool" where
  own: "own_step t u \<Longrightarrow> tunnel_step t u"
| time: "tn_now t \<le> now \<Longrightarrow> tunnel_step t (t\<lparr>tn_now := now\<rparr>)"
| peer: "tunnel_step t (t\<lparr>tn_sent := (tn_sent t)(d := tn_sent t d @ data)\<rparr>)"

inductive tunnel_reachable :: "tunnel \<Rightarrow> bool" where
  start: "tunnel_reachable (start_tunnel now)"
| step: "tunnel_reachable t \<Longrightarrow> tunnel_step t u \<Longrightarrow> tunnel_reachable u"

subsection \<open>What a tunnel carries\<close>

text \<open>What was read and is not written yet; nothing is once the copy is over, because then it is lost.\<close>

definition in_flight :: "tunnel \<Rightarrow> side \<Rightarrow> string" where
  "in_flight t d = (case tn_copy t d of Writing data _ \<Rightarrow> data | _ \<Rightarrow> [])"

definition direction_inv :: "tunnel \<Rightarrow> side \<Rightarrow> bool" where
  "direction_inv t d \<longleftrightarrow> tn_sent t d = tn_read t d @ pending t d \<and>
     (if tn_copy t d = Finished then \<exists>lost. tn_read t d = tn_written t (other d) @ lost
      else tn_read t d = tn_written t (other d) @ in_flight t d)"

definition main_inv :: "tunnel \<Rightarrow> bool" where
  "main_inv t \<longleftrightarrow> (tn_closed t Client \<longleftrightarrow> tn_main t \<noteq> Running) \<and> (tn_closed t Upstream \<longleftrightarrow> tn_main t = BothClosed \<or> tn_main t = Returned)
     \<and> (tn_main t = Running \<or> tn_copy t Client = Finished \<or> tn_copy t Upstream = Finished)
     \<and> (tn_main t = Returned \<longrightarrow> tn_copy t Client = Finished \<and> tn_copy t Upstream = Finished)"

lemma touch_fields [simp]:
  "tn_now (touch t) = tn_now t" "tn_sent (touch t) = tn_sent t" "tn_read (touch t) = tn_read t" "tn_written (touch t) = tn_written t"
  "tn_copy (touch t) = tn_copy t" "tn_closed (touch t) = tn_closed t" "tn_main (touch t) = tn_main t"
  "tn_deadline (touch t) = (\<lambda>_. tn_now t + idle_timeout)"
  by (simp_all add: touch_def)

lemma after_read_fields [simp]:
  "tn_sent (after_read d data failed t) = tn_sent t" "tn_written (after_read d data failed t) = tn_written t"
  "tn_read (after_read d data failed t) = (tn_read t)(d := tn_read t d @ data)"
  "tn_copy (after_read d data failed t) = (tn_copy t)(d := if data \<noteq> [] then Writing data failed else if failed then Finished else Reading)"
  "tn_closed (after_read d data failed t) = tn_closed t" "tn_main (after_read d data failed t) = tn_main t"
  "tn_deadline (after_read d data failed t) = (if data \<noteq> [] then (\<lambda>_. tn_now t + idle_timeout) else tn_deadline t)"
  by (simp_all add: after_read_def Let_def)

lemma after_write_fields [simp]:
  "tn_sent (after_write d data ended n failed t) = tn_sent t" "tn_read (after_write d data ended n failed t) = tn_read t"
  "tn_written (after_write d data ended n failed t) = (tn_written t)(other d := tn_written t (other d) @ take n data)"
  "tn_copy (after_write d data ended n failed t) = (tn_copy t)(d := if failed \<or> n \<noteq> length data \<or> ended then Finished else Reading)"
  "tn_closed (after_write d data ended n failed t) = tn_closed t" "tn_main (after_write d data ended n failed t) = tn_main t"
  "tn_deadline (after_write d data ended n failed t) = (if n > 0 then (\<lambda>_. tn_now t + idle_timeout) else tn_deadline t)"
  by (simp_all add: after_write_def Let_def)

lemma pending_simps [simp]:
  "pending (t\<lparr>tn_now := n\<rparr>) d = pending t d" "pending (t\<lparr>tn_main := m\<rparr>) d = pending t d"
  "pending (t\<lparr>tn_closed := c\<rparr>) d = pending t d"
  "pending (after_write e data ended n failed t) d = pending t d"
  "pending (after_read e data failed t) d = (if e = d then drop (length data) (pending t d) else pending t d)"
  by (simp_all add: pending_def drop_drop add.commute)

lemma own_step_direction:
  assumes "own_step t u" "direction_inv t e"
  shows "direction_inv u e"
  using assms
proof (induction rule: own_step.induct)
  case (read_bytes t d data rest failed)
  then show ?case by (cases "e = d") (auto simp: direction_inv_def in_flight_def)
next
  case (write_bytes t d data ended n failed)
  show ?case
  proof (cases "e = d")
    case True
    have r: "tn_read t d = tn_written t (other d) @ data"
      using write_bytes True by (simp add: direction_inv_def in_flight_def)
    have "tn_read t d = (tn_written t (other d) @ take n data) @ drop n data" by (simp add: r)
    then have "\<exists>lost. tn_read t d = (tn_written t (other d) @ take n data) @ lost" by blast
    then show ?thesis using write_bytes True r by (simp add: direction_inv_def in_flight_def)
  next
    case False
    then have "other e \<noteq> other d" by (metis other_other)
    then show ?thesis using write_bytes False by (simp add: direction_inv_def in_flight_def)
  qed
qed (simp_all add: direction_inv_def in_flight_def)

lemma tunnel_step_direction: "tunnel_step t u \<Longrightarrow> direction_inv t e \<Longrightarrow> direction_inv u e"
proof (induction rule: tunnel_step.induct)
  case (own t u)
  then show ?case by (rule own_step_direction)
next
  case (time t now)
  then show ?case by (simp add: direction_inv_def in_flight_def)
next
  case (peer t d data)
  then have "length (tn_read t e) \<le> length (tn_sent t e)" by (metis direction_inv_def length_append le_add1)
  then show ?case using peer by (auto simp: direction_inv_def in_flight_def pending_def)
qed

lemma own_step_main: "own_step t u \<Longrightarrow> main_inv t \<Longrightarrow> main_inv u"
proof (induction rule: own_step.induct)
  case (read_bytes t d data rest failed)
  then show ?case by (cases d) (auto simp: main_inv_def)
next
  case (write_bytes t d data ended n failed)
  then show ?case by (cases d) (auto simp: main_inv_def)
next
  case (close_client t d)
  then show ?case by (cases d) (simp_all add: main_inv_def)
qed (simp_all add: main_inv_def)

lemma tunnel_step_main: "tunnel_step t u \<Longrightarrow> main_inv t \<Longrightarrow> main_inv u"
  by (induction rule: tunnel_step.induct) (simp_all add: own_step_main, simp_all add: main_inv_def)

text \<open>A write has something to write.\<close>

definition writes_something :: "tunnel \<Rightarrow> bool" where
  "writes_something t \<longleftrightarrow> (\<forall>d ended. tn_copy t d \<noteq> Writing [] ended)"

lemma writes_something_step: "tunnel_step t u \<Longrightarrow> writes_something t \<Longrightarrow> writes_something u"
proof (induction rule: tunnel_step.induct)
  case (own t u)
  then show ?case by (cases rule: own_step.cases) (simp_all add: writes_something_def)
qed (simp_all add: writes_something_def)

lemma tunnel_invariants: "tunnel_reachable t \<Longrightarrow> direction_inv t d \<and> main_inv t \<and> writes_something t"
proof (induction rule: tunnel_reachable.induct)
  case (start now)
  then show ?case by (simp add: start_tunnel_def direction_inv_def in_flight_def main_inv_def writes_something_def pending_def)
next
  case (step t u)
  then show ?case using tunnel_step_direction tunnel_step_main writes_something_step by blast
qed

subsection \<open>How it ends\<close>

definition copy_effort :: "tunnel \<Rightarrow> side \<Rightarrow> nat" where
  "copy_effort t d = (case tn_copy t d of Finished \<Rightarrow> 0 | Reading \<Rightarrow> 1 + 2 * length (pending t d)
     | Writing _ _ \<Rightarrow> 2 + 2 * length (pending t d))"

definition effort :: "tunnel \<Rightarrow> nat" where
  "effort t = copy_effort t Client + copy_effort t Upstream
     + (case tn_main t of Running \<Rightarrow> 3 | ClientClosed \<Rightarrow> 2 | BothClosed \<Rightarrow> 1 | Returned \<Rightarrow> 0)"

lemma effort_read:
  assumes "tn_copy t d = Reading" "pending t d = data @ rest" "data = [] \<and> failed \<or> data \<noteq> [] \<and> usable t d"
  shows "effort (after_read d data failed t) < effort t"
proof -
  have "copy_effort (after_read d data failed t) d < copy_effort t d"
    using assms by (cases data) (auto simp: copy_effort_def)
  moreover have "copy_effort (after_read d data failed t) (other d) = copy_effort t (other d)"
    by (simp add: copy_effort_def split: copying.split)
  ultimately show ?thesis by (cases d) (simp_all add: effort_def)
qed

lemma effort_write:
  assumes "tn_copy t d = Writing data ended"
  shows "effort (after_write d data ended n failed t) < effort t"
proof -
  have "copy_effort (after_write d data ended n failed t) d < copy_effort t d"
    using assms by (simp add: copy_effort_def)
  moreover have "copy_effort (after_write d data ended n failed t) (other d) = copy_effort t (other d)"
    by (simp add: copy_effort_def split: copying.split)
  ultimately show ?thesis by (cases d) (simp_all add: effort_def)
qed

lemma effort_step: "own_step t u \<Longrightarrow> effort u < effort t"
proof (induction rule: own_step.induct)
  case (read_bytes t d data rest failed)
  then show ?case by (rule effort_read)
next
  case (write_bytes t d data ended n failed)
  show ?case by (rule effort_write [OF write_bytes(1)])
qed (simp_all add: effort_def copy_effort_def split: copying.split)

lemma own_step_enabled:
  assumes "tn_main t \<noteq> Returned" "main_inv t"
  shows "\<exists>u. own_step t u"
proof (cases "\<exists>d. tn_copy t d \<noteq> Finished")
  case True
  then obtain d where "tn_copy t d \<noteq> Finished" by blast
  then show ?thesis
  proof (cases "tn_copy t d")
    case Reading
    then have "own_step t (after_read d [] True t)" by (rule own_step.read_bytes [of _ _ _ "pending t d"]) simp_all
    then show ?thesis by blast
  next
    case (Writing data ended)
    then have "own_step t (after_write d data ended 0 True t)" by (rule own_step.write_bytes) simp_all
    then show ?thesis by blast
  qed simp
next
  case False
  then have "tn_copy t Client = Finished" "tn_copy t Upstream = Finished" by auto
  then show ?thesis using assms(1) own_step.close_client own_step.close_upstream own_step.return by (cases "tn_main t") blast+
qed

lemma own_steps_bounded:
  "(own_step ^^ n) t u \<Longrightarrow> n + effort u \<le> effort t"
proof (induction n arbitrary: u)
  case (Suc n)
  then obtain v where "(own_step ^^ n) t v" "own_step v u" by auto
  then show ?case using Suc.IH [of v] effort_step [of v u] by simp
qed simp

lemma own_steps_main: "(own_step ^^ n) t u \<Longrightarrow> main_inv t \<Longrightarrow> main_inv u"
  by (induction n arbitrary: u) (auto intro: own_step_main)

text \<open>Once the deadline has passed, nothing is carried any more.\<close>

lemma idle_tunnel_carries_nothing:
  assumes "tunnel_step t u" "writes_something t" "\<forall>d. tn_deadline t d \<le> tn_now t"
  shows "tn_read u = tn_read t \<and> tn_written u = tn_written t"
  using assms
proof (induction rule: tunnel_step.induct)
  case (own t u)
  have "\<not> usable t e" for e using own.prems(2) by (simp add: usable_def not_less)
  with own(1) show ?case by (cases rule: own_step.cases) auto
qed simp_all

text \<open>C8. A tunnel delivers what was sent, in order and unchanged. Whatever the network does and however the two copies interleave, what a side has
  been given is the beginning of what the other side sent, and while the copy runs only what it holds and what it has not
  read yet is missing. When the tunnel returns, both connections are closed and both copies are over.\<close>

proposition tunnel_streams:
  assumes "tunnel_reachable t"
  shows "(\<exists>missing. tn_sent t d = tn_written t (other d) @ missing
      \<and> (tn_copy t d \<noteq> Finished \<longrightarrow> missing = in_flight t d @ pending t d))
    \<and> (tn_main t = Returned \<longrightarrow> tn_closed t d \<and> tn_copy t d = Finished)"
proof -
  have i: "direction_inv t d" "main_inv t" using tunnel_invariants [OF assms] by blast+
  have "\<exists>missing. tn_sent t d = tn_written t (other d) @ missing \<and> (tn_copy t d \<noteq> Finished \<longrightarrow> missing = in_flight t d @ pending t d)"
    using i(1) by (cases "tn_copy t d = Finished") (auto simp: direction_inv_def)
  moreover have "tn_main t = Returned \<longrightarrow> tn_closed t d \<and> tn_copy t d = Finished"
    using i(2) by (cases d) (simp_all add: main_inv_def)
  ultimately show ?thesis by blast
qed


lemma tunnel_streams_witness: "tn_main (start_tunnel 0) = Running \<and> (\<exists>missing. [] = tn_written (start_tunnel 0) Upstream @ missing)"
  using tunnel_streams [OF tunnel_reachable.start [of 0], of Client] by (auto simp: start_tunnel_def)


end
