(* ===== verification/Session_Clients.thy ===== *)
theory Session_Clients
  imports Control_System Session_Registry Publication_Cleanup Session_Switch
begin

section \<open>The commands inside a session\<close>

text \<open>
  The handler of \<open>listen\<close> and the clients that reach it: \<open>sessionRequest\<close>'s answers, \<open>acr enable\<close>
  (\<open>internal/session/activation.go\<close>), \<open>session publish\<close>, \<open>unpublish\<close> and \<open>path\<close> (\<open>publication.go\<close>), and the
  commands that only read the registry of sessions (\<open>active_sessions.go\<close>). The handler is given here as one piece, with the
  locked sections that \<open>Activation\<close> defines; their interleavings are those of \<open>Control_System\<close>.
\<close>

subsection \<open>The handler\<close>

definition line :: "string \<Rightarrow> string" where
  "line s = s @ [CHR 0x0A]"

text \<open>The operations' outcomes and the texts of errors that the code hands on.\<close>

record control_env =
  he_enable :: enable_env
  he_root :: "string err"
  he_clean :: "string err"
  he_publish :: publish_env
  he_files :: config_files
  he_claim_text :: string
  he_publish_text :: "publish_error \<Rightarrow> string"
  he_switch_text :: "switch_error \<Rightarrow> string"

type_synonym control_answer = "control_event list \<times> controller \<times> nat \<times> string"

text \<open>\<open>publish\<close>, whose cleaning of stale publications stands between two locked parts.\<close>

definition handle_publish :: "control_env \<Rightarrow> controller \<Rightarrow> control_answer" where
  "handle_publish env c =
     (case publication_state c of Inl e \<Rightarrow> ([], c, 409, line (he_publish_text env e))
      | Inr path \<Rightarrow>
          if path \<noteq> [] then ([], c, 200, line path)
          else case he_root env of Some message \<Rightarrow> ([], c, 409, line message)
          | None \<Rightarrow> (case he_clean env of Some message \<Rightarrow> ([], c, 409, line message)
          | None \<Rightarrow> (case finish_publish (he_publish env) (ct_withdrawals c) c of
              (events, c', Inl e) \<Rightarrow> (events, c', 409, line (he_publish_text env e))
            | (events, c', Inr path) \<Rightarrow> (events, c', 200, line path))))"

definition handle_publication :: "control_env \<Rightarrow> controller \<Rightarrow> string \<Rightarrow> control_answer" where
  "handle_publication env c path =
     (if path = ''/publish'' then handle_publish env c
      else if ct_ended c then ([], c, 410, line ''session ended'')
      else if path = ''/unpublish'' then (case unpublish c of (events, c') \<Rightarrow> (events, c', 204, []))
      else case ct_publication c of None \<Rightarrow> ([], c, 409, line ''session is not published; run bivrost session publish'')
        | Some p \<Rightarrow> ([], c, 200, line (pb_path p)))"

definition switch_refusal :: "nat \<Rightarrow> string" where
  "switch_refusal status = line (if status = 410 then ''session ended'' else ''a session switch is already pending'')"

definition handle_switch :: "control_env \<Rightarrow> controller \<Rightarrow> string option \<Rightarrow> control_answer" where
  "handle_switch env c body =
     (case decode_switch_request body of Inl e \<Rightarrow> ([], c, 400, line (he_switch_text env e))
      | Inr request \<Rightarrow> (case switch_status c of Some status \<Rightarrow> ([], c, status, switch_refusal status)
      | None \<Rightarrow> (case load_switch_target (he_files env) request of Inl e \<Rightarrow> ([], c, 400, line (he_switch_text env e))
      | Inr target \<Rightarrow> (case accept_switch target c of (c', status) \<Rightarrow>
          ([], c', status, if status = 202 then line ''session switch accepted'' else switch_refusal status)))))"

definition activation_failed :: string where
  "activation_failed = ''ACR activation failed; check Podman availability, Azure login, and registry access, then retry''"

definition handle_enable :: "control_env \<Rightarrow> controller \<Rightarrow> control_answer" where
  "handle_enable env c = (case enable (he_enable env) c of
     (events, c', None) \<Rightarrow> (events, c', 200, line ''ACR is enabled for this session.'')
   | (events, c', Some RegistryClaimed) \<Rightarrow> (events, c', 409, line (he_claim_text env))
   | (events, c', Some e) \<Rightarrow> (events, c', 409, line activation_failed))"

text \<open>Anyone without the capability is turned away before anything else; a status request reads the session.\<close>

definition handle_control :: "string \<Rightarrow> (session_status \<Rightarrow> string) \<Rightarrow> control_env \<Rightarrow> controller \<Rightarrow> control_request \<Rightarrow> string option \<Rightarrow> control_answer" where
  "handle_control token encode env c r body =
     (if \<not> control_accepts token r then ([], c, 403, line ''session request rejected'')
      else if cr_path r \<in> {''/publish'', ''/unpublish'', ''/publication-path''} then handle_publication env c (cr_path r)
      else if cr_path r = ''/switch'' then handle_switch env c body
      else if cr_path r = ''/status'' then
        (case session_status c of
           None \<Rightarrow> ([], c, 410, line (if ct_ended c then ''session ended'' else ''session disconnected''))
         | Some s \<Rightarrow> ([], c, 200, encode s))
      else handle_enable env c)"

subsection \<open>The clients\<close>

datatype client_error = NotRequested request_error | NotAnswered | Refused string | ActivationRefused | PublicationInvalid

text \<open>\<open>sessionRequest\<close>: the status, the body, and whether it was read to its end. \<open>send\<close> is the HTTP client, given URL and authorization.\<close>

definition ask_session ::
  "string list \<Rightarrow> (string \<Rightarrow> string option) \<Rightarrow> (string \<Rightarrow> string \<Rightarrow> (nat \<times> string \<times> bool) option) \<Rightarrow> string
    \<Rightarrow> (client_error, nat \<times> string \<times> bool) res" where
  "ask_session environ read_file send endpoint =
     (case session_request environ read_file endpoint of Inl e \<Rightarrow> Inl (NotRequested e)
      | Inr (url, authorization) \<Rightarrow> (case send url authorization of None \<Rightarrow> Inl NotAnswered | Some answer \<Rightarrow> Inr answer))"

definition enable_session_acr :: "(client_error, nat \<times> string \<times> bool) res \<Rightarrow> client_error err" where
  "enable_session_acr answer = (case answer of Inl e \<Rightarrow> Some e
     | Inr (status, body, whole) \<Rightarrow>
         if status = 200 then None
         else let message = trim_space (take 4096 body) in
           if status = 409 \<and> message \<noteq> [] then Some (Refused message) else Some ActivationRefused)"

definition publication_endpoint :: "string \<Rightarrow> string" where
  "publication_endpoint action = (if action = ''path'' then ''/publication-path'' else ''/'' @ action)"

text \<open>\<open>runSessionPublication\<close>: what is printed, or the error.\<close>

definition run_session_publication :: "string \<Rightarrow> (client_error, nat \<times> string \<times> bool) res \<Rightarrow> (client_error, string) res" where
  "run_session_publication action answer = (case answer of Inl e \<Rightarrow> Inl e
     | Inr (status, body, whole) \<Rightarrow>
         let data = take 4097 body in
         if \<not> whole \<or> length data > 4096 then Inl PublicationInvalid
         else if status \<noteq> 200 \<and> status \<noteq> 204 then Inl (Refused (trim_space data))
         else Inr (if action = ''unpublish'' then line ''Session publication withdrawn.'' else data))"

subsection \<open>Commands on the registry of sessions\<close>

text \<open>The directory, waiting for its lock, and the scan; the lock is released however the scan ends.\<close>

definition with_scan :: "(runtime_error, string) res \<Rightarrow> registry_error err \<Rightarrow> fs \<Rightarrow> registry \<Rightarrow> (session_record list \<Rightarrow> 'a)
    \<Rightarrow> registry \<times> (runtime_error + registry_error, 'a) res" where
  "with_scan root locked e d use = (case root of Inl err \<Rightarrow> (d, Inl (Inl err))
     | Inr directory \<Rightarrow> (case locked of Some err \<Rightarrow> (d, Inl (Inr err))
     | None \<Rightarrow> (case scan_registry e d of (d', Inl err) \<Rightarrow> (d', Inl (Inr err)) | (d', Inr active) \<Rightarrow> (d', Inr (use active)))))"

definition clean_session_registry ::
  "(runtime_error, string) res \<Rightarrow> registry_error err \<Rightarrow> fs \<Rightarrow> registry \<Rightarrow> registry \<times> (runtime_error + registry_error, unit) res" where
  "clean_session_registry root locked e d = with_scan root locked e d (\<lambda>_. ())"

definition list_sessions ::
  "(int \<Rightarrow> string) \<Rightarrow> (runtime_error, string) res \<Rightarrow> registry_error err \<Rightarrow> fs \<Rightarrow> registry
    \<Rightarrow> registry \<times> (runtime_error + registry_error, string list list) res" where
  "list_sessions local_time root locked e d = with_scan root locked e d (write_session_list local_time)"

definition clean_publications :: "(runtime_error, string) res \<Rightarrow> cleanup_env \<Rightarrow> string list \<times> (runtime_error + cleanup_error) err" where
  "clean_publications root env = (case root of Inl e \<Rightarrow> ([], Some (Inl e))
     | Inr directory \<Rightarrow> (case clean_publication_directory env directory of (removed, e) \<Rightarrow> (removed, map_option Inr e)))"

subsection \<open>The capability\<close>

text \<open>What \<open>listen\<close> writes for the session's shells.\<close>

definition control_json :: "control_file \<Rightarrow> json" where
  "control_json f = JObj [(''Address'', JStr (cf_address f)), (''Token'', JStr (cf_token f))]"

lemma find_control_field:
  "find_field control_fields ''Address'' = Some (snd (str_field ''Address'' (\<lambda>x. cf_address_update (\<lambda>_. x))))"
  "find_field control_fields ''Token'' = Some (snd (str_field ''Token'' (\<lambda>x. cf_token_update (\<lambda>_. x))))"
  by (simp_all add: find_field_def control_fields_def str_field_def)

lemma control_json_read:
  assumes "utf8 (cf_address f)" "utf8 (cf_token f)"
  shows "parse_json (json_text (control_json f)) = Some (control_json f)"
    and "decode_struct False control_fields \<lparr>cf_address = [], cf_token = []\<rparr> (control_json f) = Inr f"
proof -
  have "utf8 ''Address''" "utf8 ''Token''" by (simp_all add: utf8_ascii is_ascii_def)
  then have "wf_json (control_json f)" using assms by (simp add: control_json_def)
  then show "parse_json (json_text (control_json f)) = Some (control_json f)" by (rule parse_json_text)
  show "decode_struct False control_fields \<lparr>cf_address = [], cf_token = []\<rparr> (control_json f) = Inr f"
    by (cases f) (simp add: decode_struct_def control_json_def find_control_field str_field_def)
qed

lemma session_request_own:
  assumes "\<not> inside_run environ" "environment_value environ ''BIVROST_SESSION'' \<noteq> []"
    and "environment_value environ ''BIVROST_CONTROL_FILE'' \<noteq> []"
    and "read_file (environment_value environ ''BIVROST_CONTROL_FILE'') = Some (json_text (control_json f))"
    and "utf8 (cf_address f)" "utf8 (cf_token f)" "length (cf_token f) = 64" "split_host_port (cf_address f) = Inr (''127.0.0.1'', port)"
  shows "session_request environ read_file endpoint = Inr (''http://'' @ cf_address f @ endpoint, ''Bearer '' @ cf_token f)"
  using assms control_json_read [of f] by (simp add: session_request_def Let_def)

text \<open>A command in a session's shell is admitted by its own session and by no other. With the capability file that the session has written and the
  environment of its shell, the request goes to the session's address with an authorization that the handler accepts for each
  of its paths exactly when it holds the same token; inside \<open>bivrost run\<close> no request is made.\<close>

proposition session_client_admitted:
  assumes "environment_value environ ''BIVROST_SESSION'' \<noteq> []" "environment_value environ ''BIVROST_CONTROL_FILE'' \<noteq> []"
    and "read_file (environment_value environ ''BIVROST_CONTROL_FILE'') = Some (json_text (control_json f))"
    and "utf8 (cf_address f)" "utf8 (cf_token f)" "length (cf_token f) = 64" "split_host_port (cf_address f) = Inr (''127.0.0.1'', port)"
    and "endpoint \<in> set control_paths"
  shows "if inside_run environ then session_request environ read_file endpoint = Inl InsideRun
    else \<exists>authorization. session_request environ read_file endpoint = Inr (''http://'' @ cf_address f @ endpoint, authorization)
      \<and> (\<forall>token. control_accepts token \<lparr>cr_method = ''POST'', cr_path = endpoint, cr_origin = [], cr_authorization = authorization\<rparr>
        \<longleftrightarrow> token = cf_token f)"
proof (cases "inside_run environ")
  case True
  then show ?thesis by (simp add: session_request_def Let_def)
next
  case False
  show ?thesis
    using session_request_own [where environ = environ and read_file = read_file and f = f and port = port and endpoint = endpoint,
        OF False assms(1-7)] assms(8) False by (auto simp: control_accepts_def)
qed

subsection \<open>What a client is told\<close>

lemma enable_success:
  assumes "enable env c = (events, c', e)"
  shows "e = None \<longleftrightarrow> \<not> ct_ended c \<and> ct_podman c' \<noteq> None"
  using assms by (auto simp: enable_def split: if_splits option.splits prod.splits)

lemma handle_enable_told:
  assumes "handle_enable env c = (events, c', status, text)"
  shows "enable_session_acr (Inr (status, text, whole)) = None \<longleftrightarrow> \<not> ct_ended c \<and> ct_podman c' \<noteq> None"
proof -
  obtain ev c1 e where r: "enable (he_enable env) c = (ev, c1, e)" by (metis prod_cases3)
  have "c1 = c' \<and> (status = 200 \<longleftrightarrow> e = None)"
    using assms r by (auto simp: handle_enable_def split: option.splits activation_error.splits)
  then show ?thesis using enable_success [OF r] by (simp add: enable_session_acr_def Let_def)
qed

lemma publication_state_path: "publication_state c = Inr path \<Longrightarrow> path \<noteq> [] \<Longrightarrow> \<exists>p. ct_publication c = Some p \<and> path = pb_path p"
  by (auto simp: publication_state_def split: if_splits option.splits)

lemma finish_publish_path:
  assumes "finish_publish env seen c = (events, c', Inr path)"
  shows "\<exists>p. ct_publication c' = Some p \<and> path = pb_path p"
proof (cases "publication_state c")
  case (Inr shown)
  then show ?thesis
  proof (cases "shown = []")
    case False
    then show ?thesis using assms Inr publication_state_path [OF Inr] by (auto simp: finish_publish_def)
  next
    case True
    then show ?thesis using assms Inr by (auto simp: finish_publish_def split: if_splits prod.splits sum.splits)
  qed
qed (use assms in \<open>simp add: finish_publish_def\<close>)

lemma handle_publish_told:
  assumes "handle_publish env c = (events, c', status, text)"
  shows "status = 200 \<and> (\<exists>p. ct_publication c' = Some p \<and> text = line (pb_path p)) \<or> status = 409"
proof (cases "publication_state c")
  case (Inr shown)
  then show ?thesis
  proof (cases "shown = []")
    case False
    then show ?thesis using assms Inr publication_state_path [OF Inr] by (auto simp: handle_publish_def)
  next
    case True
    obtain ev c1 r where f: "finish_publish (he_publish env) (ct_withdrawals c) c = (ev, c1, r)" by (metis prod_cases3)
    show ?thesis
      using assms Inr True f finish_publish_path [of "he_publish env" "ct_withdrawals c" c ev c1]
      by (cases r) (auto simp: handle_publish_def split: option.splits)
  qed
qed (use assms in \<open>simp add: handle_publish_def\<close>)

lemma publication_told:
  assumes "status = 200 \<and> text = line shown \<or> status = 409 \<or> status = 410" "action \<noteq> ''unpublish''"
    and "run_session_publication action (Inr (status, text, whole)) = Inr out"
  shows "status = 200 \<and> out = line shown"
proof -
  have "status = 200" "length (take 4097 text) \<le> 4096" "out = take 4097 text"
    using assms by (auto simp: run_session_publication_def Let_def split: if_splits)
  moreover have "take 4097 text = text" using calculation(2) by simp
  ultimately show ?thesis using assms(1) by auto
qed

text \<open>C19. What a session's command tells is what happened. \<open>acr enable\<close> succeeds exactly when the session runs and has Podman afterwards; a path that \<open>session
  publish\<close> or \<open>session path\<close> prints is the whole path of the session's publication; and \<open>session unpublish\<close> reports a withdrawal exactly when
  the session runs and has no publication any more.\<close>

proposition session_client_told:
  assumes "control_accepts token r" "handle_control token encode env c r body = (events, c', status, text)"
  shows "(cr_path r = ''/enable'' \<longrightarrow>
      (enable_session_acr (Inr (status, text, whole)) = None \<longleftrightarrow> \<not> ct_ended c \<and> ct_podman c' \<noteq> None))
    \<and> (\<forall>action out. action \<in> {''publish'', ''path''} \<and> cr_path r = publication_endpoint action
        \<and> run_session_publication action (Inr (status, text, whole)) = Inr out \<longrightarrow>
      (\<exists>p. ct_publication c' = Some p \<and> out = line (pb_path p)))
    \<and> (cr_path r = ''/unpublish'' \<longrightarrow>
      (if ct_ended c then run_session_publication ''unpublish'' (Inr (status, text, True)) = Inl (Refused ''session ended'')
       else run_session_publication ''unpublish'' (Inr (status, text, True)) = Inr (line ''Session publication withdrawn.'')
         \<and> ct_publication c' = None))"
proof (intro conjI impI allI)
  assume "cr_path r = ''/enable''"
  then have "handle_enable env c = (events, c', status, text)" using assms by (simp add: handle_control_def)
  then show "enable_session_acr (Inr (status, text, whole)) = None \<longleftrightarrow> \<not> ct_ended c \<and> ct_podman c' \<noteq> None"
    by (rule handle_enable_told)
next
  fix action out
  assume a: "action \<in> {''publish'', ''path''} \<and> cr_path r = publication_endpoint action
    \<and> run_session_publication action (Inr (status, text, whole)) = Inr out"
  show "\<exists>p. ct_publication c' = Some p \<and> out = line (pb_path p)"
  proof (cases "action = ''publish''")
    case True
    then have "handle_publish env c = (events, c', status, text)"
      using a assms by (simp add: handle_control_def handle_publication_def publication_endpoint_def)
    from handle_publish_told [OF this] a show ?thesis
      using True by (auto dest: publication_told [rotated 2])
  next
    case False
    then have "handle_publication env c ''/publication-path'' = (events, c', status, text)"
      using a assms by (auto simp: handle_control_def publication_endpoint_def)
    then have "status = 200 \<and> (\<exists>p. ct_publication c' = Some p \<and> text = line (pb_path p)) \<or> status = 409 \<or> status = 410"
      by (auto simp: handle_publication_def split: if_splits option.splits)
    then show ?thesis using a False by (auto dest: publication_told [rotated 2])
  qed
next
  assume "cr_path r = ''/unpublish''"
  then have h: "handle_publication env c ''/unpublish'' = (events, c', status, text)" using assms by (simp add: handle_control_def)
  have ended: "trim_space (line ''session ended'') = ''session ended''" by code_simp
  show "if ct_ended c then run_session_publication ''unpublish'' (Inr (status, text, True)) = Inl (Refused ''session ended'')
       else run_session_publication ''unpublish'' (Inr (status, text, True)) = Inr (line ''Session publication withdrawn.'')
         \<and> ct_publication c' = None"
    using h ended
    by (auto simp: handle_publication_def run_session_publication_def Let_def line_def unpublish_def split: if_splits option.splits prod.splits)
qed

subsection \<open>A session and its shell\<close>

definition sample_control :: control_file where
  "sample_control = \<lparr>cf_address = ''127.0.0.1:40001'', cf_token = replicate 64 CHR ''a''\<rparr>"

lemma session_client_admitted_witness:
  "\<exists>authorization. session_request [''BIVROST_SESSION=1'', ''BIVROST_CONTROL_FILE=/s/c''] (\<lambda>_. Some (json_text (control_json sample_control))) ''/enable''
      = Inr (''http://127.0.0.1:40001/enable'', authorization)
    \<and> \<not> control_accepts [] \<lparr>cr_method = ''POST'', cr_path = ''/enable'', cr_origin = [], cr_authorization = authorization\<rparr>"
proof -
  let ?environ = "[''BIVROST_SESSION=1'', ''BIVROST_CONTROL_FILE=/s/c'']"
  have environ: "environment_value ?environ ''BIVROST_SESSION'' = ''1''" "environment_value ?environ ''BIVROST_CONTROL_FILE'' = ''/s/c''"
    "\<not> inside_run ?environ"
    by code_simp+
  have control: "utf8 (cf_address sample_control)" "utf8 (cf_token sample_control)" "length (cf_token sample_control) = 64"
    by (simp_all add: sample_control_def utf8_ascii is_ascii_def list_all_iff)
  have host: "split_host_port (cf_address sample_control) = Inr (''127.0.0.1'', ''40001'')" unfolding sample_control_def by code_simp
  have "''/enable'' \<in> set control_paths" by (simp add: control_paths_def)
  from session_client_admitted [of ?environ "\<lambda>_. Some (json_text (control_json sample_control))", OF _ _ _ control host this] environ
  show ?thesis by (auto simp: sample_control_def)
qed

definition sample_control_env :: control_env where
  "sample_control_env = \<lparr>he_enable = \<lparr>en_claim = False, en_start = None, en_check = False, en_login = False, en_write = False\<rparr>,
     he_root = None, he_clean = None, he_publish = \<lparr>pu_input = None, pu_token = None, pu_identifier = None, pu_listen = None,
       pu_kube = sample_publication_env, pu_temporary = None, pu_written = False, pu_renamed = False\<rparr>, he_files = sample_files, he_claim_text = ''held'',
     he_publish_text = (\<lambda>_. []), he_switch_text = (\<lambda>_. [])\<rparr>"

lemma session_client_told_witness:
  "run_session_publication ''unpublish'' (Inr (204, [], True)) = Inr (line ''Session publication withdrawn.'')"
proof -
  let ?c = "new_controller sample_profile [] ''/s'' ''/bin/bash'' [] False False"
  let ?r = "\<lparr>cr_method = ''POST'', cr_path = ''/unpublish'', cr_origin = [], cr_authorization = ''Bearer x''\<rparr>"
  have a: "control_accepts ''x'' ?r" by (simp add: control_accepts_def control_paths_def)
  have h: "handle_control ''x'' (\<lambda>_. []) sample_control_env ?c ?r None = ([], ?c\<lparr>ct_requested := False, ct_withdrawals := 1\<rparr>, 204, [])"
    using a by (simp add: handle_control_def handle_publication_def unpublish_def new_controller_def)
  show ?thesis using session_client_told [OF a h, of True] by (simp add: new_controller_def)
qed

end
